(* ===== verification/KDFS_Prelude.thy ===== *)
theory KDFS_Prelude
  imports Main "HOL-Library.State_Monad" "HOL-Library.Monad_Syntax" "HOL-Library.Sublist"
begin

text \<open>
  The shared prelude of the KDFS development: the collections of facts the component
  theories extend, the reading of a call that may fail (\<open>error + value\<close>), the weakest
  precondition of a stateful computation, and the generic lemmas on lists, maps and
  association lists that several components use.

  Stateful Go code is a value of the library's state monad \<^typ>\<open>('w, 'a) state\<close>, where
  \<^typ>\<open>'w\<close> is the outside world the code acts on (the API server, the node agents, the
  sidecars, the clock). A Go call that returns \<^verbatim>\<open>(value, error)\<close> is a computation whose
  result is a sum, \<open>Inl\<close> for the error; the code's \<^verbatim>\<open>if err != nil\<close> is a case on it.
\<close>

section \<open>Collections\<close>

named_theorems wp_rules \<open>equations and rules that compute the weakest precondition of a step\<close>
named_theorems keeps_intros \<open>rules for the invariants of stateful code\<close>
named_theorems names_simps \<open>unfolding of the naming scheme\<close>
named_theorems go_simps \<open>evaluation of the Go standard library functions\<close>

section \<open>Results of Go calls\<close>

text \<open>The error a Go call returned, \<open>None\<close> for a nil error.\<close>

definition err_of :: "'e + 'a \<Rightarrow> 'e option" where
  "err_of r = (case r of Inl e \<Rightarrow> Some e | Inr _ \<Rightarrow> None)"

lemma err_of_simps [simp]:
  "err_of (Inl e) = Some e"
  "err_of (Inr a) = None"
  by (simp_all add: err_of_def)

lemma err_of_None_iff: "err_of r = None \<longleftrightarrow> (\<exists>a. r = Inr a)"
  by (cases r) simp_all

section \<open>Weakest preconditions of stateful code\<close>

abbreviation ret :: "'a \<Rightarrow> ('w, 'a) state" where
  "ret \<equiv> State_Monad.return"

text \<open>
  \<open>wp m Q w\<close> says that running \<open>m\<close> from the world \<open>w\<close> ends in a result and a world that
  satisfy \<open>Q\<close>. Every computation of the monad is total, so this is total correctness.
\<close>

definition wp :: "('w, 'a) state \<Rightarrow> ('a \<Rightarrow> 'w \<Rightarrow> bool) \<Rightarrow> 'w \<Rightarrow> bool" where
  "wp m Q w = (case run_state m w of (a, w') \<Rightarrow> Q a w')"

lemma wp_return [simp, wp_rules]: "wp (State_Monad.return a) Q = Q a"
  by (simp add: fun_eq_iff wp_def State_Monad.return_def)

lemma wp_bind [simp, wp_rules]: "wp (State_Monad.bind m f) Q = wp m (\<lambda>a. wp (f a) Q)"
  by (simp add: fun_eq_iff wp_def State_Monad.bind_def split: prod.split)

lemma wp_mono:
  assumes "wp m P w" and "\<And>a w'. P a w' \<Longrightarrow> Q a w'"
  shows "wp m Q w"
  using assms by (auto simp: wp_def split: prod.splits)

lemma wp_conj: "wp m P w \<Longrightarrow> wp m Q w \<Longrightarrow> wp m (\<lambda>a w'. P a w' \<and> Q a w') w"
  by (auto simp: wp_def split: prod.splits)

lemma wp_run: "wp m Q w \<Longrightarrow> run_state m w = (a, w') \<Longrightarrow> Q a w'"
  by (simp add: wp_def)

lemma wp_of_run: "(\<And>a w'. run_state m w = (a, w') \<Longrightarrow> Q a w') \<Longrightarrow> wp m Q w"
  by (auto simp: wp_def split: prod.split)

lemma prod_run_state:
  "run_state m w = ((fst (fst (run_state m w)), snd (fst (run_state m w))), snd (run_state m w))"
  by simp

lemma wp_if [wp_rules]: "wp (if b then m else n) Q w = (if b then wp m Q w else wp n Q w)"
  by simp

text \<open>
  \<open>keeps view P m\<close> says that \<open>P\<close>, a property of what is seen of the world, is an invariant of \<open>m\<close>.
\<close>

definition keeps :: "('w \<Rightarrow> 'c) \<Rightarrow> ('c \<Rightarrow> bool) \<Rightarrow> ('w, 'a) state \<Rightarrow> bool" where
  "keeps view P m \<longleftrightarrow> (\<forall>w. P (view w) \<longrightarrow> wp m (\<lambda>_ w'. P (view w')) w)"

lemma keepsI: "(\<And>w. P (view w) \<Longrightarrow> wp m (\<lambda>_ w'. P (view w')) w) \<Longrightarrow> keeps view P m"
  by (simp add: keeps_def)

lemma keepsD: "keeps view P m \<Longrightarrow> P (view w) \<Longrightarrow> wp m (\<lambda>_ w'. P (view w')) w"
  by (simp add: keeps_def)

lemma keeps_run: "keeps view P m \<Longrightarrow> run_state m w = (a, w') \<Longrightarrow> P (view w) \<Longrightarrow> P (view w')"
  by (auto simp: keeps_def wp_def split: prod.splits)

lemma keeps_return [keeps_intros]: "keeps view P (State_Monad.return a)"
  by (simp add: keeps_def)

lemma keeps_bind [keeps_intros]:
  assumes "keeps view P m" and "\<And>a. keeps view P (f a)"
  shows "keeps view P (State_Monad.bind m f)"
proof (rule keepsI)
  fix w assume "P (view w)"
  with assms(1) have "wp m (\<lambda>_ w'. P (view w')) w" by (rule keepsD)
  then show "wp (State_Monad.bind m f) (\<lambda>_ w'. P (view w')) w"
    unfolding wp_bind by (rule wp_mono) (rule keepsD [OF assms(2)])
qed

lemma keeps_if [keeps_intros]:
  "(b \<Longrightarrow> keeps view P m) \<Longrightarrow> (\<not> b \<Longrightarrow> keeps view P n) \<Longrightarrow> keeps view P (if b then m else n)"
  by simp

lemma keeps_case_sum [keeps_intros]:
  "(\<And>a. x = Inl a \<Longrightarrow> keeps view P (f a)) \<Longrightarrow> (\<And>b. x = Inr b \<Longrightarrow> keeps view P (g b)) \<Longrightarrow>
   keeps view P (case x of Inl a \<Rightarrow> f a | Inr b \<Rightarrow> g b)"
  by (cases x) simp_all

lemma keeps_case_option [keeps_intros]:
  "(x = None \<Longrightarrow> keeps view P m) \<Longrightarrow> (\<And>b. x = Some b \<Longrightarrow> keeps view P (g b)) \<Longrightarrow>
   keeps view P (case x of None \<Rightarrow> m | Some b \<Rightarrow> g b)"
  by (cases x) simp_all

lemma keeps_case_prod [keeps_intros]:
  "(\<And>a b. x = (a, b) \<Longrightarrow> keeps view P (f a b)) \<Longrightarrow> keeps view P (case x of (a, b) \<Rightarrow> f a b)"
  by (cases x) simp

lemma keeps_Let [keeps_intros]: "keeps view P (f x) \<Longrightarrow> keeps view P (Let x f)"
  by (simp add: Let_def)

section \<open>Lists\<close>

lemma nth_append_drop_Suc:
  "i < length xs \<Longrightarrow> xs ! i # drop (Suc i) xs = drop i xs"
  by (simp add: Cons_nth_drop_Suc)

lemma Some_not_None: "x = Some y \<Longrightarrow> x \<noteq> None"
  by simp

lemma find_SomeD: "find P xs = Some x \<Longrightarrow> x \<in> set xs \<and> P x"
  by (auto simp: find_Some_iff)

text \<open>Removing the element at a position, as \<^verbatim>\<open>append(xs[:i], xs[i+1:]...)\<close> does.\<close>

definition remove_nth :: "nat \<Rightarrow> 'a list \<Rightarrow> 'a list" where
  "remove_nth i xs = take i xs @ drop (Suc i) xs"

lemma length_remove_nth [simp]: "i < length xs \<Longrightarrow> length (remove_nth i xs) = length xs - 1"
  by (simp add: remove_nth_def)

lemma set_remove_nth: "set (remove_nth i xs) \<subseteq> set xs"
  using set_take_subset [of i xs] set_drop_subset [of "Suc i" xs]
  by (auto simp: remove_nth_def)

lemma remove_nth_Cons_0 [simp]: "remove_nth 0 (x # xs) = xs"
  by (simp add: remove_nth_def)

lemma remove_nth_Cons_Suc [simp]: "remove_nth (Suc i) (x # xs) = x # remove_nth i xs"
  by (simp add: remove_nth_def)

lemma distinct_remove_nth: "distinct xs \<Longrightarrow> distinct (remove_nth i xs)"
  by (induction xs arbitrary: i)
    (auto simp: remove_nth_def take_Cons drop_Cons split: nat.splits
      dest: in_set_takeD in_set_dropD)

lemma map_remove_nth: "map f (remove_nth i xs) = remove_nth i (map f xs)"
  by (simp add: remove_nth_def take_map drop_map)

lemma distinct_mapI: "distinct (map f xs) \<Longrightarrow> distinct xs"
  by (simp add: distinct_map)

lemma set_remove_nth_distinct:
  assumes "distinct xs" "i < length xs"
  shows "set (remove_nth i xs) = set xs - {xs ! i}"
  using assms
proof (induction xs arbitrary: i)
  case (Cons x xs)
  then show ?case by (cases i) auto
qed simp

text \<open>The elements of a list numbered by their position, at its front and at its end.\<close>

lemma numbered_nth: "map f xs = map g [0..<length xs] \<Longrightarrow> i < length xs \<Longrightarrow> f (xs ! i) = g i"
  by (metis add_0 nth_map nth_map_upt diff_zero)

lemma numbered_take:
  assumes "map f xs = map g [0..<length xs]" and "x \<in> set (take d xs)"
  shows "\<exists>i < d. f x = g i"
proof -
  obtain i where "i < length (take d xs)" "take d xs ! i = x" using assms(2) by (metis in_set_conv_nth)
  then show ?thesis using numbered_nth [OF assms(1), of i] by auto
qed

lemma numbered_drop:
  assumes "map f xs = map g [0..<length xs]" and "x \<in> set (drop d xs)"
  shows "\<exists>i \<in> {d..<length xs}. f x = g i"
proof -
  obtain i where "i < length (drop d xs)" "drop d xs ! i = x" using assms(2) by (metis in_set_conv_nth)
  then show ?thesis using numbered_nth [OF assms(1), of "d + i"] by (intro bexI [of _ "d + i"]) auto
qed

lemma differ_at: "f x \<noteq> g x \<Longrightarrow> f \<noteq> g"
  by auto

section \<open>Maps of strings\<close>

text \<open>
  A \<^verbatim>\<open>map[string]string\<close> as an association list, of equal keys the first counting: a read, which
  gives the empty string for a key that is missing, and a write.
\<close>

type_synonym smap = "(string \<times> string) list"

definition lookup_str :: "smap \<Rightarrow> string \<Rightarrow> string" where
  "lookup_str m k = (case map_of m k of None \<Rightarrow> [] | Some v \<Rightarrow> v)"

definition put_str :: "string \<Rightarrow> string \<Rightarrow> smap \<Rightarrow> smap" where
  "put_str k v m = (k, v) # filter (\<lambda>(j, _). j \<noteq> k) m"

lemma lookup_put_str [simp]: "lookup_str (put_str k v m) j = (if j = k then v else lookup_str m j)"
proof -
  have "map_of (filter (\<lambda>(j, _). j \<noteq> k) m) j = (if j = k then None else map_of m j)"
    by (induction m) auto
  then show ?thesis by (simp add: lookup_str_def put_str_def)
qed

end
