(* ===== verification/Go_Strings.thy ===== *)
theory Go_Strings
  imports KDFS_Prelude "HOL-Library.Char_ord" "HOL-Library.List_Lexorder"
begin

text \<open>
  What the source uses of Go's \<^verbatim>\<open>strings\<close>, \<^verbatim>\<open>strconv\<close>, \<^verbatim>\<open>sort\<close> and \<^verbatim>\<open>fmt\<close> packages, over
  byte strings (\<^typ>\<open>string\<close>; a Go string is a byte sequence). White space is the ASCII
  white space; the two non-ASCII spaces of Unicode's Latin-1 block are not modelled.
  Shown here: decimal printing is injective and is undone by \<open>Atoi\<close>, and \<open>Split\<close> on a
  separator that first occurs where the separator was inserted gives back the first part.
\<close>

section \<open>Characters\<close>

definition isSpace :: "char \<Rightarrow> bool" where
  "isSpace c = (c \<in> {CHR '' '', CHR 0x09, CHR 0x0A, CHR 0x0B, CHR 0x0C, CHR 0x0D})"

definition isDigit :: "char \<Rightarrow> bool" where
  "isDigit c = (48 \<le> (of_char c :: nat) \<and> (of_char c :: nat) \<le> 57)"

definition isLower :: "char \<Rightarrow> bool" where
  "isLower c = (97 \<le> (of_char c :: nat) \<and> (of_char c :: nat) \<le> 122)"

definition isUpper :: "char \<Rightarrow> bool" where
  "isUpper c = (65 \<le> (of_char c :: nat) \<and> (of_char c :: nat) \<le> 90)"

definition digit_char :: "nat \<Rightarrow> char" where
  "digit_char d = char_of (48 + d)"

definition digit_val :: "char \<Rightarrow> nat" where
  "digit_val c = of_char c - 48"

lemma of_char_digit_char [simp]: "d < 10 \<Longrightarrow> (of_char (digit_char d) :: nat) = 48 + d"
  by (simp add: digit_char_def)

lemma isDigit_digit_char [simp]: "d < 10 \<Longrightarrow> isDigit (digit_char d)"
  by (simp add: isDigit_def)

lemma digit_val_digit_char [simp]: "d < 10 \<Longrightarrow> digit_val (digit_char d) = d"
  by (simp add: digit_val_def)

lemma digit_char_inject: "d < 10 \<Longrightarrow> e < 10 \<Longrightarrow> digit_char d = digit_char e \<longleftrightarrow> d = e"
  by (metis digit_val_digit_char)

section \<open>Package strings\<close>

definition TrimSpace :: "string \<Rightarrow> string" where
  "TrimSpace s = rev (dropWhile isSpace (rev (dropWhile isSpace s)))"

definition HasPrefix :: "string \<Rightarrow> string \<Rightarrow> bool" where
  "HasPrefix s p = prefix p s"

definition HasSuffix :: "string \<Rightarrow> string \<Rightarrow> bool" where
  "HasSuffix s p = suffix p s"

text \<open>The text before and after the first occurrence of a separator (\<^verbatim>\<open>strings.Cut\<close>).\<close>

fun Cut :: "string \<Rightarrow> string \<Rightarrow> (string \<times> string) option" where
  "Cut sep [] = (if sep = [] then Some ([], []) else None)"
| "Cut sep (c # cs) =
     (if prefix sep (c # cs) then Some ([], drop (length sep) (c # cs))
      else map_option (\<lambda>(a, b). (c # a, b)) (Cut sep cs))"

definition Contains :: "string \<Rightarrow> string \<Rightarrow> bool" where
  "Contains s sub = (Cut sub s \<noteq> None)"

lemma Cut_Some: "Cut sep s = Some (a, b) \<Longrightarrow> s = a @ sep @ b"
proof (induction s arbitrary: a)
  case Nil
  then show ?case by (simp split: if_splits)
next
  case (Cons c cs)
  then show ?case by (auto simp: prefix_def split: if_splits)
qed

lemma Cut_length: "Cut sep s = Some (a, b) \<Longrightarrow> sep \<noteq> [] \<Longrightarrow> length b < length s"
  by (drule Cut_Some) simp

text \<open>\<^verbatim>\<open>strings.Split\<close>; an empty separator splits into single bytes.\<close>

function Split :: "string \<Rightarrow> string \<Rightarrow> string list" where
  "Split s sep =
     (if sep = [] then map (\<lambda>c. [c]) s
      else case Cut sep s of None \<Rightarrow> [s] | Some (a, b) \<Rightarrow> a # Split b sep)"
  by pat_completeness auto
termination
  by (relation "measure (\<lambda>(s, sep). length s)") (auto dest: Cut_length)

declare Split.simps [simp del]

lemma Split_nonempty: "sep \<noteq> [] \<Longrightarrow> Split s sep \<noteq> []"
  by (subst Split.simps) (simp split: option.split)

definition Join :: "string list \<Rightarrow> string \<Rightarrow> string" where
  "Join xs sep = concat (case xs of [] \<Rightarrow> [] | y # ys \<Rightarrow> y # map (\<lambda>z. sep @ z) ys)"

lemma Join_Cons: "ys \<noteq> [] \<Longrightarrow> Join (y # ys) sep = y @ sep @ Join ys sep"
  by (cases ys) (simp_all add: Join_def)

text \<open>\<open>Split\<close> loses nothing: joining the parts gives the text back.\<close>

lemma Join_Split: "sep \<noteq> [] \<Longrightarrow> Join (Split s sep) sep = s"
proof (induction s sep rule: Split.induct)
  case (1 s sep)
  show ?case
  proof (cases "Cut sep s")
    case None
    with "1.prems" show ?thesis by (simp add: Split.simps [of s] Join_def)
  next
    case (Some ab)
    obtain a b where ab: "ab = (a, b)" by force
    from Some ab "1.IH" "1.prems" have "Join (Split b sep) sep = b" by simp
    moreover have "s = a @ sep @ b" using Some ab by (simp add: Cut_Some)
    moreover have "Split s sep = a # Split b sep"
      using Some ab "1.prems" by (subst Split.simps) simp
    ultimately show ?thesis
      using "1.prems" by (simp add: Join_Cons Split_nonempty)
  qed
qed

text \<open>
  \<open>first_at sep a\<close> says that in \<open>a @ sep\<close> the separator occurs nowhere before the end, so
  that \<open>Cut\<close> finds the inserted one.
\<close>

definition first_at :: "string \<Rightarrow> string \<Rightarrow> bool" where
  "first_at sep a = (\<forall>i < length a. \<not> prefix sep (drop i (a @ sep)))"

lemma prefix_append_long:
  "length p \<le> length xs \<Longrightarrow> prefix p (xs @ ys) \<longleftrightarrow> prefix p xs"
  by (auto simp: prefix_def append_eq_append_conv2 intro: exI)

lemma first_at_Cons:
  "first_at sep (c # a) \<longleftrightarrow> \<not> prefix sep (c # a @ sep) \<and> first_at sep a"
  by (auto simp: first_at_def All_less_Suc2)

lemma Cut_first_at: "sep \<noteq> [] \<Longrightarrow> first_at sep a \<Longrightarrow> Cut sep (a @ sep @ b) = Some (a, b)"
proof (induction a)
  case Nil
  then show ?case by (cases sep) simp_all
next
  case (Cons c a)
  have "\<not> prefix sep ((c # a @ sep) @ b)"
    using Cons.prems by (subst prefix_append_long) (auto simp: first_at_Cons)
  then show ?case using Cons by (simp add: first_at_Cons)
qed

section \<open>Package strconv\<close>

fun show_nat :: "nat \<Rightarrow> string" where
  "show_nat n = (if n < 10 then [digit_char n] else show_nat (n div 10) @ [digit_char (n mod 10)])"

declare show_nat.simps [simp del]

definition Itoa :: "int \<Rightarrow> string" where
  "Itoa i = (if i < 0 then ''-'' @ show_nat (nat (- i)) else show_nat (nat i))"

definition digits_val :: "string \<Rightarrow> nat" where
  "digits_val = foldl (\<lambda>n c. 10 * n + digit_val c) 0"

definition maxInt64 :: int where "maxInt64 = 2 ^ 63 - 1"
definition minInt64 :: int where "minInt64 = - (2 ^ 63)"

datatype num_error = ErrSyntax | ErrRange

text \<open>\<^verbatim>\<open>strconv.Atoi\<close> on a 64-bit platform: an optional sign, at least one digit, in range.\<close>

definition Atoi :: "string \<Rightarrow> num_error + int" where
  "Atoi s =
     (let (neg, ds) = (case s of
             c # cs \<Rightarrow> if c = CHR ''-'' then (True, cs) else if c = CHR ''+'' then (False, cs) else (False, s)
           | [] \<Rightarrow> (False, s))
      in if ds = [] \<or> \<not> list_all isDigit ds then Inl ErrSyntax
         else let v = (if neg then - int (digits_val ds) else int (digits_val ds))
              in if v < minInt64 \<or> maxInt64 < v then Inl ErrRange else Inr v)"

lemma show_nat_ne [simp]: "show_nat n \<noteq> []"
  by (subst show_nat.simps) simp

lemma show_nat_digits: "list_all isDigit (show_nat n)"
  by (induction n rule: show_nat.induct) (subst show_nat.simps, simp)

lemma digits_val_snoc [simp]: "digits_val (ds @ [c]) = 10 * digits_val ds + digit_val c"
  by (simp add: digits_val_def)

lemma digits_val_show_nat [simp]: "digits_val (show_nat n) = n"
proof (induction n rule: show_nat.induct)
  case (1 n)
  then show ?case by (subst show_nat.simps) (auto simp: digits_val_def)
qed

lemma show_nat_inject [simp]: "show_nat m = show_nat n \<longleftrightarrow> m = n"
  by (metis digits_val_show_nat)

lemma isDigit_not_sign: "isDigit c \<Longrightarrow> c \<noteq> CHR ''-'' \<and> c \<noteq> CHR ''+'' \<and> \<not> isSpace c"
  by (auto simp: isDigit_def isSpace_def)

lemma show_nat_hd: "isDigit (hd (show_nat n))"
  using show_nat_digits [of n] by (cases "show_nat n") auto

lemma Atoi_digits:
  "ds \<noteq> [] \<Longrightarrow> list_all isDigit ds \<Longrightarrow> int (digits_val ds) \<le> maxInt64 \<Longrightarrow>
   Atoi ds = Inr (int (digits_val ds))"
  by (cases ds) (use isDigit_not_sign in \<open>auto simp: Atoi_def minInt64_def\<close>)

lemma Atoi_show_nat: "int n \<le> maxInt64 \<Longrightarrow> Atoi (show_nat n) = Inr (int n)"
  by (simp add: Atoi_digits show_nat_digits)

lemma Atoi_Itoa:
  assumes "minInt64 \<le> i" and "i \<le> maxInt64"
  shows "Atoi (Itoa i) = Inr i"
proof (cases "i < 0")
  case True
  with assms show ?thesis
    by (simp add: Itoa_def Atoi_def show_nat_digits maxInt64_def)
next
  case False
  with assms show ?thesis by (simp add: Itoa_def Atoi_show_nat)
qed

lemma Itoa_nat [simp]: "Itoa (int n) = show_nat n"
  by (simp add: Itoa_def)

lemma Itoa_inject: "Itoa i = Itoa j \<longleftrightarrow> i = j"
proof -
  have "show_nat n \<noteq> CHR ''-'' # s" for n s
    using show_nat_hd [of n] isDigit_not_sign by (metis list.sel(1))
  then show ?thesis
    by (auto simp: Itoa_def) (metis)+
qed

text \<open>What \<^verbatim>\<open>fmt.Sscanf\<close> reads for \<^verbatim>\<open>%d\<close>: skipped spaces, a sign, the digits that follow.\<close>

definition scan_d :: "string \<Rightarrow> int option" where
  "scan_d s =
     (let t = dropWhile isSpace s;
          (neg, u) = (case t of
             c # cs \<Rightarrow> if c = CHR ''-'' then (True, cs) else if c = CHR ''+'' then (False, cs) else (False, t)
           | [] \<Rightarrow> (False, t));
          ds = takeWhile isDigit u;
          v = (if neg then - int (digits_val ds) else int (digits_val ds))
      in if ds = [] \<or> v < minInt64 \<or> maxInt64 < v then None else Some v)"

lemma takeWhile_all: "list_all P xs \<Longrightarrow> takeWhile P xs = xs"
  by (induction xs) auto

lemma scan_d_digits:
  assumes "ds \<noteq> []" and "list_all isDigit ds" and "int (digits_val ds) \<le> maxInt64"
  shows "scan_d ds = Some (int (digits_val ds))"
proof -
  obtain c cs where ds: "ds = c # cs" using assms(1) by (cases ds) auto
  with assms(2) have c: "\<not> isSpace c" "c \<noteq> CHR ''-''" "c \<noteq> CHR ''+''"
    using isDigit_not_sign by auto
  have "dropWhile isSpace ds = ds" using ds c(1) by simp
  moreover have "takeWhile isDigit ds = ds" using assms(2) by (rule takeWhile_all)
  moreover have "(case ds of c # cs \<Rightarrow> if c = CHR ''-'' then (True, cs)
       else if c = CHR ''+'' then (False, cs) else (False, ds) | [] \<Rightarrow> (False, ds)) = (False, ds)"
    using ds c by simp
  ultimately show ?thesis using assms(1,3) by (simp add: scan_d_def minInt64_def Let_def del: takeWhile_eq_all_conv)
qed

lemma scan_d_show_nat: "int n \<le> maxInt64 \<Longrightarrow> scan_d (show_nat n) = Some (int n)"
  by (simp add: scan_d_digits show_nat_digits)

section \<open>Package sort\<close>

definition sort_Strings :: "string list \<Rightarrow> string list" where
  "sort_Strings xs = sort xs"

section \<open>Fixed-width arithmetic on durations\<close>

text \<open>
  A \<^verbatim>\<open>time.Duration\<close> is a 64-bit count of nanoseconds: subtraction wraps around, while the
  difference of two times (\<^verbatim>\<open>Time.Sub\<close>, and so \<^verbatim>\<open>time.Since\<close>) saturates.
\<close>

definition wrap64 :: "int \<Rightarrow> int" where
  "wrap64 x = (x + 2 ^ 63) mod 2 ^ 64 - 2 ^ 63"

definition sat64 :: "int \<Rightarrow> int" where
  "sat64 x = max minInt64 (min maxInt64 x)"

definition time_Sub :: "int \<Rightarrow> int \<Rightarrow> int" where
  "time_Sub t u = sat64 (t - u)"

lemma wrap64_id: "minInt64 \<le> x \<Longrightarrow> x \<le> maxInt64 \<Longrightarrow> wrap64 x = x"
  by (simp add: wrap64_def minInt64_def maxInt64_def)

lemma wrap64_range: "minInt64 \<le> wrap64 x \<and> wrap64 x \<le> maxInt64"
  using pos_mod_bound [of "2 ^ 64 :: int" "x + 2 ^ 63"] pos_mod_sign [of "2 ^ 64 :: int" "x + 2 ^ 63"]
  by (simp add: wrap64_def minInt64_def maxInt64_def)

definition Second :: int where "Second = 1000000000"

end
