(* ===== verification/Go_Net.thy ===== *)
theory Go_Net
  imports Go_Strings
begin

text \<open>
  What the source uses of Go's \<^verbatim>\<open>net\<close> and \<^verbatim>\<open>net/url\<close> packages: joining and splitting a host
  and a port, parsing an IP address, and printing a URL. An address is its 16-byte form, a
  list of naturals below 256, an IPv4 address being mapped into IPv6 as the package does.
  Shown here: \<open>SplitHostPort\<close> undoes \<open>JoinHostPort\<close>, for names, IPv4 and IPv6 hosts alike.
\<close>

section \<open>Hosts and ports\<close>

datatype addr_error = MissingPort | TooManyColons | MissingBracket | UnexpectedOpen | UnexpectedClose

text \<open>The text after the last colon, and the text before it (\<open>LastIndexByteString\<close>).\<close>

fun cut_last :: "char \<Rightarrow> string \<Rightarrow> (string \<times> string) option" where
  "cut_last x [] = None"
| "cut_last x (c # cs) =
     (case cut_last x cs of
        Some (a, b) \<Rightarrow> Some (c # a, b)
      | None \<Rightarrow> if c = x then Some ([], cs) else None)"

definition JoinHostPort :: "string \<Rightarrow> string \<Rightarrow> string" where
  "JoinHostPort host port =
     (if CHR '':'' \<in> set host then ''['' @ host @ '']:'' @ port else host @ '':'' @ port)"

definition SplitHostPort :: "string \<Rightarrow> addr_error + string \<times> string" where
  "SplitHostPort hostport =
     (case cut_last (CHR '':'') hostport of
        None \<Rightarrow> Inl MissingPort
      | Some (pre, port) \<Rightarrow>
          (case hostport of
             [] \<Rightarrow> Inl MissingPort
           | h # rest \<Rightarrow>
             if h = CHR ''['' then
               (case Cut '']'' hostport of
                  None \<Rightarrow> Inl MissingBracket
                | Some (inside, after) \<Rightarrow>
                    if after = [] then Inl MissingPort
                    else if after = CHR '':'' # port then
                      (let host = tl inside in
                       if CHR ''['' \<in> set rest then Inl UnexpectedOpen
                       else if CHR '']'' \<in> set after then Inl UnexpectedClose
                       else Inr (host, port))
                    else if hd after = CHR '':'' then Inl TooManyColons
                    else Inl MissingPort)
             else if CHR '':'' \<in> set pre then Inl TooManyColons
             else if CHR ''['' \<in> set hostport then Inl UnexpectedOpen
             else if CHR '']'' \<in> set hostport then Inl UnexpectedClose
             else Inr (pre, port)))"

lemma cut_last_notin: "x \<notin> set b \<Longrightarrow> cut_last x b = None"
  by (induction b) auto

lemma cut_last_append: "x \<notin> set b \<Longrightarrow> cut_last x (a @ x # b) = Some (a, b)"
  by (induction a) (auto simp: cut_last_notin)

lemma cut_last_Some: "cut_last x s = Some (a, b) \<Longrightarrow> s = a @ x # b \<and> x \<notin> set b"
proof (induction s arbitrary: a b)
  case (Cons c cs)
  have none: "cut_last x cs = None \<Longrightarrow> x \<notin> set cs"
    by (metis cut_last_append in_set_conv_decomp_last option.distinct(1))
  show ?case
    using Cons none by (auto split: option.splits if_splits)
qed simp

lemma Cut_char: "x \<notin> set a \<Longrightarrow> Cut [x] (a @ x # b) = Some (a, b)"
  by (induction a) auto

text \<open>
  A host with no bracket in it and a port with neither bracket nor colon survive the trip
  through an endpoint, whether or not the host is an IPv6 literal.
\<close>

definition plain_host :: "string \<Rightarrow> bool" where
  "plain_host h = (CHR ''['' \<notin> set h \<and> CHR '']'' \<notin> set h)"

definition plain_port :: "string \<Rightarrow> bool" where
  "plain_port p = (CHR ''['' \<notin> set p \<and> CHR '']'' \<notin> set p \<and> CHR '':'' \<notin> set p)"

lemma SplitHostPort_JoinHostPort:
  assumes "plain_host h" and "plain_port p"
  shows "SplitHostPort (JoinHostPort h p) = Inr (h, p)"
proof (cases "CHR '':'' \<in> set h")
  case True
  let ?s = "CHR ''['' # h @ CHR '']'' # CHR '':'' # p"
  have "cut_last (CHR '':'') (((CHR ''['' # h) @ [CHR '']'']) @ CHR '':'' # p)
      = Some ((CHR ''['' # h) @ [CHR '']''], p)"
    using assms by (intro cut_last_append) (simp add: plain_port_def)
  then have last: "cut_last (CHR '':'') ?s = Some (CHR ''['' # h @ '']'', p)" by simp
  have "Cut '']'' ((CHR ''['' # h) @ CHR '']'' # CHR '':'' # p)
      = Some (CHR ''['' # h, CHR '':'' # p)"
    using assms by (intro Cut_char) (simp add: plain_host_def)
  then have cut: "Cut '']'' ?s = Some (CHR ''['' # h, CHR '':'' # p)" by simp
  have join: "JoinHostPort h p = ?s" using True by (simp add: JoinHostPort_def)
  show ?thesis
    unfolding join SplitHostPort_def last cut
    using assms by (simp add: plain_host_def plain_port_def)
next
  case False
  have last: "cut_last (CHR '':'') (h @ CHR '':'' # p) = Some (h, p)"
    using assms by (intro cut_last_append) (simp add: plain_port_def)
  have join: "JoinHostPort h p = h @ CHR '':'' # p" using False by (simp add: JoinHostPort_def)
  show ?thesis
    unfolding join SplitHostPort_def last
    using assms False by (cases h) (auto simp: plain_host_def plain_port_def)
qed

lemma SplitHostPort_port:
  assumes "SplitHostPort s = Inr (h, p)"
  shows "CHR '':'' \<notin> set p"
  using assms cut_last_Some
  by (fastforce simp: SplitHostPort_def Let_def split: option.splits list.splits if_splits)

section \<open>IP addresses\<close>

type_synonym ip = "nat list"

text \<open>\<open>parseIPv4Fields\<close>: four decimal octets with no leading zero.\<close>

definition parse_octet :: "string \<Rightarrow> nat option" where
  "parse_octet ds =
     (if ds = [] \<or> \<not> list_all isDigit ds then None
      else if length ds > 1 \<and> hd ds = CHR ''0'' then None
      else if digits_val ds > 255 then None
      else Some (digits_val ds))"

definition parseIPv4Fields :: "string \<Rightarrow> nat list option" where
  "parseIPv4Fields s =
     (case map parse_octet (Split s ''.'') of
        [Some a, Some b, Some c, Some d] \<Rightarrow> Some [a, b, c, d]
      | _ \<Rightarrow> None)"

definition v4InV6Prefix :: "nat list" where
  "v4InV6Prefix = replicate 10 0 @ [255, 255]"

definition parseIPv4 :: "string \<Rightarrow> ip option" where
  "parseIPv4 s = map_option (\<lambda>f. v4InV6Prefix @ f) (parseIPv4Fields s)"

definition hex_val :: "char \<Rightarrow> nat option" where
  "hex_val c =
     (let n = (of_char c :: nat) in
      if 48 \<le> n \<and> n \<le> 57 then Some (n - 48)
      else if 97 \<le> n \<and> n \<le> 102 then Some (n - 87)
      else if 65 \<le> n \<and> n \<le> 70 then Some (n - 55)
      else None)"

definition hex_group :: "string \<Rightarrow> string \<times> string" where
  "hex_group s = (takeWhile (\<lambda>c. hex_val c \<noteq> None) s, dropWhile (\<lambda>c. hex_val c \<noteq> None) s)"

definition hex_num :: "string \<Rightarrow> nat" where
  "hex_num = foldl (\<lambda>n c. 16 * n + (case hex_val c of Some v \<Rightarrow> v | None \<Rightarrow> 0)) 0"

text \<open>
  The group loop of \<open>parseIPv6\<close>: \<open>acc\<close> holds the bytes read so far, \<open>ell\<close> the position of
  the double colon. The fuel is the number of groups still allowed, eight at the start.
\<close>

fun parseIPv6_loop :: "nat \<Rightarrow> string \<Rightarrow> nat list \<Rightarrow> nat option \<Rightarrow> (string \<times> nat list \<times> nat option) option" where
  "parseIPv6_loop 0 s acc ell = Some (s, acc, ell)"
| "parseIPv6_loop (Suc n) s acc ell =
     (let (g, rest) = hex_group s in
      if length g > 4 \<or> g = [] then None
      else if rest \<noteq> [] \<and> hd rest = CHR ''.'' then
        (if ell = None \<and> length acc \<noteq> 12 then None
         else if length acc + 4 > 16 then None
         else case parseIPv4Fields s of None \<Rightarrow> None | Some f \<Rightarrow> Some ([], acc @ f, ell))
      else
        (let acc' = acc @ [hex_num g div 256, hex_num g mod 256] in
         if rest = [] then Some ([], acc', ell)
         else if hd rest \<noteq> CHR '':'' then None
         else if length rest = 1 then None
         else let s' = tl rest in
           if hd s' = CHR '':'' then
             (if ell \<noteq> None then None
              else if tl s' = [] then Some ([], acc', Some (length acc'))
              else parseIPv6_loop n (tl s') acc' (Some (length acc')))
           else parseIPv6_loop n s' acc' ell))"

definition parseIPv6 :: "string \<Rightarrow> ip option" where
  "parseIPv6 s =
     (let ell0 = HasPrefix s ''::''; s1 = (if ell0 then drop 2 s else s) in
      if ell0 \<and> s1 = [] then Some (replicate 16 0)
      else case parseIPv6_loop 8 s1 [] (if ell0 then Some 0 else None) of
        None \<Rightarrow> None
      | Some (rest, acc, ell) \<Rightarrow>
          if rest \<noteq> [] then None
          else if length acc < 16 then
            (case ell of
               None \<Rightarrow> None
             | Some e \<Rightarrow> Some (take e acc @ replicate (16 - length acc) 0 @ drop e acc))
          else if ell \<noteq> None then None
          else Some acc)"

text \<open>\<^verbatim>\<open>net.ParseIP\<close>: the first of dot, colon or percent decides; an address with a zone is refused.\<close>

definition ParseIP :: "string \<Rightarrow> ip option" where
  "ParseIP s =
     (case dropWhile (\<lambda>c. c \<notin> {CHR ''.'', CHR '':'', CHR ''%''}) s of
        [] \<Rightarrow> None
      | c # _ \<Rightarrow>
          if c = CHR ''.'' then parseIPv4 s
          else if c = CHR ''%'' then None
          else if CHR ''%'' \<in> set s then None
          else parseIPv6 s)"

definition To4 :: "ip \<Rightarrow> ip option" where
  "To4 ip = (if length ip = 16 \<and> take 12 ip = v4InV6Prefix then Some (drop 12 ip) else None)"

lemma parseIPv4_To4: "parseIPv4 s = Some ip \<Longrightarrow> To4 ip \<noteq> None"
  by (auto simp: parseIPv4_def parseIPv4Fields_def To4_def v4InV6Prefix_def
      split: list.splits option.splits)

section \<open>URLs\<close>

definition hex_digit :: "nat \<Rightarrow> char" where
  "hex_digit d = ''0123456789ABCDEF'' ! (d mod 16)"

definition percent :: "char \<Rightarrow> string" where
  "percent c = (let n = (of_char c :: nat) in [CHR ''%'', hex_digit (n div 16), hex_digit n])"

definition unreserved :: "char \<Rightarrow> bool" where
  "unreserved c = (isLower c \<or> isUpper c \<or> isDigit c \<or> c \<in> set ''-_.~'')"

definition escape_host :: "string \<Rightarrow> string" where
  "escape_host s = concat (map (\<lambda>c.
     if unreserved c \<or> c \<in> set ''!$&()*+,;=:[]<>'' \<or> c = CHR 0x22 \<or> c = CHR 0x27 then [c]
     else percent c) s)"

definition escape_path :: "string \<Rightarrow> string" where
  "escape_path s = concat (map (\<lambda>c.
     if unreserved c \<or> c \<in> set ''$&+,/:;=@'' then [c] else percent c) s)"

text \<open>\<^verbatim>\<open>(&url.URL{Scheme, Host, Path}).String()\<close> for a non-empty scheme and host.\<close>

definition url_String :: "string \<Rightarrow> string \<Rightarrow> string \<Rightarrow> string" where
  "url_String scheme host path =
     scheme @ ''://'' @ escape_host host
     @ (if path \<noteq> [] \<and> hd path \<noteq> CHR ''/'' then ''/'' else []) @ escape_path path"

end
