(* ===== verification/Api_Types.thy ===== *)
theory Api_Types
  imports Go_Net
begin

text \<open>
  The data the system is about: the four custom resources of \<^verbatim>\<open>src/api/v1alpha1\<close> (volumes,
  engines, replicas, snapshots) and the parts of the Kubernetes core types the code reads or
  writes. Every Kubernetes object is metadata, a spec and a status, so one record
  \<^verbatim>\<open>kobj\<close>, polymorphic in spec and status, carries them all. A phase is a string type in
  Go, and the API server may hold any string there, so phases are strings with the source's
  constants. The one computing function of the package, \<open>ParseReplicaCount\<close>, is here too.
\<close>

section \<open>Errors\<close>

text \<open>
  The errors of the code, one constructor per place that makes one. \<open>NotFound\<close>,
  \<open>AlreadyExists\<close> and \<open>Conflict\<close> are the API server's answers the code tells apart;
  \<open>ServerError\<close> is any other failure of a call to the outside.
\<close>

datatype error =
    NotFound
  | AlreadyExists
  | Conflict
  | ServerError string
  | InvalidReplicaCount string
  | NoWorkerNodes
  | SplitEndpointError string addr_error
  | MissingEndpoint
  | InvalidEndpoint error
  | EmptyEndpointHost
  | EmptyEndpointPort
  | UnexpectedSidecarRole string
  | MissingSubsystemNQN
  | MissingReplicaNQN
  | AgentNotConfigured
  | AgentPerform string error
  | AgentStatus string int
  | AgentDecode string
  | AgentNotFound string
  | NameRequired
  | UnsupportedContentSource
  | SnapshotNotFound error
  | SnapshotNotReady string
  | EngineNotRunning string
  | UnsupportedAccessMode
  | SourceVolumeRequired
  | SnapshotOfOtherVolume string string
  | InvalidURL string
  | SidecarStatusCode int
  | DecodeFailed
  | ReconfigureStatus int
  | ResolveBindAddress error
  | ResolveAdvertiseAddress error
  | HostIPNotAvailable
  | NodeNameNotAvailable
  | UnsupportedAddressToken string
  | PortRequired string
  | UnderivableAddressFamily string

definition IsNotFound :: "error \<Rightarrow> bool" where
  "IsNotFound e = (e = NotFound)"

definition IsAlreadyExists :: "error \<Rightarrow> bool" where
  "IsAlreadyExists e = (e = AlreadyExists)"

text \<open>\<^verbatim>\<open>client.IgnoreNotFound\<close>: nil for a not-found error, the error itself otherwise.\<close>

definition IgnoreNotFound :: "error \<Rightarrow> error option" where
  "IgnoreNotFound e = (if IsNotFound e then None else Some e)"

section \<open>Keys and metadata\<close>

datatype NamespacedName = NN (nn_Namespace: string) (nn_Name: string)

text \<open>Keys are ordered by namespace, then name: the order in which a server lists objects.\<close>

instantiation NamespacedName :: linorder
begin

definition less_eq_NamespacedName :: "NamespacedName \<Rightarrow> NamespacedName \<Rightarrow> bool" where
  "less_eq_NamespacedName a b =
     (nn_Namespace a < nn_Namespace b \<or>
      nn_Namespace a = nn_Namespace b \<and> nn_Name a \<le> nn_Name b)"

definition less_NamespacedName :: "NamespacedName \<Rightarrow> NamespacedName \<Rightarrow> bool" where
  "less_NamespacedName a b =
     (nn_Namespace a < nn_Namespace b \<or>
      nn_Namespace a = nn_Namespace b \<and> nn_Name a < nn_Name b)"

instance
  by standard
    (auto simp: less_eq_NamespacedName_def less_NamespacedName_def intro: NamespacedName.expand)

end

record OwnerReference =
  or_APIVersion :: string
  or_Kind :: string
  or_Name :: string
  or_UID :: string
  or_Controller :: "bool option"
  or_BlockOwnerDeletion :: "bool option"

record ObjectMeta =
  om_Name :: string
  om_Namespace :: string
  om_UID :: string
  om_Labels :: "(string \<times> string) list"
  om_OwnerReferences :: "OwnerReference list"
  om_Finalizers :: "string list"
  om_DeletionTimestamp :: "int option"

definition meta_for :: "string \<Rightarrow> string \<Rightarrow> ObjectMeta" where
  "meta_for name ns =
     \<lparr>om_Name = name, om_Namespace = ns, om_UID = [], om_Labels = [],
      om_OwnerReferences = [], om_Finalizers = [], om_DeletionTimestamp = None\<rparr>"

record ('sp, 'st) kobj =
  Meta :: ObjectMeta
  Spec :: 'sp
  Status :: 'st

abbreviation obj_Name :: "('sp, 'st) kobj \<Rightarrow> string" where
  "obj_Name o' \<equiv> om_Name (Meta o')"

abbreviation obj_Namespace :: "('sp, 'st) kobj \<Rightarrow> string" where
  "obj_Namespace o' \<equiv> om_Namespace (Meta o')"

abbreviation obj_UID :: "('sp, 'st) kobj \<Rightarrow> string" where
  "obj_UID o' \<equiv> om_UID (Meta o')"

definition key_of :: "('sp, 'st) kobj \<Rightarrow> NamespacedName" where
  "key_of o' = NN (obj_Namespace o') (obj_Name o')"

datatype ConditionStatus = ConditionTrue | ConditionFalse | ConditionUnknown

record Condition =
  c_Type :: string
  c_Status :: ConditionStatus
  c_ObservedGeneration :: int
  c_LastTransitionTime :: int
  c_Reason :: string
  c_Message :: string

record NamespacedObjectReference =
  nor_Name :: string
  nor_Namespace :: string

section \<open>Volumes\<close>

type_synonym VolumePhase = string

definition VolumePhaseCreating :: VolumePhase where [simp]: "VolumePhaseCreating = ''Creating''"
definition VolumePhaseReady :: VolumePhase where [simp]: "VolumePhaseReady = ''Ready''"
definition VolumePhaseDegraded :: VolumePhase where [simp]: "VolumePhaseDegraded = ''Degraded''"
definition VolumePhaseFailed :: VolumePhase where [simp]: "VolumePhaseFailed = ''Failed''"

definition VolumeConditionScheduled :: string where
  [simp]: "VolumeConditionScheduled = ''Scheduled''"
definition VolumeConditionEngineReady :: string where
  [simp]: "VolumeConditionEngineReady = ''EngineReady''"
definition VolumeConditionReplicasReady :: string where
  [simp]: "VolumeConditionReplicasReady = ''ReplicasReady''"
definition VolumeConditionReplicasHealing :: string where
  [simp]: "VolumeConditionReplicasHealing = ''ReplicasHealing''"

record ReplicaHealth =
  rh_Name :: string
  rh_NodeID :: string
  rh_Phase :: string
  rh_RestartAttempts :: int
  rh_LastHealTime :: "int option"

record SnapshotSource =
  ss_SnapshotName :: string

record VolumeSpec =
  vs_Size :: string
  vs_StorageClassName :: string
  vs_NodeID :: string
  vs_ReplicaCount :: string
  vs_SnapshotSource :: "SnapshotSource option"

record VolumeStatus =
  vst_Phase :: VolumePhase
  vst_EngineRef :: "NamespacedObjectReference option"
  vst_ReplicaHealth :: "ReplicaHealth list"
  vst_Conditions :: "Condition list"

type_synonym Volume = "(VolumeSpec, VolumeStatus) kobj"

definition zero_VolumeStatus :: VolumeStatus where
  "zero_VolumeStatus =
     \<lparr>vst_Phase = [], vst_EngineRef = None, vst_ReplicaHealth = [], vst_Conditions = []\<rparr>"

text \<open>
  \<open>ParseReplicaCount\<close> returns a count and whether the count is to be derived from the
  cluster; anything but \<^verbatim>\<open>auto\<close>, the empty string or a positive number is an error.
\<close>

definition ParseReplicaCount :: "string \<Rightarrow> error + int \<times> bool" where
  "ParseReplicaCount value =
     (if value = ''auto'' \<or> value = [] then Inr (0, True)
      else case Atoi value of
        Inl _ \<Rightarrow> Inl (InvalidReplicaCount value)
      | Inr count \<Rightarrow> if count \<le> 0 then Inl (InvalidReplicaCount value) else Inr (count, False))"

section \<open>Engines\<close>

type_synonym EnginePhase = string

definition EnginePhasePending :: EnginePhase where [simp]: "EnginePhasePending = ''Pending''"
definition EnginePhaseRunning :: EnginePhase where [simp]: "EnginePhaseRunning = ''Running''"
definition EnginePhaseDegraded :: EnginePhase where [simp]: "EnginePhaseDegraded = ''Degraded''"
definition EnginePhaseFailed :: EnginePhase where [simp]: "EnginePhaseFailed = ''Failed''"

definition EngineConditionPodScheduled :: string where
  [simp]: "EngineConditionPodScheduled = ''PodScheduled''"
definition EngineConditionSPDKStarted :: string where
  [simp]: "EngineConditionSPDKStarted = ''SPDKStarted''"
definition EngineConditionRAIDConfigured :: string where
  [simp]: "EngineConditionRAIDConfigured = ''RAIDConfigured''"
definition EngineConditionSubsystemReady :: string where
  [simp]: "EngineConditionSubsystemReady = ''SubsystemReady''"

record ReplicaAttachment =
  ra_Name :: string
  ra_NodeID :: string
  ra_IsLocal :: bool
  ra_NQN :: string
  ra_Address :: string
  ra_Port :: string

definition attachment :: "string \<Rightarrow> string \<Rightarrow> ReplicaAttachment" where
  "attachment name node =
     \<lparr>ra_Name = name, ra_NodeID = node, ra_IsLocal = False, ra_NQN = [], ra_Address = [], ra_Port = []\<rparr>"

lemma attachment_sel [simp]:
  "ra_Name (attachment n m) = n" "ra_NodeID (attachment n m) = m"
  by (simp_all add: attachment_def)

record EngineSpec =
  es_VolumeRef :: string
  es_NodeID :: string
  es_Replicas :: "ReplicaAttachment list"

record PodReference =
  pr_Name :: string
  pr_Namespace :: string

record EngineStatus =
  est_Phase :: EnginePhase
  est_PodRef :: "PodReference option"
  est_Endpoint :: string
  est_SubsystemNQN :: string
  est_ROXSubsystemNQN :: string
  est_ROXEndpoint :: string
  est_LastReplicasHash :: string
  est_Conditions :: "Condition list"

type_synonym Engine = "(EngineSpec, EngineStatus) kobj"

definition zero_EngineStatus :: EngineStatus where
  "zero_EngineStatus =
     \<lparr>est_Phase = [], est_PodRef = None, est_Endpoint = [], est_SubsystemNQN = [],
      est_ROXSubsystemNQN = [], est_ROXEndpoint = [], est_LastReplicasHash = [],
      est_Conditions = []\<rparr>"

section \<open>Replicas\<close>

type_synonym ReplicaType = string
type_synonym ReplicaPhase = string

definition ReplicaTypeLocal :: ReplicaType where [simp]: "ReplicaTypeLocal = ''Local''"
definition ReplicaTypeRemote :: ReplicaType where [simp]: "ReplicaTypeRemote = ''Remote''"

definition ReplicaPhasePending :: ReplicaPhase where [simp]: "ReplicaPhasePending = ''Pending''"
definition ReplicaPhaseCreating :: ReplicaPhase where [simp]: "ReplicaPhaseCreating = ''Creating''"
definition ReplicaPhaseRunning :: ReplicaPhase where [simp]: "ReplicaPhaseRunning = ''Running''"
definition ReplicaPhaseFailed :: ReplicaPhase where [simp]: "ReplicaPhaseFailed = ''Failed''"

definition ReplicaConditionFilesystemCreated :: string where
  [simp]: "ReplicaConditionFilesystemCreated = ''FilesystemCreated''"
definition ReplicaConditionBdevAttached :: string where
  [simp]: "ReplicaConditionBdevAttached = ''BdevAttached''"
definition ReplicaConditionNVMFExported :: string where
  [simp]: "ReplicaConditionNVMFExported = ''NVMFExported''"

record ReplicaSpec =
  rs_VolumeRef :: string
  rs_NodeID :: string
  rs_Type :: ReplicaType
  rs_Size :: string
  rs_DataPath :: string
  rs_SnapshotSource :: string

record ReplicaStatus =
  rst_Phase :: ReplicaPhase
  rst_BdevName :: string
  rst_NQN :: string
  rst_Endpoint :: string
  rst_Conditions :: "Condition list"

type_synonym Replica = "(ReplicaSpec, ReplicaStatus) kobj"

definition zero_ReplicaStatus :: ReplicaStatus where
  "zero_ReplicaStatus =
     \<lparr>rst_Phase = [], rst_BdevName = [], rst_NQN = [], rst_Endpoint = [], rst_Conditions = []\<rparr>"

section \<open>Snapshots\<close>

type_synonym SnapshotPhase = string

definition SnapshotPhasePending :: SnapshotPhase where [simp]: "SnapshotPhasePending = ''Pending''"
definition SnapshotPhaseCreating :: SnapshotPhase where [simp]: "SnapshotPhaseCreating = ''Creating''"
definition SnapshotPhaseReady :: SnapshotPhase where [simp]: "SnapshotPhaseReady = ''Ready''"
definition SnapshotPhaseFailed :: SnapshotPhase where [simp]: "SnapshotPhaseFailed = ''Failed''"

definition SnapshotConditionCreated :: string where
  [simp]: "SnapshotConditionCreated = ''SnapshotCreated''"
definition SnapshotConditionFileReady :: string where
  [simp]: "SnapshotConditionFileReady = ''SnapshotFileReady''"

record SnapshotSpec =
  sns_VolumeRef :: string
  sns_SnapshotID :: string

record SnapshotStatus =
  snst_Phase :: SnapshotPhase
  snst_SnapshotPath :: string
  snst_EngineNode :: string
  snst_SizeBytes :: int
  snst_CreationTime :: "int option"
  snst_ReadyToUse :: bool
  snst_Conditions :: "Condition list"

type_synonym Snapshot = "(SnapshotSpec, SnapshotStatus) kobj"

definition zero_SnapshotStatus :: SnapshotStatus where
  "zero_SnapshotStatus =
     \<lparr>snst_Phase = [], snst_SnapshotPath = [], snst_EngineNode = [], snst_SizeBytes = 0,
      snst_CreationTime = None, snst_ReadyToUse = False, snst_Conditions = []\<rparr>"

section \<open>Kubernetes core types\<close>

datatype EnvVar =
    EnvValue (env_Name: string) string
  | EnvFieldRef (env_Name: string) string
  | EnvConfigMapKey (env_Name: string) string string bool

record VolumeMount =
  vm_Name :: string
  vm_MountPath :: string

record Container =
  co_Name :: string
  co_Image :: string
  co_Args :: "string list"
  co_Env :: "EnvVar list"
  co_VolumeMounts :: "VolumeMount list"
  co_Privileged :: "bool option"

datatype PodVolumeSource = HostPath string | EmptyDir

record PodSpec =
  ps_NodeName :: string
  ps_RestartPolicy :: string
  ps_Volumes :: "(string \<times> PodVolumeSource) list"
  ps_Containers :: "Container list"

record PodStatus =
  pst_Phase :: string
  pst_PodIP :: string
  pst_ContainersReady :: "bool list"

type_synonym Pod = "(PodSpec, PodStatus) kobj"

definition zero_PodStatus :: PodStatus where
  "zero_PodStatus = \<lparr>pst_Phase = [], pst_PodIP = [], pst_ContainersReady = []\<rparr>"

definition PodRunning :: string where [simp]: "PodRunning = ''Running''"

type_synonym Node = "(unit, unit) kobj"

section \<open>Replica counts\<close>

text \<open>What the parser accepts is a positive 64-bit number, or a request to derive the count.\<close>

lemma ParseReplicaCount_cases:
  "ParseReplicaCount v = Inr (n, a) \<Longrightarrow> (if a then n = 0 \<and> v \<in> {''auto'', []} else 0 < n)"
  by (auto simp: ParseReplicaCount_def split: if_splits sum.splits)

lemma Atoi_range: "Atoi s = Inr v \<Longrightarrow> minInt64 \<le> v \<and> v \<le> maxInt64"
  by (auto simp: Atoi_def Let_def split: if_splits prod.splits)

lemma ParseReplicaCount_range: "ParseReplicaCount v = Inr (n, False) \<Longrightarrow> 0 < n \<and> n \<le> maxInt64"
  by (auto simp: ParseReplicaCount_def dest: Atoi_range split: if_splits sum.splits)

lemma show_nat_not_auto: "show_nat n \<noteq> ''auto''"
  using show_nat_digits [of n] by (auto simp: isDigit_def)

lemma ParseReplicaCount_Itoa:
  assumes "0 < n" and "n \<le> maxInt64"
  shows "ParseReplicaCount (Itoa n) = Inr (n, False)"
proof -
  have "Itoa n = show_nat (nat n)" using assms by (simp add: Itoa_def)
  moreover have "Atoi (Itoa n) = Inr n"
    using assms by (intro Atoi_Itoa) (simp_all add: minInt64_def)
  ultimately show ?thesis
    using assms by (simp add: ParseReplicaCount_def show_nat_not_auto)
qed

end
