(* ===== verification/Conditions.thy ===== *)
theory Conditions
  imports Api_Types
begin

text \<open>
  Status conditions, \<^verbatim>\<open>src/internal/status/conditions.go\<close>: a list of conditions in which
  \<open>SetTrue\<close> and \<open>SetFalse\<close> replace the first condition of a type or append one. The time a
  condition is set is the argument \<open>now\<close> (the code asks the clock).

  The locale \<open>keyed_list\<close> is the contract of such a list, a finite map from keys to entries
  that keeps the order of its entries: it is interpreted on the condition list, and the
  lookup of a replica's health record (\<open>findExistingHealth\<close>) uses the same lookup.
\<close>

section \<open>Keyed lists\<close>

text \<open>The first entry with a key, and replacing it in place or appending.\<close>

fun find_key :: "('a \<Rightarrow> 'k) \<Rightarrow> 'k \<Rightarrow> 'a list \<Rightarrow> 'a option" where
  "find_key f k [] = None"
| "find_key f k (x # xs) = (if f x = k then Some x else find_key f k xs)"

fun put_key :: "('a \<Rightarrow> 'k) \<Rightarrow> 'a \<Rightarrow> 'a list \<Rightarrow> 'a list" where
  "put_key f y [] = [y]"
| "put_key f y (x # xs) = (if f x = f y then y # xs else x # put_key f y xs)"

locale keyed_list =
  fixes put :: "'a \<Rightarrow> 'a list \<Rightarrow> 'a list"
    and lookup :: "'k \<Rightarrow> 'a list \<Rightarrow> 'a option"
    and key :: "'a \<Rightarrow> 'k"
  assumes lookup_put: "lookup k (put x xs) = (if k = key x then Some x else lookup k xs)"
    and lookup_empty: "lookup k [] = None"
    and keys_put: "map key (put x xs) = (if key x \<in> set (map key xs) then map key xs else map key xs @ [key x])"
begin

lemma lookup_put_same [simp]: "lookup (key x) (put x xs) = Some x"
  by (simp add: lookup_put)

lemma lookup_put_other [simp]: "k \<noteq> key x \<Longrightarrow> lookup k (put x xs) = lookup k xs"
  by (simp add: lookup_put)

text \<open>Setting an entry never duplicates a key and never reorders the entries.\<close>

lemma distinct_put: "distinct (map key xs) \<Longrightarrow> distinct (map key (put x xs))"
  by (simp add: keys_put)

lemma keys_set_put: "set (map key (put x xs)) = insert (key x) (set (map key xs))"
  by (auto simp: keys_put)

lemma prefix_keys_put: "prefix (map key xs) (map key (put x xs))"
  by (simp add: keys_put)

text \<open>The last writer of a key wins; writers of different keys commute up to lookup.\<close>

lemma lookup_put_put:
  "key x = key y \<Longrightarrow> lookup k (put y (put x xs)) = lookup k (put y xs)"
  by (simp add: lookup_put)

lemma lookup_put_commute:
  "key x \<noteq> key y \<Longrightarrow> lookup k (put y (put x xs)) = lookup k (put x (put y xs))"
  by (simp add: lookup_put)

end

lemma find_put_key: "find_key f k (put_key f y xs) = (if k = f y then Some y else find_key f k xs)"
  by (induction xs) auto

lemma map_put_key:
  "map f (put_key f y xs) = (if f y \<in> set (map f xs) then map f xs else map f xs @ [f y])"
  by (induction xs) auto

lemma find_key_Some: "find_key f k xs = Some x \<Longrightarrow> x \<in> set xs \<and> f x = k"
  by (induction xs) (auto split: if_splits)

lemma find_key_None: "find_key f k xs = None \<longleftrightarrow> k \<notin> set (map f xs)"
  by (induction xs) auto

section \<open>Conditions\<close>

definition set_condition ::
  "int \<Rightarrow> Condition list \<Rightarrow> string \<Rightarrow> ConditionStatus \<Rightarrow> string \<Rightarrow> string \<Rightarrow> Condition list" where
  "set_condition now conditions conditionType conditionStatus reason message =
     put_key c_Type
       \<lparr>c_Type = conditionType, c_Status = conditionStatus, c_ObservedGeneration = 0,
        c_LastTransitionTime = now, c_Reason = reason, c_Message = message\<rparr>
       conditions"

definition SetTrue :: "int \<Rightarrow> Condition list \<Rightarrow> string \<Rightarrow> string \<Rightarrow> string \<Rightarrow> Condition list" where
  "SetTrue now conditions conditionType reason message =
     set_condition now conditions conditionType ConditionTrue reason message"

definition SetFalse :: "int \<Rightarrow> Condition list \<Rightarrow> string \<Rightarrow> string \<Rightarrow> string \<Rightarrow> Condition list" where
  "SetFalse now conditions conditionType reason message =
     set_condition now conditions conditionType ConditionFalse reason message"

abbreviation condition_of :: "string \<Rightarrow> Condition list \<Rightarrow> Condition option" where
  "condition_of t cs \<equiv> find_key c_Type t cs"

interpretation conditions: keyed_list "put_key c_Type" "find_key c_Type" c_Type
  by unfold_locales (simp_all add: find_put_key map_put_key)

text \<open>Whether a condition is present and true.\<close>

definition is_true :: "string \<Rightarrow> Condition list \<Rightarrow> bool" where
  "is_true t cs = (case condition_of t cs of None \<Rightarrow> False | Some c \<Rightarrow> c_Status c = ConditionTrue)"

lemma is_true_SetTrue: "is_true t (SetTrue now cs u r m) \<longleftrightarrow> t = u \<or> is_true t cs"
  by (simp add: is_true_def SetTrue_def set_condition_def conditions.lookup_put)

lemma is_true_SetFalse: "is_true t (SetFalse now cs u r m) \<longleftrightarrow> t \<noteq> u \<and> is_true t cs"
  by (simp add: is_true_def SetFalse_def set_condition_def conditions.lookup_put)

text \<open>
  Setting a condition replaces the entry of its type or appends one, keeps every other
  entry as it was, and never lists a type twice.
\<close>

theorem set_condition_correct:
  assumes "distinct (map c_Type cs)"
  shows "condition_of t (set_condition now cs u st r m) =
           (if t = u then Some \<lparr>c_Type = u, c_Status = st, c_ObservedGeneration = 0,
                                 c_LastTransitionTime = now, c_Reason = r, c_Message = m\<rparr>
            else condition_of t cs)
       \<and> distinct (map c_Type (set_condition now cs u st r m))
       \<and> prefix (map c_Type cs) (map c_Type (set_condition now cs u st r m))"
  using assms
  by (simp add: set_condition_def conditions.lookup_put conditions.distinct_put
      conditions.prefix_keys_put)

theorem set_condition_correct_witness:
  "distinct (map c_Type (set_condition 7
      [\<lparr>c_Type = ''Scheduled'', c_Status = ConditionTrue, c_ObservedGeneration = 0,
        c_LastTransitionTime = 3, c_Reason = ''A'', c_Message = ''B''\<rparr>]
      ''Scheduled'' ConditionFalse ''R'' ''M''))"
  using set_condition_correct
    [of "[\<lparr>c_Type = ''Scheduled'', c_Status = ConditionTrue, c_ObservedGeneration = 0,
           c_LastTransitionTime = 3, c_Reason = ''A'', c_Message = ''B''\<rparr>]"
        "''Scheduled''" 7 "''Scheduled''" ConditionFalse "''R''" "''M''"]
  by simp

end
