(* ===== verification/Json.thy ===== *)
theory Json
  imports Api_Types
begin

text \<open>
  What the source uses of \<^verbatim>\<open>encoding/json\<close>. A document is a value of \<open>json\<close>, whose text is
  \<open>json_text\<close>, and decoding into a struct reads its fields from an object: a key matches a
  field up to case, the last match counts, null leaves a field as it is, a value of another
  type is an error, and unknown keys are skipped. Structs are encoded with their fields in
  order, \<^verbatim>\<open>omitempty\<close> leaving the empty ones out. Strings are bytes; those from 128 on belong
  to valid UTF-8, and keys are compared as ASCII text.

  The locale \<open>json_codec\<close> is the contract of an encoder and its decoder, on which the
  protocols between the components rest.
\<close>

section \<open>Documents and their text\<close>

datatype json = JNull | JBool bool | JNum int | JStr string | JArr "json list" | JObj "(string \<times> json) list"

definition json_char :: "char \<Rightarrow> string" where
  "json_char c =
     (let n = (of_char c :: nat) in
      if c = CHR 0x22 then [CHR 0x5C, CHR 0x22]
      else if c = CHR 0x5C then [CHR 0x5C, CHR 0x5C]
      else if n = 8 then [CHR 0x5C, CHR ''b'']
      else if n = 12 then [CHR 0x5C, CHR ''f'']
      else if n = 10 then [CHR 0x5C, CHR ''n'']
      else if n = 13 then [CHR 0x5C, CHR ''r'']
      else if n = 9 then [CHR 0x5C, CHR ''t'']
      else if n < 32 \<or> c \<in> set ''<>&''
      then [CHR 0x5C, CHR ''u'', CHR ''0'', CHR ''0'', ''0123456789abcdef'' ! (n div 16), ''0123456789abcdef'' ! (n mod 16)]
      else [c])"

definition json_string :: "string \<Rightarrow> string" where
  "json_string s = [CHR 0x22] @ concat (map json_char s) @ [CHR 0x22]"

primrec json_text :: "json \<Rightarrow> string" where
  "json_text JNull = ''null''"
| "json_text (JBool b) = (if b then ''true'' else ''false'')"
| "json_text (JNum n) = Itoa n"
| "json_text (JStr s) = json_string s"
| "json_text (JArr js) = ''['' @ Join (map json_text js) '','' @ '']''"
| "json_text (JObj kvs) =
     ''{'' @ Join (map (\<lambda>kt. json_string (fst kt) @ '':'' @ snd kt) (map (map_prod id json_text) kvs)) '','' @ ''}''"

section \<open>Fields\<close>

definition lower :: "char \<Rightarrow> char" where
  "lower c = (if isUpper c then char_of ((of_char c :: nat) + 32) else c)"

definition EqualFold :: "string \<Rightarrow> string \<Rightarrow> bool" where
  "EqualFold s t \<longleftrightarrow> map lower s = map lower t"

fun field :: "(json \<Rightarrow> 'a option) \<Rightarrow> string \<Rightarrow> 'a \<Rightarrow> (string \<times> json) list \<Rightarrow> 'a option" where
  "field dec name cur [] = Some cur"
| "field dec name cur ((k, v) # kvs) =
     (if \<not> EqualFold k name \<or> v = JNull then field dec name cur kvs
      else case dec v of None \<Rightarrow> None | Some x \<Rightarrow> field dec name x kvs)"

definition as_string :: "json \<Rightarrow> string option" where
  "as_string v = (case v of JStr s \<Rightarrow> Some s | _ \<Rightarrow> None)"

definition as_bool :: "json \<Rightarrow> bool option" where
  "as_bool v = (case v of JBool b \<Rightarrow> Some b | _ \<Rightarrow> None)"

definition as_int64 :: "json \<Rightarrow> int option" where
  "as_int64 v = (case v of JNum n \<Rightarrow> if minInt64 \<le> n \<and> n \<le> maxInt64 then Some n else None | _ \<Rightarrow> None)"

text \<open>Decoding into a struct: its fields from an object, nothing from null.\<close>

definition as_struct :: "((string \<times> json) list \<Rightarrow> 'a option) \<Rightarrow> json \<Rightarrow> 'a option" where
  "as_struct dec v = (case v of JObj kvs \<Rightarrow> dec kvs | JNull \<Rightarrow> dec [] | _ \<Rightarrow> None)"

text \<open>Decoding into a slice: an array, of which null elements are left at the zero value.\<close>

definition as_slice :: "(json \<Rightarrow> 'a option) \<Rightarrow> json \<Rightarrow> 'a list option" where
  "as_slice dec v = (case v of JArr vs \<Rightarrow> those (map dec vs) | JNull \<Rightarrow> Some [] | _ \<Rightarrow> None)"

definition omitempty :: "string \<Rightarrow> string \<Rightarrow> (string \<times> json) list" where
  "omitempty k v = (if v = [] then [] else [(k, JStr v)])"

locale json_codec =
  fixes enc :: "'a \<Rightarrow> json"
    and dec :: "json \<Rightarrow> 'a option"
  assumes decode_encode: "dec (enc x) = Some x"
begin

lemma enc_inj: "enc x = enc y \<longleftrightarrow> x = y"
  by (metis decode_encode option.inject)

lemma those_map: "those (map dec (map enc xs)) = Some xs"
  by (induction xs) (simp_all add: decode_encode)

lemma slice_codec: "as_slice dec (JArr (map enc xs)) = Some xs"
  using those_map [of xs] by (simp add: as_slice_def)

end

lemma EqualFold_refl [simp]: "EqualFold s s"
  by (simp add: EqualFold_def)

lemma field_append:
  "field dec name cur (xs @ ys) = (case field dec name cur xs of None \<Rightarrow> None | Some x \<Rightarrow> field dec name x ys)"
  by (induction xs arbitrary: cur) (auto split: option.split)

lemma field_other: "\<forall>(k, v) \<in> set kvs. \<not> EqualFold k name \<Longrightarrow> field dec name cur kvs = Some cur"
  by (induction kvs) auto

lemma field_omitempty [simp]:
  "field as_string name [] (omitempty name v) = Some v"
  "\<not> EqualFold k name \<Longrightarrow> field dec name cur (omitempty k v) = Some cur"
  by (simp_all add: omitempty_def as_string_def)

lemmas json_simps = as_struct_def as_string_def as_bool_def as_int64_def field_append

section \<open>Replica attachments\<close>

definition encodeAttachment :: "ReplicaAttachment \<Rightarrow> json" where
  "encodeAttachment ra = JObj
     ([(''name'', JStr (ra_Name ra)), (''nodeID'', JStr (ra_NodeID ra))]
      @ (if ra_IsLocal ra then [(''isLocal'', JBool True)] else [])
      @ omitempty ''nqn'' (ra_NQN ra) @ omitempty ''address'' (ra_Address ra) @ omitempty ''port'' (ra_Port ra))"

definition decodeAttachment :: "json \<Rightarrow> ReplicaAttachment option" where
  "decodeAttachment = as_struct (\<lambda>kvs. do {
     name \<leftarrow> field as_string ''name'' [] kvs;
     nodeID \<leftarrow> field as_string ''nodeID'' [] kvs;
     isLocal \<leftarrow> field as_bool ''isLocal'' False kvs;
     nqn \<leftarrow> field as_string ''nqn'' [] kvs;
     address \<leftarrow> field as_string ''address'' [] kvs;
     port \<leftarrow> field as_string ''port'' [] kvs;
     Some \<lparr>ra_Name = name, ra_NodeID = nodeID, ra_IsLocal = isLocal, ra_NQN = nqn,
           ra_Address = address, ra_Port = port\<rparr>
   })"

lemmas fold_eval = EqualFold_def lower_def isUpper_def char_of_def

interpretation attachments: json_codec encodeAttachment decodeAttachment
  by unfold_locales
    (simp add: encodeAttachment_def decodeAttachment_def json_simps omitempty_def fold_eval)

end
