(* ===== verification/Kube_Client.thy ===== *)
theory Kube_Client
  imports Conditions Json
begin

text \<open>
  The interface between the controllers and the Kubernetes API server. The server and the
  client library (controller-runtime) are not part of the repository, so the client is a
  parameter: a record \<open>env\<close> of the calls the code makes, one \<open>resource\<close> per kind of object,
  over an unspecified world \<^typ>\<open>'w\<close>. What the code relies on is the locale \<open>kube_resource\<close>,
  the documented behaviour of reads and writes of one kind, seen through an abstraction
  \<open>view\<close> of the world to the objects stored; \<open>kube_client\<close> collects it for all kinds.

  The laws allow every call to fail at any time, for any reason, with no effect; a
  successful create or update stores what was submitted, a status update changes the status
  only and an update never does, and a delete of an object that carries finalizers marks it.
  The last section defines an in-memory server with these laws, on which both locales are
  interpreted: the properties are instantiated on it in the witnesses.
\<close>

section \<open>The client\<close>

record ('w, 'sp, 'st) resource =
  r_Get :: "NamespacedName \<Rightarrow> ('w, error + ('sp, 'st) kobj) state"
  r_List :: "string option \<Rightarrow> (string \<times> string) list \<Rightarrow> ('w, error + ('sp, 'st) kobj list) state"
  r_Create :: "('sp, 'st) kobj \<Rightarrow> ('w, error + ('sp, 'st) kobj) state"
  r_Update :: "('sp, 'st) kobj \<Rightarrow> ('w, error + ('sp, 'st) kobj) state"
  r_StatusUpdate :: "('sp, 'st) kobj \<Rightarrow> ('w, error + ('sp, 'st) kobj) state"
  r_Delete :: "NamespacedName \<Rightarrow> ('w, error + unit) state"

text \<open>
  An HTTP exchange with a pod: the method, the URL and the JSON document sent, if any, and
  the answer's status code and body, which is \<open>None\<close> when it is not JSON.
\<close>

record http_request =
  hq_Method :: string
  hq_URL :: string
  hq_Payload :: "json option"

record http_response =
  hr_StatusCode :: int
  hr_Body :: "json option"

record 'w env =
  volumes :: "('w, VolumeSpec, VolumeStatus) resource"
  engines :: "('w, EngineSpec, EngineStatus) resource"
  replicas :: "('w, ReplicaSpec, ReplicaStatus) resource"
  snapshots :: "('w, SnapshotSpec, SnapshotStatus) resource"
  pods :: "('w, PodSpec, PodStatus) resource"
  nodes :: "('w, unit, unit) resource"
  clock_Now :: "('w, int) state"
  http_Do :: "http_request \<Rightarrow> ('w, error + http_response) state"

text \<open>What a reconciler answers to the work queue: when to call it again (0 for not by itself), and an error.\<close>

record ctrl_Result =
  RequeueAfter :: int

definition noRequeue :: ctrl_Result where
  "noRequeue = \<lparr>RequeueAfter = 0\<rparr>"

definition requeueIn :: "int \<Rightarrow> ctrl_Result" where
  "requeueIn d = \<lparr>RequeueAfter = d\<rparr>"

lemma RequeueAfter_simps [simp]: "RequeueAfter noRequeue = 0" "RequeueAfter (requeueIn d) = d"
  by (simp_all add: noRequeue_def requeueIn_def)

section \<open>What the server stores\<close>

record cluster =
  cl_volumes :: "NamespacedName \<rightharpoonup> Volume"
  cl_engines :: "NamespacedName \<rightharpoonup> Engine"
  cl_replicas :: "NamespacedName \<rightharpoonup> Replica"
  cl_snapshots :: "NamespacedName \<rightharpoonup> Snapshot"
  cl_pods :: "NamespacedName \<rightharpoonup> Pod"
  cl_nodes :: "NamespacedName \<rightharpoonup> Node"

text \<open>Whether an object is in a namespace (when one is given) and carries the given labels.\<close>

definition matches :: "string option \<Rightarrow> (string \<times> string) list \<Rightarrow> ('sp, 'st) kobj \<Rightarrow> bool" where
  "matches ns ls o' =
     ((case ns of None \<Rightarrow> True | Some n \<Rightarrow> obj_Namespace o' = n)
      \<and> list_all (\<lambda>(k, v). map_of (om_Labels (Meta o')) k = Some v) ls)"

text \<open>The object stored for a submitted one: on create, on update, and what is left of a deleted one.\<close>

definition created :: "('sp, 'st) kobj \<Rightarrow> ('sp, 'st) kobj \<Rightarrow> bool" where
  "created o' s = (Spec s = Spec o' \<and> (\<exists>u. Meta s = (Meta o')\<lparr>om_UID := u\<rparr>))"

definition updated :: "('sp, 'st) kobj \<Rightarrow> ('sp, 'st) kobj \<Rightarrow> ('sp, 'st) kobj" where
  "updated old o' =
     \<lparr>Meta = (Meta old)\<lparr>om_Labels := om_Labels (Meta o'),
                         om_OwnerReferences := om_OwnerReferences (Meta o'),
                         om_Finalizers := om_Finalizers (Meta o')\<rparr>,
      Spec = Spec o', Status = Status old\<rparr>"

definition finalized :: "('sp, 'st) kobj \<Rightarrow> bool" where
  "finalized o' = (om_DeletionTimestamp (Meta o') \<noteq> None \<and> om_Finalizers (Meta o') = [])"

definition kept :: "('sp, 'st) kobj \<Rightarrow> ('sp, 'st) kobj option" where
  "kept o' = (if finalized o' then None else Some o')"

definition deleted :: "('sp, 'st) kobj \<Rightarrow> ('sp, 'st) kobj option \<Rightarrow> bool" where
  "deleted old rest =
     ((rest = None \<and> om_Finalizers (Meta old) = [])
      \<or> (\<exists>t. rest = Some (old\<lparr>Meta := (Meta old)\<lparr>om_DeletionTimestamp := Some t\<rparr>\<rparr>)))"

lemma key_of_created [simp]: "created o' s \<Longrightarrow> key_of s = key_of o'"
  by (auto simp: created_def key_of_def)

lemma key_of_updated [simp]: "key_of (updated old o') = key_of old"
  by (simp add: updated_def key_of_def)

lemma updated_sel [simp]:
  "Spec (updated old o') = Spec o'" "Status (updated old o') = Status old"
  by (simp_all add: updated_def)

section \<open>The laws of one kind of object\<close>

locale kube_resource =
  fixes r :: "('w, 'sp, 'st) resource"
    and view :: "'w \<Rightarrow> 'c"
    and sel :: "'c \<Rightarrow> NamespacedName \<rightharpoonup> ('sp, 'st) kobj"
    and upd :: "((NamespacedName \<rightharpoonup> ('sp, 'st) kobj) \<Rightarrow> NamespacedName \<rightharpoonup> ('sp, 'st) kobj) \<Rightarrow> 'c \<Rightarrow> 'c"
    and fresh :: "'st \<Rightarrow> bool"
  assumes sel_upd: "sel (upd f cl) = f (sel cl)"
    and keyed: "sel (view w) k = Some o' \<Longrightarrow> key_of o' = k"
    and get_law: "run_state (r_Get r k) w = (x, w') \<Longrightarrow> view w' = view w \<and>
      (case x of Inl e \<Rightarrow> IsNotFound e \<longrightarrow> sel (view w) k = None
               | Inr o' \<Rightarrow> sel (view w) k = Some o')"
    and list_law: "run_state (r_List r ns ls) w = (xs, w') \<Longrightarrow> view w' = view w \<and>
      (case xs of Inl e \<Rightarrow> True
                | Inr os \<Rightarrow> distinct (map key_of os) \<and>
                    set os = {o'. sel (view w) (key_of o') = Some o' \<and> matches ns ls o'})"
    and create_law: "run_state (r_Create r o') w = (x, w') \<Longrightarrow>
      (case x of Inl e \<Rightarrow> view w' = view w \<and> (IsAlreadyExists e \<longrightarrow> sel (view w) (key_of o') \<noteq> None)
               | Inr s \<Rightarrow> sel (view w) (key_of o') = None \<and> created o' s \<and> fresh (Status s)
                    \<and> view w' = upd (\<lambda>m. m(key_of o' \<mapsto> s)) (view w))"
    and update_law: "run_state (r_Update r o') w = (x, w') \<Longrightarrow>
      (case x of Inl e \<Rightarrow> view w' = view w
               | Inr s \<Rightarrow> (\<exists>old. sel (view w) (key_of o') = Some old \<and> s = updated old o'
                    \<and> view w' = upd (\<lambda>m. m(key_of o' := kept s)) (view w)))"
    and status_law: "run_state (r_StatusUpdate r o') w = (x, w') \<Longrightarrow>
      (case x of Inl e \<Rightarrow> view w' = view w
               | Inr s \<Rightarrow> (\<exists>old. sel (view w) (key_of o') = Some old \<and> s = old\<lparr>Status := Status o'\<rparr>
                    \<and> view w' = upd (\<lambda>m. m(key_of o' \<mapsto> s)) (view w)))"
    and delete_law: "run_state (r_Delete r k) w = (y, w') \<Longrightarrow>
      (case y of Inl e \<Rightarrow> view w' = view w \<and> (IsNotFound e \<longrightarrow> sel (view w) k = None)
               | Inr u \<Rightarrow> (\<exists>old rest. sel (view w) k = Some old \<and> deleted old rest
                    \<and> view w' = upd (\<lambda>m. m(k := rest)) (view w)))"
begin

text \<open>The laws as rules for weakest preconditions: one premise per kind of answer.\<close>

lemma wp_Get:
  assumes "\<And>e w'. view w' = view w \<Longrightarrow> (IsNotFound e \<Longrightarrow> sel (view w) k = None) \<Longrightarrow> Q (Inl e) w'"
    and "\<And>o' w'. view w' = view w \<Longrightarrow> sel (view w) k = Some o' \<Longrightarrow> key_of o' = k \<Longrightarrow> Q (Inr o') w'"
  shows "wp (r_Get r k) Q w"
proof (rule wp_of_run)
  fix x w' assume "run_state (r_Get r k) w = (x, w')"
  from get_law [OF this] show "Q x w'"
    using assms keyed by (cases x) auto
qed

lemma wp_List:
  assumes "\<And>e w'. view w' = view w \<Longrightarrow> Q (Inl e) w'"
    and "\<And>os w'. view w' = view w \<Longrightarrow> distinct (map key_of os) \<Longrightarrow>
      set os = {o'. sel (view w) (key_of o') = Some o' \<and> matches ns ls o'} \<Longrightarrow> Q (Inr os) w'"
  shows "wp (r_List r ns ls) Q w"
proof (rule wp_of_run)
  fix x w' assume "run_state (r_List r ns ls) w = (x, w')"
  from list_law [OF this] show "Q x w'"
    using assms by (cases x) auto
qed

lemma wp_Create:
  assumes "\<And>e w'. view w' = view w \<Longrightarrow>
      (IsAlreadyExists e \<Longrightarrow> sel (view w) (key_of o') \<noteq> None) \<Longrightarrow> Q (Inl e) w'"
    and "\<And>s w'. sel (view w) (key_of o') = None \<Longrightarrow> created o' s \<Longrightarrow> fresh (Status s) \<Longrightarrow>
      view w' = upd (\<lambda>m. m(key_of o' \<mapsto> s)) (view w) \<Longrightarrow> Q (Inr s) w'"
  shows "wp (r_Create r o') Q w"
proof (rule wp_of_run)
  fix x w' assume "run_state (r_Create r o') w = (x, w')"
  from create_law [OF this] show "Q x w'"
    using assms by (cases x) auto
qed

lemma wp_Update:
  assumes "\<And>e w'. view w' = view w \<Longrightarrow> Q (Inl e) w'"
    and "\<And>old w'. sel (view w) (key_of o') = Some old \<Longrightarrow> key_of old = key_of o' \<Longrightarrow>
      view w' = upd (\<lambda>m. m(key_of o' := kept (updated old o'))) (view w) \<Longrightarrow> Q (Inr (updated old o')) w'"
  shows "wp (r_Update r o') Q w"
proof (rule wp_of_run)
  fix x w' assume "run_state (r_Update r o') w = (x, w')"
  from update_law [OF this] show "Q x w'"
    using assms keyed by (cases x) auto
qed

lemma wp_StatusUpdate:
  assumes "\<And>e w'. view w' = view w \<Longrightarrow> Q (Inl e) w'"
    and "\<And>old w'. sel (view w) (key_of o') = Some old \<Longrightarrow> key_of old = key_of o' \<Longrightarrow>
      view w' = upd (\<lambda>m. m(key_of o' \<mapsto> old\<lparr>Status := Status o'\<rparr>)) (view w) \<Longrightarrow>
      Q (Inr (old\<lparr>Status := Status o'\<rparr>)) w'"
  shows "wp (r_StatusUpdate r o') Q w"
proof (rule wp_of_run)
  fix x w' assume "run_state (r_StatusUpdate r o') w = (x, w')"
  from status_law [OF this] show "Q x w'"
    using assms keyed by (cases x) auto
qed

lemma wp_Delete:
  assumes "\<And>e w'. view w' = view w \<Longrightarrow> (IsNotFound e \<Longrightarrow> sel (view w) k = None) \<Longrightarrow> Q (Inl e) w'"
    and "\<And>old rest w'. sel (view w) k = Some old \<Longrightarrow> deleted old rest \<Longrightarrow>
      view w' = upd (\<lambda>m. m(k := rest)) (view w) \<Longrightarrow> Q (Inr ()) w'"
  shows "wp (r_Delete r k) Q w"
proof (rule wp_of_run)
  fix x w' assume "run_state (r_Delete r k) w = (x, w')"
  from delete_law [OF this] show "Q x w'"
    using assms by (cases x) auto
qed

text \<open>What the calls leave invariant: reads everything, writes what their effect keeps.\<close>

lemma keeps_Get [keeps_intros]: "keeps view P (r_Get r k)"
  by (rule keepsI, rule wp_Get) simp_all

lemma keeps_Get_bind:
  assumes "\<And>x. (\<And>o'. x = Inr o' \<Longrightarrow> key_of o' = k) \<Longrightarrow> keeps view P (f x)"
  shows "keeps view P (State_Monad.bind (r_Get r k) f)"
proof (rule keepsI)
  fix w assume "P (view w)"
  then show "wp (State_Monad.bind (r_Get r k) f) (\<lambda>_ w'. P (view w')) w"
    unfolding wp_bind by (intro wp_Get keepsD [OF assms]) auto
qed

lemma keeps_List [keeps_intros]: "keeps view P (r_List r ns ls)"
  by (rule keepsI, rule wp_List) simp_all

lemma keeps_Create [keeps_intros]:
  assumes "\<And>cl s. P cl \<Longrightarrow> sel cl (key_of o') = None \<Longrightarrow> created o' s \<Longrightarrow> fresh (Status s) \<Longrightarrow>
    P (upd (\<lambda>m. m(key_of o' \<mapsto> s)) cl)"
  shows "keeps view P (r_Create r o')"
  by (rule keepsI, rule wp_Create) (simp_all add: assms)

lemma keeps_Update [keeps_intros]:
  assumes "\<And>cl old. P cl \<Longrightarrow> sel cl (key_of o') = Some old \<Longrightarrow> key_of old = key_of o' \<Longrightarrow>
    P (upd (\<lambda>m. m(key_of o' := kept (updated old o'))) cl)"
  shows "keeps view P (r_Update r o')"
  by (rule keepsI, rule wp_Update) (simp_all add: assms)

lemma keeps_Update_bind:
  assumes "\<And>cl old. P cl \<Longrightarrow> sel cl (key_of o') = Some old \<Longrightarrow> key_of old = key_of o' \<Longrightarrow>
      P (upd (\<lambda>m. m(key_of o' := kept (updated old o'))) cl)"
    and "\<And>x. (\<And>s. x = Inr s \<Longrightarrow> key_of s = key_of o') \<Longrightarrow> keeps view P (f x)"
  shows "keeps view P (State_Monad.bind (r_Update r o') f)"
proof (rule keepsI)
  fix w assume "P (view w)"
  then show "wp (State_Monad.bind (r_Update r o') f) (\<lambda>_ w'. P (view w')) w"
    unfolding wp_bind by (intro wp_Update keepsD [OF assms(2)]) (auto intro: assms(1))
qed

lemma keeps_StatusUpdate [keeps_intros]:
  assumes "\<And>cl old. P cl \<Longrightarrow> sel cl (key_of o') = Some old \<Longrightarrow> key_of old = key_of o' \<Longrightarrow>
    P (upd (\<lambda>m. m(key_of o' \<mapsto> old\<lparr>Status := Status o'\<rparr>)) cl)"
  shows "keeps view P (r_StatusUpdate r o')"
  by (rule keepsI, rule wp_StatusUpdate) (simp_all add: assms)

lemma keeps_Delete [keeps_intros]:
  assumes "\<And>cl old rest. P cl \<Longrightarrow> sel cl k = Some old \<Longrightarrow> deleted old rest \<Longrightarrow>
    P (upd (\<lambda>m. m(k := rest)) cl)"
  shows "keeps view P (r_Delete r k)"
  by (rule keepsI, rule wp_Delete) (simp_all add: assms)

end

section \<open>The client of a whole cluster\<close>

locale kube_client =
  vol: kube_resource "volumes c" view cl_volumes cl_volumes_update "\<lambda>st. st = zero_VolumeStatus" +
  eng: kube_resource "engines c" view cl_engines cl_engines_update "\<lambda>st. st = zero_EngineStatus" +
  rep: kube_resource "replicas c" view cl_replicas cl_replicas_update "\<lambda>st. st = zero_ReplicaStatus" +
  snap: kube_resource "snapshots c" view cl_snapshots cl_snapshots_update "\<lambda>st. st = zero_SnapshotStatus" +
  pod: kube_resource "pods c" view cl_pods cl_pods_update "\<lambda>st. pst_PodIP st = []" +
  node: kube_resource "nodes c" view cl_nodes cl_nodes_update "\<lambda>st. True"
  for c :: "'w env" and view :: "'w \<Rightarrow> cluster" +
  assumes clock_frame: "run_state (clock_Now c) w = (t, w') \<Longrightarrow> view w' = view w"
    and http_frame: "run_state (http_Do c q) w = (x, w') \<Longrightarrow> view w' = view w"
begin

lemma wp_Now:
  assumes "\<And>t w'. view w' = view w \<Longrightarrow> Q t w'"
  shows "wp (clock_Now c) Q w"
  using assms clock_frame by (auto intro!: wp_of_run)

lemma wp_Do:
  assumes "\<And>x w'. view w' = view w \<Longrightarrow> Q x w'"
  shows "wp (http_Do c q) Q w"
  using assms http_frame by (auto intro!: wp_of_run)

lemma keeps_Now [keeps_intros]: "keeps view P (clock_Now c)"
  by (rule keepsI, rule wp_Now) simp

lemma keeps_Do [keeps_intros]: "keeps view P (http_Do c q)"
  by (rule keepsI, rule wp_Do) simp

end

section \<open>An in-memory server\<close>

record mem =
  m_volumes :: "Volume list"
  m_engines :: "Engine list"
  m_replicas :: "Replica list"
  m_snapshots :: "Snapshot list"
  m_pods :: "Pod list"
  m_nodes :: "Node list"
  m_clock :: int
  m_uid :: nat

abbreviation at_key :: "('sp, 'st) kobj list \<Rightarrow> NamespacedName \<rightharpoonup> ('sp, 'st) kobj" where
  "at_key xs k \<equiv> find_key key_of k xs"

definition put_kept :: "('sp, 'st) kobj \<Rightarrow> ('sp, 'st) kobj list \<Rightarrow> ('sp, 'st) kobj list" where
  "put_kept s xs = (if finalized s then filter (\<lambda>x. key_of x \<noteq> key_of s) xs else put_key key_of s xs)"

definition stored_list :: "string option \<Rightarrow> (string \<times> string) list \<Rightarrow> ('sp, 'st) kobj list \<Rightarrow> ('sp, 'st) kobj list" where
  "stored_list ns ls xs =
     sort_key key_of (remdups (filter (\<lambda>o'. at_key xs (key_of o') = Some o' \<and> matches ns ls o') xs))"

definition mem_resource ::
  "(mem \<Rightarrow> ('sp, 'st) kobj list)
   \<Rightarrow> ((('sp, 'st) kobj list \<Rightarrow> ('sp, 'st) kobj list) \<Rightarrow> mem \<Rightarrow> mem)
   \<Rightarrow> 'st \<Rightarrow> (mem, 'sp, 'st) resource" where
  "mem_resource get put zero =
     \<lparr>r_Get = (\<lambda>k. State (\<lambda>w. (case at_key (get w) k of None \<Rightarrow> Inl NotFound | Some o' \<Rightarrow> Inr o', w))),
      r_List = (\<lambda>ns ls. State (\<lambda>w.
        (Inr (stored_list ns ls (get w)), w))),
      r_Create = (\<lambda>o'. State (\<lambda>w.
        if at_key (get w) (key_of o') \<noteq> None then (Inl AlreadyExists, w)
        else let s = \<lparr>Meta = (Meta o')\<lparr>om_UID := show_nat (m_uid w)\<rparr>, Spec = Spec o', Status = zero\<rparr>
             in (Inr s, put (\<lambda>xs. xs @ [s]) (w\<lparr>m_uid := Suc (m_uid w)\<rparr>)))),
      r_Update = (\<lambda>o'. State (\<lambda>w.
        case at_key (get w) (key_of o') of
          None \<Rightarrow> (Inl NotFound, w)
        | Some old \<Rightarrow> let s = updated old o' in (Inr s, put (put_kept s) w))),
      r_StatusUpdate = (\<lambda>o'. State (\<lambda>w.
        case at_key (get w) (key_of o') of
          None \<Rightarrow> (Inl NotFound, w)
        | Some old \<Rightarrow> let s = old\<lparr>Status := Status o'\<rparr> in (Inr s, put (put_key key_of s) w))),
      r_Delete = (\<lambda>k. State (\<lambda>w.
        case at_key (get w) k of
          None \<Rightarrow> (Inl NotFound, w)
        | Some old \<Rightarrow>
            if om_Finalizers (Meta old) = []
            then (Inr (), put (filter (\<lambda>x. key_of x \<noteq> k)) w)
            else (Inr (), put (put_key key_of (old\<lparr>Meta := (Meta old)\<lparr>om_DeletionTimestamp := Some (m_clock w)\<rparr>\<rparr>)) w)))\<rparr>"

definition mem_env :: "(http_request \<Rightarrow> error + http_response) \<Rightarrow> mem env" where
  "mem_env http =
     \<lparr>volumes = mem_resource m_volumes m_volumes_update zero_VolumeStatus,
      engines = mem_resource m_engines m_engines_update zero_EngineStatus,
      replicas = mem_resource m_replicas m_replicas_update zero_ReplicaStatus,
      snapshots = mem_resource m_snapshots m_snapshots_update zero_SnapshotStatus,
      pods = mem_resource m_pods m_pods_update zero_PodStatus,
      nodes = mem_resource m_nodes m_nodes_update (),
      clock_Now = State (\<lambda>w. (m_clock w, w)),
      http_Do = (\<lambda>q. State (\<lambda>w. (http q, w)))\<rparr>"

definition mem_view :: "mem \<Rightarrow> cluster" where
  "mem_view w =
     \<lparr>cl_volumes = at_key (m_volumes w), cl_engines = at_key (m_engines w),
      cl_replicas = at_key (m_replicas w), cl_snapshots = at_key (m_snapshots w),
      cl_pods = at_key (m_pods w), cl_nodes = at_key (m_nodes w)\<rparr>"

lemma find_key_append:
  "find_key f k (xs @ ys) = (case find_key f k xs of None \<Rightarrow> find_key f k ys | Some x \<Rightarrow> Some x)"
  by (induction xs) auto

lemma find_key_filter:
  "find_key f k (filter (\<lambda>x. f x \<noteq> j) xs) = (if k = j then None else find_key f k xs)"
  by (induction xs) auto

lemma at_key_put_kept: "at_key (put_kept s xs) = (at_key xs)(key_of s := kept s)"
  by (auto simp: put_kept_def kept_def find_key_filter find_put_key fun_eq_iff)

lemma inj_on_stored: "inj_on key_of {o'. at_key xs (key_of o') = Some o' \<and> P o'}"
proof (rule inj_onI)
  fix x y assume xy: "x \<in> {o'. at_key xs (key_of o') = Some o' \<and> P o'}"
    "y \<in> {o'. at_key xs (key_of o') = Some o' \<and> P o'}" and k: "key_of x = key_of y"
  then have "Some x = Some y" by (metis (mono_tags, lifting) mem_Collect_eq)
  then show "x = y" by simp
qed

lemma set_stored_list:
  "set (stored_list ns ls xs) = {o'. at_key xs (key_of o') = Some o' \<and> matches ns ls o'}"
  by (auto simp: stored_list_def dest: find_key_Some)

lemma distinct_stored_list: "distinct (map key_of (stored_list ns ls xs))"
proof -
  have "distinct (stored_list ns ls xs)" by (simp add: stored_list_def)
  moreover have "inj_on key_of (set (stored_list ns ls xs))"
    unfolding set_stored_list by (rule inj_on_stored)
  ultimately show ?thesis by (simp add: distinct_map)
qed

text \<open>
  Each kind of the in-memory server obeys the laws, as soon as its list is a field of the
  server's state and of the view that the other kinds leave alone.
\<close>

locale mem_kind =
  fixes get :: "mem \<Rightarrow> ('sp, 'st) kobj list"
    and put :: "(('sp, 'st) kobj list \<Rightarrow> ('sp, 'st) kobj list) \<Rightarrow> mem \<Rightarrow> mem"
    and zero :: 'st
    and sel :: "cluster \<Rightarrow> NamespacedName \<rightharpoonup> ('sp, 'st) kobj"
    and upd :: "((NamespacedName \<rightharpoonup> ('sp, 'st) kobj) \<Rightarrow> NamespacedName \<rightharpoonup> ('sp, 'st) kobj) \<Rightarrow> cluster \<Rightarrow> cluster"
    and fresh :: "'st \<Rightarrow> bool"
  assumes view_sel: "sel (mem_view w) = at_key (get w)"
    and field_upd: "sel (upd f cl) = f (sel cl)"
    and view_put: "at_key (h (get w)) = g (at_key (get w)) \<Longrightarrow> mem_view (put h w) = upd g (mem_view w)"
    and view_uid: "mem_view (w\<lparr>m_uid := n\<rparr>) = mem_view w"
    and get_uid: "get (w\<lparr>m_uid := n\<rparr>) = get w"
    and fresh_zero: "fresh zero"
begin

abbreviation "res \<equiv> mem_resource get put zero"

lemma mem_create:
  assumes "run_state (r_Create res o') w = (x, w')"
  shows "case x of Inl e \<Rightarrow> mem_view w' = mem_view w \<and> (IsAlreadyExists e \<longrightarrow> sel (mem_view w) (key_of o') \<noteq> None)
       | Inr s \<Rightarrow> sel (mem_view w) (key_of o') = None \<and> created o' s \<and> fresh (Status s)
           \<and> mem_view w' = upd (\<lambda>m. m(key_of o' \<mapsto> s)) (mem_view w)"
proof (cases "at_key (get w) (key_of o')")
  case None
  define s where "s = \<lparr>Meta = (Meta o')\<lparr>om_UID := show_nat (m_uid w)\<rparr>, Spec = Spec o', Status = zero\<rparr>"
  let ?w = "w\<lparr>m_uid := Suc (m_uid w)\<rparr>"
  have "at_key (get ?w @ [s]) = (at_key (get ?w))(key_of o' \<mapsto> s)"
    using None by (auto simp: find_key_append fun_eq_iff get_uid s_def key_of_def split: option.split)
  then have "mem_view (put (\<lambda>xs. xs @ [s]) ?w) = upd (\<lambda>m. m(key_of o' \<mapsto> s)) (mem_view w)"
    using view_put [of "\<lambda>xs. xs @ [s]" ?w "\<lambda>m. m(key_of o' \<mapsto> s)"] by (simp add: view_uid)
  moreover have "x = Inr s" "w' = put (\<lambda>xs. xs @ [s]) ?w"
    using assms None by (auto simp: mem_resource_def s_def Let_def)
  moreover have "created o' s" by (auto simp: s_def created_def)
  ultimately show ?thesis using None by (simp add: view_sel s_def fresh_zero)
next
  case (Some old)
  then show ?thesis using assms by (auto simp: mem_resource_def view_sel)
qed

lemma mem_update:
  assumes "run_state (r_Update res o') w = (x, w')"
  shows "case x of Inl e \<Rightarrow> mem_view w' = mem_view w
       | Inr s \<Rightarrow> (\<exists>old. sel (mem_view w) (key_of o') = Some old \<and> s = updated old o'
           \<and> mem_view w' = upd (\<lambda>m. m(key_of o' := kept s)) (mem_view w))"
proof (cases "at_key (get w) (key_of o')")
  case None
  then show ?thesis using assms by (auto simp: mem_resource_def)
next
  case (Some old)
  then have "key_of (updated old o') = key_of o'" by (auto dest: find_key_Some)
  then have "mem_view (put (put_kept (updated old o')) w)
      = upd (\<lambda>m. m(key_of o' := kept (updated old o'))) (mem_view w)"
    by (intro view_put) (simp add: at_key_put_kept)
  then show ?thesis using assms Some by (auto simp: mem_resource_def view_sel Let_def)
qed

lemma mem_status:
  assumes "run_state (r_StatusUpdate res o') w = (x, w')"
  shows "case x of Inl e \<Rightarrow> mem_view w' = mem_view w
       | Inr s \<Rightarrow> (\<exists>old. sel (mem_view w) (key_of o') = Some old \<and> s = old\<lparr>Status := Status o'\<rparr>
           \<and> mem_view w' = upd (\<lambda>m. m(key_of o' \<mapsto> s)) (mem_view w))"
proof (cases "at_key (get w) (key_of o')")
  case None
  then show ?thesis using assms by (auto simp: mem_resource_def)
next
  case (Some old)
  then have "key_of (old\<lparr>Status := Status o'\<rparr>) = key_of o'"
    using find_key_Some [OF Some] by (simp add: key_of_def)
  then have "mem_view (put (put_key key_of (old\<lparr>Status := Status o'\<rparr>)) w)
      = upd (\<lambda>m. m(key_of o' \<mapsto> old\<lparr>Status := Status o'\<rparr>)) (mem_view w)"
    by (intro view_put) (auto simp: find_put_key fun_eq_iff)
  then show ?thesis using assms Some by (auto simp: mem_resource_def view_sel Let_def)
qed

lemma mem_delete:
  assumes "run_state (r_Delete res k) w = (x, w')"
  shows "case x of Inl e \<Rightarrow> mem_view w' = mem_view w \<and> (IsNotFound e \<longrightarrow> sel (mem_view w) k = None)
       | Inr u \<Rightarrow> (\<exists>old rest. sel (mem_view w) k = Some old \<and> deleted old rest
           \<and> mem_view w' = upd (\<lambda>m. m(k := rest)) (mem_view w))"
proof (cases "at_key (get w) k")
  case None
  then show ?thesis using assms by (auto simp: mem_resource_def view_sel)
next
  case (Some old)
  let ?m = "old\<lparr>Meta := (Meta old)\<lparr>om_DeletionTimestamp := Some (m_clock w)\<rparr>\<rparr>"
  have "key_of ?m = k" using find_key_Some [OF Some] by (simp add: key_of_def)
  then have mark: "mem_view (put (put_key key_of ?m) w) = upd (\<lambda>m. m(k := Some ?m)) (mem_view w)"
    by (intro view_put) (auto simp: find_put_key fun_eq_iff)
  have drop: "mem_view (put (filter (\<lambda>x. key_of x \<noteq> k)) w) = upd (\<lambda>m. m(k := None)) (mem_view w)"
    by (intro view_put) (auto simp: find_key_filter fun_eq_iff)
  have "deleted old (Some ?m)" by (auto simp: deleted_def)
  moreover have "om_Finalizers (Meta old) = [] \<Longrightarrow> deleted old None" by (simp add: deleted_def)
  ultimately show ?thesis
    using assms Some mark drop by (auto simp: mem_resource_def view_sel split: if_splits)
qed

sublocale laws: kube_resource res mem_view sel upd fresh
proof
  show "sel (mem_view w) k = Some o' \<Longrightarrow> key_of o' = k" for w k o'
    by (auto simp: view_sel dest: find_key_Some)
  show "run_state (r_Get res k) w = (x, w') \<Longrightarrow> mem_view w' = mem_view w \<and>
      (case x of Inl e \<Rightarrow> IsNotFound e \<longrightarrow> sel (mem_view w) k = None
               | Inr o' \<Rightarrow> sel (mem_view w) k = Some o')" for k w x w'
    by (auto simp: mem_resource_def view_sel split: option.splits)
  show "run_state (r_List res ns ls) w = (xs, w') \<Longrightarrow> mem_view w' = mem_view w \<and>
      (case xs of Inl e \<Rightarrow> True | Inr os \<Rightarrow> distinct (map key_of os) \<and>
         set os = {o'. sel (mem_view w) (key_of o') = Some o' \<and> matches ns ls o'})" for ns ls w xs w'
    using distinct_stored_list [of ns ls "get w"] set_stored_list [of ns ls "get w"]
    by (auto simp: mem_resource_def view_sel)
qed (rule field_upd, erule mem_create, erule mem_update, erule mem_status, erule mem_delete)

end

interpretation mem_volumes: mem_kind m_volumes m_volumes_update zero_VolumeStatus
    cl_volumes cl_volumes_update "\<lambda>st. st = zero_VolumeStatus"
  by unfold_locales (simp_all add: mem_view_def)

interpretation mem_engines: mem_kind m_engines m_engines_update zero_EngineStatus
    cl_engines cl_engines_update "\<lambda>st. st = zero_EngineStatus"
  by unfold_locales (simp_all add: mem_view_def)

interpretation mem_replicas: mem_kind m_replicas m_replicas_update zero_ReplicaStatus
    cl_replicas cl_replicas_update "\<lambda>st. st = zero_ReplicaStatus"
  by unfold_locales (simp_all add: mem_view_def)

interpretation mem_snapshots: mem_kind m_snapshots m_snapshots_update zero_SnapshotStatus
    cl_snapshots cl_snapshots_update "\<lambda>st. st = zero_SnapshotStatus"
  by unfold_locales (simp_all add: mem_view_def)

interpretation mem_pods: mem_kind m_pods m_pods_update zero_PodStatus
    cl_pods cl_pods_update "\<lambda>st. pst_PodIP st = []"
  by unfold_locales (simp_all add: mem_view_def zero_PodStatus_def)

interpretation mem_nodes: mem_kind m_nodes m_nodes_update "()"
    cl_nodes cl_nodes_update "\<lambda>st. True"
  by unfold_locales (simp_all add: mem_view_def)

lemma kube_client_mem: "kube_client (mem_env http) mem_view"
  by (intro kube_client.intro kube_client_axioms.intro)
    (auto simp: mem_env_def mem_volumes.laws.kube_resource_axioms mem_engines.laws.kube_resource_axioms
      mem_replicas.laws.kube_resource_axioms mem_snapshots.laws.kube_resource_axioms
      mem_pods.laws.kube_resource_axioms mem_nodes.laws.kube_resource_axioms)

interpretation mem_client: kube_client "mem_env http" mem_view for http
  by (rule kube_client_mem)

end
