(* ===== verification/Volume_Nodes.thy ===== *)
theory Volume_Nodes
  imports Kube_Client
begin

text \<open>
  Choosing nodes and replica counts, \<^verbatim>\<open>src/internal/controller/volume_nodes.go\<close>. Each
  operation lists the cluster's nodes and decides on the list; the decision is a function of
  its own, so that its correctness is stated for every list a server may return. A set of
  used nodes is the list of their names.
\<close>

section \<open>The operations\<close>

definition controlPlaneLabel :: string where
  "controlPlaneLabel = ''node-role.kubernetes.io/control-plane''"

definition isCP :: "Node \<Rightarrow> bool" where
  "isCP node = (map_of (om_Labels (Meta node)) controlPlaneLabel \<noteq> None)"

definition unusedNode :: "string list \<Rightarrow> Node list \<Rightarrow> string" where
  "unusedNode used items =
     (case find (\<lambda>node. \<not> isCP node \<and> obj_Name node \<notin> set used) items of
        Some node \<Rightarrow> obj_Name node
      | None \<Rightarrow> (case find (\<lambda>node. \<not> isCP node) items of
                    Some node \<Rightarrow> obj_Name node
                  | None \<Rightarrow> []))"

definition pickUnusedNode :: "'w env \<Rightarrow> string list \<Rightarrow> ('w, string) state" where
  "pickUnusedNode c used = do {
     r \<leftarrow> r_List (nodes c) None [];
     case r of
       Inl _ \<Rightarrow> ret []
     | Inr items \<Rightarrow> ret (unusedNode used items)
   }"

definition anyWorkerNode :: "Node list \<Rightarrow> error + string" where
  "anyWorkerNode items =
     (case find (\<lambda>node. \<not> isCP node) items of
        Some node \<Rightarrow> Inr (obj_Name node)
      | None \<Rightarrow> (case items of node # _ \<Rightarrow> Inr (obj_Name node) | [] \<Rightarrow> Inl NoWorkerNodes))"

definition pickAnyWorkerNode :: "'w env \<Rightarrow> ('w, error + string) state" where
  "pickAnyWorkerNode c = do {
     r \<leftarrow> r_List (nodes c) None [];
     case r of
       Inl err \<Rightarrow> ret (Inl err)
     | Inr items \<Rightarrow> ret (anyWorkerNode items)
   }"

definition autoReplicaCount :: "Node list \<Rightarrow> int" where
  "autoReplicaCount items =
     (let count = int (length (filter (\<lambda>node. \<not> isCP node) items));
          count = (if count = 0 \<and> length items > 0 then int (length items) else count)
      in if count < 1 then 1 else count)"

definition replicasForVolume :: "'w env \<Rightarrow> Volume \<Rightarrow> ('w, error + int) state" where
  "replicasForVolume c volume =
     (case ParseReplicaCount (vs_ReplicaCount (Spec volume)) of
        Inl err \<Rightarrow> ret (Inl err)
      | Inr (count, auto) \<Rightarrow>
          if \<not> auto then ret (Inr count)
          else do {
            r \<leftarrow> r_List (nodes c) None [];
            case r of
              Inl err \<Rightarrow> ret (Inl err)
            | Inr items \<Rightarrow> ret (Inr (autoReplicaCount items))
          })"

definition workerNodes :: "int \<Rightarrow> Node list \<Rightarrow> string list" where
  "workerNodes n items =
     (let workers = map (\<lambda>node. obj_Name node) (filter (\<lambda>node. \<not> isCP node) items);
          workers = (if workers = [] then map (\<lambda>node. obj_Name node) items else workers);
          workers = sort_Strings workers;
          n = (if n > int (length workers) then int (length workers) else n)
      in take (nat n) workers)"

definition pickWorkerNodes :: "'w env \<Rightarrow> int \<Rightarrow> ('w, error + string list) state" where
  "pickWorkerNodes c n = do {
     r \<leftarrow> r_List (nodes c) None [];
     case r of
       Inl err \<Rightarrow> ret (Inl err)
     | Inr items \<Rightarrow> ret (Inr (workerNodes n items))
   }"

section \<open>The decisions\<close>

text \<open>The workers of a list of nodes, or all of its nodes when it has no worker.\<close>

definition eligible :: "Node list \<Rightarrow> Node list" where
  "eligible items = (if list_all isCP items then items else filter (\<lambda>node. \<not> isCP node) items)"

lemma filter_eq_Nil_iff: "filter (\<lambda>x. \<not> P x) xs = [] \<longleftrightarrow> list_all P xs"
  by (induction xs) auto

lemma workerNodes_eligible:
  "workerNodes n items = take (nat n) (sort_Strings (map (\<lambda>node. obj_Name node) (eligible items)))"
proof -
  have "(let workers = map (\<lambda>node. obj_Name node) (filter (\<lambda>node. \<not> isCP node) items)
         in if workers = [] then map (\<lambda>node. obj_Name node) items else workers)
      = map (\<lambda>node. obj_Name node) (eligible items)"
    by (simp add: eligible_def filter_eq_Nil_iff)
  moreover have "take (nat (if n > int (length xs) then int (length xs) else n)) xs = take (nat n) xs"
    for xs :: "string list" by simp
  ultimately show ?thesis by (simp add: workerNodes_def Let_def)
qed

lemma autoReplicaCount_eligible:
  "autoReplicaCount items = (if items = [] then 1 else int (length (eligible items)))"
proof -
  have "length (filter (\<lambda>node. \<not> isCP node) items) = 0 \<longleftrightarrow> list_all isCP items"
    by (simp add: filter_eq_Nil_iff)
  then show ?thesis
    by (auto simp: autoReplicaCount_def eligible_def Let_def)
qed

lemma anyWorkerNode_eligible: "anyWorkerNode items = Inr name \<Longrightarrow> \<exists>n \<in> set (eligible items). obj_Name n = name"
  by (auto simp: anyWorkerNode_def eligible_def list_all_iff find_None_iff split: option.splits list.splits dest: find_SomeD)

lemma autoReplicaCount_pos: "1 \<le> autoReplicaCount items"
  by (simp add: autoReplicaCount_def Let_def)

text \<open>The chosen node is an unused worker whenever there is one, and a worker whenever there is one.\<close>

lemma unusedNode_worker:
  assumes "node \<in> set items" and "\<not> isCP node"
  shows "\<exists>n \<in> set items. \<not> isCP n \<and> obj_Name n = unusedNode used items"
proof (cases "find (\<lambda>node. \<not> isCP node \<and> obj_Name node \<notin> set used) items")
  case (Some n)
  with find_SomeD [OF this] show ?thesis by (auto simp: unusedNode_def)
next
  case None
  obtain n where n: "find (\<lambda>node. \<not> isCP node) items = Some n"
    using assms by (cases "find (\<lambda>node. \<not> isCP node) items") (auto simp: find_None_iff)
  then have "n \<in> set items \<and> \<not> isCP n" by (auto simp: find_Some_iff)
  with None n show ?thesis by (auto simp: unusedNode_def)
qed

lemma unusedNode_unused:
  assumes "node \<in> set items" and "\<not> isCP node" and "obj_Name node \<notin> set used"
  shows "unusedNode used items \<notin> set used"
proof -
  obtain n where "find (\<lambda>node. \<not> isCP node \<and> obj_Name node \<notin> set used) items = Some n"
    using assms
    by (cases "find (\<lambda>node. \<not> isCP node \<and> obj_Name node \<notin> set used) items") (auto simp: find_None_iff)
  with find_SomeD [OF this] show ?thesis by (auto simp: unusedNode_def)
qed

lemma unusedNode_none: "list_all isCP items \<Longrightarrow> unusedNode used items = []"
  by (auto simp: unusedNode_def list_all_iff find_Some_iff split: option.split)

section \<open>The operations on a server\<close>

text \<open>The number of replicas a volume asks for, in a cluster.\<close>

definition desired_of :: "cluster \<Rightarrow> Volume \<Rightarrow> int \<Rightarrow> bool" where
  "desired_of cl volume n \<longleftrightarrow>
     (case ParseReplicaCount (vs_ReplicaCount (Spec volume)) of
        Inl _ \<Rightarrow> False
      | Inr (count, auto) \<Rightarrow>
          if \<not> auto then n = count
          else \<exists>items. distinct (map key_of items)
                 \<and> set items = {o'. cl_nodes cl (key_of o') = Some o'} \<and> n = autoReplicaCount items)"

context kube_client
begin

lemma wp_replicasForVolume:
  assumes "\<And>e w'. view w' = view w \<Longrightarrow> Q (Inl e) w'"
    and "\<And>n w'. view w' = view w \<Longrightarrow> 1 \<le> n \<Longrightarrow> desired_of (view w) volume n \<Longrightarrow> Q (Inr n) w'"
  shows "wp (replicasForVolume c volume) Q w"
proof (cases "ParseReplicaCount (vs_ReplicaCount (Spec volume))")
  case (Inl e)
  then show ?thesis using assms by (simp add: replicasForVolume_def)
next
  case (Inr ca)
  obtain n a where ca: "ca = (n, a)" by force
  have "\<not> a \<Longrightarrow> 1 \<le> n" using ParseReplicaCount_cases [of _ n a] Inr ca by fastforce
  then show ?thesis
    using Inr ca assms autoReplicaCount_pos
    by (fastforce simp: replicasForVolume_def desired_of_def matches_def intro!: node.wp_List)
qed

lemma wp_pickUnusedNode:
  assumes "\<And>n w'. view w' = view w \<Longrightarrow> Q n w'"
  shows "wp (pickUnusedNode c used) Q w"
  using assms by (auto simp: pickUnusedNode_def intro!: node.wp_List)

lemma wp_pickAnyWorkerNode:
  assumes "\<And>e w'. view w' = view w \<Longrightarrow> Q (Inl e) w'"
    and "\<And>items n w'. view w' = view w \<Longrightarrow> set items = {o'. cl_nodes (view w) (key_of o') = Some o'} \<Longrightarrow>
      n \<in> set (eligible items) \<Longrightarrow> Q (Inr (obj_Name n)) w'"
  shows "wp (pickAnyWorkerNode c) Q w"
proof -
  have "Q (anyWorkerNode items) w'" if "view w' = view w" "set items = {o'. cl_nodes (view w) (key_of o') = Some o'}"
    for items w'
    using anyWorkerNode_eligible [of items] assms that by (cases "anyWorkerNode items") auto
  then show ?thesis
    using assms(1) by (auto simp: pickAnyWorkerNode_def matches_def intro!: node.wp_List)
qed

lemma wp_pickWorkerNodes:
  assumes "\<And>e w'. view w' = view w \<Longrightarrow> Q (Inl e) w'"
    and "\<And>items w'. view w' = view w \<Longrightarrow> distinct (map key_of items) \<Longrightarrow>
      set items = {o'. cl_nodes (view w) (key_of o') = Some o'} \<Longrightarrow> Q (Inr (workerNodes n items)) w'"
  shows "wp (pickWorkerNodes c n) Q w"
  using assms by (auto simp: pickWorkerNodes_def matches_def intro!: node.wp_List)

end

end
