(* ===== verification/Names.thy ===== *)
theory Names
  imports Go_Strings
begin

text \<open>
  The naming scheme of \<^verbatim>\<open>src/internal/names/names.go\<close>: the names of the objects, files and
  NVMe subsystems the system derives from a volume's name. The NQN authority comes from the
  environment variable \<^verbatim>\<open>NQN_AUTHORITY\<close>, which is an argument (the empty string when unset).
  The locale \<open>indexed_names\<close> states what the rest of the code relies on, names that are
  distinct for distinct indices, and is interpreted on the replica names and replica NQNs.
\<close>

section \<open>The functions\<close>

definition defaultNQNAuthority :: string where
  "defaultNQNAuthority = ''nqn.2026-05.krea.to''"

definition authority :: "string \<Rightarrow> string" where
  "authority nqnEnv =
     (let value = TrimSpace nqnEnv in if value = [] then defaultNQNAuthority else value)"

definition EngineName :: "string \<Rightarrow> string" where
  "EngineName volumeName = volumeName @ ''-engine''"

definition ReplicaName :: "string \<Rightarrow> nat \<Rightarrow> string" where
  "ReplicaName volumeName i = volumeName @ ''-replica-'' @ show_nat i"

definition DataPath :: "string \<Rightarrow> string" where
  "DataPath volumeName = ''/var/lib/kdfs/'' @ volumeName @ ''/vol.img''"

definition SnapshotFilePath :: "string \<Rightarrow> string \<Rightarrow> string" where
  "SnapshotFilePath volumeName snapshotID =
     ''/var/lib/kdfs/'' @ volumeName @ ''/snapshot-'' @ snapshotID @ ''.img''"

definition VolumeNQN :: "string \<Rightarrow> string \<Rightarrow> string" where
  "VolumeNQN nqnEnv volumeName = authority nqnEnv @ '':volume-'' @ volumeName"

definition ReplicaNQN :: "string \<Rightarrow> string \<Rightarrow> int \<Rightarrow> string" where
  "ReplicaNQN nqnEnv volumeName i = authority nqnEnv @ '':replica-'' @ volumeName @ ''-'' @ Itoa i"

definition VolumeROXNQN :: "string \<Rightarrow> string \<Rightarrow> string" where
  "VolumeROXNQN nqnEnv volumeName = authority nqnEnv @ '':rox-'' @ volumeName"

definition HostNQN :: "string \<Rightarrow> string \<Rightarrow> string" where
  "HostNQN nqnEnv nodeName = authority nqnEnv @ '':krea.to:host-'' @ nodeName"

text \<open>
  The pattern \<^verbatim>\<open>^<authority>:krea\.to:host-[a-z0-9.-]+$\<close>, the authority being quoted.
\<close>

definition host_char :: "char \<Rightarrow> bool" where
  "host_char c = (isLower c \<or> isDigit c \<or> c = CHR ''.'' \<or> c = CHR ''-'')"

definition IsHostNQN :: "string \<Rightarrow> string \<Rightarrow> bool" where
  "IsHostNQN nqnEnv value =
     (let p = authority nqnEnv @ '':krea.to:host-'' in
      HasPrefix value p \<and> drop (length p) value \<noteq> [] \<and> list_all host_char (drop (length p) value))"

lemmas names_defs [names_simps] =
  EngineName_def ReplicaName_def DataPath_def VolumeNQN_def ReplicaNQN_def HostNQN_def

section \<open>The interface: indexed names\<close>

locale indexed_names =
  fixes nm :: "nat \<Rightarrow> string"
  assumes nm_inject: "nm i = nm j \<Longrightarrow> i = j"
begin

lemma nm_eq [simp]: "nm i = nm j \<longleftrightarrow> i = j"
  using nm_inject by blast

lemma inj_nm: "inj nm"
  by (rule injI) (rule nm_inject)

lemma distinct_map_nm: "distinct (map nm is) \<longleftrightarrow> distinct is"
  by (auto simp: distinct_map intro: inj_on_subset [OF inj_nm])

lemma nm_in_image: "nm i \<in> nm ` A \<longleftrightarrow> i \<in> A"
  by auto

text \<open>A finite set of names leaves an index free: the search for one ends.\<close>

lemma free_index: "finite A \<Longrightarrow> \<exists>i. nm i \<notin> A"
  by (metis ex_new_if_finite finite_imageD inj_nm image_subsetI finite_subset infinite_UNIV_nat)

end

interpretation replica_names: indexed_names "ReplicaName v" for v
  by unfold_locales (simp add: ReplicaName_def)

interpretation replica_nqns: indexed_names "\<lambda>i. ReplicaNQN e v (int i)" for e v
  by unfold_locales (simp add: ReplicaNQN_def)

section \<open>Separation of the derived names\<close>

lemma last_show_nat: "isDigit (last (show_nat n))"
  using show_nat_digits [of n] by (simp add: list_all_iff)

text \<open>An engine never shares its name with a replica, of the same volume or another.\<close>

lemma EngineName_ReplicaName: "EngineName v \<noteq> ReplicaName u i"
proof
  assume "EngineName v = ReplicaName u i"
  then have "last (EngineName v) = last (ReplicaName u i)" by simp
  moreover have "last (ReplicaName u i) = last (show_nat i)" by (simp add: ReplicaName_def)
  ultimately have "isDigit (CHR ''e'')" using last_show_nat [of i] by (simp add: EngineName_def)
  then show False by (simp add: isDigit_def)
qed

lemma EngineName_inject [simp]: "EngineName u = EngineName v \<longleftrightarrow> u = v"
  by (simp add: EngineName_def)

text \<open>
  A replica name determines its volume and index: the index is the run of digits at the
  end, so no two volumes ever claim the same replica name.
\<close>

lemma digits_suffix_unique:
  assumes "a @ show_nat i = b @ show_nat j" and "\<not> isDigit (last a)" and "\<not> isDigit (last b)"
    and "a \<noteq> []" and "b \<noteq> []"
  shows "a = b \<and> show_nat i = show_nat j"
proof -
  have tw: "takeWhile isDigit (rev (x @ show_nat k)) = rev (show_nat k)"
    if "\<not> isDigit (last x)" "x \<noteq> []" for x k
  proof -
    have "takeWhile isDigit (rev x) = []" using that by (cases x rule: rev_cases) auto
    then show ?thesis
      using show_nat_digits [of k] by (simp add: takeWhile_append list_all_iff)
  qed
  have "rev (show_nat i) = rev (show_nat j)"
    using tw [OF assms(2,4), of i] tw [OF assms(3,5), of j] assms(1) by metis
  then show ?thesis using assms(1) by simp
qed

lemma ReplicaName_inject: "ReplicaName u i = ReplicaName v j \<longleftrightarrow> u = v \<and> i = j"
proof
  assume eq: "ReplicaName u i = ReplicaName v j"
  have dash: "\<not> isDigit (CHR ''-'')" by (simp add: isDigit_def)
  have "u @ ''-replica-'' = v @ ''-replica-'' \<and> show_nat i = show_nat j"
    using eq dash
    by (intro digits_suffix_unique) (simp_all add: ReplicaName_def)
  then show "u = v \<and> i = j" by simp
qed simp

lemma DataPath_inject [simp]: "DataPath u = DataPath v \<longleftrightarrow> u = v"
  by (simp add: DataPath_def)

section \<open>Host NQNs\<close>

text \<open>The pattern accepts exactly the NQNs the code derives from well-formed node names.\<close>

lemma IsHostNQN_HostNQN:
  "IsHostNQN e (HostNQN e n) \<longleftrightarrow> n \<noteq> [] \<and> list_all host_char n"
proof -
  have "HostNQN e n = (authority e @ '':krea.to:host-'') @ n" by (simp add: HostNQN_def)
  then show ?thesis
    unfolding IsHostNQN_def Let_def HasPrefix_def by simp
qed

lemma IsHostNQN_iff:
  "IsHostNQN e s \<longleftrightarrow> (\<exists>n. s = HostNQN e n \<and> n \<noteq> [] \<and> list_all host_char n)"
proof
  assume h: "IsHostNQN e s"
  then obtain n where "s = HostNQN e n"
    by (auto simp: IsHostNQN_def HasPrefix_def prefix_def HostNQN_def Let_def)
  with h show "\<exists>n. s = HostNQN e n \<and> n \<noteq> [] \<and> list_all host_char n"
    by (auto simp: IsHostNQN_HostNQN)
qed (auto simp: IsHostNQN_HostNQN)

end
