(* ===== verification/Sample_Cluster.thy ===== *)
theory Sample_Cluster
  imports Volume_Nodes Names
begin

text \<open>
  A small cluster for the in-memory server: three workers and a control-plane node, a volume
  \<^verbatim>\<open>vol\<close> on node \<^verbatim>\<open>n1\<close> with its engine and replicas. The properties are instantiated on
  it, so that their hypotheses are seen to hold together on a state the code reaches.
\<close>

definition sampleNode :: "string \<Rightarrow> bool \<Rightarrow> Node" where
  "sampleNode n cp =
     \<lparr>Meta = (meta_for n [])\<lparr>om_Labels := (if cp then [(controlPlaneLabel, [])] else [])\<rparr>,
      Spec = (), Status = ()\<rparr>"

definition sampleVolume :: "string \<Rightarrow> VolumeStatus \<Rightarrow> Volume" where
  "sampleVolume count st =
     \<lparr>Meta = meta_for ''vol'' ''ns'',
      Spec = \<lparr>vs_Size = ''10Gi'', vs_StorageClassName = ''kdfs'', vs_NodeID = ''n1'',
              vs_ReplicaCount = count, vs_SnapshotSource = None\<rparr>,
      Status = st\<rparr>"

definition sampleEngine :: "ReplicaAttachment list \<Rightarrow> string \<Rightarrow> Engine" where
  "sampleEngine ras phase =
     \<lparr>Meta = meta_for ''vol-engine'' ''ns'',
      Spec = \<lparr>es_VolumeRef = ''vol'', es_NodeID = ''n1'', es_Replicas = ras\<rparr>,
      Status = zero_EngineStatus\<lparr>est_Phase := phase\<rparr>\<rparr>"

definition sampleReplica :: "nat \<Rightarrow> string \<Rightarrow> string \<Rightarrow> string \<Rightarrow> Replica" where
  "sampleReplica i node phase nqn =
     \<lparr>Meta = meta_for (ReplicaName ''vol'' i) ''ns'',
      Spec = \<lparr>rs_VolumeRef = ''vol'', rs_NodeID = node,
              rs_Type = (if node = ''n1'' then ReplicaTypeLocal else ReplicaTypeRemote),
              rs_Size = ''10Gi'', rs_DataPath = DataPath ''vol'', rs_SnapshotSource = []\<rparr>,
      Status = zero_ReplicaStatus\<lparr>rst_Phase := phase, rst_NQN := nqn\<rparr>\<rparr>"

lemma sampleName_0: "ReplicaName ''vol'' 0 = ''vol-replica-0''"
  by code_simp

definition samplePod :: "string \<Rightarrow> string \<Rightarrow> string \<Rightarrow> Pod" where
  "samplePod name mode phase =
     \<lparr>Meta = (meta_for name ''ns'')\<lparr>om_Labels := [(''kdfs.krea.to/mode'', mode)]\<rparr>,
      Spec = \<lparr>ps_NodeName = ''n1'', ps_RestartPolicy = ''Always'', ps_Volumes = [], ps_Containers = []\<rparr>,
      Status = \<lparr>pst_Phase = phase, pst_PodIP = ''10.0.0.7'', pst_ContainersReady = [True]\<rparr>\<rparr>"

definition sampleMem :: "Volume list \<Rightarrow> Engine list \<Rightarrow> Replica list \<Rightarrow> Pod list \<Rightarrow> mem" where
  "sampleMem vols engs reps ps =
     \<lparr>m_volumes = vols, m_engines = engs, m_replicas = reps, m_snapshots = [], m_pods = ps,
      m_nodes = [sampleNode ''cp'' True, sampleNode ''n1'' False, sampleNode ''n2'' False, sampleNode ''n3'' False],
      m_clock = 1000 * Second, m_uid = 7\<rparr>"

definition noHttp :: "http_request \<Rightarrow> error + http_response" where
  "noHttp q = Inl (ServerError ''no route'')"

text \<open>The same server on which the clock stands still, and one whose pods cannot be listed.\<close>

definition frozen :: "int \<Rightarrow> mem env \<Rightarrow> mem env" where
  "frozen t c = c\<lparr>clock_Now := State (\<lambda>w. (t, w))\<rparr>"

definition podsUnlisted :: "mem env \<Rightarrow> mem env" where
  "podsUnlisted c = c\<lparr>pods := (pods c)\<lparr>r_List := (\<lambda>ns ls. ret (Inl (ServerError ''timeout'')))\<rparr>\<rparr>"

lemma kube_client_frozen:
  assumes "kube_client c mem_view"
  shows "kube_client (frozen t c) mem_view"
  using assms unfolding kube_client_def kube_client_axioms_def by (simp add: frozen_def)

lemma kube_client_podsUnlisted:
  assumes "kube_client c mem_view"
  shows "kube_client (podsUnlisted c) mem_view"
proof -
  have "kube_resource (pods (podsUnlisted c)) mem_view cl_pods cl_pods_update (\<lambda>st. pst_PodIP st = [])"
    using kube_client.axioms(5) [OF assms]
    unfolding kube_resource_def by (simp add: podsUnlisted_def State_Monad.return_def)
  then show ?thesis
    using assms unfolding kube_client_def kube_client_axioms_def by (simp add: podsUnlisted_def)
qed

end
