(* ===== verification/Volume_Scale.thy ===== *)
theory Volume_Scale
  imports Sample_Cluster
begin

text \<open>
  Growing and shrinking the set of replicas of a volume,
  \<^verbatim>\<open>src/internal/controller/volume_scale.go\<close>, with the helper \<open>createIfMissing\<close> and the
  replica object that \<^verbatim>\<open>ensureChildren\<close> and \<^verbatim>\<open>scaleUp\<close> both build
  (\<^verbatim>\<open>src/internal/controller/volume_controller.go\<close>). The maps of used nodes and used indices
  are lists of their keys. The search for a free index is a function with its own
  termination proof: a finite set of indices leaves one free.
\<close>

section \<open>Replica objects\<close>

definition GroupVersion :: string where
  "GroupVersion = ''storage.krea.to/v1alpha1''"

definition volumeOwner :: "Volume \<Rightarrow> OwnerReference" where
  "volumeOwner volume =
     \<lparr>or_APIVersion = GroupVersion, or_Kind = ''Volume'', or_Name = obj_Name volume,
      or_UID = obj_UID volume, or_Controller = None, or_BlockOwnerDeletion = None\<rparr>"

definition replicaSpecFor :: "Volume \<Rightarrow> string \<Rightarrow> ReplicaSpec" where
  "replicaSpecFor volume node =
     \<lparr>rs_VolumeRef = obj_Name volume,
      rs_NodeID = node,
      rs_Type = (if node = vs_NodeID (Spec volume) then ReplicaTypeLocal else ReplicaTypeRemote),
      rs_Size = vs_Size (Spec volume),
      rs_DataPath = DataPath (obj_Name volume),
      rs_SnapshotSource =
        (case vs_SnapshotSource (Spec volume) of None \<Rightarrow> [] | Some src \<Rightarrow> ss_SnapshotName src)\<rparr>"

definition replicaFor :: "Volume \<Rightarrow> string \<Rightarrow> nat \<Rightarrow> Replica" where
  "replicaFor volume node i =
     \<lparr>Meta = (meta_for (ReplicaName (obj_Name volume) i) (obj_Namespace volume))
               \<lparr>om_OwnerReferences := [volumeOwner volume]\<rparr>,
      Spec = replicaSpecFor volume node,
      Status = zero_ReplicaStatus\<rparr>"

text \<open>The node a replica goes to: the chosen one, or the volume's own when it restores a snapshot.\<close>

definition placement :: "Volume \<Rightarrow> string \<Rightarrow> string" where
  "placement volume node = (if vs_SnapshotSource (Spec volume) \<noteq> None then vs_NodeID (Spec volume) else node)"

definition createIfMissing :: "('w, 'sp, 'st) resource \<Rightarrow> ('sp, 'st) kobj \<Rightarrow> ('w, error option) state" where
  "createIfMissing r obj = do {
     x \<leftarrow> r_Create r obj;
     case x of
       Inl err \<Rightarrow> if \<not> IsAlreadyExists err then ret (Some err) else ret None
     | Inr _ \<Rightarrow> ret None
   }"

section \<open>Scaling up\<close>

definition usedIndicesOf :: "string \<Rightarrow> int \<Rightarrow> ReplicaAttachment list \<Rightarrow> nat list" where
  "usedIndicesOf v desired ras =
     concat (map (\<lambda>ra. case find (\<lambda>idx. ra_Name ra = ReplicaName v idx) [0..<nat (wrap64 (desired + 10))] of
                          None \<Rightarrow> [] | Some idx \<Rightarrow> [idx]) ras)"

function nextFree :: "nat list \<Rightarrow> nat \<Rightarrow> nat" where
  "nextFree usedIndices nextIndex =
     (if nextIndex \<in> set usedIndices then nextFree usedIndices (Suc nextIndex) else nextIndex)"
  by pat_completeness auto
termination
proof (relation "measure (\<lambda>(u, n). card {j \<in> set u. n \<le> j})")
  fix u :: "nat list" and n
  assume "n \<in> set u"
  then have "{j \<in> set u. Suc n \<le> j} \<subset> {j \<in> set u. n \<le> j}"
    by (intro psubsetI) (force, metis (mono_tags, lifting) mem_Collect_eq le_refl not_less_eq_eq)
  then show "((u, Suc n), u, n) \<in> measure (\<lambda>(u, n). card {j \<in> set u. n \<le> j})"
    by (simp add: psubset_card_mono)
qed simp

declare nextFree.simps [simp del]

fun scaleUp_loop ::
  "'w env \<Rightarrow> Volume \<Rightarrow> nat \<Rightarrow> nat \<Rightarrow> string list \<Rightarrow> nat list \<Rightarrow> ReplicaAttachment list
   \<Rightarrow> ('w, error + ReplicaAttachment list) state" where
  "scaleUp_loop c volume 0 nextIndex usedNodes usedIndices ras = ret (Inr ras)"
| "scaleUp_loop c volume (Suc k) nextIndex usedNodes usedIndices ras = do {
     let nextIndex = nextFree usedIndices nextIndex;
     picked \<leftarrow> pickUnusedNode c usedNodes;
     let node = placement volume picked;
     err \<leftarrow> createIfMissing (replicas c) (replicaFor volume node nextIndex);
     case err of
       Some e \<Rightarrow> ret (Inl e)
     | None \<Rightarrow> scaleUp_loop c volume k nextIndex (node # usedNodes) (nextIndex # usedIndices)
                 (ras @ [attachment (ReplicaName (obj_Name volume) nextIndex) node])
   }"

definition with_replicas :: "ReplicaAttachment list \<Rightarrow> Engine \<Rightarrow> Engine" where
  "with_replicas ras engine = engine\<lparr>Spec := (Spec engine)\<lparr>es_Replicas := ras\<rparr>\<rparr>"

definition scaledMessage :: "int \<Rightarrow> int \<Rightarrow> string" where
  "scaledMessage current desired =
     ''scaling from '' @ Itoa current @ '' to '' @ Itoa desired @ '' replicas''"

definition scaledStatus :: "int \<Rightarrow> string \<Rightarrow> int \<Rightarrow> int \<Rightarrow> Volume \<Rightarrow> Volume" where
  "scaledStatus now reason current desired volume =
     volume\<lparr>Status := (Status volume)\<lparr>
       vst_Phase := VolumePhaseDegraded,
       vst_Conditions := SetTrue now (vst_Conditions (Status volume)) VolumeConditionScheduled
                           reason (scaledMessage current desired)\<rparr>\<rparr>"

definition scaleUp :: "'w env \<Rightarrow> Volume \<Rightarrow> Engine \<Rightarrow> int \<Rightarrow> int \<Rightarrow> ('w, error option) state" where
  "scaleUp c volume engine current desired = do {
     let ras = es_Replicas (Spec engine);
     r \<leftarrow> scaleUp_loop c volume (nat (desired - current)) 0 (map ra_NodeID ras)
            (usedIndicesOf (obj_Name volume) desired ras) ras;
     case r of
       Inl err \<Rightarrow> ret (Some err)
     | Inr ras' \<Rightarrow> do {
         u \<leftarrow> r_Update (engines c) (with_replicas ras' engine);
         case u of
           Inl err \<Rightarrow> ret (Some err)
         | Inr _ \<Rightarrow> do {
             now \<leftarrow> clock_Now c;
             s \<leftarrow> r_StatusUpdate (volumes c) (scaledStatus now ''ScalingUp'' current desired volume);
             ret (err_of s)
           }
       }
   }"

section \<open>Scaling down\<close>

fun scaleDown_loop :: "'w env \<Rightarrow> Volume \<Rightarrow> nat list \<Rightarrow> ('w, error option) state" where
  "scaleDown_loop c volume [] = ret None"
| "scaleDown_loop c volume (i # is) = do {
     d \<leftarrow> r_Delete (replicas c) (NN (obj_Namespace volume) (ReplicaName (obj_Name volume) i));
     case d of
       Inl err \<Rightarrow> if \<not> IsNotFound err then ret (Some err) else scaleDown_loop c volume is
     | Inr _ \<Rightarrow> scaleDown_loop c volume is
   }"

definition scaleDown :: "'w env \<Rightarrow> Volume \<Rightarrow> Engine \<Rightarrow> int \<Rightarrow> int \<Rightarrow> ('w, error option) state" where
  "scaleDown c volume engine current desired = do {
     e \<leftarrow> scaleDown_loop c volume [nat desired..<nat current];
     case e of
       Some err \<Rightarrow> ret (Some err)
     | None \<Rightarrow> do {
         u \<leftarrow> r_Update (engines c) (with_replicas (take (nat desired) (es_Replicas (Spec engine))) engine);
         case u of
           Inl err \<Rightarrow> ret (Some err)
         | Inr _ \<Rightarrow> do {
             now \<leftarrow> clock_Now c;
             s \<leftarrow> r_StatusUpdate (volumes c) (scaledStatus now ''ScalingDown'' current desired volume);
             ret (err_of s)
           }
       }
   }"

section \<open>The free indices\<close>

lemma nextFree_free: "nextFree u n \<notin> set u"
  by (induction u n rule: nextFree.induct) (subst nextFree.simps, simp)

lemma nextFree_ge: "n \<le> nextFree u n"
proof (induction u n rule: nextFree.induct)
  case (1 u n)
  then show ?case by (subst nextFree.simps) (auto dest: Suc_leD)
qed

lemma nextFree_least: "n \<le> j \<Longrightarrow> j < nextFree u n \<Longrightarrow> j \<in> set u"
proof (induction u n rule: nextFree.induct)
  case (1 u n)
  show ?case
  proof (cases "n \<in> set u")
    case True
    then have "nextFree u n = nextFree u (Suc n)" by (subst nextFree.simps) simp
    with True "1.IH" "1.prems" show ?thesis by (cases "j = n") auto
  next
    case False
    then have "nextFree u n = n" by (subst nextFree.simps) simp
    with "1.prems" show ?thesis by simp
  qed
qed

text \<open>The indices a scale-up of \<open>k\<close> replicas takes, one after the other.\<close>

fun freshIndices :: "nat \<Rightarrow> nat \<Rightarrow> nat list \<Rightarrow> nat list" where
  "freshIndices 0 n u = []"
| "freshIndices (Suc k) n u = (let i = nextFree u n in i # freshIndices k i (i # u))"

lemma length_freshIndices [simp]: "length (freshIndices k n u) = k"
  by (induction k arbitrary: n u) (simp_all add: Let_def)

lemma freshIndices_fresh: "i \<in> set (freshIndices k n u) \<Longrightarrow> i \<notin> set u"
proof (induction k arbitrary: n u)
  case (Suc k)
  let ?i = "nextFree u n"
  show ?case
    using Suc.prems Suc.IH [of ?i "?i # u"] nextFree_free [of u n] by (auto simp: Let_def)
qed simp

lemma distinct_freshIndices: "distinct (freshIndices k n u)"
proof (induction k arbitrary: n u)
  case (Suc k)
  let ?i = "nextFree u n"
  have "?i \<notin> set (freshIndices k ?i (?i # u))" using freshIndices_fresh [of ?i k ?i "?i # u"] by auto
  then show ?case using Suc.IH by (simp add: Let_def)
qed simp

text \<open>Every index below the next candidate is in use, so the indices stay below the total.\<close>

lemma below_nextFree: "{..<n} \<subseteq> set u \<Longrightarrow> {..<nextFree u n} \<subseteq> set u"
  by (metis lessThan_iff nextFree_least not_less subset_iff)

lemma nextFree_le_length:
  assumes "{..<n} \<subseteq> set u"
  shows "nextFree u n \<le> length u"
proof -
  have "{..<nextFree u n} \<subseteq> set u" using assms by (rule below_nextFree)
  then have "card {..<nextFree u n} \<le> card (set u)" by (intro card_mono) auto
  also have "\<dots> \<le> length u" by (rule card_length)
  finally show ?thesis by simp
qed

lemma freshIndices_bound:
  "{..<n} \<subseteq> set u \<Longrightarrow> i \<in> set (freshIndices k n u) \<Longrightarrow> i < length u + k"
proof (induction k arbitrary: n u)
  case (Suc k)
  let ?i = "nextFree u n"
  have le: "?i \<le> length u" using Suc.prems(1) by (rule nextFree_le_length)
  have sub: "{..<?i} \<subseteq> set (?i # u)"
    using below_nextFree [OF Suc.prems(1)] by auto
  show ?case
    using Suc.prems(2) le Suc.IH [OF sub] by (auto simp: Let_def)
qed simp

lemma length_usedIndicesOf: "length (usedIndicesOf v d ras) \<le> length ras"
  by (induction ras) (auto simp: usedIndicesOf_def split: option.split)

lemma usedIndicesOf_complete:
  assumes "ra \<in> set ras" and "ra_Name ra = ReplicaName v i" and "int i < d + 10"
    and "0 \<le> d" and "d + 10 \<le> maxInt64"
  shows "i \<in> set (usedIndicesOf v d ras)"
proof -
  have "find (\<lambda>idx. ra_Name ra = ReplicaName v idx) [0..<nat (wrap64 (d + 10))] = Some i"
    unfolding find_Some_iff using assms wrap64_id [of "d + 10"]
    by (intro exI [of _ i]) (auto simp: ReplicaName_inject minInt64_def)
  with assms(1) show ?thesis by (force simp: usedIndicesOf_def)
qed

text \<open>
  The names a scale-up gives to the new replicas are new: distinct from each other and from
  every attached replica, although only a window of the indices is looked at.
\<close>

lemma scaleUp_names_fresh:
  assumes "int (length ras) \<le> d" and "d + 10 \<le> maxInt64" and "distinct (map ra_Name ras)"
    and "is = freshIndices (nat (d - int (length ras))) 0 (usedIndicesOf v d ras)"
  shows "distinct (map ra_Name ras @ map (ReplicaName v) is)"
    and "\<forall>i \<in> set is. int i < d"
proof -
  have b: "i < length (usedIndicesOf v d ras) + nat (d - int (length ras))" if "i \<in> set is" for i
    using that unfolding assms(4) by (intro freshIndices_bound) auto
  show bound: "\<forall>i \<in> set is. int i < d"
    using b length_usedIndicesOf [of v d ras] assms(1) by fastforce
  have "ReplicaName v i \<notin> set (map ra_Name ras)" if i: "i \<in> set is" for i
  proof
    assume "ReplicaName v i \<in> set (map ra_Name ras)"
    then obtain ra where "ra \<in> set ras" "ra_Name ra = ReplicaName v i" by auto
    moreover have "int i < d + 10" "0 \<le> d" using bound i assms(1) by fastforce+
    ultimately have "i \<in> set (usedIndicesOf v d ras)"
      using assms(2) by (blast intro: usedIndicesOf_complete)
    moreover have "i \<notin> set (usedIndicesOf v d ras)"
      using i unfolding assms(4) by (rule freshIndices_fresh)
    ultimately show False by simp
  qed
  moreover have "distinct (map (ReplicaName v) is)"
    by (simp add: replica_names.distinct_map_nm assms(4) distinct_freshIndices)
  ultimately show "distinct (map ra_Name ras @ map (ReplicaName v) is)"
    using assms(3) by (force simp: disjoint_iff)
qed

section \<open>Scaling on a server\<close>

text \<open>A cluster that differs from another by added replicas only.\<close>

definition extends :: "cluster \<Rightarrow> cluster \<Rightarrow> bool" where
  "extends cl cl' \<longleftrightarrow> cl' = cl\<lparr>cl_replicas := cl_replicas cl'\<rparr> \<and> cl_replicas cl \<subseteq>\<^sub>m cl_replicas cl'"

lemma extends_refl [simp]: "extends cl cl"
  by (simp add: extends_def)

lemma extends_trans: "extends a b \<Longrightarrow> extends b c \<Longrightarrow> extends a c"
  unfolding extends_def by (cases a; cases b; cases c) (auto intro: map_le_trans)

lemma extends_put: "cl_replicas cl k = None \<Longrightarrow> extends cl (cl_replicas_update (\<lambda>m. m(k \<mapsto> s)) cl)"
  by (auto simp: extends_def map_le_def)

lemma extends_sel:
  assumes "extends cl cl'"
  shows "cl_volumes cl' = cl_volumes cl" "cl_engines cl' = cl_engines cl" "cl_pods cl' = cl_pods cl"
    "cl_nodes cl' = cl_nodes cl" "cl_snapshots cl' = cl_snapshots cl"
  using assms unfolding extends_def by (cases cl; cases cl'; simp)+

lemma extends_keeps: "extends cl cl' \<Longrightarrow> cl_replicas cl k = Some x \<Longrightarrow> cl_replicas cl' k = Some x"
  by (auto simp: extends_def map_le_def dom_def)

text \<open>
  A replica is in place after a step: the object under its name is the one built for it, or
  one that was there before the step.
\<close>

definition in_place :: "Volume \<Rightarrow> cluster \<Rightarrow> cluster \<Rightarrow> nat \<Rightarrow> string \<Rightarrow> bool" where
  "in_place volume cl cl' i node \<longleftrightarrow>
     (\<exists>s. cl_replicas cl' (key_of (replicaFor volume node i)) = Some s
        \<and> (cl_replicas cl (key_of (replicaFor volume node i)) = Some s
           \<or> cl_replicas cl (key_of (replicaFor volume node i)) = None
              \<and> created (replicaFor volume node i) s \<and> Status s = zero_ReplicaStatus))"

lemma key_of_replicaFor [simp]:
  "key_of (replicaFor volume node i) = NN (obj_Namespace volume) (ReplicaName (obj_Name volume) i)"
  by (simp add: replicaFor_def key_of_def meta_for_def)

lemma in_place_extend_right: "in_place volume a b i n \<Longrightarrow> extends b c \<Longrightarrow> in_place volume a c i n"
  unfolding in_place_def by (meson extends_keeps)

lemma in_place_extend_left:
  assumes "in_place volume b c i n" and "extends a b"
    and "cl_replicas b (key_of (replicaFor volume n i)) = cl_replicas a (key_of (replicaFor volume n i))"
  shows "in_place volume a c i n"
  using assms unfolding in_place_def by metis

context kube_resource
begin

lemma wp_createIfMissing:
  assumes "\<And>e w'. view w' = view w \<Longrightarrow> Q (Some e) w'"
    and "\<And>w'. view w' = view w \<Longrightarrow> sel (view w) (key_of o') \<noteq> None \<Longrightarrow> Q None w'"
    and "\<And>s w'. sel (view w) (key_of o') = None \<Longrightarrow> created o' s \<Longrightarrow> fresh (Status s) \<Longrightarrow>
      view w' = upd (\<lambda>m. m(key_of o' \<mapsto> s)) (view w) \<Longrightarrow> Q None w'"
  shows "wp (createIfMissing r o') Q w"
  using assms by (auto simp: createIfMissing_def intro!: wp_Create)

lemma keeps_createIfMissing [keeps_intros]:
  assumes "\<And>cl s. P cl \<Longrightarrow> sel cl (key_of o') = None \<Longrightarrow> created o' s \<Longrightarrow> fresh (Status s) \<Longrightarrow>
    P (upd (\<lambda>m. m(key_of o' \<mapsto> s)) cl)"
  shows "keeps view P (createIfMissing r o')"
  unfolding createIfMissing_def by (intro keeps_intros assms)

end

text \<open>What a scale-up adds: the attachments and their replica objects, one for each fresh index.\<close>

definition grown :: "Volume \<Rightarrow> cluster \<Rightarrow> cluster \<Rightarrow> nat list \<Rightarrow> ReplicaAttachment list \<Rightarrow> bool" where
  "grown volume cl cl' is new \<longleftrightarrow>
     map ra_Name new = map (ReplicaName (obj_Name volume)) is
     \<and> list_all2 (\<lambda>i ra. in_place volume cl cl' i (ra_NodeID ra)) is new"

lemma grown_cong: "grown volume cl cl1 is new \<Longrightarrow> cl_replicas cl2 = cl_replicas cl1 \<Longrightarrow> grown volume cl cl2 is new"
  by (simp add: grown_def in_place_def)

lemma grown_Cons:
  assumes "in_place volume a b i node" and "extends a b" and "extends b c"
    and "\<And>j. j \<noteq> i \<Longrightarrow> cl_replicas b (NN (obj_Namespace volume) (ReplicaName (obj_Name volume) j))
               = cl_replicas a (NN (obj_Namespace volume) (ReplicaName (obj_Name volume) j))"
    and "grown volume b c is new" and "i \<notin> set is"
  shows "grown volume a c (i # is) (attachment (ReplicaName (obj_Name volume) i) node # new)"
proof -
  have "list_all2 (\<lambda>j ra. in_place volume a c j (ra_NodeID ra)) is new"
    using assms(5) unfolding grown_def
  proof (elim conjE, intro list_all2_all_nthI)
    fix m assume l: "list_all2 (\<lambda>j ra. in_place volume b c j (ra_NodeID ra)) is new" and m: "m < length is"
    then have "in_place volume b c (is ! m) (ra_NodeID (new ! m))" using list_all2_nthD by fastforce
    moreover have "is ! m \<noteq> i" using assms(6) m by (metis nth_mem)
    ultimately show "in_place volume a c (is ! m) (ra_NodeID (new ! m))"
      using assms(2,4) by (intro in_place_extend_left [of volume b c _ _ a]) auto
  qed (auto dest: list_all2_lengthD)
  then show ?thesis
    using assms(1,3,5) by (auto simp: grown_def intro: in_place_extend_right)
qed

context kube_client
begin

lemma wp_scaleUp_loop:
  "wp (scaleUp_loop c volume k n used u ras)
     (\<lambda>r w'. extends (view w) (view w') \<and>
        (\<forall>ras'. r = Inr ras' \<longrightarrow>
           (\<exists>new. ras' = ras @ new \<and> grown volume (view w) (view w') (freshIndices k n u) new))) w"
proof (induction k arbitrary: n used u ras w)
  case 0
  then show ?case by (simp add: grown_def)
next
  case (Suc k)
  let ?i = "nextFree u n" and ?name = "ReplicaName (obj_Name volume)"
  let ?key = "\<lambda>j. NN (obj_Namespace volume) (?name j)"
  have step: "wp (scaleUp_loop c volume k ?i (node # used) (?i # u) (ras @ [attachment (?name ?i) node]))
      (\<lambda>r w'. extends (view w) (view w') \<and>
        (\<forall>ras'. r = Inr ras' \<longrightarrow>
           (\<exists>new. ras' = ras @ new \<and> grown volume (view w) (view w') (freshIndices (Suc k) n u) new))) w2"
    if "in_place volume (view w) (view w2) ?i node" "extends (view w) (view w2)"
       "\<And>j. j \<noteq> ?i \<Longrightarrow> cl_replicas (view w2) (?key j) = cl_replicas (view w) (?key j)" for node w2
  proof (rule wp_mono [OF Suc.IH], intro conjI allI impI)
    fix r w' ras'
    assume *: "extends (view w2) (view w') \<and> (\<forall>ras'. r = Inr ras' \<longrightarrow>
        (\<exists>new. ras' = (ras @ [attachment (?name ?i) node]) @ new
          \<and> grown volume (view w2) (view w') (freshIndices k ?i (?i # u)) new))"
    then show "extends (view w) (view w')" using that(2) extends_trans by blast
    assume "r = Inr ras'"
    with * obtain new where new: "ras' = ras @ attachment (?name ?i) node # new"
      "grown volume (view w2) (view w') (freshIndices k ?i (?i # u)) new" by auto
    moreover have "?i \<notin> set (freshIndices k ?i (?i # u))"
      using freshIndices_fresh [of ?i k ?i "?i # u"] by auto
    ultimately show "\<exists>new. ras' = ras @ new \<and> grown volume (view w) (view w') (freshIndices (Suc k) n u) new"
      using grown_Cons [OF that(1,2) _ that(3) new(2)] * by (auto simp: Let_def)
  qed
  show ?case
    by (auto simp: Let_def simp del: freshIndices.simps intro!: wp_pickUnusedNode rep.wp_createIfMissing step
        simp: in_place_def extends_put rep.sel_upd ReplicaName_inject)
qed

end

section \<open>Recording the new scale\<close>

text \<open>
  Both directions end the same way: the engine is stored with the new attachments, then the
  volume's status says it is degraded and why.
\<close>

definition rescaled ::
  "Volume \<Rightarrow> Engine \<Rightarrow> ReplicaAttachment list \<Rightarrow> string \<Rightarrow> int \<Rightarrow> int \<Rightarrow> cluster \<Rightarrow> cluster \<Rightarrow> bool" where
  "rescaled volume engine ras reason current desired cl cl' \<longleftrightarrow>
     (\<exists>old. cl_engines cl (key_of engine) = Some old
        \<and> cl_engines cl' = (cl_engines cl)(key_of engine := kept (updated old (with_replicas ras engine))))
     \<and> (\<exists>old now. cl_volumes cl (key_of volume) = Some old
        \<and> cl_volumes cl' = (cl_volumes cl)(key_of volume \<mapsto>
             old\<lparr>Status := Status (scaledStatus now reason current desired volume)\<rparr>))"

lemma key_of_with_replicas [simp]: "key_of (with_replicas ras engine) = key_of engine"
  by (simp add: key_of_def with_replicas_def)

lemma key_of_scaledStatus [simp]: "key_of (scaledStatus t r a b volume) = key_of volume"
  by (simp add: key_of_def scaledStatus_def)

lemma rescaledI:
  assumes "cl_engines cl (key_of engine) = Some e" and "cl_volumes cl (key_of volume) = Some v"
    and "cl_engines cl' = (cl_engines cl)(key_of engine := kept (updated e (with_replicas ras engine)))"
    and "cl_volumes cl' = (cl_volumes cl)(key_of volume \<mapsto>
             v\<lparr>Status := Status (scaledStatus now reason current desired volume)\<rparr>)"
  shows "rescaled volume engine ras reason current desired cl cl'"
  unfolding rescaled_def by (intro conjI exI) (rule assms)+

text \<open>
  What a scale-down leaves: the replicas of the given indices are gone or, when something
  holds them, marked for deletion; every other replica is as it was.
\<close>

definition doomed :: "('sp, 'st) kobj option \<Rightarrow> bool" where
  "doomed x = (case x of None \<Rightarrow> True | Some o' \<Rightarrow> om_DeletionTimestamp (Meta o') \<noteq> None)"

definition pruned ::
  "Volume \<Rightarrow> nat list \<Rightarrow> (NamespacedName \<rightharpoonup> Replica) \<Rightarrow> (NamespacedName \<rightharpoonup> Replica) \<Rightarrow> bool" where
  "pruned volume is m m' \<longleftrightarrow>
     (\<forall>i \<in> set is. doomed (m' (NN (obj_Namespace volume) (ReplicaName (obj_Name volume) i))))
     \<and> (\<forall>k. k \<notin> (\<lambda>i. NN (obj_Namespace volume) (ReplicaName (obj_Name volume) i)) ` set is \<longrightarrow> m' k = m k)"

lemma doomed_None [simp]: "doomed None"
  by (simp add: doomed_def)

lemma doomed_deleted: "deleted old rest \<Longrightarrow> doomed rest"
  by (auto simp: deleted_def doomed_def)

lemma pruned_single:
  assumes "doomed (b (NN (obj_Namespace volume) (ReplicaName (obj_Name volume) i)))"
    and "\<And>k. k \<noteq> NN (obj_Namespace volume) (ReplicaName (obj_Name volume) i) \<Longrightarrow> b k = a k"
  shows "pruned volume [i] a b"
  using assms by (simp add: pruned_def)

lemma pruned_Cons:
  assumes "pruned volume [i] a b" and "pruned volume is b c"
  shows "pruned volume (i # is) a c"
proof -
  let ?key = "\<lambda>i. NN (obj_Namespace volume) (ReplicaName (obj_Name volume) i)"
  have "doomed (c (?key i))"
    using assms by (cases "?key i \<in> ?key ` set is") (auto simp: pruned_def)
  with assms show ?thesis by (auto simp: pruned_def)
qed

context kube_client
begin

lemma wp_record_scale:
  assumes "cl_engines cl = cl_engines (view w)" and "cl_volumes cl = cl_volumes (view w)"
    and "\<And>e w'. Q (Some e) w'"
    and "\<And>w'. cl_replicas (view w') = cl_replicas (view w) \<Longrightarrow>
       rescaled volume engine ras reason current desired cl (view w') \<Longrightarrow> Q None w'"
  shows "wp (r_Update (engines c) (with_replicas ras engine))
     (\<lambda>u. wp (case u of
           Inl err \<Rightarrow> ret (Some err)
         | Inr _ \<Rightarrow> do {
             now \<leftarrow> clock_Now c;
             s \<leftarrow> r_StatusUpdate (volumes c) (scaledStatus now reason current desired volume);
             ret (err_of s)
           }) Q) w"
proof (rule eng.wp_Update)
  fix old w1
  assume e: "cl_engines (view w) (key_of (with_replicas ras engine)) = Some old"
    and w1: "view w1 = cl_engines_update (\<lambda>m. m(key_of (with_replicas ras engine) :=
               kept (updated old (with_replicas ras engine)))) (view w)"
  have "Q None w'" if t: "view t' = view w1"
     and v: "cl_volumes (view t') (key_of volume) = Some oldV"
     and w': "view w' = cl_volumes_update (\<lambda>m. m(key_of volume \<mapsto>
          oldV\<lparr>Status := Status (scaledStatus now reason current desired volume)\<rparr>)) (view t')"
    for t' oldV now w'
  proof (rule assms(4))
    show "cl_replicas (view w') = cl_replicas (view w)" by (simp add: w' t w1)
    show "rescaled volume engine ras reason current desired cl (view w')"
      using v e by (intro rescaledI [of _ _ old _ oldV _ _ now]) (simp_all add: assms(1,2) w' t w1)
  qed
  then show "wp (case Inr (updated old (with_replicas ras engine)) of
           Inl err \<Rightarrow> ret (Some err)
         | Inr _ \<Rightarrow> do {
             now \<leftarrow> clock_Now c;
             s \<leftarrow> r_StatusUpdate (volumes c) (scaledStatus now reason current desired volume);
             ret (err_of s)
           }) Q w1"
    by (auto intro!: wp_Now vol.wp_StatusUpdate assms(3))
qed (simp add: assms(3))

lemma wp_scaleUp:
  "wp (scaleUp c volume engine current desired)
     (\<lambda>r w'. r = None \<longrightarrow>
        (\<exists>new. grown volume (view w) (view w')
             (freshIndices (nat (desired - current)) 0
                (usedIndicesOf (obj_Name volume) desired (es_Replicas (Spec engine)))) new
           \<and> rescaled volume engine (es_Replicas (Spec engine) @ new) ''ScalingUp'' current desired
                (view w) (view w'))) w"
  unfolding scaleUp_def Let_def wp_bind
  by (rule wp_mono [OF wp_scaleUp_loop])
    (auto simp: extends_sel intro!: wp_record_scale [of "view w", unfolded wp_bind] split: sum.split,
      blast intro: grown_cong)

text \<open>A scale-down deletes the replicas of the upper indices and no other object.\<close>

lemma wp_scaleDown_loop:
  "wp (scaleDown_loop c volume is)
     (\<lambda>r w'. cl_engines (view w') = cl_engines (view w) \<and> cl_volumes (view w') = cl_volumes (view w) \<and>
        (r = None \<longrightarrow> pruned volume is (cl_replicas (view w)) (cl_replicas (view w')))) w"
proof (induction "is" arbitrary: w)
  case Nil
  then show ?case by (simp add: pruned_def)
next
  case (Cons i "is")
  let ?k = "NN (obj_Namespace volume) (ReplicaName (obj_Name volume) i)"
  have step: "wp (scaleDown_loop c volume is)
     (\<lambda>r w'. cl_engines (view w') = cl_engines (view w) \<and> cl_volumes (view w') = cl_volumes (view w) \<and>
        (r = None \<longrightarrow> pruned volume (i # is) (cl_replicas (view w)) (cl_replicas (view w')))) w1"
    if "cl_engines (view w1) = cl_engines (view w)" "cl_volumes (view w1) = cl_volumes (view w)"
      "pruned volume [i] (cl_replicas (view w)) (cl_replicas (view w1))" for w1
    using that by (intro wp_mono [OF Cons.IH]) (auto intro: pruned_Cons)
  show ?case
    by (auto simp: doomed_deleted intro!: rep.wp_Delete step pruned_single)
qed

lemma wp_scaleDown:
  "wp (scaleDown c volume engine current desired)
     (\<lambda>r w'. r = None \<longrightarrow>
        pruned volume [nat desired..<nat current] (cl_replicas (view w)) (cl_replicas (view w'))
        \<and> rescaled volume engine (take (nat desired) (es_Replicas (Spec engine))) ''ScalingDown''
             current desired (view w) (view w')) w"
  unfolding scaleDown_def Let_def wp_bind
  by (rule wp_mono [OF wp_scaleDown_loop])
    (auto intro!: wp_record_scale [of "view w", unfolded wp_bind] split: option.split)

end

section \<open>Properties\<close>

text \<open>
  C12: a scale-up that succeeds leaves the engine with exactly the desired number of
  attachments: the old ones in front, then new ones whose names are distinct from each other
  and from all the old ones and whose indices are below the desired count. For every new
  attachment the replica object of that name exists: one that was there before, unchanged, or
  a new one with the spec for the attachment's node, owned by the volume. The volume is
  recorded as degraded.
\<close>

theorem scaleUp_correct:
  assumes client: "kube_client c view"
    and run: "run_state (scaleUp c volume engine (int (length (es_Replicas (Spec engine)))) desired) w = (None, w')"
    and len: "int (length (es_Replicas (Spec engine))) \<le> desired" "desired + 10 \<le> maxInt64"
    and dist: "distinct (map ra_Name (es_Replicas (Spec engine)))"
  shows "\<exists>is new.
     int (length (es_Replicas (Spec engine) @ new)) = desired
     \<and> distinct (map ra_Name (es_Replicas (Spec engine) @ new))
     \<and> map ra_Name new = map (ReplicaName (obj_Name volume)) is \<and> (\<forall>i \<in> set is. int i < desired)
     \<and> list_all2 (\<lambda>i ra. in_place volume (view w) (view w') i (ra_NodeID ra)) is new
     \<and> rescaled volume engine (es_Replicas (Spec engine) @ new) ''ScalingUp''
          (int (length (es_Replicas (Spec engine)))) desired (view w) (view w')"
proof -
  let ?ras = "es_Replicas (Spec engine)"
  let ?is = "freshIndices (nat (desired - int (length ?ras))) 0 (usedIndicesOf (obj_Name volume) desired ?ras)"
  obtain new where new: "grown volume (view w) (view w') ?is new"
      "rescaled volume engine (?ras @ new) ''ScalingUp'' (int (length ?ras)) desired (view w) (view w')"
    using wp_run [OF kube_client.wp_scaleUp [OF client] run] by blast
  have names: "map ra_Name new = map (ReplicaName (obj_Name volume)) ?is"
    using new(1) by (simp add: grown_def)
  then have "length new = nat (desired - int (length ?ras))"
    by (metis length_map length_freshIndices)
  with names new scaleUp_names_fresh [OF len dist refl, of "obj_Name volume"] len(1)
  show ?thesis by (intro exI [of _ ?is] exI [of _ new]) (simp add: grown_def)
qed

definition scaleUpSample :: mem where
  "scaleUpSample = sampleMem [sampleVolume ''3'' zero_VolumeStatus]
     [sampleEngine [attachment ''vol-replica-1'' ''n2''] ''Running'']
     [sampleReplica 1 ''n2'' ''Running'' ''nqn'', sampleReplica 0 ''n3'' ''Running'' ''nqn''] []"

theorem scaleUp_correct_witness:
  "let volume = sampleVolume ''3'' zero_VolumeStatus;
       engine = sampleEngine [attachment ''vol-replica-1'' ''n2''] ''Running'';
       w' = snd (run_state (scaleUp (mem_env noHttp) volume engine 1 3) scaleUpSample)
   in \<exists>is new. int (length (es_Replicas (Spec engine) @ new)) = 3
        \<and> distinct (map ra_Name (es_Replicas (Spec engine) @ new))
        \<and> map ra_Name new = map (ReplicaName ''vol'') is \<and> (\<forall>i \<in> set is. int i < 3)
        \<and> list_all2 (\<lambda>i ra. in_place volume (mem_view scaleUpSample) (mem_view w') i (ra_NodeID ra)) is new
        \<and> rescaled volume engine (es_Replicas (Spec engine) @ new) ''ScalingUp'' 1 3
             (mem_view scaleUpSample) (mem_view w')"
proof -
  let ?v = "sampleVolume ''3'' zero_VolumeStatus"
  let ?e = "sampleEngine [attachment ''vol-replica-1'' ''n2''] ''Running''"
  have len: "int (length (es_Replicas (Spec ?e))) = 1" by (simp add: sampleEngine_def)
  have none: "fst (run_state (scaleUp (mem_env noHttp) ?v ?e 1 3) scaleUpSample) = None" by code_simp
  have name: "obj_Name ?v = ''vol''" by (simp add: sampleVolume_def meta_for_def)
  show ?thesis
    unfolding Let_def
    using scaleUp_correct [OF kube_client_mem, of noHttp ?v ?e 3 scaleUpSample
        "snd (run_state (scaleUp (mem_env noHttp) ?v ?e 1 3) scaleUpSample)"] none
    unfolding len name by (simp add: prod_eq_iff maxInt64_def sampleEngine_def)
qed

text \<open>
  C13: a scale-down that succeeds leaves exactly the first attachments, as many as desired,
  and deletes the replica objects of the upper indices and no other. When the attachments
  are numbered in order, as creation numbers them, these are the objects of the dropped
  attachments and the kept ones are untouched.
\<close>

theorem scaleDown_correct:
  assumes client: "kube_client c view"
    and run: "run_state (scaleDown c volume engine (int (length (es_Replicas (Spec engine)))) desired) w = (None, w')"
    and len: "0 \<le> desired" "desired \<le> int (length (es_Replicas (Spec engine)))"
    and numbered: "map ra_Name (es_Replicas (Spec engine)) =
        map (ReplicaName (obj_Name volume)) [0..<length (es_Replicas (Spec engine))]"
  shows "rescaled volume engine (take (nat desired) (es_Replicas (Spec engine))) ''ScalingDown''
          (int (length (es_Replicas (Spec engine)))) desired (view w) (view w')
     \<and> (\<forall>ra \<in> set (take (nat desired) (es_Replicas (Spec engine))).
          cl_replicas (view w') (NN (obj_Namespace volume) (ra_Name ra))
          = cl_replicas (view w) (NN (obj_Namespace volume) (ra_Name ra)))
     \<and> (\<forall>ra \<in> set (drop (nat desired) (es_Replicas (Spec engine))).
          doomed (cl_replicas (view w') (NN (obj_Namespace volume) (ra_Name ra))))"
proof -
  let ?ras = "es_Replicas (Spec engine)" and ?d = "nat desired"
  let ?key = "\<lambda>i. NN (obj_Namespace volume) (ReplicaName (obj_Name volume) i)"
  have post: "pruned volume [?d..<length ?ras] (cl_replicas (view w)) (cl_replicas (view w'))"
      "rescaled volume engine (take ?d ?ras) ''ScalingDown'' (int (length ?ras)) desired (view w) (view w')"
    using wp_run [OF kube_client.wp_scaleDown [OF client] run] by simp_all
  show ?thesis
  proof (intro conjI ballI)
    fix ra assume "ra \<in> set (take ?d ?ras)"
    then obtain i where i: "i < ?d" "ra_Name ra = ReplicaName (obj_Name volume) i" 
      using numbered_take [OF numbered] by blast
    then have "?key i \<notin> ?key ` set [?d..<length ?ras]" by (auto simp: ReplicaName_inject)
    with post(1) i show "cl_replicas (view w') (NN (obj_Namespace volume) (ra_Name ra))
          = cl_replicas (view w) (NN (obj_Namespace volume) (ra_Name ra))"
      by (simp add: pruned_def)
  next
    fix ra assume "ra \<in> set (drop ?d ?ras)"
    then obtain i where "i \<in> {?d..<length ?ras}" "ra_Name ra = ReplicaName (obj_Name volume) i"
      using numbered_drop [OF numbered] by blast
    with post(1) show "doomed (cl_replicas (view w') (NN (obj_Namespace volume) (ra_Name ra)))"
      by (simp add: pruned_def)
  qed (rule post(2))
qed

definition scaleDownSample :: "ReplicaAttachment list \<Rightarrow> mem" where
  "scaleDownSample ras = sampleMem [sampleVolume ''1'' zero_VolumeStatus] [sampleEngine ras ''Running'']
     [sampleReplica 0 ''n1'' ''Running'' ''nqn'', sampleReplica 1 ''n2'' ''Running'' ''nqn'',
      sampleReplica 2 ''n3'' ''Running'' ''nqn''] []"

theorem scaleDown_correct_witness:
  "let ras = [attachment ''vol-replica-0'' ''n1'', attachment ''vol-replica-1'' ''n2''];
       w' = snd (run_state (scaleDown (mem_env noHttp) (sampleVolume ''1'' zero_VolumeStatus)
                  (sampleEngine ras ''Running'') 2 1) (scaleDownSample ras))
   in cl_replicas (mem_view w') (NN ''ns'' ''vol-replica-0'')
        = cl_replicas (mem_view (scaleDownSample ras)) (NN ''ns'' ''vol-replica-0'')
      \<and> doomed (cl_replicas (mem_view w') (NN ''ns'' ''vol-replica-1''))"
proof -
  let ?v = "sampleVolume ''1'' zero_VolumeStatus"
  let ?ras = "[attachment ''vol-replica-0'' ''n1'', attachment ''vol-replica-1'' ''n2'']"
  let ?e = "sampleEngine ?ras ''Running''"
  let ?r = "run_state (scaleDown (mem_env noHttp) ?v ?e 2 1) (scaleDownSample ?ras)"
  have ras: "es_Replicas (Spec ?e) = ?ras" by (simp add: sampleEngine_def)
  have vol: "obj_Name ?v = ''vol''" "obj_Namespace ?v = ''ns''" by (simp_all add: sampleVolume_def meta_for_def)
  have none: "fst ?r = None" by code_simp
  have nums: "map ra_Name ?ras = map (ReplicaName ''vol'') [0..<2]" by code_simp
  show ?thesis
    unfolding Let_def
    using scaleDown_correct [OF kube_client_mem, of noHttp ?v ?e 1 "scaleDownSample ?ras" "snd ?r"]
      none nums
    unfolding ras vol by (simp add: prod_eq_iff numeral_2_eq_2)
qed

text \<open>
  When the attachments are not numbered in order, as after the removal of the first of
  three replicas, a scale-down deletes an object that stays attached and keeps the object it
  detaches: the engine is left with one attachment, to a replica that no longer exists.
\<close>

theorem scaleDown_deletes_attached:
  "let ras = [attachment ''vol-replica-1'' ''n2'', attachment ''vol-replica-2'' ''n3''];
       (r, w') = run_state (scaleDown (mem_env noHttp) (sampleVolume ''1'' zero_VolumeStatus)
                  (sampleEngine ras ''Running'') 2 1) (scaleDownSample ras)
   in r = None
      \<and> map (\<lambda>e. map ra_Name (es_Replicas (Spec e))) (m_engines w') = [[''vol-replica-1'']]
      \<and> map (\<lambda>r. obj_Name r) (m_replicas w') = [''vol-replica-0'', ''vol-replica-2'']"
  by code_simp

end
