(* ===== verification/Volume_Heal.thy ===== *)
theory Volume_Heal
  imports Volume_Scale
begin

text \<open>
  Healing the replicas of a volume, \<^verbatim>\<open>src/internal/controller/volume_heal.go\<close>. A first loop
  records the health of every attached replica and counts the healthy ones; below a
  threshold nothing is touched. A second loop acts on the first replica that needs it:
  a missing replica is detached, a replica whose pod is gone or whose restarts are used up
  is deleted and detached, a failing pod is deleted so that it is created anew, unless the
  last restart is too recent.

  The Go slice of health records is shared with the volume's status, so the second loop
  reads and updates it there. Removing an attachment shifts the shared array under the
  pointer \<^verbatim>\<open>ra\<close>, whose name is read afterwards: that name is \<open>shiftedName\<close>.
  The contract of healing is the relation \<open>heal_step\<close>, on the objects stored, which every
  run refines.
\<close>

section \<open>The operations\<close>

fun backoff_loop :: "nat \<Rightarrow> int \<Rightarrow> int" where
  "backoff_loop 0 base = base"
| "backoff_loop (Suc n) base = backoff_loop n (wrap64 (base * 2))"

definition healingBackoff :: "int \<Rightarrow> int \<times> bool" where
  "healingBackoff attempts =
     (if attempts \<ge> 5 then (0, True) else (backoff_loop (nat attempts) (30 * Second), False))"

definition zero_ReplicaHealth :: ReplicaHealth where
  "zero_ReplicaHealth =
     \<lparr>rh_Name = [], rh_NodeID = [], rh_Phase = [], rh_RestartAttempts = 0, rh_LastHealTime = None\<rparr>"

definition findExistingHealth :: "ReplicaHealth list \<Rightarrow> string \<Rightarrow> ReplicaHealth" where
  "findExistingHealth healths name =
     (case find_key rh_Name name healths of Some h \<Rightarrow> h | None \<Rightarrow> zero_ReplicaHealth)"

definition removeAttachment :: "ReplicaAttachment list \<Rightarrow> nat \<Rightarrow> ReplicaAttachment list" where
  "removeAttachment attachments index = remove_nth index attachments"

definition shiftedName :: "ReplicaAttachment list \<Rightarrow> nat \<Rightarrow> string" where
  "shiftedName attachments index =
     ra_Name (if Suc index < length attachments then attachments ! Suc index else attachments ! index)"

definition replicaPodLabels :: "(string \<times> string) list" where
  "replicaPodLabels = [(''kdfs.krea.to/mode'', ''replica'')]"

definition getReplicaPodByName :: "'w env \<Rightarrow> string \<Rightarrow> string \<Rightarrow> ('w, Pod option) state" where
  "getReplicaPodByName c namespace replicaName = do {
     r \<leftarrow> r_List (pods c) (Some namespace) replicaPodLabels;
     case r of
       Inl _ \<Rightarrow> ret None
     | Inr items \<Rightarrow>
         ret (find (\<lambda>p. obj_Name p = replicaName @ ''-pod'' \<and> pst_PodIP (Status p) \<noteq> []) items)
   }"

text \<open>The first loop.\<close>

fun scanReplicas ::
  "'w env \<Rightarrow> Volume \<Rightarrow> ReplicaAttachment list \<Rightarrow> ReplicaHealth list \<Rightarrow> int
   \<Rightarrow> ('w, error + ReplicaHealth list \<times> int) state" where
  "scanReplicas c volume [] newHealth healthyCount = ret (Inr (newHealth, healthyCount))"
| "scanReplicas c volume (ra # ras) newHealth healthyCount = do {
     let existing = findExistingHealth (vst_ReplicaHealth (Status volume)) (ra_Name ra);
     let health = \<lparr>rh_Name = ra_Name ra, rh_NodeID = ra_NodeID ra, rh_Phase = ''Unknown'',
                   rh_RestartAttempts = rh_RestartAttempts existing,
                   rh_LastHealTime = rh_LastHealTime existing\<rparr>;
     g \<leftarrow> r_Get (replicas c) (NN (obj_Namespace volume) (ra_Name ra));
     case g of
       Inl err \<Rightarrow>
         if IsNotFound err
         then scanReplicas c volume ras (newHealth @ [health\<lparr>rh_Phase := ''Missing''\<rparr>]) healthyCount
         else ret (Inl err)
     | Inr replica \<Rightarrow> do {
         let phase = rst_Phase (Status replica);
         let health = health\<lparr>rh_Phase := phase\<rparr>;
         if phase = ''Running''
         then do {
           pod \<leftarrow> getReplicaPodByName c (obj_Namespace volume) (ra_Name ra);
           if (case pod of None \<Rightarrow> False
               | Some p \<Rightarrow> pst_Phase (Status p) = PodRunning \<and> rst_NQN (Status replica) \<noteq> [])
           then scanReplicas c volume ras (newHealth @ [health]) (healthyCount + 1)
           else scanReplicas c volume ras (newHealth @ [health\<lparr>rh_Phase := ''Pending''\<rparr>]) healthyCount
         }
         else scanReplicas c volume ras (newHealth @ [health]) healthyCount
       }
   }"

text \<open>The second loop and its actions.\<close>

definition healingCondition ::
  "(int \<Rightarrow> Condition list \<Rightarrow> string \<Rightarrow> string \<Rightarrow> string \<Rightarrow> Condition list)
   \<Rightarrow> int \<Rightarrow> string \<Rightarrow> string \<Rightarrow> Volume \<Rightarrow> Volume" where
  "healingCondition setter now reason message volume =
     volume\<lparr>Status := (Status volume)\<lparr>vst_Conditions :=
       setter now (vst_Conditions (Status volume)) VolumeConditionReplicasHealing reason message\<rparr>\<rparr>"

definition healed :: "'w env \<Rightarrow> string \<Rightarrow> string \<Rightarrow> Volume \<Rightarrow> ('w, bool \<times> int \<times> error option) state" where
  "healed c reason message volume = do {
     now \<leftarrow> clock_Now c;
     s \<leftarrow> r_StatusUpdate (volumes c) (healingCondition SetTrue now reason message volume);
     ret (True, 0, err_of s)
   }"

definition detach ::
  "'w env \<Rightarrow> Volume \<Rightarrow> Engine \<Rightarrow> nat \<Rightarrow> string \<Rightarrow> (string \<Rightarrow> string)
   \<Rightarrow> ('w, bool \<times> int \<times> error option) state" where
  "detach c volume engine i reason message = do {
     let ras = es_Replicas (Spec engine);
     u \<leftarrow> r_Update (engines c) (with_replicas (removeAttachment ras i) engine);
     case u of
       Inl err \<Rightarrow> ret (False, 0, Some err)
     | Inr _ \<Rightarrow> healed c reason (message (shiftedName ras i)) volume
   }"

definition recreate ::
  "'w env \<Rightarrow> Volume \<Rightarrow> Engine \<Rightarrow> nat \<Rightarrow> (string \<Rightarrow> string) \<Rightarrow> ('w, bool \<times> int \<times> error option) state" where
  "recreate c volume engine i message = do {
     d \<leftarrow> r_Delete (replicas c) (NN (obj_Namespace volume) (ra_Name (es_Replicas (Spec engine) ! i)));
     case d of
       Inl err \<Rightarrow>
         if \<not> IsNotFound err then ret (False, 0, Some err)
         else detach c volume engine i ''Recreating'' message
     | Inr _ \<Rightarrow> detach c volume engine i ''Recreating'' message
   }"

definition set_health :: "nat \<Rightarrow> ReplicaHealth \<Rightarrow> Volume \<Rightarrow> Volume" where
  "set_health i h volume =
     volume\<lparr>Status := (Status volume)\<lparr>vst_ReplicaHealth := (vst_ReplicaHealth (Status volume))[i := h]\<rparr>\<rparr>"

definition restartPod ::
  "'w env \<Rightarrow> Volume \<Rightarrow> nat \<Rightarrow> string \<Rightarrow> ReplicaHealth \<Rightarrow> Pod \<Rightarrow> ('w, bool \<times> int \<times> error option) state" where
  "restartPod c volume i name health pod = do {
     d \<leftarrow> r_Delete (pods c) (key_of pod);
     let restarted = do {
       now \<leftarrow> clock_Now c;
       let attempts = rh_RestartAttempts health + 1;
       healed c ''RestartingPod''
         (''restarting pod for replica '' @ name @ '' (attempt '' @ Itoa attempts @ '')'')
         (set_health i (health\<lparr>rh_RestartAttempts := attempts, rh_LastHealTime := Some now,
                               rh_Phase := ''Pending''\<rparr>) volume)
     };
     case d of
       Inl err \<Rightarrow> if \<not> IsNotFound err then ret (False, 0, Some err) else restarted
     | Inr _ \<Rightarrow> restarted
   }"

definition remaining :: "int \<Rightarrow> int \<Rightarrow> int \<Rightarrow> int" where
  "remaining backoff now lastHeal = wrap64 (backoff - time_Sub now lastHeal)"

definition shorter :: "int \<Rightarrow> int \<Rightarrow> int" where
  "shorter rem shortestCooldown = (if rem < shortestCooldown then rem else shortestCooldown)"

fun heal_loop ::
  "'w env \<Rightarrow> Volume \<Rightarrow> Engine \<Rightarrow> nat list \<Rightarrow> int \<Rightarrow> ('w, bool \<times> int \<times> error option) state" where
  "heal_loop c volume engine [] shortestCooldown = do {
     now \<leftarrow> clock_Now c;
     s \<leftarrow> r_StatusUpdate (volumes c)
            (healingCondition SetFalse now ''NoActionNeeded'' ''no replicas need healing'' volume);
     ret (False, if shortestCooldown \<noteq> maxInt64 then shortestCooldown else 0, err_of s)
   }"
| "heal_loop c volume engine (i # is) shortestCooldown = do {
     let ra = es_Replicas (Spec engine) ! i;
     let health = vst_ReplicaHealth (Status volume) ! i;
     if rh_Phase health = ''Missing''
     then detach c volume engine i ''RemovedMissing''
            (\<lambda>n. ''removed stale attachment for missing replica '' @ n)
     else if rh_Phase health = ''Failed'' \<or> rh_Phase health = ''Pending''
     then do {
       pod \<leftarrow> getReplicaPodByName c (obj_Namespace volume) (ra_Name ra);
       case pod of
         None \<Rightarrow> do {
           g \<leftarrow> r_Get (replicas c) (NN (obj_Namespace volume) (ra_Name ra));
           case g of
             Inl _ \<Rightarrow> heal_loop c volume engine is shortestCooldown
           | Inr replicaCR \<Rightarrow>
               if rst_Phase (Status replicaCR) \<noteq> ReplicaPhaseRunning
               then heal_loop c volume engine is shortestCooldown
               else if om_DeletionTimestamp (Meta replicaCR) \<noteq> None
               then heal_loop c volume engine is shortestCooldown
               else recreate c volume engine i (\<lambda>n. ''recreating replica '' @ n @ '' (pod missing)'')
         }
       | Some p \<Rightarrow> (case healingBackoff (rh_RestartAttempts health) of (backoff, exhausted) \<Rightarrow>
           if exhausted
           then recreate c volume engine i (\<lambda>n. ''deleting exhausted replica '' @ n @ '' for recreation'')
           else (case rh_LastHealTime health of
                   None \<Rightarrow> restartPod c volume i (ra_Name ra) health p
                 | Some lastHeal \<Rightarrow> do {
                     now \<leftarrow> clock_Now c;
                     let rem = remaining backoff now lastHeal;
                     if rem > 0 then heal_loop c volume engine is (shorter rem shortestCooldown)
                     else restartPod c volume i (ra_Name ra) health p
                   }))
     }
     else (case rh_LastHealTime health of
             None \<Rightarrow> heal_loop c volume engine is shortestCooldown
           | Some lastHeal \<Rightarrow> do {
               now \<leftarrow> clock_Now c;
               let rem = remaining (fst (healingBackoff (rh_RestartAttempts health))) now lastHeal;
               if rem > 0 then heal_loop c volume engine is (shorter rem shortestCooldown)
               else heal_loop c volume engine is shortestCooldown
             })
   }"

definition belowThreshold :: "int \<Rightarrow> int \<Rightarrow> int \<Rightarrow> Volume \<Rightarrow> Volume" where
  "belowThreshold now healthyCount threshold volume =
     healingCondition SetFalse now ''BelowThreshold''
       (''only '' @ Itoa healthyCount @ '' healthy replicas, need at least '' @ Itoa threshold)
       (volume\<lparr>Status := (Status volume)\<lparr>vst_Phase := VolumePhaseDegraded\<rparr>\<rparr>)"

definition healReplicas :: "'w env \<Rightarrow> Volume \<Rightarrow> Engine \<Rightarrow> ('w, bool \<times> int \<times> error option) state" where
  "healReplicas c volume engine = do {
     d \<leftarrow> replicasForVolume c volume;
     case d of
       Inl err \<Rightarrow> ret (False, 0, Some err)
     | Inr desired \<Rightarrow> do {
         s \<leftarrow> scanReplicas c volume (es_Replicas (Spec engine)) [] 0;
         case s of
           Inl err \<Rightarrow> ret (False, 0, Some err)
         | Inr (newHealth, healthyCount) \<Rightarrow> do {
             let volume = volume\<lparr>Status := (Status volume)\<lparr>vst_ReplicaHealth := newHealth\<rparr>\<rparr>;
             let threshold = (if desired - 1 < 0 then 0 else desired - 1);
             if healthyCount < threshold
             then do {
               now \<leftarrow> clock_Now c;
               u \<leftarrow> r_StatusUpdate (volumes c) (belowThreshold now healthyCount threshold volume);
               ret (False, 0, err_of u)
             }
             else heal_loop c volume engine [0..<length (es_Replicas (Spec engine))] maxInt64
           }
       }
   }"

section \<open>Back-off\<close>

lemma backoff_loop_value: "n \<le> 4 \<Longrightarrow> backoff_loop n (30 * Second) = 30 * Second * 2 ^ n"
proof -
  assume "n \<le> 4"
  then consider "n = 0" | "n = 1" | "n = 2" | "n = 3" | "n = 4" by linarith
  then show ?thesis
    by cases (simp_all add: eval_nat_numeral Second_def wrap64_def)
qed

lemma healingBackoff_value:
  "0 \<le> a \<Longrightarrow> a < 5 \<Longrightarrow> healingBackoff a = (30 * Second * 2 ^ nat a, False)"
  by (simp add: healingBackoff_def backoff_loop_value)

section \<open>What is healthy\<close>

text \<open>The pod the code finds for a replica, when the list of pods can be read.\<close>

definition podOf :: "cluster \<Rightarrow> string \<Rightarrow> string \<Rightarrow> Pod option" where
  "podOf cl ns name =
     (case cl_pods cl (NN ns (name @ ''-pod'')) of
        None \<Rightarrow> None
      | Some p \<Rightarrow> if matches (Some ns) replicaPodLabels p \<and> pst_PodIP (Status p) \<noteq> [] then Some p else None)"

definition podRunning :: "Pod option \<Rightarrow> bool" where
  "podRunning p = (case p of None \<Rightarrow> False | Some q \<Rightarrow> pst_Phase (Status q) = PodRunning)"

definition healthy :: "cluster \<Rightarrow> string \<Rightarrow> ReplicaAttachment \<Rightarrow> bool" where
  "healthy cl ns ra =
     (case cl_replicas cl (NN ns (ra_Name ra)) of
        None \<Rightarrow> False
      | Some r \<Rightarrow> rst_Phase (Status r) = ReplicaPhaseRunning \<and> rst_NQN (Status r) \<noteq> []
                  \<and> podRunning (podOf cl ns (ra_Name ra)))"

text \<open>
  Reading the list of pods may fail, and the code then takes the pod for missing. Whether
  this can happen is the parameter \<open>R\<close> of the contract: that the list is always answered.
\<close>

definition pods_listed :: "'w env \<Rightarrow> bool" where
  "pods_listed c \<longleftrightarrow> (\<forall>ns ls w. \<exists>items. fst (run_state (r_List (pods c) ns ls) w) = Inr items)"

definition seenPod :: "bool \<Rightarrow> cluster \<Rightarrow> string \<Rightarrow> string \<Rightarrow> Pod option \<Rightarrow> bool" where
  "seenPod R cl ns name p \<longleftrightarrow> p = podOf cl ns name \<or> p = None \<and> \<not> R"

text \<open>The times the clock may show.\<close>

definition clocks :: "'w env \<Rightarrow> int set" where
  "clocks c = range (\<lambda>w. fst (run_state (clock_Now c) w))"

text \<open>A health record that the first loop may write for an attachment.\<close>

definition scanned :: "bool \<Rightarrow> cluster \<Rightarrow> Volume \<Rightarrow> ReplicaAttachment \<Rightarrow> ReplicaHealth \<Rightarrow> bool" where
  "scanned R cl volume ra h \<longleftrightarrow>
     (let ns = obj_Namespace volume; e = findExistingHealth (vst_ReplicaHealth (Status volume)) (ra_Name ra) in
      rh_Name h = ra_Name ra \<and> rh_NodeID h = ra_NodeID ra
      \<and> rh_RestartAttempts h = rh_RestartAttempts e \<and> rh_LastHealTime h = rh_LastHealTime e
      \<and> (case cl_replicas cl (NN ns (ra_Name ra)) of
            None \<Rightarrow> rh_Phase h = ''Missing''
          | Some r \<Rightarrow>
              if rst_Phase (Status r) = ReplicaPhaseRunning
              then rh_Phase h = ''Running'' \<and> healthy cl ns ra
                   \<or> rh_Phase h = ''Pending'' \<and> (healthy cl ns ra \<longrightarrow> \<not> R)
              else rh_Phase h = rst_Phase (Status r)))"

lemma find_unique_key:
  assumes "distinct (map key_of items)"
    and "set items = {o'. cl_pods cl (key_of o') = Some o' \<and> matches (Some ns) replicaPodLabels o'}"
    and keyed: "\<And>k o'. cl_pods cl k = Some o' \<Longrightarrow> key_of o' = k"
  shows "find (\<lambda>p. obj_Name p = name @ ''-pod'' \<and> pst_PodIP (Status p) \<noteq> []) items = podOf cl ns name"
proof -
  let ?P = "\<lambda>p :: Pod. obj_Name p = name @ ''-pod'' \<and> pst_PodIP (Status p) \<noteq> []"
  have at: "p \<in> set items \<and> ?P p \<longleftrightarrow> podOf cl ns name = Some p" for p
    using keyed [of "NN ns (name @ ''-pod'')"]
    by (auto simp: assms(2) podOf_def matches_def key_of_def split: option.splits if_splits)
  show ?thesis
  proof (cases "podOf cl ns name")
    case None
    then show ?thesis using at by (auto simp: find_None_iff)
  next
    case (Some p)
    obtain q where q: "find ?P items = Some q"
      using at [of p] Some by (cases "find ?P items") (auto simp: find_None_iff)
    then have "podOf cl ns name = Some q" using find_SomeD [OF q] at by blast
    with q show ?thesis by simp
  qed
qed

context kube_client
begin

lemma wp_Now_clocks:
  assumes "\<And>t w'. view w' = view w \<Longrightarrow> t \<in> clocks c \<Longrightarrow> Q t w'"
  shows "wp (clock_Now c) Q w"
proof (rule wp_of_run)
  fix t w' assume run: "run_state (clock_Now c) w = (t, w')"
  then have "t \<in> clocks c" unfolding clocks_def by (metis fst_conv rangeI)
  then show "Q t w'" using clock_frame [OF run] assms by blast
qed

lemma wp_getReplicaPodByName:
  assumes "\<And>p w'. view w' = view w \<Longrightarrow> seenPod (pods_listed c) (view w) ns name p \<Longrightarrow> Q p w'"
  shows "wp (getReplicaPodByName c ns name) Q w"
proof -
  have "wp (r_List (pods c) (Some ns) replicaPodLabels)
     (\<lambda>r w'. view w' = view w \<and>
        (case r of Inl _ \<Rightarrow> \<not> pods_listed c
         | Inr items \<Rightarrow> find (\<lambda>p. obj_Name p = name @ ''-pod'' \<and> pst_PodIP (Status p) \<noteq> []) items
                        = podOf (view w) ns name)) w" (is "wp _ ?P w")
  proof (rule wp_of_run)
    fix r w' assume run: "run_state (r_List (pods c) (Some ns) replicaPodLabels) w = (r, w')"
    have err: "\<not> pods_listed c" if "r = Inl e" for e
    proof
      assume "pods_listed c"
      then obtain items where "fst (run_state (r_List (pods c) (Some ns) replicaPodLabels) w) = Inr items"
        unfolding pods_listed_def by blast
      with run that show False by simp
    qed
    show "?P r w'"
      using pod.list_law [OF run] err pod.keyed
      by (cases r) (auto intro!: find_unique_key)
  qed
  then show ?thesis
    unfolding getReplicaPodByName_def wp_bind
    by (rule wp_mono) (auto simp: seenPod_def split: sum.splits intro!: assms)
qed

text \<open>The first loop records every attachment, and never counts a replica that is not healthy.\<close>

lemma wp_scanReplicas:
  "wp (scanReplicas c volume ras hs n)
     (\<lambda>r w'. view w' = view w \<and>
        (\<forall>hs' n'. r = Inr (hs', n') \<longrightarrow>
           (\<exists>new. hs' = hs @ new \<and> list_all2 (scanned (pods_listed c) (view w) volume) ras new
              \<and> n' \<le> n + int (length (filter (healthy (view w) (obj_Namespace volume)) ras))
              \<and> (pods_listed c \<longrightarrow>
                   n' = n + int (length (filter (healthy (view w) (obj_Namespace volume)) ras)))))) w"
  (is "wp _ (?Q (view w) ras hs n) w")
proof (induction ras arbitrary: hs n w)
  case Nil
  then show ?case by simp
next
  case (Cons ra ras)
  let ?ns = "obj_Namespace volume" and ?R = "pods_listed c"
  let ?r = "cl_replicas (view w) (NN ?ns (ra_Name ra))"
  define Post where "Post = ?Q (view w) (ra # ras) hs n"
  have go: "wp (scanReplicas c volume ras (hs @ [h]) m) Post w1"
    if "view w1 = view w" and "scanned ?R (view w) volume ra h"
      and "m = (if healthy (view w) ?ns ra \<and> rh_Phase h = ''Running'' then n + 1 else n)"
      and "healthy (view w) ?ns ra \<Longrightarrow> ?R \<Longrightarrow> rh_Phase h = ''Running''" for h m w1
    unfolding Post_def
    by (rule wp_mono [OF Cons.IH]) (use that in \<open>auto split: if_splits\<close>)
  have stop: "Post (Inl e) w1" if "view w1 = view w" for e w1
    using that by (simp add: Post_def)
  show ?case
    unfolding Post_def [symmetric] scanReplicas.simps Let_def wp_bind
    apply (rule rep.wp_Get)
    subgoal
      by (auto simp: scanned_def healthy_def Let_def intro!: go stop split: option.splits)
    subgoal for r w1
      by (auto simp: scanned_def healthy_def podRunning_def seenPod_def Let_def
          intro!: go wp_getReplicaPodByName split: option.splits if_splits)
    done
qed

end

section \<open>The contract of healing\<close>

abbreviation rep_key :: "Volume \<Rightarrow> ReplicaAttachment \<Rightarrow> NamespacedName" where
  "rep_key volume ra \<equiv> NN (obj_Namespace volume) (ra_Name ra)"

text \<open>The changes healing makes to the stored objects.\<close>

definition status_only :: "Volume \<Rightarrow> cluster \<Rightarrow> cluster \<Rightarrow> bool" where
  "status_only volume cl cl' \<longleftrightarrow>
     cl' = cl \<or> (\<exists>old st. cl_volumes cl (key_of volume) = Some old
        \<and> cl' = cl_volumes_update (\<lambda>m. m(key_of volume \<mapsto> old\<lparr>Status := st\<rparr>)) cl)"

definition detached :: "Engine \<Rightarrow> nat \<Rightarrow> cluster \<Rightarrow> cluster \<Rightarrow> bool" where
  "detached engine i cl cl' \<longleftrightarrow>
     cl' = cl \<or> (\<exists>old. cl_engines cl (key_of engine) = Some old
        \<and> cl' = cl_engines_update (\<lambda>m. m(key_of engine :=
             kept (updated old (with_replicas (removeAttachment (es_Replicas (Spec engine)) i) engine)))) cl)"

definition rep_deleted :: "NamespacedName \<Rightarrow> cluster \<Rightarrow> cluster \<Rightarrow> bool" where
  "rep_deleted k cl cl' \<longleftrightarrow>
     cl' = cl \<or> (\<exists>old rest. cl_replicas cl k = Some old \<and> deleted old rest
        \<and> cl' = cl_replicas_update (\<lambda>m. m(k := rest)) cl)"

definition pod_deleted :: "NamespacedName \<Rightarrow> cluster \<Rightarrow> cluster \<Rightarrow> bool" where
  "pod_deleted k cl cl' \<longleftrightarrow>
     cl' = cl \<or> (\<exists>old rest. cl_pods cl k = Some old \<and> deleted old rest
        \<and> cl' = cl_pods_update (\<lambda>m. m(k := rest)) cl)"

text \<open>The attempts and the last healing the volume's status records for a replica.\<close>

definition attemptsOf :: "Volume \<Rightarrow> ReplicaAttachment \<Rightarrow> int" where
  "attemptsOf volume ra =
     rh_RestartAttempts (findExistingHealth (vst_ReplicaHealth (Status volume)) (ra_Name ra))"

definition lastHealOf :: "Volume \<Rightarrow> ReplicaAttachment \<Rightarrow> int option" where
  "lastHealOf volume ra =
     rh_LastHealTime (findExistingHealth (vst_ReplicaHealth (Status volume)) (ra_Name ra))"

text \<open>A replica in trouble: it is neither healthy nor in a phase that healing waits for.\<close>

definition troubled :: "bool \<Rightarrow> cluster \<Rightarrow> string \<Rightarrow> ReplicaAttachment \<Rightarrow> bool" where
  "troubled R cl ns ra \<longleftrightarrow>
     (\<exists>r. cl_replicas cl (NN ns (ra_Name ra)) = Some r
        \<and> (rst_Phase (Status r) = ReplicaPhaseRunning \<and> (healthy cl ns ra \<longrightarrow> \<not> R)
           \<or> rst_Phase (Status r) \<in> {ReplicaPhaseFailed, ReplicaPhasePending}))"

text \<open>
  One healing step, from the objects \<open>cl\<close>: nothing, or one action on one attachment, with
  the condition that allows it, on a clock that shows times in \<open>C\<close> only. An action whose
  later calls fail stops half way.
\<close>

inductive heal_step :: "bool \<Rightarrow> int set \<Rightarrow> Volume \<Rightarrow> Engine \<Rightarrow> cluster \<Rightarrow> cluster \<Rightarrow> bool"
  for R C volume engine cl where
  idle: "heal_step R C volume engine cl cl"
| remove_missing:
    "i < length (es_Replicas (Spec engine)) \<Longrightarrow> ra = es_Replicas (Spec engine) ! i \<Longrightarrow>
     (case cl_replicas cl (rep_key volume ra) of
        None \<Rightarrow> True | Some r \<Rightarrow> rst_Phase (Status r) = ''Missing'') \<Longrightarrow>
     detached engine i cl cl' \<Longrightarrow> heal_step R C volume engine cl cl'"
| recreate_lost:
    "i < length (es_Replicas (Spec engine)) \<Longrightarrow> ra = es_Replicas (Spec engine) ! i \<Longrightarrow>
     troubled R cl (obj_Namespace volume) ra \<Longrightarrow>
     seenPod R cl (obj_Namespace volume) (ra_Name ra) None \<Longrightarrow>
     cl_replicas cl (rep_key volume ra) = Some r \<Longrightarrow>
     rst_Phase (Status r) = ReplicaPhaseRunning \<Longrightarrow> om_DeletionTimestamp (Meta r) = None \<Longrightarrow>
     rep_deleted (rep_key volume ra) cl cl1 \<Longrightarrow> detached engine i cl1 cl' \<Longrightarrow>
     heal_step R C volume engine cl cl'"
| recreate_exhausted:
    "i < length (es_Replicas (Spec engine)) \<Longrightarrow> ra = es_Replicas (Spec engine) ! i \<Longrightarrow>
     troubled R cl (obj_Namespace volume) ra \<Longrightarrow>
     podOf cl (obj_Namespace volume) (ra_Name ra) = Some p \<Longrightarrow> 5 \<le> attemptsOf volume ra \<Longrightarrow>
     rep_deleted (rep_key volume ra) cl cl1 \<Longrightarrow> detached engine i cl1 cl' \<Longrightarrow>
     heal_step R C volume engine cl cl'"
| restart_pod:
    "i < length (es_Replicas (Spec engine)) \<Longrightarrow> ra = es_Replicas (Spec engine) ! i \<Longrightarrow>
     troubled R cl (obj_Namespace volume) ra \<Longrightarrow>
     podOf cl (obj_Namespace volume) (ra_Name ra) = Some p \<Longrightarrow> attemptsOf volume ra < 5 \<Longrightarrow>
     (\<forall>t. lastHealOf volume ra = Some t \<longrightarrow>
        (\<exists>now \<in> C. remaining (fst (healingBackoff (attemptsOf volume ra))) now t \<le> 0)) \<Longrightarrow>
     pod_deleted (key_of p) cl cl' \<Longrightarrow> heal_step R C volume engine cl cl'"

text \<open>
  A run of the whole operation: one step, which changes something only when at least all but
  one of the desired replicas are healthy, then at most a change of the volume's status.
\<close>

definition heal_refines :: "bool \<Rightarrow> int set \<Rightarrow> Volume \<Rightarrow> Engine \<Rightarrow> cluster \<Rightarrow> cluster \<Rightarrow> bool" where
  "heal_refines R C volume engine cl cl' \<longleftrightarrow>
     (\<exists>cl1. heal_step R C volume engine cl cl1 \<and> status_only volume cl1 cl'
        \<and> (cl1 \<noteq> cl \<longrightarrow>
             (\<exists>d. desired_of cl volume d \<and>
                d - 1 \<le> int (length (filter (healthy cl (obj_Namespace volume)) (es_Replicas (Spec engine)))))))"

lemma heal_refines_quiet: "status_only volume cl cl' \<Longrightarrow> heal_refines R C volume engine cl cl'"
  unfolding heal_refines_def using heal_step.idle by blast

context kube_client
begin

lemma wp_volume_status:
  assumes "key_of v = key_of volume"
    and "\<And>s w'. status_only volume (view w) (view w') \<Longrightarrow> Q s w'"
  shows "wp (r_StatusUpdate (volumes c) v) Q w"
  using assms(1) by (intro vol.wp_StatusUpdate assms(2)) (auto simp: status_only_def)

lemma wp_healed:
  assumes "key_of v = key_of volume"
    and "\<And>err w'. status_only volume (view w) (view w') \<Longrightarrow> Q (True, 0, err) w'"
  shows "wp (healed c reason msg v) Q w"
  using assms
  by (auto simp: healed_def healingCondition_def key_of_def intro!: wp_Now wp_volume_status [of _ volume])

lemma wp_detach:
  assumes "key_of v = key_of volume"
    and "\<And>b err cl w'. detached engine i (view w) cl \<Longrightarrow> status_only volume cl (view w') \<Longrightarrow> Q (b, 0, err) w'"
  shows "wp (detach c v engine i reason msg) Q w"
  unfolding detach_def Let_def wp_bind
proof (rule eng.wp_Update)
  fix e w1 assume "view w1 = view w"
  then have "Q (False, 0, Some e) w1"
    by (intro assms(2) [of "view w"]) (simp_all add: detached_def status_only_def)
  then show "wp (case Inl e of Inl err \<Rightarrow> ret (False, 0, Some err)
      | Inr x \<Rightarrow> healed c reason (msg (shiftedName (es_Replicas (Spec engine)) i)) v) Q w1"
    by simp
next
  fix old w1
  let ?e = "with_replicas (removeAttachment (es_Replicas (Spec engine)) i) engine"
  assume "cl_engines (view w) (key_of ?e) = Some old"
    and "view w1 = cl_engines_update (\<lambda>m. m(key_of ?e := kept (updated old ?e))) (view w)"
  then have "detached engine i (view w) (view w1)" by (auto simp: detached_def)
  then show "wp (case Inr (updated old ?e) of Inl err \<Rightarrow> ret (False, 0, Some err)
      | Inr x \<Rightarrow> healed c reason (msg (shiftedName (es_Replicas (Spec engine)) i)) v) Q w1"
    by (auto intro!: wp_healed [OF assms(1)] intro: assms(2))
qed

lemma wp_recreate:
  assumes "key_of v = key_of volume" and "obj_Namespace v = obj_Namespace volume"
    and "\<And>b err cl1 cl w'. rep_deleted (rep_key volume (es_Replicas (Spec engine) ! i)) (view w) cl1 \<Longrightarrow>
      detached engine i cl1 cl \<Longrightarrow> status_only volume cl (view w') \<Longrightarrow> Q (b, 0, err) w'"
  shows "wp (recreate c v engine i msg) Q w"
proof -
  have stop: "Q (False, 0, Some e) w1" if "view w1 = view w" for e w1
    using that by (intro assms(3) [of "view w" "view w"])
      (simp_all add: rep_deleted_def detached_def status_only_def)
  have go: "wp (detach c v engine i ''Recreating'' msg) Q w1"
    if "rep_deleted (rep_key volume (es_Replicas (Spec engine) ! i)) (view w) (view w1)" for w1
    by (rule wp_detach [OF assms(1)], rule assms(3) [OF that])
  show ?thesis
    unfolding recreate_def wp_bind
    by (rule rep.wp_Delete) (auto simp: assms(2) rep_deleted_def intro!: stop go)
qed

lemma wp_restartPod:
  assumes "key_of v = key_of volume"
    and "\<And>b err cl w'. pod_deleted (key_of p) (view w) cl \<Longrightarrow> status_only volume cl (view w') \<Longrightarrow> Q (b, 0, err) w'"
  shows "wp (restartPod c v i name h p) Q w"
proof -
  have stop: "Q (False, 0, Some e) w1" if "view w1 = view w" for e w1
    using that by (intro assms(2) [of "view w"]) (simp_all add: pod_deleted_def status_only_def)
  have key: "key_of (set_health i h' v) = key_of volume" for h'
    using assms(1) by (simp add: set_health_def key_of_def)
  have go: "wp (clock_Now c) (\<lambda>now. wp (healed c r (m now) (set_health i (h' now) v)) Q) w1"
    if "pod_deleted (key_of p) (view w) (view w1)" for w1 r m h'
    using that assms(2) by (auto intro!: wp_Now wp_healed [OF key])
  show ?thesis
    unfolding restartPod_def Let_def wp_bind
    by (rule pod.wp_Delete) (auto simp: pod_deleted_def intro!: stop go)
qed

text \<open>Every run of the second loop is one healing step, then at most a change of the volume's status.\<close>

lemma wp_heal_loop:
  assumes "set is \<subseteq> {..<length (es_Replicas (Spec engine))}"
    and "list_all2 (scanned (pods_listed c) cl volume) (es_Replicas (Spec engine)) (vst_ReplicaHealth (Status v))"
    and "Meta v = Meta volume" and "view w = cl" and "0 < s"
  shows "wp (heal_loop c v engine is s)
     (\<lambda>(b, t, err) w'. 0 \<le> t \<and>
        (\<exists>cl1. heal_step (pods_listed c) (clocks c) volume engine cl cl1 \<and> status_only volume cl1 (view w'))) w"
  using assms
proof (induction "is" arbitrary: w s)
  case Nil
  have "key_of (healingCondition f t r m v) = key_of volume" for f t r m
    using Nil.prems(3) by (simp add: healingCondition_def key_of_def)
  moreover have "\<exists>cl1. heal_step (pods_listed c) (clocks c) volume engine cl cl1 \<and> status_only volume cl1 cl2"
    if "status_only volume cl cl2" for cl2 using that heal_step.idle by blast
  ultimately show ?case
    using Nil.prems by (auto intro!: wp_Now wp_volume_status [of _ volume])
next
  case (Cons i "is")
  let ?ras = "es_Replicas (Spec engine)" and ?R = "pods_listed c" and ?ns = "obj_Namespace volume"
  let ?ra = "?ras ! i" and ?h = "vst_ReplicaHealth (Status v) ! i"
  define Post where "Post = (\<lambda>(b :: bool, t :: int, err :: error option) w'. 0 \<le> t \<and>
        (\<exists>cl1. heal_step (pods_listed c) (clocks c) volume engine cl cl1 \<and> status_only volume cl1 (view w')))"
  have i: "i < length ?ras" using Cons.prems(1) by simp
  have sc: "scanned ?R cl volume ?ra ?h" using Cons.prems(2) i by (simp add: list_all2_nthD)
  have att: "rh_RestartAttempts ?h = attemptsOf volume ?ra" "rh_LastHealTime ?h = lastHealOf volume ?ra"
    using sc by (simp_all add: scanned_def attemptsOf_def lastHealOf_def Let_def)
  have key: "key_of v = key_of volume" "obj_Namespace v = ?ns"
    using Cons.prems(3) by (simp_all add: key_of_def)
  have rest: "wp (heal_loop c v engine is s') Post w1" if "view w1 = cl" "0 < s'" for w1 s'
    unfolding Post_def using that Cons.prems by (intro Cons.IH) auto
  have post: "Post (b, 0, err) w'" if "heal_step ?R (clocks c) volume engine cl cl1" "status_only volume cl1 (view w')"
    for b err cl1 w' using that by (auto simp: Post_def)
  have gone: "case cl_replicas cl (rep_key volume ?ra) of None \<Rightarrow> True | Some r \<Rightarrow> rst_Phase (Status r) = ''Missing''"
    if "rh_Phase ?h = ''Missing''"
    using sc that by (auto simp: scanned_def Let_def split: option.splits if_splits)
  have tr: "troubled ?R cl ?ns ?ra" if "rh_Phase ?h = ''Failed'' \<or> rh_Phase ?h = ''Pending''"
    using sc that by (auto simp: scanned_def troubled_def Let_def split: option.splits if_splits)
  have missing: "wp (detach c v engine i r m) Post w" if "rh_Phase ?h = ''Missing''" for r m
    by (rule wp_detach [OF key(1)], rule post [OF heal_step.remove_missing [OF i refl gone [OF that]]])
      (simp_all add: Cons.prems(4))
  have lost: "wp (recreate c v engine i m) Post w1"
    if "view w1 = cl" "troubled ?R cl ?ns ?ra" "seenPod ?R cl ?ns (ra_Name ?ra) None"
      "cl_replicas cl (rep_key volume ?ra) = Some r" "rst_Phase (Status r) = ReplicaPhaseRunning"
      "om_DeletionTimestamp (Meta r) = None" for m r w1
    by (rule wp_recreate [OF key], rule post [OF heal_step.recreate_lost [OF i refl that(2-6)]])
      (simp_all add: that(1))
  have used_up: "wp (recreate c v engine i m) Post w1"
    if "view w1 = cl" "troubled ?R cl ?ns ?ra" "podOf cl ?ns (ra_Name ?ra) = Some p"
      "5 \<le> attemptsOf volume ?ra" for m p w1
    by (rule wp_recreate [OF key], rule post [OF heal_step.recreate_exhausted [OF i refl that(2-4)]])
      (simp_all add: that(1))
  have restart: "wp (restartPod c v i n ?h p) Post w1"
    if "view w1 = cl" "troubled ?R cl ?ns ?ra" "podOf cl ?ns (ra_Name ?ra) = Some p" "attemptsOf volume ?ra < 5"
      "\<forall>t. lastHealOf volume ?ra = Some t \<longrightarrow>
         (\<exists>now \<in> clocks c. remaining (fst (healingBackoff (attemptsOf volume ?ra))) now t \<le> 0)" for n p w1
    by (rule wp_restartPod [OF key(1)], rule post [OF heal_step.restart_pod [OF i refl that(2-5)]])
      (simp_all add: that(1))
  have withPod: "wp (case healingBackoff (rh_RestartAttempts ?h) of (backoff, exhausted) \<Rightarrow>
           if exhausted then recreate c v engine i m
           else (case rh_LastHealTime ?h of
                   None \<Rightarrow> restartPod c v i n ?h p
                 | Some lastHeal \<Rightarrow> do {
                     now \<leftarrow> clock_Now c;
                     if remaining backoff now lastHeal > 0
                     then heal_loop c v engine is (shorter (remaining backoff now lastHeal) s)
                     else restartPod c v i n ?h p
                   })) Post w1"
    if "view w1 = cl" "troubled ?R cl ?ns ?ra" "podOf cl ?ns (ra_Name ?ra) = Some p" for m n p w1
    using that Cons.prems(5)
    by (auto simp: att healingBackoff_def shorter_def Let_def
        intro!: used_up restart wp_Now_clocks rest split: option.split)
      (meson not_less)
  have step: "wp (heal_loop c v engine (i # is) s) Post w"
  proof (cases "rh_Phase ?h = ''Failed'' \<or> rh_Phase ?h = ''Pending''")
    case True
    note tr = tr [OF True]
    have noPod: "wp (r_Get (replicas c) (rep_key volume ?ra)) (\<lambda>g. wp (case g of
             Inl _ \<Rightarrow> heal_loop c v engine is s
           | Inr replicaCR \<Rightarrow>
               if rst_Phase (Status replicaCR) \<noteq> ReplicaPhaseRunning then heal_loop c v engine is s
               else if om_DeletionTimestamp (Meta replicaCR) \<noteq> None then heal_loop c v engine is s
               else recreate c v engine i m) Post) w1"
      if "view w1 = cl" "seenPod ?R cl ?ns (ra_Name ?ra) None" for m w1
      by (rule rep.wp_Get) (auto simp: that(1) intro!: rest Cons.prems(5) lost tr that(2))
    have seen: "podOf cl ?ns (ra_Name ?ra) = Some p" if "seenPod ?R cl ?ns (ra_Name ?ra) (Some p)" for p
      using that by (simp add: seenPod_def)
    have nm: "rh_Phase ?h \<noteq> ''Missing''" using True by auto
    show ?thesis
      unfolding heal_loop.simps Let_def wp_if wp_bind key(2) if_not_P [OF nm] if_P [OF True]
    proof (rule wp_getReplicaPodByName, goal_cases)
      case (1 p w1)
      then have "view w1 = cl" "seenPod ?R cl ?ns (ra_Name ?ra) p" by (simp_all add: Cons.prems(4))
      then show ?case
        by (cases p; simp only: option.case wp_bind) (rule noPod withPod; simp only: tr seen)+
    qed
  next
    case False
    then show ?thesis
      unfolding heal_loop.simps Let_def wp_if wp_bind key(2) using Cons.prems(4,5)
      by (auto simp: shorter_def intro!: missing wp_Now rest split: option.split)
  qed
  then show ?case by (simp only: Post_def)
qed

lemma wp_below_threshold:
  assumes "view w1 = view w"
  shows "wp (clock_Now c) (\<lambda>now. wp (r_StatusUpdate (volumes c)
        (belowThreshold now a b (volume\<lparr>Status := st\<rparr>)))
        (\<lambda>u w'. heal_refines (pods_listed c) (clocks c) volume engine (view w) (view w'))) w1"
proof -
  have key: "key_of (belowThreshold t a b (volume\<lparr>Status := st\<rparr>)) = key_of volume" for t
    by (simp add: belowThreshold_def healingCondition_def key_of_def)
  show ?thesis
    by (rule wp_Now, rule wp_volume_status [OF key], rule heal_refines_quiet) (simp add: assms)
qed

lemma wp_heal_above:
  assumes "view w1 = view w"
    and "list_all2 (scanned (pods_listed c) (view w) volume) (es_Replicas (Spec engine)) hs"
    and "desired_of (view w) volume d"
    and "m \<le> int (length (filter (healthy (view w) (obj_Namespace volume)) (es_Replicas (Spec engine))))"
    and "d - 1 \<le> m"
  shows "wp (heal_loop c (volume\<lparr>Status := (Status volume)\<lparr>vst_ReplicaHealth := hs\<rparr>\<rparr>) engine
        [0..<length (es_Replicas (Spec engine))] maxInt64)
        (\<lambda>(b, t, err) w'. 0 \<le> t \<and> heal_refines (pods_listed c) (clocks c) volume engine (view w) (view w')) w1"
proof -
  have g: "\<exists>d. desired_of (view w) volume d \<and>
      d - 1 \<le> int (length (filter (healthy (view w) (obj_Namespace volume)) (es_Replicas (Spec engine))))"
    using assms(3-5) by (intro exI [of _ d]) simp
  show ?thesis
    unfolding heal_refines_def
    by (rule wp_mono [OF wp_heal_loop [of _ engine "view w" volume]])
      (use assms(1,2) in \<open>auto simp: maxInt64_def\<close>, use g in blast)
qed

lemma wp_healReplicas:
  "wp (healReplicas c volume engine)
     (\<lambda>(b, t, err) w'. 0 \<le> t \<and> heal_refines (pods_listed c) (clocks c) volume engine (view w) (view w')) w"
  unfolding healReplicas_def wp_bind
proof (rule wp_replicasForVolume, goal_cases)
  case (1 e w1)
  then show ?case by (simp add: heal_refines_quiet status_only_def)
next
  case (2 d w1)
  show ?case
    unfolding sum.case wp_bind
  proof (rule wp_mono [OF wp_scanReplicas], goal_cases)
    case (1 r w2)
    then have v2: "view w2 = view w" using 2(1) by simp
    show ?case
    proof (cases r)
      case (Inl e)
      then show ?thesis using v2 by (simp add: heal_refines_quiet status_only_def)
    next
      case (Inr hm)
      obtain hs m where hm: "hm = (hs, m)" by force
      with 1 2 Inr have "list_all2 (scanned (pods_listed c) (view w) volume) (es_Replicas (Spec engine)) hs"
        "m \<le> int (length (filter (healthy (view w) (obj_Namespace volume)) (es_Replicas (Spec engine))))"
        by auto
      then show ?thesis
        using wp_below_threshold [OF v2] wp_heal_above [OF v2 _ 2(3)]
        by (simp add: Inr hm Let_def)
    qed
  qed
qed

end

section \<open>Consequences of the contract\<close>

abbreviation pod_key :: "Volume \<Rightarrow> ReplicaAttachment \<Rightarrow> NamespacedName" where
  "pod_key volume ra \<equiv> NN (obj_Namespace volume) (ra_Name ra @ ''-pod'')"

text \<open>All an action on one attachment may change: its replica, its pod, the engine's list and the volume.\<close>

definition touches :: "Volume \<Rightarrow> Engine \<Rightarrow> nat \<Rightarrow> cluster \<Rightarrow> cluster \<Rightarrow> bool" where
  "touches volume engine i cl cl' \<longleftrightarrow>
     (\<forall>k. k \<noteq> rep_key volume (es_Replicas (Spec engine) ! i) \<longrightarrow> cl_replicas cl' k = cl_replicas cl k)
     \<and> (\<forall>k. k \<noteq> pod_key volume (es_Replicas (Spec engine) ! i) \<longrightarrow> cl_pods cl' k = cl_pods cl k)
     \<and> (\<forall>k. k \<noteq> key_of engine \<longrightarrow> cl_engines cl' k = cl_engines cl k)
     \<and> (\<forall>old. cl_engines cl (key_of engine) = Some old \<longrightarrow>
          cl_engines cl' (key_of engine) = Some old
          \<or> cl_engines cl' (key_of engine) =
               kept (updated old (with_replicas (removeAttachment (es_Replicas (Spec engine)) i) engine)))
     \<and> (\<forall>k. k \<noteq> key_of volume \<longrightarrow> cl_volumes cl' k = cl_volumes cl k)
     \<and> cl_nodes cl' = cl_nodes cl \<and> cl_snapshots cl' = cl_snapshots cl"

lemma touches_detached:
  "rep_deleted (rep_key volume (es_Replicas (Spec engine) ! i)) cl cl1 \<Longrightarrow> detached engine i cl1 cl' \<Longrightarrow>
   touches volume engine i cl cl'"
  by (auto simp: touches_def rep_deleted_def detached_def)

lemma touches_pod:
  "pod_deleted (pod_key volume (es_Replicas (Spec engine) ! i)) cl cl' \<Longrightarrow> touches volume engine i cl cl'"
  by (auto simp: touches_def pod_deleted_def)

lemma troubled_not_healthy: "troubled R cl ns ra \<Longrightarrow> R \<Longrightarrow> \<not> healthy cl ns ra"
  by (auto simp: troubled_def healthy_def split: option.splits)

lemma podOf_key: "podOf cl ns name = Some p \<Longrightarrow> cl_pods cl (NN ns (name @ ''-pod'')) = Some p"
  by (auto simp: podOf_def split: option.splits if_splits)

lemma heal_step_touches:
  assumes "heal_step R C volume engine cl cl'"
    and keyed: "\<And>k p. cl_pods cl k = Some p \<Longrightarrow> key_of p = k"
  shows "cl' = cl \<or> (\<exists>i < length (es_Replicas (Spec engine)). touches volume engine i cl cl'
            \<and> (R \<longrightarrow> \<not> healthy cl (obj_Namespace volume) (es_Replicas (Spec engine) ! i)))"
  using assms(1)
proof cases
  case idle
  then show ?thesis by simp
next
  case (remove_missing i ra)
  then have "touches volume engine i cl cl'"
    by (intro touches_detached [of _ _ _ _ cl]) (simp_all add: rep_deleted_def)
  moreover have "\<not> healthy cl (obj_Namespace volume) ra"
    using remove_missing by (auto simp: healthy_def split: option.splits)
  ultimately show ?thesis using remove_missing by blast
next
  case (recreate_lost i ra r cl1)
  then show ?thesis using touches_detached troubled_not_healthy by blast
next
  case (recreate_exhausted i ra p cl1)
  then show ?thesis using touches_detached troubled_not_healthy by blast
next
  case (restart_pod i ra p)
  then have "key_of p = pod_key volume ra" using keyed podOf_key by blast
  with restart_pod show ?thesis using touches_pod troubled_not_healthy by metis
qed

text \<open>A volume's status is no part of what healing acts on.\<close>

lemma status_only_sel:
  assumes "status_only volume cl cl'"
  shows "cl_replicas cl' = cl_replicas cl" "cl_pods cl' = cl_pods cl" "cl_engines cl' = cl_engines cl"
    "cl_nodes cl' = cl_nodes cl" "cl_snapshots cl' = cl_snapshots cl"
    "k \<noteq> key_of volume \<Longrightarrow> cl_volumes cl' k = cl_volumes cl k"
  using assms by (auto simp: status_only_def)

lemma touches_status_only: "touches volume engine i cl cl1 \<Longrightarrow> status_only volume cl1 cl' \<Longrightarrow> touches volume engine i cl cl'"
  by (simp add: touches_def status_only_sel)

lemma healthy_cong:
  assumes "cl_replicas cl' (NN ns (ra_Name ra)) = cl_replicas cl (NN ns (ra_Name ra))"
    and "cl_pods cl' (NN ns (ra_Name ra @ ''-pod'')) = cl_pods cl (NN ns (ra_Name ra @ ''-pod''))"
  shows "healthy cl' ns ra = healthy cl ns ra"
  unfolding healthy_def podOf_def assms by (rule refl)

context kube_client
begin

lemma healReplicas_touches:
  assumes "run_state (healReplicas c volume engine) w = ((b, t, err), w')"
  shows "status_only volume (view w) (view w')
     \<or> (\<exists>i < length (es_Replicas (Spec engine)). touches volume engine i (view w) (view w')
          \<and> (pods_listed c \<longrightarrow> \<not> healthy (view w) (obj_Namespace volume) (es_Replicas (Spec engine) ! i)))"
proof -
  obtain cl1 where "heal_step (pods_listed c) (clocks c) volume engine (view w) cl1"
      "status_only volume cl1 (view w')"
    using wp_run [OF wp_healReplicas assms] by (auto simp: heal_refines_def)
  then show ?thesis
    using heal_step_touches pod.keyed touches_status_only by blast
qed

end

section \<open>Properties\<close>

text \<open>
  C8: while the pods can be listed, healing never touches a healthy replica. Every attachment that
  is healthy before a run, whichever other calls fail and however the run ends, keeps its replica
  object and its pod as they were and is still healthy, and it stays attached to the stored engine.
  When listing the pods fails it does not hold: a replica is then taken for unhealthy, and may be
  deleted (lemma \<open>heal_deletes_on_list_error\<close>).
\<close>

theorem heal_spares_healthy:
  assumes client: "kube_client c view" and listed: "pods_listed c"
    and run: "run_state (healReplicas c volume engine) w = ((b, t, err), w')"
    and dist: "distinct (map ra_Name (es_Replicas (Spec engine)))"
    and ra: "ra \<in> set (es_Replicas (Spec engine))" "healthy (view w) (obj_Namespace volume) ra"
    and stored: "cl_engines (view w) (key_of engine) = Some engine"
  shows "cl_replicas (view w') (rep_key volume ra) = cl_replicas (view w) (rep_key volume ra)
     \<and> cl_pods (view w') (pod_key volume ra) = cl_pods (view w) (pod_key volume ra)
     \<and> healthy (view w') (obj_Namespace volume) ra
     \<and> (\<forall>e. cl_engines (view w') (key_of engine) = Some e \<longrightarrow> ra \<in> set (es_Replicas (Spec e)))"
proof -
  let ?ras = "es_Replicas (Spec engine)"
  have keep: ?thesis if "i < length ?ras" "touches volume engine i (view w) (view w')"
      "\<not> healthy (view w) (obj_Namespace volume) (?ras ! i)" for i
  proof -
    have "ra \<noteq> ?ras ! i" using ra(2) that(3) by auto
    then have "ra_Name ra \<noteq> ra_Name (?ras ! i)"
      using dist ra(1) that(1) by (metis distinct_map inj_onD nth_mem)
    moreover from this that(1,2) ra(1) have
      "ra \<in> set (es_Replicas (Spec e))" if "cl_engines (view w') (key_of engine) = Some e" for e
      using that stored dist set_remove_nth_distinct [OF distinct_mapI, of ra_Name ?ras i]
      by (auto simp: touches_def kept_def removeAttachment_def with_replicas_def split: if_splits)
    ultimately show ?thesis
      using that(2) ra(2) healthy_cong [of "view w'" "obj_Namespace volume" ra "view w"]
      by (simp add: touches_def)
  qed
  moreover have ?thesis if "status_only volume (view w) (view w')"
    using ra stored status_only_sel [OF that] healthy_cong [of "view w'" "obj_Namespace volume" ra "view w"]
    by simp
  ultimately show ?thesis
    using kube_client.healReplicas_touches [OF client run] listed by blast
qed

definition healSample :: mem where
  "healSample = sampleMem [sampleVolume ''3'' zero_VolumeStatus]
     [sampleEngine [attachment ''vol-replica-0'' ''n1'', attachment ''vol-replica-1'' ''n2'',
                    attachment ''vol-replica-2'' ''n3''] ''Degraded'']
     [sampleReplica 0 ''n1'' ''Running'' ''nqn0'', sampleReplica 1 ''n2'' ''Failed'' ''nqn1'',
      sampleReplica 2 ''n3'' ''Running'' ''nqn2'']
     [samplePod ''vol-replica-0-pod'' ''replica'' ''Running'', samplePod ''vol-replica-1-pod'' ''replica'' ''Running'',
      samplePod ''vol-replica-2-pod'' ''replica'' ''Running'']"

definition healVolume :: Volume where "healVolume = sampleVolume ''3'' zero_VolumeStatus"

definition healEngine :: Engine where
  "healEngine = sampleEngine [attachment ''vol-replica-0'' ''n1'', attachment ''vol-replica-1'' ''n2'',
                    attachment ''vol-replica-2'' ''n3''] ''Degraded''"

lemma pods_listed_mem: "pods_listed (mem_env http)"
  by (simp add: pods_listed_def mem_env_def mem_resource_def)

lemma healSample_facts:
  "distinct (map ra_Name (es_Replicas (Spec healEngine)))"
  "attachment ''vol-replica-0'' ''n1'' \<in> set (es_Replicas (Spec healEngine))"
  "healthy (mem_view healSample) ''ns'' (attachment ''vol-replica-0'' ''n1'')"
  "cl_engines (mem_view healSample) (key_of healEngine) = Some healEngine"
  "obj_Namespace healVolume = ''ns''"
  by (code_simp, code_simp, code_simp, code_simp, code_simp)

theorem heal_spares_healthy_witness:
  "let ((b, t, err), w') = run_state (healReplicas (mem_env noHttp) healVolume healEngine) healSample
   in healthy (mem_view w') ''ns'' (attachment ''vol-replica-0'' ''n1'')"
  using heal_spares_healthy [where c = "mem_env noHttp" and volume = healVolume and w = healSample,
      OF kube_client_mem pods_listed_mem _ healSample_facts(1,2) _ healSample_facts(4)] healSample_facts(3)
  unfolding healSample_facts(5) by (auto split: prod.split)

text \<open>
  C10: the N-1 guard. A run of healing that changes any replica, pod or engine does so only when
  at most one of the desired replicas is not healthy.
\<close>

theorem heal_guarded:
  assumes client: "kube_client c view"
    and run: "run_state (healReplicas c volume engine) w = (r, w')"
    and changed: "cl_replicas (view w') \<noteq> cl_replicas (view w) \<or> cl_pods (view w') \<noteq> cl_pods (view w)
                   \<or> cl_engines (view w') \<noteq> cl_engines (view w)"
  shows "\<exists>d. desired_of (view w) volume d \<and>
           d - 1 \<le> int (length (filter (healthy (view w) (obj_Namespace volume)) (es_Replicas (Spec engine))))"
proof -
  obtain cl1 where cl1: "status_only volume cl1 (view w')"
      "cl1 \<noteq> view w \<longrightarrow> (\<exists>d. desired_of (view w) volume d \<and>
         d - 1 \<le> int (length (filter (healthy (view w) (obj_Namespace volume)) (es_Replicas (Spec engine)))))"
    using wp_run [OF kube_client.wp_healReplicas [OF client] run] by (cases r) (auto simp: heal_refines_def)
  then show ?thesis using changed status_only_sel [OF cl1(1)] by auto
qed

theorem heal_guarded_witness:
  "\<exists>d. desired_of (mem_view healSample) healVolume d \<and>
     d - 1 \<le> int (length (filter (healthy (mem_view healSample) ''ns'') (es_Replicas (Spec healEngine))))"
proof -
  let ?r = "run_state (healReplicas (mem_env noHttp) healVolume healEngine) healSample"
  have "map (\<lambda>p. obj_Name p) (m_pods (snd ?r)) = [''vol-replica-0-pod'', ''vol-replica-2-pod'']" by code_simp
  then have "at_key (m_pods (snd ?r)) (NN ''ns'' ''vol-replica-1-pod'') = None"
    by (auto simp: find_key_None key_of_def dest: arg_cong [of _ _ set])
  moreover have "at_key (m_pods healSample) (NN ''ns'' ''vol-replica-1-pod'') \<noteq> None" by code_simp
  ultimately have "cl_pods (mem_view (snd ?r)) (NN ''ns'' ''vol-replica-1-pod'')
      \<noteq> cl_pods (mem_view healSample) (NN ''ns'' ''vol-replica-1-pod'')"
    by (auto simp only: mem_view_def cluster.simps)
  then have "cl_pods (mem_view (snd ?r)) \<noteq> cl_pods (mem_view healSample)" by (rule differ_at)
  then show ?thesis
    using heal_guarded [OF kube_client_mem, of noHttp healVolume healEngine healSample "fst ?r" "snd ?r"]
    unfolding healSample_facts(5) by simp
qed

text \<open>
  C9: a run of healing acts on at most one attachment. However the run ends, apart from the
  status of the volume, everything stored is as before, or there is one attachment such that
  only its replica object, its pod and its entry in the engine's list of attachments changed.
\<close>

theorem heal_acts_on_one:
  assumes client: "kube_client c view"
    and run: "run_state (healReplicas c volume engine) w = ((b, t, err), w')"
  shows "status_only volume (view w) (view w')
     \<or> (\<exists>i < length (es_Replicas (Spec engine)). touches volume engine i (view w) (view w'))"
  using kube_client.healReplicas_touches [OF client run] by blast

theorem heal_acts_on_one_witness:
  "let ((b, t, err), w') = run_state (healReplicas (mem_env noHttp) healVolume healEngine) healSample
   in status_only healVolume (mem_view healSample) (mem_view w')
     \<or> (\<exists>i < length (es_Replicas (Spec healEngine)). touches healVolume healEngine i (mem_view healSample) (mem_view w'))"
  using heal_acts_on_one [OF kube_client_mem, of noHttp healVolume healEngine healSample]
  by (auto split: prod.split)

lemma remaining_pos:
  assumes "0 \<le> a" "a < 5" "t \<le> now" "now - t < 30 * Second * 2 ^ nat a"
  shows "0 < remaining (fst (healingBackoff a)) now t"
proof -
  have "a \<in> {0, 1, 2, 3, 4}" using assms(1,2) by auto
  then have "30 * Second * 2 ^ nat a \<le> 480 * Second" by (auto simp: Second_def)
  then have le: "now - t < 480 * Second" using assms(4) by linarith
  then have "time_Sub now t = now - t"
    using assms(3) by (simp add: time_Sub_def sat64_def minInt64_def maxInt64_def Second_def)
  moreover have "wrap64 (30 * Second * 2 ^ nat a - (now - t)) = 30 * Second * 2 ^ nat a - (now - t)"
    using assms(3,4) \<open>30 * Second * 2 ^ nat a \<le> 480 * Second\<close>
    by (intro wrap64_id) (simp_all add: minInt64_def maxInt64_def Second_def)
  ultimately show ?thesis
    using assms by (simp add: remaining_def healingBackoff_value)
qed

definition may_restart :: "int set \<Rightarrow> Volume \<Rightarrow> ReplicaAttachment \<Rightarrow> bool" where
  "may_restart C volume ra \<longleftrightarrow> attemptsOf volume ra < 5 \<and>
     (\<forall>t. lastHealOf volume ra = Some t \<longrightarrow>
        (\<exists>now \<in> C. remaining (fst (healingBackoff (attemptsOf volume ra))) now t \<le> 0))"

lemma heal_step_pods:
  assumes "heal_step R C volume engine cl cl'"
    and "\<And>k p. cl_pods cl k = Some p \<Longrightarrow> key_of p = k"
    and "distinct (map ra_Name (es_Replicas (Spec engine)))" and "ra \<in> set (es_Replicas (Spec engine))"
    and "\<not> may_restart C volume ra"
  shows "cl_pods cl' (pod_key volume ra) = cl_pods cl (pod_key volume ra)"
  using assms(1)
proof cases
  case (restart_pod i ra' p)
  then have "may_restart C volume ra'" by (simp add: may_restart_def)
  then have "ra' \<noteq> ra" using assms(5) by auto
  then have "ra_Name ra' \<noteq> ra_Name ra"
    using assms(3,4) restart_pod(1,2) by (metis distinct_map inj_onD nth_mem)
  moreover have "key_of p = pod_key volume ra'" using assms(2) restart_pod podOf_key by blast
  ultimately show ?thesis using restart_pod by (auto simp: pod_deleted_def)
qed (auto simp: detached_def rep_deleted_def)

text \<open>
  C11: restarts are limited and spaced out. After five restarts healing never deletes the
  replica's pod again, and before that not until 30, 60, 120, 240 or 480 seconds have passed
  since the last one, the time doubling with each attempt.
\<close>

theorem heal_restart_limits:
  assumes client: "kube_client c view"
    and run: "run_state (healReplicas c volume engine) w = ((b, t, err), w')"
    and dist: "distinct (map ra_Name (es_Replicas (Spec engine)))"
    and ra: "ra \<in> set (es_Replicas (Spec engine))"
    and limit: "5 \<le> attemptsOf volume ra \<or>
       (0 \<le> attemptsOf volume ra \<and> lastHealOf volume ra = Some h \<and>
        (\<forall>now \<in> clocks c. h \<le> now \<and> now - h < 30 * Second * 2 ^ nat (attemptsOf volume ra)))"
  shows "cl_pods (view w') (pod_key volume ra) = cl_pods (view w) (pod_key volume ra)"
proof -
  have no: "\<not> may_restart (clocks c) volume ra"
  proof
    assume m: "may_restart (clocks c) volume ra"
    with limit have l: "attemptsOf volume ra < 5" "0 \<le> attemptsOf volume ra" "lastHealOf volume ra = Some h"
      "\<forall>now \<in> clocks c. h \<le> now \<and> now - h < 30 * Second * 2 ^ nat (attemptsOf volume ra)"
      by (auto simp: may_restart_def)
    then obtain now where "now \<in> clocks c" "remaining (fst (healingBackoff (attemptsOf volume ra))) now h \<le> 0"
      using m by (auto simp: may_restart_def)
    then show False using l remaining_pos [of "attemptsOf volume ra" h now] by fastforce
  qed
  obtain cl1 where "heal_step (pods_listed c) (clocks c) volume engine (view w) cl1" "status_only volume cl1 (view w')"
    using wp_run [OF kube_client.wp_healReplicas [OF client] run] by (auto simp: heal_refines_def)
  then show ?thesis
    using heal_step_pods [OF _ _ dist ra no] status_only_sel(2) kube_resource.keyed
      [OF kube_client.axioms(5) [OF client]] by metis
qed

definition cooling :: ReplicaHealth where
  "cooling = \<lparr>rh_Name = ''vol-replica-1'', rh_NodeID = ''n2'', rh_Phase = ''Pending'',
              rh_RestartAttempts = 1, rh_LastHealTime = Some (960 * Second)\<rparr>"

theorem heal_restart_limits_witness:
  "let ((b, t, err), w') = run_state (healReplicas (frozen (1000 * Second) (mem_env noHttp))
         (sampleVolume ''3'' (zero_VolumeStatus\<lparr>vst_ReplicaHealth := [cooling]\<rparr>)) healEngine) healSample
   in cl_pods (mem_view w') (NN ''ns'' ''vol-replica-1-pod'')
      = cl_pods (mem_view healSample) (NN ''ns'' ''vol-replica-1-pod'')"
proof -
  let ?c = "frozen (1000 * Second) (mem_env noHttp)"
  let ?v = "sampleVolume ''3'' (zero_VolumeStatus\<lparr>vst_ReplicaHealth := [cooling]\<rparr>)"
  let ?ra = "attachment ''vol-replica-1'' ''n2''"
  have h: "attemptsOf ?v ?ra = 1" "lastHealOf ?v ?ra = Some (960 * Second)" "obj_Namespace ?v = ''ns''"
    "?ra \<in> set (es_Replicas (Spec healEngine))"
    by (code_simp, code_simp, code_simp, code_simp)
  have "clocks ?c = {1000 * Second}" by (auto simp: clocks_def frozen_def)
  then have "5 \<le> attemptsOf ?v ?ra \<or> (0 \<le> attemptsOf ?v ?ra \<and> lastHealOf ?v ?ra = Some (960 * Second) \<and>
        (\<forall>now \<in> clocks ?c. 960 * Second \<le> now \<and> now - 960 * Second < 30 * Second * 2 ^ nat (attemptsOf ?v ?ra)))"
    using h by (simp add: Second_def)
  from heal_restart_limits [OF kube_client_frozen [OF kube_client_mem] _ healSample_facts(1) h(4) this,
      of healSample] h(3)
  show ?thesis by (auto split: prod.split)
qed

definition restart_recorded :: "'w env \<Rightarrow> Volume \<Rightarrow> nat \<Rightarrow> ReplicaHealth \<Rightarrow> Volume option \<Rightarrow> bool" where
  "restart_recorded c volume i health v \<longleftrightarrow>
     (\<exists>v' h. v = Some v' \<and> vst_ReplicaHealth (Status v') = (vst_ReplicaHealth (Status volume))[i := h]
        \<and> rh_Name h = rh_Name health \<and> rh_RestartAttempts h = rh_RestartAttempts health + 1
        \<and> (\<exists>now \<in> clocks c. rh_LastHealTime h = Some now))"

context kube_client
begin

lemma wp_restartPod_records:
  "wp (restartPod c volume i name health pod) (\<lambda>(b, t, err) w'. err = None \<longrightarrow>
     b \<and> doomed (cl_pods (view w') (key_of pod))
     \<and> restart_recorded c volume i health (cl_volumes (view w') (key_of volume))) w" (is "wp _ ?Q w")
proof -
  have key: "key_of (healingCondition f t r m (set_health i h volume)) = key_of volume" for f t r m h
    by (simp add: set_health_def healingCondition_def key_of_def)
  have rec: "restart_recorded c volume i health (Some (old\<lparr>Status := Status (healingCondition f u r m
       (set_health i (health\<lparr>rh_RestartAttempts := rh_RestartAttempts health + 1,
                             rh_LastHealTime := Some now, rh_Phase := p\<rparr>) volume))\<rparr>))"
    if "now \<in> clocks c" for old f u r m now p
    using that by (force simp: restart_recorded_def healingCondition_def set_health_def)
  have go: "wp (clock_Now c) (\<lambda>now. wp (healed c r m (set_health i (health\<lparr>
       rh_RestartAttempts := rh_RestartAttempts health + 1, rh_LastHealTime := Some now, rh_Phase := p\<rparr>)
       volume)) ?Q) w1"
    if "doomed (cl_pods (view w1) (key_of pod))" for w1 r m p
    unfolding healed_def wp_bind
    by (rule wp_Now_clocks, rule wp_Now, rule vol.wp_StatusUpdate) (auto simp: key that intro: rec)
  show ?thesis
    unfolding restartPod_def Let_def wp_bind
    by (rule pod.wp_Delete) (auto simp: doomed_deleted intro!: go)
qed

end

text \<open>
  A restart is recorded. A restart that succeeds leaves the pod gone (or marked for
  deletion) and stores one more attempt for the replica, with the time of the restart, so
  that the limits on restarts apply to the next run.
\<close>

theorem restartPod_records:
  assumes client: "kube_client c view"
    and run: "run_state (restartPod c volume i name health pod) w = ((b, t, None), w')"
  shows "b \<and> doomed (cl_pods (view w') (key_of pod))
     \<and> restart_recorded c volume i health (cl_volumes (view w') (key_of volume))"
  using wp_run [OF kube_client.wp_restartPod_records [OF client] run] by simp

theorem restartPod_records_witness:
  "let v = sampleVolume ''3'' (zero_VolumeStatus\<lparr>vst_ReplicaHealth := [cooling]\<rparr>);
       w' = snd (run_state (restartPod (mem_env noHttp) v 0 ''vol-replica-1'' cooling
              (samplePod ''vol-replica-1-pod'' ''replica'' ''Running'')) healSample)
   in doomed (cl_pods (mem_view w') (key_of (samplePod ''vol-replica-1-pod'' ''replica'' ''Running'')))
      \<and> restart_recorded (mem_env noHttp) v 0 cooling (cl_volumes (mem_view w') (key_of v))"
proof -
  let ?v = "sampleVolume ''3'' (zero_VolumeStatus\<lparr>vst_ReplicaHealth := [cooling]\<rparr>)"
  let ?p = "samplePod ''vol-replica-1-pod'' ''replica'' ''Running''"
  let ?r = "run_state (restartPod (mem_env noHttp) ?v 0 ''vol-replica-1'' cooling ?p) healSample"
  have "snd (snd (fst ?r)) = None" by code_simp
  then show ?thesis
    using restartPod_records [OF kube_client_mem, of noHttp ?v 0 "''vol-replica-1''" cooling ?p healSample
        "fst (fst ?r)" "fst (snd (fst ?r))" "snd ?r"]
    by (simp add: Let_def prod_eq_iff)
qed

text \<open>
  A failed read of the pods is taken for their absence. With every replica running in
  order but the list of pods not readable, and a volume that asks for one replica, healing
  deletes the healthy replica and detaches it.
\<close>

theorem heal_deletes_on_list_error:
  "let ras = [attachment ''vol-replica-0'' ''n2''];
       volume = sampleVolume ''1'' zero_VolumeStatus;
       w = sampleMem [volume] [sampleEngine ras ''Degraded''] [sampleReplica 0 ''n2'' ''Running'' ''nqn0'']
             [samplePod ''vol-replica-0-pod'' ''replica'' ''Running''];
       (r, w') = run_state (healReplicas (podsUnlisted (mem_env noHttp)) volume (sampleEngine ras ''Degraded'')) w
   in healthy (mem_view w) ''ns'' (attachment ''vol-replica-0'' ''n2'')
      \<and> r = (True, 0, None) \<and> m_replicas w' = [] \<and> map (\<lambda>e. es_Replicas (Spec e)) (m_engines w') = [[]]"
  by code_simp

text \<open>
  A local replica has no pod and no NQN of its own, so healing takes a running local
  replica for one whose pod is lost: while the engine is not running and the remote replicas
  are healthy, it deletes the local replica and detaches it. The message names the
  attachment after it.
\<close>

theorem heal_deletes_local:
  "let ras = [attachment ''vol-replica-0'' ''n1'', attachment ''vol-replica-1'' ''n2''];
       volume = sampleVolume ''2'' zero_VolumeStatus;
       w = sampleMem [volume] [sampleEngine ras ''Degraded'']
             [sampleReplica 0 ''n1'' ''Running'' [], sampleReplica 1 ''n2'' ''Running'' ''nqn1'']
             [samplePod ''vol-replica-1-pod'' ''replica'' ''Running''];
       (r, w') = run_state (healReplicas (mem_env noHttp) volume (sampleEngine ras ''Degraded'')) w
   in r = (True, 0, None) \<and> map (\<lambda>r. obj_Name r) (m_replicas w') = [''vol-replica-1'']
      \<and> map (\<lambda>e. map ra_Name (es_Replicas (Spec e))) (m_engines w') = [[''vol-replica-1'']]
      \<and> map (\<lambda>v. map c_Message (vst_Conditions (Status v))) (m_volumes w')
         = [[''recreating replica vol-replica-1 (pod missing)'']]"
  by code_simp

end
