(* ===== verification/Volume_Reconcile.thy ===== *)
theory Volume_Reconcile
  imports Volume_Heal
begin

text \<open>
  The reconciler of volumes, \<^verbatim>\<open>src/internal/controller/volume_controller.go\<close>. A volume
  without an engine gets its children: one replica for each chosen node and the engine that
  attaches them. After that every call checks whether the children run, keeps the types of
  the replicas right, brings the number of attachments to the desired one and, when the
  children do not all run, heals. A failing call ends the reconciliation with its error; the
  work queue then calls it again.
\<close>

section \<open>The operations\<close>

fun ensureChildren_loop ::
  "'w env \<Rightarrow> Volume \<Rightarrow> nat \<Rightarrow> string list \<Rightarrow> ReplicaAttachment list
   \<Rightarrow> ('w, error + ReplicaAttachment list) state" where
  "ensureChildren_loop c volume i [] ras = ret (Inr ras)"
| "ensureChildren_loop c volume i (node # picked_nodes) ras = do {
     let node = placement volume node;
     err \<leftarrow> createIfMissing (replicas c) (replicaFor volume node i);
     case err of
       Some e \<Rightarrow> ret (Inl e)
     | None \<Rightarrow> ensureChildren_loop c volume (Suc i) picked_nodes
                 (ras @ [attachment (ReplicaName (obj_Name volume) i) node])
   }"

definition engineFor :: "Volume \<Rightarrow> ReplicaAttachment list \<Rightarrow> Engine" where
  "engineFor volume ras =
     \<lparr>Meta = (meta_for (EngineName (obj_Name volume)) (obj_Namespace volume))
               \<lparr>om_OwnerReferences := [volumeOwner volume]\<rparr>,
      Spec = \<lparr>es_VolumeRef = obj_Name volume, es_NodeID = vs_NodeID (Spec volume), es_Replicas = ras\<rparr>,
      Status = zero_EngineStatus\<rparr>"

definition ensureChildren :: "'w env \<Rightarrow> Volume \<Rightarrow> string list \<Rightarrow> ('w, error option) state" where
  "ensureChildren c volume picked_nodes = do {
     r \<leftarrow> ensureChildren_loop c volume 0 picked_nodes [];
     case r of
       Inl err \<Rightarrow> ret (Some err)
     | Inr ras \<Rightarrow> createIfMissing (engines c) (engineFor volume ras)
   }"

abbreviation engine_key :: "Volume \<Rightarrow> NamespacedName" where
  "engine_key volume \<equiv> NN (obj_Namespace volume) (EngineName (obj_Name volume))"

fun replicasRunning :: "'w env \<Rightarrow> string \<Rightarrow> ReplicaAttachment list \<Rightarrow> ('w, bool \<times> error option) state" where
  "replicasRunning c ns [] = ret (True, None)"
| "replicasRunning c ns (attach # ras) = do {
     g \<leftarrow> r_Get (replicas c) (NN ns (ra_Name attach));
     case g of
       Inl err \<Rightarrow> ret (False, IgnoreNotFound err)
     | Inr replica \<Rightarrow>
         if rst_Phase (Status replica) \<noteq> ReplicaPhaseRunning then ret (False, None)
         else replicasRunning c ns ras
   }"

definition childrenReady :: "'w env \<Rightarrow> Volume \<Rightarrow> ('w, bool \<times> error option) state" where
  "childrenReady c volume = do {
     g \<leftarrow> r_Get (engines c) (engine_key volume);
     case g of
       Inl err \<Rightarrow> ret (False, IgnoreNotFound err)
     | Inr engine \<Rightarrow>
         if est_Phase (Status engine) \<noteq> EnginePhaseRunning then ret (False, None)
         else replicasRunning c (obj_Namespace volume) (es_Replicas (Spec engine))
   }"

definition expectedType :: "Volume \<Rightarrow> ReplicaAttachment \<Rightarrow> ReplicaType" where
  "expectedType volume ra =
     (if ra_NodeID ra = vs_NodeID (Spec volume) then ReplicaTypeLocal else ReplicaTypeRemote)"

fun syncTypes :: "'w env \<Rightarrow> Volume \<Rightarrow> ReplicaAttachment list \<Rightarrow> ('w, error option) state" where
  "syncTypes c volume [] = ret None"
| "syncTypes c volume (ra # ras) = do {
     g \<leftarrow> r_Get (replicas c) (NN (obj_Namespace volume) (ra_Name ra));
     case g of
       Inl _ \<Rightarrow> syncTypes c volume ras
     | Inr replica \<Rightarrow>
         if rs_Type (Spec replica) \<noteq> expectedType volume ra
         then do {
           u \<leftarrow> r_Update (replicas c) (replica\<lparr>Spec := (Spec replica)\<lparr>rs_Type := expectedType volume ra\<rparr>\<rparr>);
           case u of
             Inl err \<Rightarrow> ret (Some err)
           | Inr _ \<Rightarrow> syncTypes c volume ras
         }
         else syncTypes c volume ras
   }"

definition ensureScale :: "'w env \<Rightarrow> Volume \<Rightarrow> Engine \<Rightarrow> ('w, error option) state" where
  "ensureScale c volume engine = do {
     d \<leftarrow> replicasForVolume c volume;
     case d of
       Inl err \<Rightarrow> ret (Some err)
     | Inr desired \<Rightarrow>
         let current = int (length (es_Replicas (Spec engine))) in
         if desired = current then ret None
         else if desired > current then scaleUp c volume engine current desired
         else scaleDown c volume engine current desired
   }"

definition childrenCreated :: "int \<Rightarrow> Volume \<Rightarrow> Volume" where
  "childrenCreated now volume =
     volume\<lparr>Status := (Status volume)\<lparr>
       vst_EngineRef := Some \<lparr>nor_Name = EngineName (obj_Name volume), nor_Namespace = obj_Namespace volume\<rparr>,
       vst_Phase := VolumePhaseCreating,
       vst_Conditions := SetTrue now (vst_Conditions (Status volume)) VolumeConditionScheduled
                           ''ChildrenCreated'' ''engine and replicas were created''\<rparr>\<rparr>"

definition createChildren :: "'w env \<Rightarrow> Volume \<Rightarrow> ('w, ctrl_Result \<times> error option) state" where
  "createChildren c volume = do {
     n \<leftarrow> replicasForVolume c volume;
     case n of
       Inl err \<Rightarrow> ret (noRequeue, Some err)
     | Inr n \<Rightarrow> do {
         p \<leftarrow> pickWorkerNodes c n;
         case p of
           Inl err \<Rightarrow> ret (noRequeue, Some err)
         | Inr picked_nodes \<Rightarrow> do {
             e \<leftarrow> ensureChildren c volume picked_nodes;
             case e of
               Some err \<Rightarrow> ret (noRequeue, Some err)
             | None \<Rightarrow> do {
                 now \<leftarrow> clock_Now c;
                 s \<leftarrow> r_StatusUpdate (volumes c) (childrenCreated now volume);
                 ret (noRequeue, err_of s)
               }
           }
       }
   }"

definition initialise :: "'w env \<Rightarrow> Volume \<Rightarrow> ('w, ctrl_Result \<times> error option) state" where
  "initialise c volume =
     (if vs_NodeID (Spec volume) = []
      then do {
        p \<leftarrow> pickAnyWorkerNode c;
        case p of
          Inl err \<Rightarrow> ret (noRequeue, Some err)
        | Inr node \<Rightarrow> do {
            u \<leftarrow> r_Update (volumes c) (volume\<lparr>Spec := (Spec volume)\<lparr>vs_NodeID := node\<rparr>\<rparr>);
            case u of
              Inl err \<Rightarrow> ret (noRequeue, Some err)
            | Inr volume' \<Rightarrow> createChildren c volume'
          }
      }
      else createChildren c volume)"

definition markReady :: "int \<Rightarrow> int \<Rightarrow> Volume \<Rightarrow> Volume" where
  "markReady now now' volume =
     volume\<lparr>Status := (Status volume)\<lparr>
       vst_Phase := VolumePhaseReady,
       vst_Conditions :=
         SetTrue now'
           (SetTrue now (vst_Conditions (Status volume)) VolumeConditionEngineReady
              ''EngineRunning'' ''engine is running'')
           VolumeConditionReplicasReady ''ReplicasRunning'' ''all replicas are running''\<rparr>\<rparr>"

definition engineLost :: "Volume \<Rightarrow> Volume" where
  "engineLost volume =
     volume\<lparr>Status := (Status volume)\<lparr>vst_EngineRef := None, vst_Phase := VolumePhaseCreating\<rparr>\<rparr>"

definition maintain :: "'w env \<Rightarrow> Volume \<Rightarrow> bool \<Rightarrow> Engine \<Rightarrow> ('w, ctrl_Result \<times> error option) state" where
  "maintain c volume ready engine = do {
     t \<leftarrow> syncTypes c volume (es_Replicas (Spec engine));
     case t of
       Some err \<Rightarrow> ret (noRequeue, Some err)
     | None \<Rightarrow> do {
         d \<leftarrow> replicasForVolume c volume;
         case d of
           Inl err \<Rightarrow> ret (noRequeue, Some err)
         | Inr desired \<Rightarrow>
             if desired \<noteq> int (length (es_Replicas (Spec engine)))
             then do {
               e \<leftarrow> ensureScale c volume engine;
               ret (noRequeue, e)
             }
             else if \<not> ready
             then do {
               h \<leftarrow> healReplicas c volume engine;
               case h of (acted, requeueAfter, healErr) \<Rightarrow>
                 ret (case healErr of
                        Some err \<Rightarrow> (noRequeue, Some err)
                      | None \<Rightarrow>
                          if acted then (noRequeue, None)
                          else if requeueAfter > 0 then (requeueIn requeueAfter, None)
                          else (requeueIn (5 * Second), None))
             }
             else ret (noRequeue, None)
       }
   }"

definition VolumeReconciler_Reconcile :: "'w env \<Rightarrow> NamespacedName \<Rightarrow> ('w, ctrl_Result \<times> error option) state" where
  "VolumeReconciler_Reconcile c req = do {
     g \<leftarrow> r_Get (volumes c) req;
     case g of
       Inl err \<Rightarrow> if IsNotFound err then ret (noRequeue, None) else ret (noRequeue, Some err)
     | Inr volume \<Rightarrow>
         if vst_EngineRef (Status volume) = None then initialise c volume
         else do {
           r \<leftarrow> childrenReady c volume;
           case r of
             (_, Some err) \<Rightarrow> ret (noRequeue, Some err)
           | (ready, None) \<Rightarrow>
               if ready \<and> vst_Phase (Status volume) \<noteq> VolumePhaseReady
               then do {
                 now \<leftarrow> clock_Now c;
                 now' \<leftarrow> clock_Now c;
                 s \<leftarrow> r_StatusUpdate (volumes c) (markReady now now' volume);
                 ret (noRequeue, err_of s)
               }
               else do {
                 e \<leftarrow> r_Get (engines c) (engine_key volume);
                 case e of
                   Inl err \<Rightarrow>
                     if IsNotFound err
                     then do {
                       s \<leftarrow> r_StatusUpdate (volumes c) (engineLost volume);
                       ret (noRequeue, err_of s)
                     }
                     else ret (noRequeue, Some err)
                 | Inr engine \<Rightarrow> maintain c volume ready engine
               }
         }
   }"

section \<open>Whether the children run\<close>

definition all_running :: "cluster \<Rightarrow> string \<Rightarrow> ReplicaAttachment list \<Rightarrow> bool" where
  "all_running cl ns ras \<longleftrightarrow>
     (\<forall>ra \<in> set ras. \<exists>r. cl_replicas cl (NN ns (ra_Name ra)) = Some r \<and> rst_Phase (Status r) = ReplicaPhaseRunning)"

definition children_running :: "cluster \<Rightarrow> Volume \<Rightarrow> bool" where
  "children_running cl volume \<longleftrightarrow>
     (\<exists>e. cl_engines cl (engine_key volume) = Some e \<and> est_Phase (Status e) = EnginePhaseRunning
        \<and> all_running cl (obj_Namespace volume) (es_Replicas (Spec e)))"

lemma IgnoreNotFound_None: "IgnoreNotFound e = None \<longleftrightarrow> IsNotFound e"
  by (simp add: IgnoreNotFound_def)

context kube_client
begin

lemma wp_replicasRunning:
  "wp (replicasRunning c ns ras)
     (\<lambda>(r, e) w'. view w' = view w \<and> (if e = None then r = all_running (view w) ns ras else \<not> r)) w"
proof (induction ras arbitrary: w)
  case Nil
  then show ?case by (simp add: all_running_def)
next
  case (Cons ra ras)
  have step: "wp (replicasRunning c ns ras)
     (\<lambda>(r, e) w'. view w' = view w \<and> (if e = None then r = all_running (view w) ns (ra # ras) else \<not> r)) w1"
    if "view w1 = view w" "cl_replicas (view w) (NN ns (ra_Name ra)) = Some x"
      "rst_Phase (Status x) = ReplicaPhaseRunning" for w1 x
    by (rule wp_mono [OF Cons.IH]) (use that in \<open>auto simp: all_running_def split: if_splits\<close>)
  show ?case
    unfolding replicasRunning.simps wp_bind
  proof (rule rep.wp_Get, goal_cases)
    case (1 e w1)
    then show ?case by (auto simp: all_running_def IgnoreNotFound_None split: if_splits)
  next
    case (2 x w1)
    then show ?case using step by (auto simp: all_running_def)
  qed
qed

lemma wp_childrenReady:
  "wp (childrenReady c volume)
     (\<lambda>(r, e) w'. view w' = view w \<and> (if e = None then r = children_running (view w) volume else \<not> r)) w"
  unfolding childrenReady_def wp_bind
proof (rule eng.wp_Get, goal_cases)
  case (1 e w1)
  then show ?case by (auto simp: children_running_def IgnoreNotFound_None split: if_splits)
next
  case (2 e w1)
  then show ?case
    by (auto simp: children_running_def intro!: wp_mono [OF wp_replicasRunning] split: if_splits)
qed

end

section \<open>The phase of the volume\<close>

definition phase_in :: "NamespacedName \<Rightarrow> VolumePhase set \<Rightarrow> cluster \<Rightarrow> bool" where
  "phase_in k S cl \<longleftrightarrow> (\<forall>v. cl_volumes cl k = Some v \<longrightarrow> vst_Phase (Status v) \<in> S)"

lemma phase_in_volumes:
  "phase_in k S cl \<Longrightarrow> vst_Phase st \<in> S \<Longrightarrow>
   phase_in k S (cl_volumes_update (\<lambda>m. m(j \<mapsto> old\<lparr>Status := st\<rparr>)) cl)"
  by (simp add: phase_in_def)

lemma phase_in_update:
  "phase_in k S cl \<Longrightarrow> cl_volumes cl j = Some old \<Longrightarrow>
   phase_in k S (cl_volumes_update (\<lambda>m. m(j := kept (updated old v))) cl)"
  by (auto simp: phase_in_def kept_def)

lemma phase_in_others [simp]:
  "phase_in k S (cl_engines_update f cl) = phase_in k S cl"
  "phase_in k S (cl_replicas_update g cl) = phase_in k S cl"
  "phase_in k S (cl_pods_update h cl) = phase_in k S cl"
  by (simp_all add: phase_in_def)

context kube_client
begin

lemma keeps_reads [keeps_intros]:
  "keeps view P (replicasForVolume c volume)"
  "keeps view P (pickUnusedNode c used)"
  "keeps view P (pickAnyWorkerNode c)"
  "keeps view P (pickWorkerNodes c n)"
  "keeps view P (getReplicaPodByName c ns name)"
  by (unfold replicasForVolume_def pickUnusedNode_def pickAnyWorkerNode_def pickWorkerNodes_def
      getReplicaPodByName_def) (intro keeps_intros)+

lemma keeps_childrenReady [keeps_intros]: "keeps view P (childrenReady c volume)"
proof -
  have "keeps view P (replicasRunning c ns ras)" for ns ras
    by (induction ras) (auto intro!: keeps_intros)
  then show ?thesis by (auto simp: childrenReady_def intro!: keeps_intros)
qed

lemma phase_scale:
  assumes "VolumePhaseDegraded \<in> S"
  shows "keeps view (phase_in k S) (scaleUp c volume engine current desired)"
    and "keeps view (phase_in k S) (scaleDown c volume engine current desired)"
proof -
  have up: "keeps view (phase_in k S) (scaleUp_loop c volume n i used u ras)" for n i used u ras
    by (induction n arbitrary: i used u ras) (auto simp: Let_def intro!: keeps_intros)
  have down: "keeps view (phase_in k S) (scaleDown_loop c volume is)" for "is"
    by (induction "is") (auto intro!: keeps_intros)
  show "keeps view (phase_in k S) (scaleUp c volume engine current desired)"
    using assms by (auto simp: scaleUp_def scaledStatus_def intro!: keeps_intros up phase_in_volumes)
  show "keeps view (phase_in k S) (scaleDown c volume engine current desired)"
    using assms by (auto simp: scaleDown_def scaledStatus_def intro!: keeps_intros down phase_in_volumes)
qed

lemma phase_heal:
  assumes "VolumePhaseDegraded \<in> S" and "vst_Phase (Status volume) \<in> S"
  shows "keeps view (phase_in k S) (healReplicas c volume engine)"
proof -
  have scan: "keeps view (phase_in k S) (scanReplicas c volume ras hs n)" for ras hs n
    by (induction ras arbitrary: hs n) (auto simp: Let_def intro!: keeps_intros)
  have healed: "keeps view (phase_in k S) (healed c r m v)" if "vst_Phase (Status v) \<in> S" for r m v
    using that by (auto simp: healed_def healingCondition_def intro!: keeps_intros phase_in_volumes)
  have detach: "keeps view (phase_in k S) (detach c v engine i r m)" if "vst_Phase (Status v) \<in> S" for i r m v
    using that by (auto simp: detach_def intro!: keeps_intros healed)
  have recreate: "keeps view (phase_in k S) (recreate c v engine i m)" if "vst_Phase (Status v) \<in> S" for i m v
    using that by (auto simp: recreate_def intro!: keeps_intros detach)
  have restart: "keeps view (phase_in k S) (restartPod c v i n h p)" if "vst_Phase (Status v) \<in> S" for i n h p v
    using that by (auto simp: restartPod_def set_health_def intro!: keeps_intros healed)
  have loop: "keeps view (phase_in k S) (heal_loop c v engine is s)" if "vst_Phase (Status v) \<in> S" for v "is" s
    using that
    by (induction "is" arbitrary: s)
      (auto simp: healingCondition_def Let_def intro!: keeps_intros phase_in_volumes detach recreate restart)
  show ?thesis
    using assms
    by (auto simp: healReplicas_def belowThreshold_def healingCondition_def
        intro!: keeps_intros scan loop phase_in_volumes)
qed

lemma phase_initialise:
  assumes "VolumePhaseCreating \<in> S"
  shows "keeps view (phase_in k S) (initialise c volume)"
proof -
  have loop: "keeps view (phase_in k S) (ensureChildren_loop c v i ns ras)" for v i ns ras
    by (induction ns arbitrary: i ras) (auto simp: Let_def intro!: keeps_intros)
  have create: "keeps view (phase_in k S) (createChildren c v)" for v
    using assms
    by (auto simp: createChildren_def ensureChildren_def childrenCreated_def
        intro!: keeps_intros loop phase_in_volumes)
  show ?thesis
    by (auto simp: initialise_def intro!: keeps_intros create phase_in_update)
qed

lemma phase_maintain:
  assumes "VolumePhaseDegraded \<in> S" and "vst_Phase (Status volume) \<in> S"
  shows "keeps view (phase_in k S) (maintain c volume ready engine)"
proof -
  have types: "keeps view (phase_in k S) (syncTypes c volume ras)" for ras
    by (induction ras) (auto intro!: keeps_intros)
  show ?thesis
    using assms
    by (auto simp: maintain_def ensureScale_def Let_def
        intro!: keeps_intros types phase_scale phase_heal)
qed

lemma wp_Reconcile_phase:
  assumes "cl_volumes (view w) req = Some v" and "vst_Phase (Status v) \<noteq> VolumePhaseReady"
  shows "wp (VolumeReconciler_Reconcile c req)
     (\<lambda>_ w'. phase_in req (- {VolumePhaseReady}) (view w')
        \<or> children_running (view w) v \<and> cl_engines (view w') = cl_engines (view w)
            \<and> cl_replicas (view w') = cl_replicas (view w)) w"
proof -
  let ?S = "- {VolumePhaseReady}"
  define Post where "Post = (\<lambda>(_ :: ctrl_Result \<times> error option) w'. phase_in req (- {VolumePhaseReady}) (view w')
        \<or> children_running (view w) v \<and> cl_engines (view w') = cl_engines (view w)
            \<and> cl_replicas (view w') = cl_replicas (view w))"
  have start: "phase_in req ?S (view w)" using assms by (simp add: phase_in_def)
  have post: "Post r w1" if "phase_in req ?S (view w1)" for r w1 using that by (simp add: Post_def)
  have by_keeps: "wp m Post w1" if "keeps view (phase_in req ?S) m" "view w1 = view w" for m w1
    using that start by (intro wp_mono [OF keepsD [OF that(1)]] post) auto
  have ready: "wp (clock_Now c) (\<lambda>now. wp (clock_Now c) (\<lambda>now'. wp (r_StatusUpdate (volumes c)
      (markReady now now' v)) (\<lambda>s. Post (noRequeue, err_of s)))) w1"
    if "view w1 = view w" "children_running (view w) v" for w1
    using that by (intro wp_Now vol.wp_StatusUpdate) (auto simp: Post_def)
  have later: "keeps view (phase_in req ?S) (do {
       e \<leftarrow> r_Get (engines c) (engine_key v);
       case e of
         Inl err \<Rightarrow>
           if IsNotFound err
           then do {
             s \<leftarrow> r_StatusUpdate (volumes c) (engineLost v);
             ret (noRequeue, err_of s)
           }
           else ret (noRequeue, Some err)
       | Inr engine \<Rightarrow> maintain c v b engine
     })" for b
    using assms by (auto simp: engineLost_def intro!: keeps_intros phase_maintain phase_in_volumes)
  have "wp (VolumeReconciler_Reconcile c req) Post w"
    unfolding VolumeReconciler_Reconcile_def wp_bind
  proof (rule vol.wp_Get, goal_cases)
    case (1 e w1)
    then show ?case using start by (simp add: post)
  next
    case (2 v' w1)
    then have v': "v' = v" using assms by simp
    show ?case
    proof (cases "vst_EngineRef (Status v)")
      case None
      then show ?thesis
        by (auto simp: v' intro!: by_keeps phase_initialise 2)
    next
      case (Some ref)
      have cr: "children_running (view w1) v = children_running (view w) v" by (simp add: 2(1))
      show ?thesis
        unfolding sum.case if_not_P [OF Some_not_None [OF Some]] v' wp_bind
      proof (rule wp_mono [OF wp_childrenReady], goal_cases)
        case (1 re w2)
        obtain r e where re: "re = (r, e)" by force
        with 1 have w2: "view w2 = view w" and r: "e = None \<Longrightarrow> r = children_running (view w) v"
          by (auto simp: 2(1) cr split: if_splits)
        show ?case
          using r ready [OF w2] by_keeps [OF later w2] assms(2) start w2
          by (cases e) (auto simp: re post simp del: wp_bind, auto)
      qed
    qed
  qed
  then show ?thesis by (simp only: Post_def)
qed

end

section \<open>Whose objects a reconciliation changes\<close>

text \<open>
  A change confined to a volume: its own object, its engine, replicas that are attached (their
  names are in \<open>N\<close>) or carry a name of the volume, and the pods of attached replicas.
\<close>

definition own_replica :: "Volume \<Rightarrow> string set \<Rightarrow> NamespacedName \<Rightarrow> bool" where
  "own_replica volume N k \<longleftrightarrow> nn_Namespace k = obj_Namespace volume
     \<and> (nn_Name k \<in> N \<or> (\<exists>i. nn_Name k = ReplicaName (obj_Name volume) i))"

definition own_pod :: "Volume \<Rightarrow> string set \<Rightarrow> NamespacedName \<Rightarrow> bool" where
  "own_pod volume N k \<longleftrightarrow> nn_Namespace k = obj_Namespace volume \<and> (\<exists>n \<in> N. nn_Name k = n @ ''-pod'')"

definition confined :: "Volume \<Rightarrow> string set \<Rightarrow> cluster \<Rightarrow> cluster \<Rightarrow> bool" where
  "confined volume N cl cl' \<longleftrightarrow>
     (\<forall>k. k \<noteq> key_of volume \<longrightarrow> cl_volumes cl' k = cl_volumes cl k)
     \<and> (\<forall>k. k \<noteq> engine_key volume \<longrightarrow> cl_engines cl' k = cl_engines cl k)
     \<and> (\<forall>k. \<not> own_replica volume N k \<longrightarrow> cl_replicas cl' k = cl_replicas cl k)
     \<and> (\<forall>k. \<not> own_pod volume N k \<longrightarrow> cl_pods cl' k = cl_pods cl k)
     \<and> cl_nodes cl' = cl_nodes cl \<and> cl_snapshots cl' = cl_snapshots cl"

lemma confined_refl [simp]: "confined volume N cl cl"
  by (simp add: confined_def)

lemma confined_trans: "confined volume N a b \<Longrightarrow> confined volume N b c \<Longrightarrow> confined volume N a c"
  by (simp add: confined_def)

lemma confined_updates:
  "confined volume N a cl \<Longrightarrow> k = key_of volume \<Longrightarrow>
     confined volume N a (cl_volumes_update (\<lambda>m. m(k := x)) cl)"
  "confined volume N a cl \<Longrightarrow> k = engine_key volume \<Longrightarrow>
     confined volume N a (cl_engines_update (\<lambda>m. m(k := y)) cl)"
  "confined volume N a cl \<Longrightarrow> own_replica volume N k \<Longrightarrow>
     confined volume N a (cl_replicas_update (\<lambda>m. m(k := z)) cl)"
  by (auto simp: confined_def)

lemma own_replica_simps [simp]:
  "own_replica volume N (NN (obj_Namespace volume) (ReplicaName (obj_Name volume) i))"
  "n \<in> N \<Longrightarrow> own_replica volume N (NN (obj_Namespace volume) n)"
  by (auto simp: own_replica_def)

lemma key_of_status [simp]: "key_of (v\<lparr>Status := st\<rparr>) = key_of v" "key_of (v\<lparr>Spec := sp\<rparr>) = key_of v"
  by (simp_all add: key_of_def)

lemma confined_heal:
  assumes "touches volume engine i cl cl'" and "i < length (es_Replicas (Spec engine))"
    and "key_of engine = engine_key volume"
  shows "confined volume (ra_Name ` set (es_Replicas (Spec engine))) cl cl'"
proof -
  let ?N = "ra_Name ` set (es_Replicas (Spec engine))" and ?ra = "es_Replicas (Spec engine) ! i"
  have "ra_Name ?ra \<in> ?N" using assms(2) by simp
  then have "own_replica volume ?N (rep_key volume ?ra)" "own_pod volume ?N (pod_key volume ?ra)"
    by (auto simp: own_replica_def own_pod_def)
  with assms(1,3) show ?thesis unfolding confined_def touches_def by metis
qed

text \<open>The attached replicas of a volume, by the engine stored.\<close>

definition attached_names :: "cluster \<Rightarrow> Volume \<Rightarrow> string set" where
  "attached_names cl volume =
     (case cl_engines cl (engine_key volume) of None \<Rightarrow> {} | Some e \<Rightarrow> ra_Name ` set (es_Replicas (Spec e)))"

context kube_client
begin

lemma confined_scale:
  assumes "key_of engine = engine_key volume"
  shows "keeps view (confined volume N a) (scaleUp c volume engine current desired)"
    and "keeps view (confined volume N a) (scaleDown c volume engine current desired)"
proof -
  have up: "keeps view (confined volume N a) (scaleUp_loop c volume n i used u ras)" for n i used u ras
    by (induction n arbitrary: i used u ras) (auto simp: Let_def intro!: keeps_intros confined_updates)
  have down: "keeps view (confined volume N a) (scaleDown_loop c volume is)" for "is"
    by (induction "is") (auto intro!: keeps_intros confined_updates)
  show "keeps view (confined volume N a) (scaleUp c volume engine current desired)"
    using assms by (auto simp: scaleUp_def intro!: keeps_intros up confined_updates)
  show "keeps view (confined volume N a) (scaleDown c volume engine current desired)"
    using assms by (auto simp: scaleDown_def intro!: keeps_intros down confined_updates)
qed

lemma confined_initialise:
  assumes v: "key_of v = key_of volume"
  shows "keeps view (confined volume N a) (createChildren c v)"
proof -
  have nm: "obj_Name v = obj_Name volume" "obj_Namespace v = obj_Namespace volume"
    using v by (simp_all add: key_of_def)
  have loop: "keeps view (confined volume N a) (ensureChildren_loop c v i ns ras)" for i ns ras
    by (induction ns arbitrary: i ras) (auto simp: Let_def nm intro!: keeps_intros confined_updates)
  have "key_of (engineFor v ras) = engine_key volume" for ras
    by (simp add: engineFor_def key_of_def meta_for_def nm)
  then show ?thesis
    by (auto simp: createChildren_def ensureChildren_def childrenCreated_def v
        intro!: keeps_intros loop confined_updates)
qed

lemma confined_maintain:
  assumes "key_of engine = engine_key volume"
  shows "keeps view (confined volume (ra_Name ` set (es_Replicas (Spec engine))) a) (maintain c volume ready engine)"
proof -
  let ?N = "ra_Name ` set (es_Replicas (Spec engine))"
  have types: "keeps view (confined volume ?N a) (syncTypes c volume ras)"
    if "set ras \<subseteq> set (es_Replicas (Spec engine))" for ras
    using that
    by (induction ras)
      (auto intro!: keeps_return keeps_case_sum keeps_if keeps_bind rep.keeps_Get_bind rep.keeps_Update
        confined_updates)
  have heal: "keeps view (confined volume ?N a) (healReplicas c volume engine)"
  proof (rule keepsI, rule wp_of_run)
    fix w r w' assume a: "confined volume ?N a (view w)"
      and run: "run_state (healReplicas c volume engine) w = (r, w')"
    obtain b t err where "r = (b, t, err)" by (cases r) auto
    with run have "status_only volume (view w) (view w')
        \<or> (\<exists>i < length (es_Replicas (Spec engine)). touches volume engine i (view w) (view w'))"
      using healReplicas_touches by blast
    then have "confined volume ?N (view w) (view w')"
      using confined_heal [OF _ _ assms] by (auto simp: confined_def status_only_sel)
    with a show "confined volume ?N a (view w')" by (rule confined_trans)
  qed
  show ?thesis
    by (auto simp: maintain_def ensureScale_def Let_def
        intro!: keeps_intros types confined_scale [OF assms] heal)
qed

lemma wp_Reconcile_confined:
  assumes v: "cl_volumes (view w) req = Some v"
  shows "wp (VolumeReconciler_Reconcile c req)
     (\<lambda>_ w'. confined v (attached_names (view w) v) (view w) (view w')) w"
proof -
  let ?N = "attached_names (view w) v"
  let ?P = "confined v ?N (view w)"
  have keep: "wp m (\<lambda>_ w'. ?P (view w')) w1" if "keeps view ?P m" "view w1 = view w" for m w1
    using keepsD [OF that(1), of w1] that(2) by simp
  have init: "keeps view ?P (initialise c v)"
    unfolding initialise_def
    by (intro keeps_if keeps_bind keeps_reads keeps_case_sum keeps_return vol.keeps_Update_bind confined_initialise)
      (auto intro: confined_updates)
  have maintain: "wp (maintain c v b e) (\<lambda>_ w'. ?P (view w')) w1"
    if "view w1 = view w" "cl_engines (view w) (engine_key v) = Some e" "key_of e = engine_key v" for b e w1
    using keep [OF _ that(1), of "maintain c v b e"] confined_maintain [OF that(3)] that(2)
    by (simp add: attached_names_def)
  have status: "keeps view ?P (r_StatusUpdate (volumes c) x)" if "key_of x = key_of v" for x
    using that by (auto intro!: keeps_intros confined_updates)
  have key: "key_of (engineLost v) = key_of v" "key_of (markReady t t' v) = key_of v" for t t'
    by (simp_all add: engineLost_def markReady_def)
  have rest: "wp (r_Get (engines c) (engine_key v)) (\<lambda>e. wp (case e of
         Inl err \<Rightarrow>
           if IsNotFound err
           then do { s \<leftarrow> r_StatusUpdate (volumes c) (engineLost v); ret (noRequeue, err_of s) }
           else ret (noRequeue, Some err)
       | Inr engine \<Rightarrow> maintain c v b engine) (\<lambda>_ w'. ?P (view w'))) w1" if "view w1 = view w" for b w1
  proof (rule eng.wp_Get, goal_cases)
    case (1 e w2)
    then show ?case using that by (auto intro!: keep status key)
  next
    case (2 e w2)
    then show ?case using that maintain by simp
  qed
  show ?thesis
    unfolding VolumeReconciler_Reconcile_def wp_bind
  proof (rule vol.wp_Get, goal_cases)
    case (1 e w1)
    then show ?case by simp
  next
    case (2 v' w1)
    then have v': "v' = v" using v by simp
    show ?case
    proof (cases "vst_EngineRef (Status v)")
      case None
      then show ?thesis by (auto simp: v' intro!: keep init 2)
    next
      case (Some ref)
      show ?thesis
        unfolding sum.case if_not_P [OF Some_not_None [OF Some]] v' wp_bind
      proof (rule wp_mono [OF wp_childrenReady], goal_cases)
        case (1 re w2)
        then have w2: "view w2 = view w" by (auto simp: 2(1) split: prod.splits)
        obtain r e where re: "re = (r, e)" by force
        show ?case
          using rest [OF w2]
          by (cases e) (auto simp: re w2 intro!: wp_Now keep status key)
      qed
    qed
  qed
qed

end

section \<open>Creating the children\<close>

text \<open>The engine object of a volume: the one that was there, or a new one that attaches \<open>ras\<close>.\<close>

definition engine_in_place :: "Volume \<Rightarrow> ReplicaAttachment list \<Rightarrow> cluster \<Rightarrow> cluster \<Rightarrow> bool" where
  "engine_in_place volume ras cl cl' \<longleftrightarrow>
     (\<exists>e. cl_engines cl' (engine_key volume) = Some e
        \<and> (cl_engines cl (engine_key volume) = Some e
           \<or> cl_engines cl (engine_key volume) = None \<and> created (engineFor volume ras) e
              \<and> Status e = zero_EngineStatus))"

text \<open>The children of a volume on the chosen nodes: a numbered replica on each, and the engine.\<close>

definition children_created :: "Volume \<Rightarrow> string list \<Rightarrow> cluster \<Rightarrow> cluster \<Rightarrow> bool" where
  "children_created volume chosen cl cl' \<longleftrightarrow>
     (\<exists>ras. grown volume cl cl' [0..<length chosen] ras
        \<and> map ra_NodeID ras = map (placement volume) chosen
        \<and> engine_in_place volume ras cl cl')
     \<and> (\<exists>now. cl_volumes cl' (key_of volume) = Some (childrenCreated now volume))"

text \<open>
  The volume as it is given its children: a volume without a node of its own first gets one, a
  worker, or any node of a cluster without workers.
\<close>

definition placed :: "cluster \<Rightarrow> Volume \<Rightarrow> Volume \<Rightarrow> bool" where
  "placed cl v v' \<longleftrightarrow>
     (if vs_NodeID (Spec v) \<noteq> [] then v' = v
      else \<exists>items n. set items = {o'. cl_nodes cl (key_of o') = Some o'} \<and> n \<in> set (eligible items)
             \<and> v' = v\<lparr>Spec := (Spec v)\<lparr>vs_NodeID := obj_Name n\<rparr>\<rparr>)"

text \<open>All its nodes and the number of replicas it asks for decide on the children of the volume.\<close>

definition first_children :: "Volume \<Rightarrow> cluster \<Rightarrow> cluster \<Rightarrow> bool" where
  "first_children volume cl cl' \<longleftrightarrow>
     (\<exists>n items. desired_of cl volume n \<and> distinct (map key_of items)
        \<and> set items = {o'. cl_nodes cl (key_of o') = Some o'}
        \<and> children_created volume (workerNodes n items) cl cl')"

lemma first_children_cong:
  assumes "cl_nodes cl2 = cl_nodes cl1" "cl_replicas cl2 = cl_replicas cl1" "cl_engines cl2 = cl_engines cl1"
  shows "first_children volume cl2 cl' = first_children volume cl1 cl'"
  unfolding first_children_def desired_of_def children_created_def grown_def in_place_def engine_in_place_def assms
  by (rule refl)

lemma updated_spec: "updated v (v\<lparr>Spec := s\<rparr>) = v\<lparr>Spec := s\<rparr>"
  by (simp add: updated_def)

lemma key_of_engineFor [simp]: "key_of (engineFor volume ras) = engine_key volume"
  by (simp add: engineFor_def key_of_def meta_for_def)

lemma key_of_childrenCreated [simp]: "key_of (childrenCreated now volume) = key_of volume"
  by (simp add: childrenCreated_def)

context kube_client
begin

lemma wp_ensureChildren_loop:
  "wp (ensureChildren_loop c volume i ns ras)
     (\<lambda>r w'. extends (view w) (view w') \<and>
        (\<forall>ras'. r = Inr ras' \<longrightarrow>
           (\<exists>new. ras' = ras @ new \<and> grown volume (view w) (view w') [i..<i + length ns] new
              \<and> map ra_NodeID new = map (placement volume) ns))) w"
proof (induction ns arbitrary: i ras w)
  case Nil
  then show ?case by (simp add: grown_def)
next
  case (Cons n ns)
  let ?name = "ReplicaName (obj_Name volume)" and ?n = "placement volume n"
  let ?key = "\<lambda>j. NN (obj_Namespace volume) (?name j)"
  define Post where "Post = (\<lambda>(r :: error + ReplicaAttachment list) w'. extends (view w) (view w') \<and>
        (\<forall>ras'. r = Inr ras' \<longrightarrow>
           (\<exists>new. ras' = ras @ new \<and> grown volume (view w) (view w') [i..<i + length (n # ns)] new
              \<and> map ra_NodeID new = map (placement volume) (n # ns))))"
  have step: "wp (ensureChildren_loop c volume (Suc i) ns (ras @ [attachment (?name i) ?n])) Post w2"
    if st: "in_place volume (view w) (view w2) i ?n" "extends (view w) (view w2)"
       "\<And>j. j \<noteq> i \<Longrightarrow> cl_replicas (view w2) (?key j) = cl_replicas (view w) (?key j)" for w2
  proof (rule wp_mono [OF Cons.IH])
    fix r :: "error + ReplicaAttachment list" and w'
    assume *: "extends (view w2) (view w') \<and> (\<forall>ras'. r = Inr ras' \<longrightarrow>
        (\<exists>new. ras' = (ras @ [attachment (?name i) ?n]) @ new
          \<and> grown volume (view w2) (view w') [Suc i..<Suc i + length ns] new
          \<and> map ra_NodeID new = map (placement volume) ns))"
    have "\<exists>new. ras' = ras @ new \<and> grown volume (view w) (view w') [i..<i + length (n # ns)] new
              \<and> map ra_NodeID new = map (placement volume) (n # ns)" if r: "r = Inr ras'" for ras'
    proof -
      obtain new where new: "ras' = ras @ attachment (?name i) ?n # new"
        "grown volume (view w2) (view w') [Suc i..<Suc i + length ns] new"
        "map ra_NodeID new = map (placement volume) ns" using * r by auto
      have "grown volume (view w) (view w') (i # [Suc i..<Suc i + length ns]) (attachment (?name i) ?n # new)"
        by (rule grown_Cons [OF st(1,2) _ st(3) new(2)]) (use * in auto)
      moreover have "[i..<i + length (n # ns)] = i # [Suc i..<Suc i + length ns]"
        by (simp add: upt_conv_Cons del: upt_Suc)
      ultimately show ?thesis
        using new(1,3) by (intro exI [of _ "attachment (?name i) ?n # new"]) (simp del: upt_Suc)
    qed
    then show "Post r w'" using st(2) * extends_trans unfolding Post_def by blast
  qed
  have stop: "Post (Inl e) w2" if "view w2 = view w" for e w2 using that by (simp add: Post_def)
  show ?case
    unfolding Post_def [symmetric]
    by (auto simp: Let_def in_place_def extends_put rep.sel_upd ReplicaName_inject
        intro!: rep.wp_createIfMissing step stop)
qed

lemma wp_createChildren:
  assumes stored: "\<And>x. cl_volumes (view w) (key_of volume) = Some x \<Longrightarrow> x = volume"
  shows "wp (createChildren c volume) (\<lambda>(r, e) w'. e = None \<longrightarrow> first_children volume (view w) (view w')) w"
proof -
  define Q where
    "Q = (\<lambda>(_ :: ctrl_Result, e :: error option) w'. e = None \<longrightarrow> first_children volume (view w) (view w'))"
  have stop: "Q (noRequeue, Some e) w1" for e w1 by (simp add: Q_def)
  have final: "wp (clock_Now c) (\<lambda>now. wp (r_StatusUpdate (volumes c) (childrenCreated now volume))
      (\<lambda>s. Q (noRequeue, err_of s))) w2"
    if "desired_of (view w) volume n" "distinct (map key_of items)"
      "set items = {o'. cl_nodes (view w) (key_of o') = Some o'}"
      "grown volume (view w) (view w2) [0..<length (workerNodes n items)] ras"
      "map ra_NodeID ras = map (placement volume) (workerNodes n items)"
      "engine_in_place volume ras (view w) (view w2)" "cl_volumes (view w2) = cl_volumes (view w)" for n items ras w2
  proof (rule wp_Now, rule vol.wp_StatusUpdate, goal_cases)
    case (1 t w3 e w4)
    then show ?case by (simp add: stop)
  next
    case (2 t w3 old w4)
    then have "old\<lparr>Status := Status (childrenCreated t volume)\<rparr> = childrenCreated t volume"
      using stored [of old] that(7) by (simp add: childrenCreated_def)
    with 2 have "children_created volume (workerNodes n items) (view w) (view w4)"
      using that(5,6) grown_cong [OF that(4), of "view w4"]
      by (auto simp: children_created_def engine_in_place_def)
    with that(1-3) show ?case by (auto simp: Q_def first_children_def)
  qed
  have children: "wp (ensureChildren_loop c volume 0 (workerNodes n items) [])
      (\<lambda>r. wp (case r of Inl err \<Rightarrow> ret (Some err)
                 | Inr ras \<Rightarrow> createIfMissing (engines c) (engineFor volume ras))
        (\<lambda>e. wp (case e of Some err \<Rightarrow> ret (noRequeue, Some err)
           | None \<Rightarrow> do { now \<leftarrow> clock_Now c;
                        s \<leftarrow> r_StatusUpdate (volumes c) (childrenCreated now volume);
                        ret (noRequeue, err_of s) }) Q)) w1"
    if "view w1 = view w" "desired_of (view w) volume n" "distinct (map key_of items)"
      "set items = {o'. cl_nodes (view w) (key_of o') = Some o'}" for n items w1
  proof (rule wp_mono [OF wp_ensureChildren_loop], goal_cases)
    case (1 r w2)
    show ?case
    proof (cases r)
      case (Inl e)
      then show ?thesis by (simp add: stop)
    next
      case (Inr ras)
      with 1 have g: "grown volume (view w) (view w2) [0..<length (workerNodes n items)] ras"
        "map ra_NodeID ras = map (placement volume) (workerNodes n items)"
        and x: "extends (view w) (view w2)" using that(1) by auto
      show ?thesis
        by (auto simp: Inr engine_in_place_def extends_sel [OF x] intro!: eng.wp_createIfMissing
            stop final [OF that(2-4) _ g(2)] grown_cong [OF g(1)])
    qed
  qed
  show ?thesis
    unfolding createChildren_def ensureChildren_def wp_bind Q_def [symmetric]
    by (auto intro!: stop wp_replicasForVolume wp_pickWorkerNodes children [unfolded wp_bind])
qed

lemma wp_initialise:
  assumes v: "cl_volumes (view w) (key_of v) = Some v"
  shows "wp (initialise c v)
     (\<lambda>(r, e) w'. e = None \<longrightarrow> (\<exists>v'. placed (view w) v v' \<and> first_children v' (view w) (view w'))) w"
proof (cases "vs_NodeID (Spec v) = []")
  case False
  have "wp (createChildren c v) (\<lambda>(r, e) w'. e = None \<longrightarrow> first_children v (view w) (view w')) w"
    using v by (intro wp_createChildren) simp
  with False show ?thesis
    by (auto simp: initialise_def placed_def elim!: wp_mono)
next
  case True
  define Q where "Q = (\<lambda>(_ :: ctrl_Result, e :: error option) w'. e = None \<longrightarrow>
      (\<exists>v'. placed (view w) v v' \<and> first_children v' (view w) (view w')))"
  have create: "wp (createChildren c v') Q w2"
    if "placed (view w) v v'" "key_of v' = key_of v"
      "view w2 = cl_volumes_update (\<lambda>m. m(key_of v := kept v')) (view w)" for v' w2
  proof -
    have "wp (createChildren c v') (\<lambda>(r, e) w'. e = None \<longrightarrow> first_children v' (view w2) (view w')) w2"
      using that(2,3) by (intro wp_createChildren) (simp add: kept_def split: if_splits)
    moreover have "first_children v' (view w2) cl' = first_children v' (view w) cl'" for cl'
      using that(3) by (intro first_children_cong) simp_all
    ultimately show ?thesis
      using that(1) by (elim wp_mono) (auto simp: Q_def split: prod.splits)
  qed
  have update: "wp (r_Update (volumes c) (v\<lparr>Spec := (Spec v)\<lparr>vs_NodeID := obj_Name n\<rparr>\<rparr>))
      (\<lambda>u. wp (case u of Inl err \<Rightarrow> ret (noRequeue, Some err) | Inr volume' \<Rightarrow> createChildren c volume') Q) w1"
    if "view w1 = view w" "set items = {o'. cl_nodes (view w) (key_of o') = Some o'}" "n \<in> set (eligible items)"
    for n items w1
  proof (rule vol.wp_Update, goal_cases)
    case (1 e w2)
    then show ?case by (simp add: Q_def)
  next
    case (2 old w2)
    have key: "key_of (v\<lparr>Spec := (Spec v)\<lparr>vs_NodeID := obj_Name n\<rparr>\<rparr>) = key_of v" by (simp add: key_of_def)
    then have "old = v" using 2 v that(1) by simp
    moreover have "placed (view w) v (v\<lparr>Spec := (Spec v)\<lparr>vs_NodeID := obj_Name n\<rparr>\<rparr>)"
      using True that(2,3) by (auto simp: placed_def)
    ultimately show ?case
      using 2 that(1) by (auto simp: updated_spec key intro!: create)
  qed
  show ?thesis
    unfolding initialise_def if_P [OF True] wp_bind Q_def [symmetric]
    by (rule wp_pickAnyWorkerNode) (auto simp: Q_def intro!: update [unfolded Q_def])
qed

lemma wp_Reconcile_first:
  assumes v: "cl_volumes (view w) req = Some v" "vst_EngineRef (Status v) = None"
  shows "wp (VolumeReconciler_Reconcile c req)
     (\<lambda>(r, e) w'. e = None \<longrightarrow> (\<exists>v'. placed (view w) v v' \<and> first_children v' (view w) (view w'))) w"
  unfolding VolumeReconciler_Reconcile_def wp_bind
proof (rule vol.wp_Get, goal_cases)
  case (1 e w1)
  then show ?case using v(1) by auto
next
  case (2 v' w1)
  then have "v' = v" "key_of v = req" using v(1) by simp_all
  with 2(1) v show ?case
    using wp_initialise [of w1 v] by simp
qed

end

section \<open>The steady state\<close>

text \<open>A volume with nothing left to do: ready, running, of the right size and types.\<close>

definition settled :: "cluster \<Rightarrow> Volume \<Rightarrow> bool" where
  "settled cl volume \<longleftrightarrow>
     vst_EngineRef (Status volume) \<noteq> None \<and> vst_Phase (Status volume) = VolumePhaseReady
     \<and> children_running cl volume
     \<and> (\<forall>e. cl_engines cl (engine_key volume) = Some e \<longrightarrow>
          (\<forall>n. desired_of cl volume n \<longrightarrow> n = int (length (es_Replicas (Spec e))))
          \<and> (\<forall>ra \<in> set (es_Replicas (Spec e)). \<forall>r. cl_replicas cl (rep_key volume ra) = Some r \<longrightarrow>
                rs_Type (Spec r) = expectedType volume ra))"

context kube_client
begin

lemma wp_syncTypes_settled:
  assumes "\<forall>ra \<in> set ras. \<forall>r. cl_replicas (view w) (rep_key volume ra) = Some r \<longrightarrow>
     rs_Type (Spec r) = expectedType volume ra"
  shows "wp (syncTypes c volume ras) (\<lambda>e w'. view w' = view w \<and> e = None) w"
  using assms
proof (induction ras arbitrary: w)
  case (Cons ra ras)
  have step: "wp (syncTypes c volume ras) (\<lambda>e w'. view w' = view w \<and> e = None) w1" if "view w1 = view w" for w1
    using Cons.IH [of w1] Cons.prems that by simp
  show ?case
    unfolding syncTypes.simps wp_bind
    by (rule rep.wp_Get) (use Cons.prems in \<open>auto intro!: step\<close>)
qed simp

lemma wp_Reconcile_settled:
  assumes v: "cl_volumes (view w) req = Some v" and s: "settled (view w) v"
  shows "wp (VolumeReconciler_Reconcile c req)
     (\<lambda>(res, e) w'. view w' = view w \<and> RequeueAfter res = 0) w"
proof -
  have maintain: "wp (maintain c v True e) (\<lambda>(res, e) w'. view w' = view w \<and> RequeueAfter res = 0) w1"
    if "view w1 = view w" "cl_engines (view w) (engine_key v) = Some e" for e w1
    unfolding maintain_def wp_bind
    by (rule wp_mono [OF wp_syncTypes_settled])
      (use that s in \<open>auto simp: settled_def intro!: wp_replicasForVolume\<close>)
  show ?thesis
    unfolding VolumeReconciler_Reconcile_def wp_bind
  proof (rule vol.wp_Get, goal_cases)
    case (1 e w1)
    then show ?case by simp
  next
    case (2 v' w1)
    then have v': "v' = v" "vst_EngineRef (Status v) \<noteq> None" using v s by (auto simp: settled_def)
    show ?case
      unfolding sum.case if_not_P [OF v'(2)] v'(1) wp_bind
    proof (rule wp_mono [OF wp_childrenReady], goal_cases)
      case (1 re w2)
      obtain r e where re: "re = (r, e)" by force
      with 1 2 s have w2: "view w2 = view w" "e = None \<Longrightarrow> r" by (auto simp: settled_def split: if_splits)
      show ?case
        using s w2
        by (cases e) (auto simp: re settled_def children_running_def intro!: eng.wp_Get maintain)
    qed
  qed
qed

end

section \<open>Properties\<close>

definition refTo :: "string \<Rightarrow> NamespacedObjectReference option" where
  "refTo name = Some \<lparr>nor_Name = name, nor_Namespace = ''ns''\<rparr>"

definition runningVolume :: "string \<Rightarrow> Volume" where
  "runningVolume phase = sampleVolume ''1'' (zero_VolumeStatus\<lparr>vst_EngineRef := refTo ''vol-engine'', vst_Phase := phase\<rparr>)"

definition runningEngine :: Engine where
  "runningEngine = sampleEngine [attachment ''vol-replica-0'' ''n1''] ''Running''"

definition runningReplica :: Replica where
  "runningReplica = sampleReplica 0 ''n1'' ''Running'' []"

definition runningSample :: "string \<Rightarrow> mem" where
  "runningSample phase = sampleMem [runningVolume phase] [runningEngine] [runningReplica] []"

definition volReq :: NamespacedName where
  "volReq = NN ''ns'' ''vol''"

lemma runningSample_volume:
  "cl_volumes (mem_view (runningSample phase)) volReq = Some (runningVolume phase)"
  by (simp add: mem_view_def runningSample_def sampleMem_def runningVolume_def sampleVolume_def key_of_def
      meta_for_def volReq_def)

lemma runningSample_engine:
  "cl_engines (mem_view (runningSample phase)) (engine_key (runningVolume phase)) = Some runningEngine"
  by (simp add: mem_view_def runningSample_def sampleMem_def runningVolume_def sampleVolume_def
      runningEngine_def sampleEngine_def key_of_def meta_for_def EngineName_def)

lemma runningSample_replica:
  "cl_replicas (mem_view (runningSample phase)) (NN ''ns'' ''vol-replica-0'') = Some runningReplica"
  by (simp add: mem_view_def runningSample_def sampleMem_def runningReplica_def sampleReplica_def
      key_of_def meta_for_def sampleName_0)

text \<open>
  C6: a volume becomes ready only when its children run. If a reconciliation moves the stored
  phase of a volume to \<^verbatim>\<open>Ready\<close>, then its engine is running and every replica the engine
  attaches exists and is running, both before and after the call.
\<close>

theorem ready_only_when_running:
  assumes client: "kube_client c view"
    and run: "run_state (VolumeReconciler_Reconcile c req) w = (r, w')"
    and before: "cl_volumes (view w) req = Some v" "vst_Phase (Status v) \<noteq> VolumePhaseReady"
    and after: "cl_volumes (view w') req = Some v'" "vst_Phase (Status v') = VolumePhaseReady"
  shows "children_running (view w) v \<and> children_running (view w') v"
  using wp_run [OF kube_client.wp_Reconcile_phase [OF client before] run] after
  by (auto simp: phase_in_def children_running_def all_running_def)

theorem ready_only_when_running_witness:
  "children_running (mem_view (runningSample ''Creating'')) (runningVolume ''Creating'')
   \<and> children_running (mem_view (snd (run_state (VolumeReconciler_Reconcile (mem_env noHttp) volReq)
         (runningSample ''Creating'')))) (runningVolume ''Creating'')"
proof -
  let ?r = "run_state (VolumeReconciler_Reconcile (mem_env noHttp) volReq) (runningSample ''Creating'')"
  have "map_option (\<lambda>v. vst_Phase (Status v)) (cl_volumes (mem_view (snd ?r)) volReq) = Some ''Ready''"
    by code_simp
  then obtain v' where v': "cl_volumes (mem_view (snd ?r)) volReq = Some v'" "vst_Phase (Status v') = ''Ready''"
    by auto
  have "vst_Phase (Status (runningVolume ''Creating'')) = ''Creating''"
    by (simp add: runningVolume_def sampleVolume_def)
  with v' show ?thesis
    using ready_only_when_running [OF kube_client_mem, of noHttp volReq "runningSample ''Creating''" "fst ?r" "snd ?r"]
      runningSample_volume [of "''Creating''"] by simp
qed

text \<open>
  C36: a reconciliation stays within its volume. However it ends, the only objects it changes
  are the volume itself, its engine, the replicas its engine attaches or whose names are
  derived from the volume's, and the pods of attached replicas, all in the volume's namespace.
\<close>

theorem reconcile_confined:
  assumes client: "kube_client c view"
    and run: "run_state (VolumeReconciler_Reconcile c req) w = (r, w')"
    and v: "cl_volumes (view w) req = Some v"
  shows "confined v (attached_names (view w) v) (view w) (view w')"
  using wp_run [OF kube_client.wp_Reconcile_confined [OF client v] run] .

theorem reconcile_confined_witness:
  "confined (runningVolume ''Creating'')
     (attached_names (mem_view (runningSample ''Creating'')) (runningVolume ''Creating''))
     (mem_view (runningSample ''Creating''))
     (mem_view (snd (run_state (VolumeReconciler_Reconcile (mem_env noHttp) volReq) (runningSample ''Creating''))))"
  by (rule reconcile_confined [OF kube_client_mem prod.collapse [symmetric] runningSample_volume])

text \<open>
  C35: the reconciliation that creates the children of a volume. When a volume that refers to no
  engine yet is reconciled without an error, it has a node of its own, a worker chosen for it if it
  came without one (any node, in a cluster without workers); there is a replica object for each
  of the chosen worker nodes, numbered from zero and placed on that node (on the volume's own node
  when it restores a snapshot); the engine that attaches them exists; and the volume is stored
  with its node, refers to the engine and says \<^verbatim>\<open>Creating\<close>. The nodes are the first of the sorted
  workers, as many as the volume asks for. An engine or a replica that was there before is left as
  it was.
\<close>

theorem first_reconcile:
  assumes client: "kube_client c view"
    and run: "run_state (VolumeReconciler_Reconcile c req) w = ((res, None), w')"
    and v: "cl_volumes (view w) req = Some v" "vst_EngineRef (Status v) = None"
  shows "\<exists>v'. placed (view w) v v' \<and> first_children v' (view w) (view w')"
  using wp_run [OF kube_client.wp_Reconcile_first [OF client v] run] by simp

text \<open>A volume of the dashboard, which has no node of its own.\<close>

definition homelessVolume :: Volume where
  "homelessVolume = (sampleVolume ''2'' zero_VolumeStatus)\<lparr>Spec := (Spec (sampleVolume ''2'' zero_VolumeStatus))\<lparr>vs_NodeID := []\<rparr>\<rparr>"

theorem first_reconcile_witness:
  "let w = sampleMem [homelessVolume] [] [] []; w' = snd (run_state (VolumeReconciler_Reconcile (mem_env noHttp) volReq) w)
   in (\<exists>v'. placed (mem_view w) homelessVolume v' \<and> first_children v' (mem_view w) (mem_view w'))
      \<and> map (\<lambda>v. vs_NodeID (Spec v)) (m_volumes w') = [''n1''] \<and> length (m_replicas w') = 2"
proof -
  let ?w = "sampleMem [homelessVolume] [] [] []"
  let ?r = "run_state (VolumeReconciler_Reconcile (mem_env noHttp) volReq) ?w"
  have "snd (fst ?r) = None" by code_simp
  moreover have "map (\<lambda>v. vs_NodeID (Spec v)) (m_volumes (snd ?r)) = [''n1''] \<and> length (m_replicas (snd ?r)) = 2" by code_simp
  moreover have "cl_volumes (mem_view ?w) volReq = Some homelessVolume"
    by (simp add: mem_view_def sampleMem_def homelessVolume_def sampleVolume_def key_of_def meta_for_def volReq_def)
  moreover have "vst_EngineRef (Status homelessVolume) = None"
    by (simp add: homelessVolume_def sampleVolume_def zero_VolumeStatus_def)
  ultimately show ?thesis
    unfolding Let_def
    using first_reconcile [OF kube_client_mem, of noHttp volReq ?w "fst (fst ?r)" "snd ?r" homelessVolume]
    by (simp add: prod_eq_iff)
qed

text \<open>
  C24: a settled volume is left alone. When a volume is ready, its children run, and their
  number and types are right, a reconciliation changes nothing, whatever calls fail.
\<close>

theorem reconcile_settled:
  assumes client: "kube_client c view"
    and run: "run_state (VolumeReconciler_Reconcile c req) w = ((res, err), w')"
    and v: "cl_volumes (view w) req = Some v" "settled (view w) v"
  shows "view w' = view w \<and> RequeueAfter res = 0"
  using wp_run [OF kube_client.wp_Reconcile_settled [OF client v] run] by simp

theorem reconcile_settled_witness:
  "mem_view (snd (run_state (VolumeReconciler_Reconcile (mem_env noHttp) volReq) (runningSample ''Ready'')))
   = mem_view (runningSample ''Ready'')"
proof -
  let ?v = "runningVolume ''Ready''" and ?cl = "mem_view (runningSample ''Ready'')"
  have key: "obj_Namespace ?v = ''ns''" "vs_ReplicaCount (Spec ?v) = ''1''" "vs_NodeID (Spec ?v) = ''n1''"
    "vst_Phase (Status ?v) = ''Ready''" "vst_EngineRef (Status ?v) \<noteq> None"
    by (simp_all add: runningVolume_def sampleVolume_def meta_for_def refTo_def)
  have ras: "es_Replicas (Spec runningEngine) = [attachment ''vol-replica-0'' ''n1'']"
    "est_Phase (Status runningEngine) = ''Running''"
    by (simp_all add: runningEngine_def sampleEngine_def)
  have rep: "rst_Phase (Status runningReplica) = ''Running''" "rs_Type (Spec runningReplica) = ''Local''"
    by (simp_all add: runningReplica_def sampleReplica_def)
  have "ParseReplicaCount ''1'' = Inr (1, False)" by code_simp
  then have "settled ?cl ?v"
    using runningSample_engine [of "''Ready''"] runningSample_replica [of "''Ready''"]
    by (simp add: settled_def children_running_def all_running_def desired_of_def expectedType_def key ras rep)
  from reconcile_settled [where view = mem_view and v = ?v and w = "runningSample ''Ready''",
      OF kube_client_mem prod_run_state runningSample_volume this]
  show ?thesis by simp
qed

end
