(* ===== verification/Network_Policy.thy ===== *)
theory Network_Policy
  imports Api_Types
begin

text \<open>
  Endpoints and network policies, \<^verbatim>\<open>src/internal/network/policy.go\<close>: which address an engine or
  replica sidecar binds and advertises. A policy field is an address, one of the tokens
  \<^verbatim>\<open>podIP\<close>, \<^verbatim>\<open>hostIP\<close>, \<^verbatim>\<open>nodeName\<close> that stand for a value of the running pod, or empty. The
  field names carry a prefix for their record (\<^verbatim>\<open>po_\<close>, \<^verbatim>\<open>rv_\<close>, \<^verbatim>\<open>rp_\<close>).
\<close>

section \<open>The types\<close>

type_synonym AddressFamily = string

definition FamilyAuto :: AddressFamily where [simp]: "FamilyAuto = ''Auto''"
definition FamilyIPv4 :: AddressFamily where [simp]: "FamilyIPv4 = ''IPv4''"
definition FamilyIPv6 :: AddressFamily where [simp]: "FamilyIPv6 = ''IPv6''"

record Policy =
  po_BindAddress :: string
  po_AdvertiseAddress :: string
  po_Port :: string
  po_PreferredFamily :: AddressFamily

record RolePolicies =
  rp_Default :: Policy
  rp_Engine :: Policy
  rp_Replica :: Policy

record RuntimeValues =
  rv_PodIP :: string
  rv_HostIP :: string
  rv_NodeName :: string

record ResolvedPolicy =
  rsv_BindAddress :: string
  rsv_AdvertiseAddress :: string
  rsv_Port :: string
  rsv_PreferredFamily :: AddressFamily
  rsv_AdrFam :: string

section \<open>Endpoints\<close>

definition JoinEndpoint :: "string \<Rightarrow> string \<Rightarrow> string" where
  "JoinEndpoint host port = JoinHostPort host port"

definition SplitEndpoint :: "string \<Rightarrow> error + string \<times> string" where
  "SplitEndpoint endpoint =
     (case SplitHostPort endpoint of
        Inl err \<Rightarrow> Inl (SplitEndpointError endpoint err)
      | Inr hp \<Rightarrow> Inr hp)"

definition HTTPURL :: "string \<Rightarrow> string \<Rightarrow> string \<Rightarrow> string \<Rightarrow> string" where
  "HTTPURL scheme host port path = url_String scheme (JoinEndpoint host port) path"

section \<open>Policies\<close>

definition mergePolicy :: "Policy \<Rightarrow> Policy \<Rightarrow> Policy" where
  "mergePolicy base override =
     \<lparr>po_BindAddress = (if po_BindAddress override \<noteq> [] then po_BindAddress override else po_BindAddress base),
      po_AdvertiseAddress =
        (if po_AdvertiseAddress override \<noteq> [] then po_AdvertiseAddress override else po_AdvertiseAddress base),
      po_Port = (if po_Port override \<noteq> [] then po_Port override else po_Port base),
      po_PreferredFamily =
        (if po_PreferredFamily override \<noteq> [] then po_PreferredFamily override else po_PreferredFamily base)\<rparr>"

definition resolveAddressToken :: "string \<Rightarrow> RuntimeValues \<Rightarrow> string \<Rightarrow> error + string" where
  "resolveAddressToken val runtime fallback =
     (let val = TrimSpace val;
          val = (if val = [] then ''podIP'' else val) in
      if val = ''podIP'' then (if rv_PodIP runtime \<noteq> [] then Inr (rv_PodIP runtime) else Inr fallback)
      else if val = ''hostIP'' then
        (if rv_HostIP runtime = [] then Inl HostIPNotAvailable else Inr (rv_HostIP runtime))
      else if val = ''nodeName'' then
        (if rv_NodeName runtime = [] then Inl NodeNameNotAvailable else Inr (rv_NodeName runtime))
      else if ParseIP val \<noteq> None then Inr val
      else Inl (UnsupportedAddressToken val))"

definition resolveAdrFam :: "string \<Rightarrow> AddressFamily \<Rightarrow> error + string" where
  "resolveAdrFam address family =
     (if family \<noteq> FamilyAuto then Inr family
      else case ParseIP address of
        Some ip \<Rightarrow> if To4 ip = None then Inr FamilyIPv6 else Inr FamilyIPv4
      | None \<Rightarrow> Inl (UnderivableAddressFamily address))"

definition normalizeFamily :: "AddressFamily \<Rightarrow> AddressFamily" where
  "normalizeFamily family =
     (if family = [] \<or> family = FamilyAuto then FamilyAuto
      else if family = FamilyIPv4 then FamilyIPv4
      else if family = FamilyIPv6 then FamilyIPv6
      else FamilyAuto)"

definition AddressFamilyForAddress :: "string \<Rightarrow> AddressFamily \<Rightarrow> error + string" where
  "AddressFamilyForAddress address family = resolveAdrFam address (normalizeFamily family)"

definition policyFor :: "string \<Rightarrow> RolePolicies \<Rightarrow> Policy" where
  "policyFor role policies =
     (if role = ''engine'' then mergePolicy (rp_Default policies) (rp_Engine policies)
      else if role = ''replica'' then mergePolicy (rp_Default policies) (rp_Replica policies)
      else rp_Default policies)"

definition ResolvePolicy :: "string \<Rightarrow> RolePolicies \<Rightarrow> RuntimeValues \<Rightarrow> error + ResolvedPolicy" where
  "ResolvePolicy role policies runtime =
     (let policy = policyFor role policies in
      case resolveAddressToken (po_BindAddress policy) runtime (rv_PodIP runtime) of
        Inl err \<Rightarrow> Inl (ResolveBindAddress err)
      | Inr bindAddress \<Rightarrow>
        (case resolveAddressToken (po_AdvertiseAddress policy) runtime bindAddress of
           Inl err \<Rightarrow> Inl (ResolveAdvertiseAddress err)
         | Inr advertiseAddress \<Rightarrow>
           (let port = TrimSpace (po_Port policy) in
            if port = [] then Inl (PortRequired role)
            else let preferredFamily = normalizeFamily (po_PreferredFamily policy) in
              case resolveAdrFam bindAddress preferredFamily of
                Inl err \<Rightarrow> Inl err
              | Inr adrFam \<Rightarrow>
                  Inr \<lparr>rsv_BindAddress = bindAddress, rsv_AdvertiseAddress = advertiseAddress, rsv_Port = port,
                       rsv_PreferredFamily = preferredFamily, rsv_AdrFam = adrFam\<rparr>)))"

section \<open>Lemmas\<close>

lemma SplitEndpoint_JoinEndpoint:
  "plain_host h \<Longrightarrow> plain_port p \<Longrightarrow> SplitEndpoint (JoinEndpoint h p) = Inr (h, p)"
  by (simp add: SplitEndpoint_def JoinEndpoint_def SplitHostPort_JoinHostPort)

lemma mergePolicy_empty:
  "mergePolicy p \<lparr>po_BindAddress = [], po_AdvertiseAddress = [], po_Port = [], po_PreferredFamily = []\<rparr> = p"
  by (simp add: mergePolicy_def)

lemma mergePolicy_idem: "mergePolicy (mergePolicy p q) q = mergePolicy p q"
  by (simp add: mergePolicy_def)

lemma mergePolicy_assoc: "mergePolicy (mergePolicy p q) r = mergePolicy p (mergePolicy q r)"
  by (simp add: mergePolicy_def)

lemma normalizeFamily_range: "normalizeFamily f \<in> {FamilyAuto, FamilyIPv4, FamilyIPv6}"
  by (simp add: normalizeFamily_def)

lemma normalizeFamily_idem: "normalizeFamily (normalizeFamily f) = normalizeFamily f"
  using normalizeFamily_range [of f] by (auto simp: normalizeFamily_def)

lemma resolveAddressToken_sound:
  "resolveAddressToken v rt fb = Inr a \<Longrightarrow>
   a \<in> {rv_PodIP rt, rv_HostIP rt, rv_NodeName rt, fb} \<or> a = TrimSpace v \<and> ParseIP a \<noteq> None"
  by (auto simp: resolveAddressToken_def Let_def split: if_splits)

lemma resolveAdrFam_sound:
  "resolveAdrFam a (normalizeFamily f) = Inr r \<Longrightarrow>
   r \<in> {FamilyIPv4, FamilyIPv6} \<and>
   (normalizeFamily f = FamilyAuto \<longrightarrow>
      (\<exists>ip. ParseIP a = Some ip \<and> (r = FamilyIPv4 \<longleftrightarrow> To4 ip \<noteq> None))) \<and>
   (normalizeFamily f \<noteq> FamilyAuto \<longrightarrow> r = normalizeFamily f)"
  using normalizeFamily_range [of f]
  by (auto simp: resolveAdrFam_def split: if_splits option.splits)

text \<open>What an address field of a policy stands for in a pod.\<close>

definition fromPodIP :: "string \<Rightarrow> bool" where
  "fromPodIP v \<longleftrightarrow> TrimSpace v = [] \<or> TrimSpace v = ''podIP''"

definition addressOf :: "string \<Rightarrow> RuntimeValues \<Rightarrow> string" where
  "addressOf v rt =
     (if fromPodIP v then rv_PodIP rt
      else if TrimSpace v = ''hostIP'' then rv_HostIP rt
      else if TrimSpace v = ''nodeName'' then rv_NodeName rt
      else TrimSpace v)"

lemma resolveAddressToken_value:
  "resolveAddressToken v rt fb = Inr a \<Longrightarrow> a = (if fromPodIP v \<and> rv_PodIP rt = [] then fb else addressOf v rt)"
  by (auto simp: resolveAddressToken_def addressOf_def fromPodIP_def Let_def split: if_splits)

lemma resolveAddressToken_nonempty:
  "resolveAddressToken v rt fb = Inr a \<Longrightarrow> fb \<noteq> [] \<or> rv_PodIP rt \<noteq> [] \<Longrightarrow> a \<noteq> []"
  by (auto simp: resolveAddressToken_def Let_def split: if_splits)

section \<open>Properties\<close>

text \<open>
  An endpoint that is built from a host and a port splits into them again, for hosts
  without brackets, IPv6 addresses with their colons included.
\<close>

theorem endpoint_roundtrip:
  assumes "plain_host host" and "plain_port port"
  shows "SplitEndpoint (JoinEndpoint host port) = Inr (host, port)"
  using assms by (rule SplitEndpoint_JoinEndpoint)

theorem endpoint_roundtrip_witness:
  "SplitEndpoint (JoinEndpoint ''fd00::12'' ''4420'') = Inr (''fd00::12'', ''4420'')"
  by (rule endpoint_roundtrip) (simp_all add: plain_host_def plain_port_def)

text \<open>
  C37: a resolved policy is what the role's policy says. Its port is the trimmed port of the
  policy and not empty. The address it binds is the value that its field stands for in the pod:
  the pod's address for a blank field, the value of a token, or the IP address written there;
  so is the address it advertises, except that in a pod without an address a field that asks for
  one stands for the address that is bound. Neither is empty when the pod has an address. The
  family is IPv4 or IPv6: the preferred one, or without a preference that of the bind address,
  which is then an IP address.
\<close>

theorem ResolvePolicy_sound:
  assumes "ResolvePolicy role policies runtime = Inr r"
  shows "let p = policyFor role policies in rsv_Port r = TrimSpace (po_Port p) \<and> rsv_Port r \<noteq> []
     \<and> rsv_BindAddress r = addressOf (po_BindAddress p) runtime
     \<and> rsv_AdvertiseAddress r =
         (if fromPodIP (po_AdvertiseAddress p) \<and> rv_PodIP runtime = [] then rsv_BindAddress r
          else addressOf (po_AdvertiseAddress p) runtime)
     \<and> (rsv_BindAddress r \<in> {rv_PodIP runtime, rv_HostIP runtime, rv_NodeName runtime}
          \<or> rsv_BindAddress r = TrimSpace (po_BindAddress p) \<and> ParseIP (rsv_BindAddress r) \<noteq> None)
     \<and> (rsv_AdvertiseAddress r \<in> {rv_PodIP runtime, rv_HostIP runtime, rv_NodeName runtime, rsv_BindAddress r}
          \<or> rsv_AdvertiseAddress r = TrimSpace (po_AdvertiseAddress p) \<and> ParseIP (rsv_AdvertiseAddress r) \<noteq> None)
     \<and> (rv_PodIP runtime \<noteq> [] \<longrightarrow> rsv_BindAddress r \<noteq> [] \<and> rsv_AdvertiseAddress r \<noteq> [])
     \<and> rsv_AdrFam r \<in> {FamilyIPv4, FamilyIPv6}
     \<and> (rsv_PreferredFamily r \<noteq> FamilyAuto \<longrightarrow> rsv_AdrFam r = rsv_PreferredFamily r)
     \<and> (rsv_PreferredFamily r = FamilyAuto \<longrightarrow>
          (\<exists>ip. ParseIP (rsv_BindAddress r) = Some ip \<and> (rsv_AdrFam r = FamilyIPv4 \<longleftrightarrow> To4 ip \<noteq> None)))"
proof -
  define p where "p = policyFor role policies"
  obtain b a where b: "resolveAddressToken (po_BindAddress p) runtime (rv_PodIP runtime) = Inr b"
    and a: "resolveAddressToken (po_AdvertiseAddress p) runtime b = Inr a"
    and f: "resolveAdrFam b (normalizeFamily (po_PreferredFamily p)) = Inr (rsv_AdrFam r)"
    and r: "rsv_BindAddress r = b" "rsv_AdvertiseAddress r = a" "rsv_Port r = TrimSpace (po_Port p)"
      "TrimSpace (po_Port p) \<noteq> []" "rsv_PreferredFamily r = normalizeFamily (po_PreferredFamily p)"
    using assms by (auto simp: ResolvePolicy_def p_def [symmetric] Let_def split: sum.splits if_splits)
  have bind: "b = addressOf (po_BindAddress p) runtime"
    using resolveAddressToken_value [OF b] by (simp add: addressOf_def split: if_splits)
  have "b \<in> {rv_PodIP runtime, rv_HostIP runtime, rv_NodeName runtime} \<or> b = TrimSpace (po_BindAddress p) \<and> ParseIP b \<noteq> None"
    "a \<in> {rv_PodIP runtime, rv_HostIP runtime, rv_NodeName runtime, b}
     \<or> a = TrimSpace (po_AdvertiseAddress p) \<and> ParseIP a \<noteq> None"
    "rv_PodIP runtime \<noteq> [] \<longrightarrow> b \<noteq> [] \<and> a \<noteq> []"
    using resolveAddressToken_sound [OF b] resolveAddressToken_sound [OF a]
      resolveAddressToken_nonempty [OF b] resolveAddressToken_nonempty [OF a] by blast+
  note addresses = this
  have port: "rsv_Port r = TrimSpace (po_Port p)" "rsv_Port r \<noteq> []" using r(3,4) by simp_all
  note f = resolveAdrFam_sound [OF f]
  note family = conjunct1 [OF f] conjunct1 [OF conjunct2 [OF f]] conjunct2 [OF conjunct2 [OF f]]
  show ?thesis
    unfolding Let_def p_def [symmetric] r(1,2,5)
    using port bind resolveAddressToken_value [OF a] addresses family by (intro conjI)
qed

definition samplePolicies :: RolePolicies where
  "samplePolicies =
     (let none = \<lparr>po_BindAddress = [], po_AdvertiseAddress = [], po_Port = [], po_PreferredFamily = []\<rparr>
      in \<lparr>rp_Default = none\<lparr>po_Port := ''4420 '', po_BindAddress := ''podIP''\<rparr>,
          rp_Engine = none\<lparr>po_AdvertiseAddress := ''hostIP''\<rparr>, rp_Replica = none\<rparr>)"

theorem ResolvePolicy_sound_witness:
  "\<exists>r. ResolvePolicy ''engine'' samplePolicies
        \<lparr>rv_PodIP = ''10.1.2.3'', rv_HostIP = ''192.168.0.4'', rv_NodeName = ''n1''\<rparr> = Inr r
     \<and> rsv_Port r = ''4420'' \<and> rsv_AdrFam r \<in> {FamilyIPv4, FamilyIPv6}
     \<and> rsv_BindAddress r = ''10.1.2.3'' \<and> rsv_AdvertiseAddress r = ''192.168.0.4''"
proof -
  let ?rt = "\<lparr>rv_PodIP = ''10.1.2.3'', rv_HostIP = ''192.168.0.4'', rv_NodeName = ''n1''\<rparr>"
  let ?r = "\<lparr>rsv_BindAddress = ''10.1.2.3'', rsv_AdvertiseAddress = ''192.168.0.4'', rsv_Port = ''4420'',
             rsv_PreferredFamily = ''Auto'', rsv_AdrFam = ''IPv4''\<rparr>"
  have "ResolvePolicy ''engine'' samplePolicies ?rt = Inr ?r" by code_simp
  moreover have "addressOf (po_BindAddress (policyFor ''engine'' samplePolicies)) ?rt = ''10.1.2.3''"
    "addressOf (po_AdvertiseAddress (policyFor ''engine'' samplePolicies)) ?rt = ''192.168.0.4''"
    "TrimSpace (po_Port (policyFor ''engine'' samplePolicies)) = ''4420''" by code_simp+
  ultimately show ?thesis using ResolvePolicy_sound [of "''engine''" samplePolicies ?rt ?r] by simp
qed

end
