(* ===== verification/Sidecar_Protocol.thy ===== *)
theory Sidecar_Protocol
  imports Json
begin

text \<open>
  What the controllers and the sidecars say to each other: the status of a sidecar
  (\<^verbatim>\<open>src/internal/sidecar/status.go\<close>), the snapshot request and its answer
  (\<^verbatim>\<open>src/internal/sidecar/snapshot.go\<close>) and the new attachments of an engine
  (\<^verbatim>\<open>src/internal/sidecar/reconfigure.go\<close>). Each is a record with its JSON encoding and
  decoding, an instance of the contract \<open>json_codec\<close>, so what one side writes the other reads.
\<close>

record SidecarStatus =
  sc_Role :: string
  sc_Endpoint :: string
  sc_SubsystemNQN :: string
  sc_ReplicaNQN :: string

definition encodeStatus :: "SidecarStatus \<Rightarrow> json" where
  "encodeStatus s = JObj
     ([(''role'', JStr (sc_Role s))] @ omitempty ''endpoint'' (sc_Endpoint s)
      @ omitempty ''subsystemNQN'' (sc_SubsystemNQN s) @ omitempty ''replicaNQN'' (sc_ReplicaNQN s))"

definition decodeStatus :: "json \<Rightarrow> SidecarStatus option" where
  "decodeStatus = as_struct (\<lambda>kvs. do {
     role \<leftarrow> field as_string ''role'' [] kvs;
     endpoint \<leftarrow> field as_string ''endpoint'' [] kvs;
     subsystemNQN \<leftarrow> field as_string ''subsystemNQN'' [] kvs;
     replicaNQN \<leftarrow> field as_string ''replicaNQN'' [] kvs;
     Some \<lparr>sc_Role = role, sc_Endpoint = endpoint, sc_SubsystemNQN = subsystemNQN, sc_ReplicaNQN = replicaNQN\<rparr>
   })"

interpretation statuses: json_codec encodeStatus decodeStatus
  by unfold_locales (simp add: encodeStatus_def decodeStatus_def json_simps omitempty_def fold_eval)

definition encodeSnapshotReq :: "string \<Rightarrow> json" where
  "encodeSnapshotReq snapshotID = JObj [(''snapshotID'', JStr snapshotID)]"

definition decodeSnapshotReq :: "json \<Rightarrow> string option" where
  "decodeSnapshotReq = as_struct (field as_string ''snapshotID'' [])"

interpretation snapshot_requests: json_codec encodeSnapshotReq decodeSnapshotReq
  by unfold_locales (simp add: encodeSnapshotReq_def decodeSnapshotReq_def json_simps)

record snapshotResp =
  sr_SnapshotPath :: string
  sr_SizeBytes :: int

definition encodeSnapshotResp :: "snapshotResp \<Rightarrow> json" where
  "encodeSnapshotResp r = JObj [(''snapshotPath'', JStr (sr_SnapshotPath r)), (''sizeBytes'', JNum (sr_SizeBytes r))]"

definition decodeSnapshotResp :: "json \<Rightarrow> snapshotResp option" where
  "decodeSnapshotResp = as_struct (\<lambda>kvs. do {
     path \<leftarrow> field as_string ''snapshotPath'' [] kvs;
     bytes \<leftarrow> field as_int64 ''sizeBytes'' 0 kvs;
     Some \<lparr>sr_SnapshotPath = path, sr_SizeBytes = bytes\<rparr>
   })"

text \<open>The size of a file is a 64-bit number, which is what the answer can carry.\<close>

lemma decodeSnapshotResp_encode:
  "minInt64 \<le> sr_SizeBytes r \<Longrightarrow> sr_SizeBytes r \<le> maxInt64 \<Longrightarrow> decodeSnapshotResp (encodeSnapshotResp r) = Some r"
  by (simp add: encodeSnapshotResp_def decodeSnapshotResp_def json_simps fold_eval)

definition encodeReconfigure :: "ReplicaAttachment list \<Rightarrow> json" where
  "encodeReconfigure ras = JObj [(''replicas'', JArr (map encodeAttachment ras))]"

definition decodeReconfigure :: "json \<Rightarrow> ReplicaAttachment list option" where
  "decodeReconfigure = as_struct (field (as_slice decodeAttachment) ''replicas'' [])"

interpretation reconfigurations: json_codec encodeReconfigure decodeReconfigure
  by unfold_locales
    (simp add: encodeReconfigure_def decodeReconfigure_def json_simps attachments.slice_codec del: map_map)

end
