(* ===== verification/Sidecar_Status.thy ===== *)
theory Sidecar_Status
  imports Network_Policy Sample_Cluster Sidecar_Protocol
begin

text \<open>
  Asking a pod's sidecar for its status and checking the answer,
  \<^verbatim>\<open>src/internal/controller/sidecar_status.go\<close> and \<^verbatim>\<open>sidecar_validate.go\<close>. The HTTP exchange is
  the call \<open>http_Do\<close> of the environment; a body that does not decode as a status is an error.
\<close>

section \<open>The operations\<close>

definition statusURL :: "string \<Rightarrow> string" where
  "statusURL podIP = HTTPURL ''http'' podIP ''9810'' ''/status''"

definition GetStatus :: "'w env \<Rightarrow> string \<Rightarrow> ('w, error + SidecarStatus) state" where
  "GetStatus c podIP = do {
     r \<leftarrow> http_Do c \<lparr>hq_Method = ''GET'', hq_URL = statusURL podIP, hq_Payload = None\<rparr>;
     case r of
       Inl err \<Rightarrow> ret (Inl err)
     | Inr resp \<Rightarrow>
         if hr_StatusCode resp \<noteq> 200 then ret (Inl (SidecarStatusCode (hr_StatusCode resp)))
         else case Option.bind (hr_Body resp) decodeStatus of
                Some status \<Rightarrow> ret (Inr status)
              | None \<Rightarrow> ret (Inl DecodeFailed)
   }"

definition reconfigureURL :: "string \<Rightarrow> string" where
  "reconfigureURL podIP = HTTPURL ''http'' podIP ''9810'' ''/reconfigure''"

definition validateEndpoint :: "string \<Rightarrow> error option" where
  "validateEndpoint endpoint =
     (if TrimSpace endpoint = [] then Some MissingEndpoint
      else case SplitEndpoint endpoint of
        Inl err \<Rightarrow> Some (InvalidEndpoint err)
      | Inr (host, port) \<Rightarrow>
          if TrimSpace host = [] then Some EmptyEndpointHost
          else if TrimSpace port = [] then Some EmptyEndpointPort
          else None)"

definition validateEngineSidecarStatus :: "SidecarStatus \<Rightarrow> error option" where
  "validateEngineSidecarStatus status =
     (if sc_Role status \<noteq> ''engine'' then Some (UnexpectedSidecarRole (sc_Role status))
      else if TrimSpace (sc_SubsystemNQN status) = [] then Some MissingSubsystemNQN
      else validateEndpoint (sc_Endpoint status))"

definition validateReplicaSidecarStatus :: "SidecarStatus \<Rightarrow> error option" where
  "validateReplicaSidecarStatus status =
     (if sc_Role status \<noteq> ''replica'' then Some (UnexpectedSidecarRole (sc_Role status))
      else if TrimSpace (sc_ReplicaNQN status) = [] then Some MissingReplicaNQN
      else validateEndpoint (sc_Endpoint status))"

text \<open>A reconciler's status client: the one above for a nil field.\<close>

type_synonym 'w status_client = "string \<Rightarrow> ('w, error + SidecarStatus) state"

definition statusClientOf :: "'w env \<Rightarrow> 'w status_client option \<Rightarrow> 'w status_client" where
  "statusClientOf c sc = (case sc of None \<Rightarrow> GetStatus c | Some f \<Rightarrow> f)"

text \<open>A status client given by the caller reads only.\<close>

definition status_frame :: "('w \<Rightarrow> cluster) \<Rightarrow> 'w status_client option \<Rightarrow> bool" where
  "status_frame view sc \<longleftrightarrow>
     (\<forall>f ip w x w'. sc = Some f \<longrightarrow> run_state (f ip) w = (x, w') \<longrightarrow> view w' = view w)"

lemma status_frame_None [simp]: "status_frame view None"
  by (simp add: status_frame_def)

section \<open>What is accepted\<close>

definition good_endpoint :: "string \<Rightarrow> bool" where
  "good_endpoint e \<longleftrightarrow> (\<exists>h p. SplitEndpoint e = Inr (h, p) \<and> TrimSpace h \<noteq> [] \<and> TrimSpace p \<noteq> [])"

lemma SplitEndpoint_empty: "SplitEndpoint [] = Inl (SplitEndpointError [] MissingPort)"
  by code_simp

lemma validateEndpoint_good: "validateEndpoint e = None \<Longrightarrow> good_endpoint e"
  by (auto simp: validateEndpoint_def good_endpoint_def split: if_splits sum.splits)

lemma TrimSpace_Nil [simp]: "TrimSpace [] = []"
  by (simp add: TrimSpace_def)

lemma validateReplica_None:
  "validateReplicaSidecarStatus s = None \<Longrightarrow>
   sc_Role s = ''replica'' \<and> sc_ReplicaNQN s \<noteq> [] \<and> good_endpoint (sc_Endpoint s)"
  by (auto simp: validateReplicaSidecarStatus_def split: if_splits intro: validateEndpoint_good)

lemma validateEngine_None:
  "validateEngineSidecarStatus s = None \<Longrightarrow>
   sc_Role s = ''engine'' \<and> sc_SubsystemNQN s \<noteq> [] \<and> good_endpoint (sc_Endpoint s)"
  by (auto simp: validateEngineSidecarStatus_def split: if_splits intro: validateEndpoint_good)

context kube_client
begin

lemma wp_GetStatus:
  assumes "\<And>x w'. view w' = view w \<Longrightarrow> Q x w'"
  shows "wp (GetStatus c ip) Q w"
  using assms unfolding GetStatus_def by (auto intro!: wp_Do split: sum.split option.split)

lemma keeps_GetStatus [keeps_intros]: "keeps view P (GetStatus c ip)"
  by (rule keepsI, rule wp_GetStatus) simp

lemma wp_statusClientOf:
  assumes "status_frame view sc" and "\<And>x w'. view w' = view w \<Longrightarrow> Q x w'"
  shows "wp (statusClientOf c sc ip) Q w"
proof (cases sc)
  case None
  then show ?thesis by (auto simp: statusClientOf_def intro!: wp_GetStatus assms(2))
next
  case (Some f)
  show ?thesis
  proof (rule wp_of_run)
    fix x w' assume "run_state (statusClientOf c sc ip) w = (x, w')"
    with Some assms(1) have "view w' = view w" by (auto simp: statusClientOf_def status_frame_def)
    then show "Q x w'" by (rule assms(2))
  qed
qed

lemma keeps_statusClientOf:
  assumes "status_frame view sc"
  shows "keeps view P (statusClientOf c sc ip)"
  by (rule keepsI, rule wp_statusClientOf [OF assms]) simp

end

end
