(* ===== verification/Pod_Templates.thy ===== *)
theory Pod_Templates
  imports Sidecar_Status Volume_Scale
begin

text \<open>
  The pods the controllers create, \<^verbatim>\<open>src/internal/controller/podtemplates.go\<close>, and the JSON text
  of an engine's attachments, which its pod gets in the environment and of which
  \<^verbatim>\<open>src/internal/controller/replicahash.go\<close> takes a digest. The digest itself, the first bytes
  of SHA-256 in hexadecimal, is an argument; strings are bytes, those from 128 on being valid
  UTF-8. A nil slice of attachments, which Go writes as \<^verbatim>\<open>null\<close>, is the empty list here and is written
  \<^verbatim>\<open>[]\<close>: the sidecar reads both as no attachments, and the digest is an arbitrary function of the text.
\<close>

section \<open>The digest of the attachments\<close>

definition marshalReplicas :: "ReplicaAttachment list \<Rightarrow> string" where
  "marshalReplicas ras = json_text (JArr (map encodeAttachment ras))"

definition replicasHash :: "(string \<Rightarrow> string) \<Rightarrow> ReplicaAttachment list \<Rightarrow> string" where
  "replicasHash digest ras = digest (marshalReplicas ras)"

section \<open>The templates\<close>

record Images =
  im_SPDK :: string
  im_Sidecar :: string
  im_NFSSidecar :: string

definition PodImages :: Images where
  "PodImages =
     \<lparr>im_SPDK = ''ghcr.io/bouquet2/kdfs/kdfs-spdk:dev'',
      im_Sidecar = ''ghcr.io/bouquet2/kdfs/kdfs-sidecar:dev'',
      im_NFSSidecar = ''ghcr.io/bouquet2/kdfs/kdfs-nfs-sidecar:dev''\<rparr>"

definition runtimeEnv :: "EnvVar list" where
  "runtimeEnv =
     [EnvFieldRef ''KDFS_POD_IP'' ''status.podIP'',
      EnvFieldRef ''KDFS_HOST_IP'' ''status.hostIP'',
      EnvFieldRef ''KDFS_NODE_NAME'' ''spec.nodeName'',
      EnvConfigMapKey ''KDFS_NETWORK_POLICY'' ''kdfs-config'' ''networkPolicy'' True]"

definition mypodIPEnv :: EnvVar where
  "mypodIPEnv = EnvFieldRef ''KDFS_LISTEN_ADDR'' ''status.podIP''"

definition nqnAuthorityEnv :: EnvVar where
  "nqnAuthorityEnv = EnvConfigMapKey ''NQN_AUTHORITY'' ''kdfs-config'' ''nqnAuthority'' False"

definition dataMount :: VolumeMount where
  "dataMount = \<lparr>vm_Name = ''data'', vm_MountPath = ''/data''\<rparr>"

definition socketMount :: VolumeMount where
  "socketMount = \<lparr>vm_Name = ''spdk-socket'', vm_MountPath = ''/var/tmp''\<rparr>"

definition spdkPod ::
  "Images \<Rightarrow> string \<Rightarrow> string \<Rightarrow> string \<Rightarrow> string \<Rightarrow> string \<Rightarrow> EnvVar list \<Rightarrow> bool option \<Rightarrow> Pod" where
  "spdkPod images name namespace nodeName spdkContainer mode sidecarEnv privileged =
     \<lparr>Meta = (meta_for name namespace)\<lparr>om_Labels :=
         [(''app.kubernetes.io/name'', ''kdfs''), (''kdfs.krea.to/mode'', mode)]\<rparr>,
      Spec =
        \<lparr>ps_NodeName = nodeName,
         ps_RestartPolicy = ''Always'',
         ps_Volumes = [(''data'', HostPath ''/var/lib/kdfs''), (''spdk-socket'', EmptyDir)],
         ps_Containers =
           [\<lparr>co_Name = spdkContainer, co_Image = im_SPDK images,
             co_Args = [''--no-huge'', ''-s'', ''1024'', ''-r'', ''/var/tmp/spdk.sock''], co_Env = [],
             co_VolumeMounts = [dataMount, socketMount], co_Privileged = privileged\<rparr>,
            \<lparr>co_Name = ''sidecar'', co_Image = im_Sidecar images,
             co_Args = [''--mode'', mode], co_Env = sidecarEnv,
             co_VolumeMounts = [dataMount, socketMount], co_Privileged = None\<rparr>]\<rparr>,
      Status = zero_PodStatus\<rparr>"

definition sanitizeAllowedHosts :: "string \<Rightarrow> string list \<Rightarrow> string list" where
  "sanitizeAllowedHosts nqnEnv hosts = filter (IsHostNQN nqnEnv) hosts"

definition engineEnv :: "string \<Rightarrow> Engine \<Rightarrow> string list \<Rightarrow> EnvVar list" where
  "engineEnv nqnEnv engine allowedHosts =
     (let volumeName = es_VolumeRef (Spec engine);
          hosts = sanitizeAllowedHosts nqnEnv allowedHosts in
      [EnvValue ''KDFS_VOLUME_NAME'' volumeName,
       EnvValue ''KDFS_LOCAL_PATH'' (''/data/'' @ volumeName @ ''/vol.img''),
       EnvValue ''KDFS_REPLICAS'' (marshalReplicas (es_Replicas (Spec engine))),
       nqnAuthorityEnv]
      @ runtimeEnv
      @ (if length hosts > 0 then [EnvValue ''KDFS_ALLOWED_HOSTS'' (Join hosts '','')] else [])
      @ [mypodIPEnv])"

definition EnginePodFor :: "string \<Rightarrow> Images \<Rightarrow> Engine \<Rightarrow> string list \<Rightarrow> Pod" where
  "EnginePodFor nqnEnv images engine allowedHosts =
     (let volumeName = es_VolumeRef (Spec engine);
          pod = spdkPod images (obj_Name engine @ ''-pod'') (obj_Namespace engine) (es_NodeID (Spec engine))
                  ''spdk-engine'' ''engine'' (engineEnv nqnEnv engine allowedHosts) (Some True)
      in pod\<lparr>Spec := (Spec pod)\<lparr>ps_Containers := ps_Containers (Spec pod) @
           [\<lparr>co_Name = ''nfs'', co_Image = im_NFSSidecar images, co_Args = [],
             co_Env = [EnvValue ''KDFS_NFS_EXPORT'' (''/data/'' @ volumeName),
                       EnvValue ''KDFS_NFS_BIND'' '':2049''],
             co_VolumeMounts = [dataMount], co_Privileged = Some True\<rparr>]\<rparr>\<rparr>)"

definition replicaIndex :: "string \<Rightarrow> string \<Rightarrow> int" where
  "replicaIndex volumeName replicaName =
     (let p = volumeName @ ''-replica-'' in
      if HasPrefix replicaName p
      then (case scan_d (drop (length p) replicaName) of Some i \<Rightarrow> i | None \<Rightarrow> 0)
      else 0)"

definition ReplicaPodFor :: "Images \<Rightarrow> Replica \<Rightarrow> Pod" where
  "ReplicaPodFor images replica =
     (let volumeName = rs_VolumeRef (Spec replica);
          env = [EnvValue ''KDFS_VOLUME_NAME'' volumeName,
                 EnvValue ''KDFS_DATA_PATH'' (''/data/'' @ volumeName @ ''/vol.img''),
                 EnvValue ''KDFS_REPLICA_INDEX'' (Itoa (replicaIndex volumeName (obj_Name replica))),
                 nqnAuthorityEnv,
                 mypodIPEnv] @ runtimeEnv
      in spdkPod images (obj_Name replica @ ''-pod'') (obj_Namespace replica) (rs_NodeID (Spec replica))
           ''spdk-replica'' ''replica'' env (Some True))"

section \<open>Lemmas\<close>

lemma key_of_EnginePodFor [simp]:
  "key_of (EnginePodFor e im engine hosts) = NN (obj_Namespace engine) (obj_Name engine @ ''-pod'')"
  by (simp add: EnginePodFor_def spdkPod_def key_of_def meta_for_def Let_def)

lemma key_of_ReplicaPodFor [simp]:
  "key_of (ReplicaPodFor im replica) = NN (obj_Namespace replica) (obj_Name replica @ ''-pod'')"
  by (simp add: ReplicaPodFor_def spdkPod_def key_of_def meta_for_def Let_def)

text \<open>The index a replica pod is told is the one its replica was named with.\<close>

lemma replicaIndex_ReplicaName: "int i \<le> maxInt64 \<Longrightarrow> replicaIndex v (ReplicaName v i) = int i"
  by (simp add: replicaIndex_def ReplicaName_def HasPrefix_def scan_d_show_nat)

text \<open>The pods are found by the labels the controllers look for.\<close>

lemma ReplicaPodFor_matches:
  "matches (Some (obj_Namespace replica)) [(''kdfs.krea.to/mode'', ''replica'')] (ReplicaPodFor im replica)"
  by (simp add: matches_def ReplicaPodFor_def spdkPod_def meta_for_def Let_def)

fun env_value :: "string \<Rightarrow> EnvVar list \<Rightarrow> string option" where
  "env_value n [] = None"
| "env_value n (EnvValue m v # es) = (if m = n then Some v else env_value n es)"
| "env_value n (_ # es) = env_value n es"

definition sidecar_env :: "Pod \<Rightarrow> EnvVar list" where
  "sidecar_env pod =
     (case find (\<lambda>co. co_Name co = ''sidecar'') (ps_Containers (Spec pod)) of None \<Rightarrow> [] | Some co \<Rightarrow> co_Env co)"

text \<open>
  The pod of a replica serves its replica. The pod of the \<open>i\<close>-th replica of a volume runs
  on the replica's node, is found under the name and label the controllers look for, and its
  sidecar is given the volume's name, its data file and the index \<open>i\<close>, so the NQN it exports
  under is the one of this replica.
\<close>

theorem ReplicaPodFor_correct:
  assumes "int i \<le> maxInt64"
  shows "let pod = ReplicaPodFor images (replicaFor volume node i) in
     key_of pod = NN (obj_Namespace volume) (ReplicaName (obj_Name volume) i @ ''-pod'')
     \<and> matches (Some (obj_Namespace volume)) [(''kdfs.krea.to/mode'', ''replica'')] pod
     \<and> ps_NodeName (Spec pod) = node
     \<and> env_value ''KDFS_VOLUME_NAME'' (sidecar_env pod) = Some (obj_Name volume)
     \<and> env_value ''KDFS_DATA_PATH'' (sidecar_env pod) = Some (''/data/'' @ obj_Name volume @ ''/vol.img'')
     \<and> env_value ''KDFS_REPLICA_INDEX'' (sidecar_env pod) = Some (show_nat i)"
proof -
  have "matches (Some (obj_Namespace volume)) [(''kdfs.krea.to/mode'', ''replica'')]
      (ReplicaPodFor images (replicaFor volume node i))"
    using ReplicaPodFor_matches [of "replicaFor volume node i" images]
    by (simp add: replicaFor_def meta_for_def)
  then show ?thesis
    using replicaIndex_ReplicaName [OF assms, of "obj_Name volume"]
    by (simp add: Let_def key_of_def ReplicaPodFor_def spdkPod_def replicaFor_def replicaSpecFor_def
        meta_for_def sidecar_env_def)
qed

theorem ReplicaPodFor_correct_witness:
  "env_value ''KDFS_REPLICA_INDEX''
     (sidecar_env (ReplicaPodFor PodImages (replicaFor (sampleVolume ''3'' zero_VolumeStatus) ''n2'' 12)))
   = Some (show_nat 12)"
  using ReplicaPodFor_correct [of 12 PodImages "sampleVolume ''3'' zero_VolumeStatus" "''n2''"]
  by (simp add: maxInt64_def Let_def)

end
