(* ===== verification/Engine_Reconcile.thy ===== *)
theory Engine_Reconcile
  imports Pod_Templates
begin

text \<open>
  The reconciler of engines, \<^verbatim>\<open>src/internal/controller/engine_controller.go\<close>, with the helpers
  of \<^verbatim>\<open>nodes.go\<close> it uses. An engine waits for its replicas, copies what they export into its
  attachments, gets a pod, and is running once the pod's sidecar reports a valid endpoint; a
  change of the attachments after that is sent to the sidecar.

  Arguments of the model: the NQN authority variable, the pod images, the digest of
  \<open>replicasHash\<close>, and the status client, \<open>None\<close> for the default one. The engine object the
  Go code changes in place is returned by \<open>replicaStatus\<close>; a successful update replaces it
  by the server's answer.
\<close>

section \<open>Helpers\<close>

definition getReplicaPod :: "'w env \<Rightarrow> Replica \<Rightarrow> ('w, Pod option) state" where
  "getReplicaPod c replica = do {
     r \<leftarrow> r_List (pods c) (Some (obj_Namespace replica)) [(''kdfs.krea.to/mode'', ''replica'')];
     case r of
       Inl _ \<Rightarrow> ret None
     | Inr items \<Rightarrow> ret (find (\<lambda>pod. obj_Name pod = obj_Name replica @ ''-pod'') items)
   }"

definition podReadiness :: "Pod \<Rightarrow> bool" where
  "podReadiness pod =
     (pst_PodIP (Status pod) \<noteq> [] \<and> list_all (\<lambda>r. r) (pst_ContainersReady (Status pod))
      \<and> length (pst_ContainersReady (Status pod)) \<noteq> 0)"

definition getEnginePodInfo :: "'w env \<Rightarrow> Engine \<Rightarrow> ('w, string \<times> bool \<times> bool) state" where
  "getEnginePodInfo c engine =
     (case est_PodRef (Status engine) of
        None \<Rightarrow> ret ([], False, False)
      | Some pr \<Rightarrow> do {
          g \<leftarrow> r_Get (pods c) (NN (pr_Namespace pr) (pr_Name pr));
          case g of
            Inl _ \<Rightarrow> ret ([], False, False)
          | Inr pod \<Rightarrow> ret (pst_PodIP (Status pod), True, podReadiness pod)
        })"

definition allowedHosts :: "'w env \<Rightarrow> string \<Rightarrow> ('w, string list) state" where
  "allowedHosts c nqnEnv = do {
     r \<leftarrow> r_List (nodes c) None [];
     case r of
       Inl _ \<Rightarrow> ret []
     | Inr items \<Rightarrow> ret (map (\<lambda>node. HostNQN nqnEnv (obj_Name node)) (filter (\<lambda>node. \<not> isCP node) items))
   }"

section \<open>The state of the replicas\<close>

text \<open>
  The loop over the attachments: an early return carries its error (\<open>None\<close> when a replica
  is not found) and the attachments as far as they were changed.
\<close>

definition set_remote :: "string \<Rightarrow> string \<Rightarrow> string \<Rightarrow> ReplicaAttachment \<Rightarrow> ReplicaAttachment" where
  "set_remote nqn host port ra = ra\<lparr>ra_NQN := nqn, ra_Address := host, ra_Port := port\<rparr>"

fun replicaStatus_loop ::
  "'w env \<Rightarrow> Engine \<Rightarrow> ReplicaAttachment list \<Rightarrow> ReplicaAttachment list \<Rightarrow> bool \<Rightarrow> bool
   \<Rightarrow> ('w, (error option \<times> ReplicaAttachment list) + (ReplicaAttachment list \<times> bool \<times> bool)) state" where
  "replicaStatus_loop c engine ys [] allReady specChanged = ret (Inr (ys, allReady, specChanged))"
| "replicaStatus_loop c engine ys (ra # ras) allReady specChanged = do {
     g \<leftarrow> r_Get (replicas c) (NN (obj_Namespace engine) (ra_Name ra));
     case g of
       Inl err \<Rightarrow> ret (Inl (IgnoreNotFound err, ys @ ra # ras))
     | Inr rep \<Rightarrow> do {
         let isLocal = (rs_NodeID (Spec rep) = es_NodeID (Spec engine));
         let specChanged = (specChanged \<or> ra_IsLocal ra \<noteq> isLocal);
         let ra = ra\<lparr>ra_IsLocal := isLocal\<rparr>;
         if isLocal
         then replicaStatus_loop c engine (ys @ [ra]) ras
                (allReady \<and> rst_Phase (Status rep) = ReplicaPhaseRunning) specChanged
         else do {
           pod \<leftarrow> getReplicaPod c rep;
           if rst_Phase (Status rep) \<noteq> ReplicaPhaseRunning \<or> rst_NQN (Status rep) = [] \<or> pod = None
           then replicaStatus_loop c engine (ys @ [ra]) ras False specChanged
           else case SplitEndpoint (rst_Endpoint (Status rep)) of
                  Inl err \<Rightarrow> ret (Inl (Some err, ys @ ra # ras))
                | Inr (host, port) \<Rightarrow>
                    replicaStatus_loop c engine (ys @ [set_remote (rst_NQN (Status rep)) host port ra]) ras allReady
                      (specChanged \<or> ra_NQN ra \<noteq> rst_NQN (Status rep) \<or> ra_Address ra \<noteq> host \<or> ra_Port ra \<noteq> port)
         }
       }
   }"

definition replicaStatus :: "'w env \<Rightarrow> Engine \<Rightarrow> ('w, bool \<times> error option \<times> Engine) state" where
  "replicaStatus c engine = do {
     r \<leftarrow> replicaStatus_loop c engine [] (es_Replicas (Spec engine)) True False;
     case r of
       Inl (err, ras) \<Rightarrow> ret (False, err, with_replicas ras engine)
     | Inr (ras, allReady, specChanged) \<Rightarrow>
         if specChanged
         then do {
           u \<leftarrow> r_Update (engines c) (with_replicas ras engine);
           case u of
             Inl err \<Rightarrow> ret (False, Some err, with_replicas ras engine)
           | Inr engine' \<Rightarrow> ret (allReady, None, engine')
         }
         else ret (allReady, None, with_replicas ras engine)
   }"

section \<open>Reconfiguration\<close>

definition triggerReconfigure :: "'w env \<Rightarrow> string \<Rightarrow> ReplicaAttachment list \<Rightarrow> ('w, error option) state" where
  "triggerReconfigure c podIP ras = do {
     r \<leftarrow> http_Do c \<lparr>hq_Method = ''POST'', hq_URL = reconfigureURL podIP, hq_Payload = Some (encodeReconfigure ras)\<rparr>;
     case r of
       Inl err \<Rightarrow> ret (Some err)
     | Inr resp \<Rightarrow>
         if hr_StatusCode resp \<noteq> 200 then ret (Some (ReconfigureStatus (hr_StatusCode resp))) else ret None
   }"

section \<open>The reconciler\<close>

definition engineOwner :: "Engine \<Rightarrow> OwnerReference" where
  "engineOwner engine =
     \<lparr>or_APIVersion = GroupVersion, or_Kind = ''Engine'', or_Name = obj_Name engine, or_UID = obj_UID engine,
      or_Controller = Some True, or_BlockOwnerDeletion = Some True\<rparr>"

definition ownedBy :: "OwnerReference \<Rightarrow> Pod \<Rightarrow> Pod" where
  "ownedBy owner pod = pod\<lparr>Meta := (Meta pod)\<lparr>om_OwnerReferences := [owner]\<rparr>\<rparr>"

definition upd_status :: "('st \<Rightarrow> 'st) \<Rightarrow> ('sp, 'st) kobj \<Rightarrow> ('sp, 'st) kobj" where
  "upd_status f o' = o'\<lparr>Status := f (Status o')\<rparr>"

definition podCreated :: "int \<Rightarrow> Pod \<Rightarrow> Engine \<Rightarrow> Engine" where
  "podCreated now pod engine = upd_status (\<lambda>st. st\<lparr>
     est_PodRef := Some \<lparr>pr_Name = obj_Name pod, pr_Namespace = obj_Namespace pod\<rparr>,
     est_Phase := EnginePhasePending,
     est_Conditions := SetTrue now (est_Conditions st) EngineConditionPodScheduled
                         ''PodCreated'' ''engine pod was created''\<rparr>) engine"

definition startPod :: "'w env \<Rightarrow> string \<Rightarrow> Images \<Rightarrow> Engine \<Rightarrow> ('w, ctrl_Result \<times> error option) state" where
  "startPod c nqnEnv images engine = do {
     hosts \<leftarrow> allowedHosts c nqnEnv;
     let pod = ownedBy (engineOwner engine) (EnginePodFor nqnEnv images engine hosts);
     err \<leftarrow> createIfMissing (pods c) pod;
     case err of
       Some e \<Rightarrow> ret (noRequeue, Some e)
     | None \<Rightarrow> do {
         now \<leftarrow> clock_Now c;
         s \<leftarrow> r_StatusUpdate (engines c) (podCreated now pod engine);
         ret (noRequeue, err_of s)
       }
   }"

definition withEndpoint :: "SidecarStatus \<Rightarrow> Engine \<Rightarrow> Engine" where
  "withEndpoint status engine = upd_status (\<lambda>st. st\<lparr>
     est_Endpoint := sc_Endpoint status, est_SubsystemNQN := sc_SubsystemNQN status\<rparr>) engine"

definition reconfiguring :: "int \<Rightarrow> Engine \<Rightarrow> Engine" where
  "reconfiguring now engine = upd_status (\<lambda>st. st\<lparr>
     est_Phase := EnginePhaseDegraded,
     est_Conditions := SetTrue now (est_Conditions st) EngineConditionSPDKStarted
                         ''Reconfiguring'' ''replica scaling in progress''\<rparr>) engine"

definition started :: "int \<Rightarrow> string \<Rightarrow> Engine \<Rightarrow> Engine" where
  "started now currentHash engine = upd_status (\<lambda>st. st\<lparr>
     est_LastReplicasHash := currentHash,
     est_Phase := EnginePhaseRunning,
     est_Conditions := SetTrue now (est_Conditions st) EngineConditionSPDKStarted
                         ''Started'' ''SPDK target is ready''\<rparr>) engine"

definition configured :: "int \<Rightarrow> int \<Rightarrow> string list \<Rightarrow> Engine \<Rightarrow> Engine" where
  "configured now now' bdevParts engine = upd_status (\<lambda>st. st\<lparr>
     est_Conditions :=
       SetTrue now'
         (SetTrue now (est_Conditions st) EngineConditionRAIDConfigured
            ''Configured'' (''RAID-1 bdev is configured over '' @ Join bdevParts '', ''))
         EngineConditionSubsystemReady ''Ready'' ''NVMe-oF subsystem is listening''\<rparr>) engine"

fun bdevNames :: "'w env \<Rightarrow> string \<Rightarrow> ReplicaAttachment list \<Rightarrow> string list \<Rightarrow> ('w, string list) state" where
  "bdevNames c ns [] bdevParts = ret bdevParts"
| "bdevNames c ns (ra # ras) bdevParts = do {
     g \<leftarrow> r_Get (replicas c) (NN ns (ra_Name ra));
     case g of
       Inl _ \<Rightarrow> bdevNames c ns ras bdevParts
     | Inr rep \<Rightarrow> bdevNames c ns ras (bdevParts @ [rst_BdevName (Status rep)])
   }"

definition finishRunning :: "'w env \<Rightarrow> string \<Rightarrow> Engine \<Rightarrow> ('w, ctrl_Result \<times> error option) state" where
  "finishRunning c currentHash engine = do {
     now \<leftarrow> clock_Now c;
     let engine = started now currentHash engine;
     bdevParts \<leftarrow> bdevNames c (obj_Namespace engine) (es_Replicas (Spec engine)) [];
     now1 \<leftarrow> clock_Now c;
     now2 \<leftarrow> clock_Now c;
     s \<leftarrow> r_StatusUpdate (engines c) (configured now1 now2 bdevParts engine);
     ret (noRequeue, err_of s)
   }"

definition configure ::
  "'w env \<Rightarrow> (string \<Rightarrow> string) \<Rightarrow> string \<Rightarrow> Engine \<Rightarrow> ('w, ctrl_Result \<times> error option) state" where
  "configure c digest podIP engine = do {
     let currentHash = replicasHash digest (es_Replicas (Spec engine));
     if est_LastReplicasHash (Status engine) \<noteq> [] \<and> est_LastReplicasHash (Status engine) \<noteq> currentHash
     then do {
       e \<leftarrow> triggerReconfigure c podIP (es_Replicas (Spec engine));
       case e of
         Some _ \<Rightarrow> do {
           now \<leftarrow> clock_Now c;
           s \<leftarrow> r_StatusUpdate (engines c) (reconfiguring now engine);
           ret (requeueIn (5 * Second), err_of s)
         }
       | None \<Rightarrow> finishRunning c currentHash engine
     }
     else finishRunning c currentHash engine
   }"

definition podLost :: "Engine \<Rightarrow> Engine" where
  "podLost engine = upd_status (\<lambda>st. st\<lparr>est_PodRef := None, est_Phase := []\<rparr>) engine"

definition superviseEngine ::
  "'w env \<Rightarrow> 'w status_client option \<Rightarrow> (string \<Rightarrow> string) \<Rightarrow> Engine \<Rightarrow> ('w, ctrl_Result \<times> error option) state" where
  "superviseEngine c sc digest engine = do {
     info \<leftarrow> getEnginePodInfo c engine;
     case info of (podIP, podExists, podReady) \<Rightarrow>
       if \<not> podExists
       then do {
         s \<leftarrow> r_StatusUpdate (engines c) (podLost engine);
         ret (noRequeue, err_of s)
       }
       else if \<not> podReady then ret (requeueIn (2 * Second), None)
       else if podIP = [] then ret (requeueIn (1 * Second), None)
       else do {
         st \<leftarrow> statusClientOf c sc podIP;
         case st of
           Inl _ \<Rightarrow> ret (requeueIn (2 * Second), None)
         | Inr status \<Rightarrow>
             if validateEngineSidecarStatus status \<noteq> None then ret (requeueIn (2 * Second), None)
             else configure c digest podIP (withEndpoint status engine)
       }
   }"

definition EngineReconciler_Reconcile ::
  "'w env \<Rightarrow> 'w status_client option \<Rightarrow> string \<Rightarrow> Images \<Rightarrow> (string \<Rightarrow> string) \<Rightarrow> NamespacedName
   \<Rightarrow> ('w, ctrl_Result \<times> error option) state" where
  "EngineReconciler_Reconcile c sc nqnEnv images digest req = do {
     g \<leftarrow> r_Get (engines c) req;
     case g of
       Inl err \<Rightarrow> if IsNotFound err then ret (noRequeue, None) else ret (noRequeue, Some err)
     | Inr engine \<Rightarrow> do {
         rs \<leftarrow> replicaStatus c engine;
         case rs of
           (_, Some err, _) \<Rightarrow> ret (noRequeue, Some err)
         | (ready, None, engine) \<Rightarrow>
             if est_PodRef (Status engine) = None
             then (if \<not> ready then ret (requeueIn (2 * Second), None) else startPod c nqnEnv images engine)
             else if \<not> ready then ret (requeueIn (2 * Second), None)
             else superviseEngine c sc digest engine
       }
   }"

section \<open>Events\<close>

record Event =
  ev_Reason :: string
  ev_Kind :: string
  ev_Name :: string
  ev_Namespace :: string

definition mapEventToEngine :: "Event \<Rightarrow> NamespacedName list" where
  "mapEventToEngine event =
     (if ev_Reason event \<noteq> ''Scheduled'' \<or> ev_Kind event \<noteq> ''Pod'' then []
      else let podName = ev_Name event in
        if \<not> HasSuffix podName ''-pod'' then []
        else let parts = Split podName ''-replica-'' in
          if length parts < 2 then []
          else [NN (ev_Namespace event) (EngineName (parts ! 0))])"

section \<open>What the attachments mirror\<close>

text \<open>
  An attachment \<open>ra'\<close> that mirrors its replica: the replica runs, the attachment knows whether
  it is local, and for a remote one, whose pod exists, it has the NQN and the endpoint the
  replica reports. It differs from the old attachment \<open>ra\<close> in nothing else.
\<close>

definition mirrored :: "cluster \<Rightarrow> Engine \<Rightarrow> ReplicaAttachment \<Rightarrow> ReplicaAttachment \<Rightarrow> bool" where
  "mirrored cl engine ra ra' \<longleftrightarrow>
     (\<exists>rep. cl_replicas cl (NN (obj_Namespace engine) (ra_Name ra)) = Some rep
        \<and> rst_Phase (Status rep) = ReplicaPhaseRunning
        \<and> (if rs_NodeID (Spec rep) = es_NodeID (Spec engine) then ra' = ra\<lparr>ra_IsLocal := True\<rparr>
           else rst_NQN (Status rep) \<noteq> []
             \<and> cl_pods cl (NN (obj_Namespace engine) (ra_Name ra @ ''-pod'')) \<noteq> None
             \<and> (\<exists>host port. SplitEndpoint (rst_Endpoint (Status rep)) = Inr (host, port)
                  \<and> ra' = set_remote (rst_NQN (Status rep)) host port (ra\<lparr>ra_IsLocal := False\<rparr>))))"

lemma mirrored_name: "mirrored cl engine ra ra' \<Longrightarrow> ra_Name ra' = ra_Name ra \<and> ra_NodeID ra' = ra_NodeID ra"
  by (auto simp: mirrored_def set_remote_def split: if_splits)

lemma attachment_local_eq: "ra_IsLocal ra = b \<Longrightarrow> ra\<lparr>ra_IsLocal := b\<rparr> = (ra :: ReplicaAttachment)"
  by (cases ra) simp

lemma set_remote_eq:
  "ra_NQN ra = n \<Longrightarrow> ra_Address ra = h \<Longrightarrow> ra_Port ra = p \<Longrightarrow> set_remote n h p ra = ra"
  by (cases ra) (simp add: set_remote_def)

context kube_client
begin

lemma wp_getReplicaPod:
  assumes "key_of rep = NN ns name"
    and "\<And>p w'. view w' = view w \<Longrightarrow> (p \<noteq> None \<Longrightarrow> cl_pods (view w) (NN ns (name @ ''-pod'')) \<noteq> None) \<Longrightarrow> Q p w'"
  shows "wp (getReplicaPod c rep) Q w"
proof -
  have nm: "obj_Namespace rep = ns" "obj_Name rep = name" using assms(1) by (simp_all add: key_of_def)
  show ?thesis
    unfolding getReplicaPod_def wp_bind
  proof (rule pod.wp_List, goal_cases)
    case (1 e w')
    then show ?case by (auto intro: assms(2))
  next
    case (2 items w')
    have "cl_pods (view w) (NN ns (name @ ''-pod'')) \<noteq> None"
      if "find (\<lambda>p. obj_Name p = name @ ''-pod'') items = Some p" for p
      using find_SomeD [OF that] 2(3) by (auto simp: nm matches_def key_of_def)
    with 2 show ?case by (auto simp: nm intro!: assms(2))
  qed
qed

lemma wp_replicaStatus_loop:
  "wp (replicaStatus_loop c engine ys ras ok ch)
     (\<lambda>r w'. view w' = view w \<and>
        (\<forall>ras' ok' ch'. r = Inr (ras', ok', ch') \<longrightarrow>
           (\<exists>new. ras' = ys @ new \<and> (ok' \<longrightarrow> ok \<and> list_all2 (mirrored (view w) engine) ras new)
              \<and> (\<not> ch' \<longrightarrow> \<not> ch \<and> new = ras)))) w"
proof (induction ras arbitrary: ys ok ch w)
  case Nil
  then show ?case by simp
next
  case (Cons ra ras)
  let ?ns = "obj_Namespace engine"
  define Post where "Post = (\<lambda>(r :: (error option \<times> ReplicaAttachment list) + (ReplicaAttachment list \<times> bool \<times> bool)) w'.
      view w' = view w \<and> (\<forall>ras' ok' ch'. r = Inr (ras', ok', ch') \<longrightarrow>
           (\<exists>new. ras' = ys @ new \<and> (ok' \<longrightarrow> ok \<and> list_all2 (mirrored (view w) engine) (ra # ras) new)
              \<and> (\<not> ch' \<longrightarrow> \<not> ch \<and> new = ra # ras))))"
  have stop: "Post (Inl x) w1" if "view w1 = view w" for x w1 using that by (simp add: Post_def)
  have go: "wp (replicaStatus_loop c engine (ys @ [ra']) ras ok1 ch1) Post w1"
    if "view w1 = view w" "ok1 \<Longrightarrow> ok \<and> mirrored (view w) engine ra ra'" "\<not> ch1 \<Longrightarrow> \<not> ch \<and> ra' = ra"
    for ra' ok1 ch1 w1
    unfolding Post_def by (rule wp_mono [OF Cons.IH]) (use that in fastforce)
  show ?case
    unfolding Post_def [symmetric] replicaStatus_loop.simps wp_bind
  proof (rule rep.wp_Get, goal_cases)
    case (1 e w1)
    then show ?case by (simp add: stop)
  next
    case (2 rep w1)
    have remote: "wp (case SplitEndpoint (rst_Endpoint (Status rep)) of
          Inl err \<Rightarrow> ret (Inl (Some err, ys @ x # ras))
        | Inr (host, port) \<Rightarrow>
            replicaStatus_loop c engine
              (ys @ [set_remote (rst_NQN (Status rep)) host port (ra\<lparr>ra_IsLocal := False\<rparr>)]) ras ok
              ((ch \<or> ra_IsLocal ra \<noteq> False) \<or> ra_NQN (ra\<lparr>ra_IsLocal := False\<rparr>) \<noteq> rst_NQN (Status rep)
                \<or> ra_Address (ra\<lparr>ra_IsLocal := False\<rparr>) \<noteq> host \<or> ra_Port (ra\<lparr>ra_IsLocal := False\<rparr>) \<noteq> port)) Post w2"
      if "view w2 = view w" "rst_Phase (Status rep) = ReplicaPhaseRunning" "rst_NQN (Status rep) \<noteq> []"
        "cl_pods (view w) (NN ?ns (ra_Name ra @ ''-pod'')) \<noteq> None" "rs_NodeID (Spec rep) \<noteq> es_NodeID (Spec engine)"
      for x w2
      using that 2
      by (auto simp: mirrored_def attachment_local_eq set_remote_eq split: sum.split intro!: stop go)
    show ?case
    proof (cases "rs_NodeID (Spec rep) = es_NodeID (Spec engine)")
      case True
      with 2 show ?thesis by (auto simp: Let_def mirrored_def attachment_local_eq intro!: go)
    next
      case False
      then have eq: "(rs_NodeID (Spec rep) = es_NodeID (Spec engine)) = False" by simp
      show ?thesis
        unfolding Let_def sum.case eq if_False wp_bind
        by (rule wp_getReplicaPod [OF 2(3)])
          (use 2 False in \<open>auto simp: attachment_local_eq intro!: go intro: remote\<close>)
    qed
  qed
qed

end

section \<open>The phase of the engine\<close>

definition engine_phase_in :: "NamespacedName \<Rightarrow> EnginePhase set \<Rightarrow> cluster \<Rightarrow> bool" where
  "engine_phase_in k S cl \<longleftrightarrow> (\<forall>e. cl_engines cl k = Some e \<longrightarrow> est_Phase (Status e) \<in> S)"

lemma engine_phase_in_status:
  "engine_phase_in k S cl \<Longrightarrow> est_Phase st \<in> S \<Longrightarrow>
   engine_phase_in k S (cl_engines_update (\<lambda>m. m(j \<mapsto> old\<lparr>Status := st\<rparr>)) cl)"
  by (simp add: engine_phase_in_def)

lemma engine_phase_in_pods [simp]: "engine_phase_in k S (cl_pods_update f cl) = engine_phase_in k S cl"
  by (simp add: engine_phase_in_def)

text \<open>What holds of an engine \<open>e'\<close> that has just become running, \<open>e\<close> being the engine before.\<close>

definition engine_started :: "(string \<Rightarrow> string) \<Rightarrow> cluster \<Rightarrow> Engine \<Rightarrow> Engine \<Rightarrow> bool" where
  "engine_started digest cl e e' \<longleftrightarrow>
     list_all2 (mirrored cl e) (es_Replicas (Spec e)) (es_Replicas (Spec e'))
     \<and> good_endpoint (est_Endpoint (Status e')) \<and> est_SubsystemNQN (Status e') \<noteq> []
     \<and> est_LastReplicasHash (Status e') = replicasHash digest (es_Replicas (Spec e'))
     \<and> (\<exists>pr pod. est_PodRef (Status e) = Some pr \<and> cl_pods cl (NN (pr_Namespace pr) (pr_Name pr)) = Some pod
          \<and> podReadiness pod)"

lemma key_of_upd_status [simp]: "key_of (upd_status f o') = key_of o'"
  by (simp add: upd_status_def key_of_def)

lemma upd_status_sel [simp]:
  "Spec (upd_status f o') = Spec o'" "Status (upd_status f o') = f (Status o')" "Meta (upd_status f o') = Meta o'"
  by (simp_all add: upd_status_def)

definition engine_post ::
  "(string \<Rightarrow> string) \<Rightarrow> cluster \<Rightarrow> Engine \<Rightarrow> NamespacedName \<Rightarrow> cluster \<Rightarrow> bool" where
  "engine_post digest cl e k cl' \<longleftrightarrow>
     engine_phase_in k (- {EnginePhaseRunning}) cl'
     \<or> (\<exists>e'. cl_engines cl' k = Some e' \<and> engine_started digest cl e e')"

context kube_client
begin

lemma wp_bdevNames:
  assumes "\<And>xs w'. view w' = view w \<Longrightarrow> Q xs w'"
  shows "wp (bdevNames c ns ras acc) Q w"
proof -
  have "wp (bdevNames c ns ras acc) (\<lambda>_ w'. view w' = view w) w"
  proof (induction ras arbitrary: acc w)
    case (Cons ra ras)
    have "wp (bdevNames c ns ras acc') (\<lambda>_ w'. view w' = view w) w1" if "view w1 = view w" for acc' w1
      using Cons.IH [of acc' w1] that by simp
    then show ?case by (auto intro!: rep.wp_Get)
  qed simp
  then show ?thesis by (rule wp_mono) (rule assms)
qed

lemma wp_getEnginePodInfo:
  assumes "\<And>ip e r w'. view w' = view w \<Longrightarrow>
      (r \<Longrightarrow> \<exists>pr pod. est_PodRef (Status engine) = Some pr
          \<and> cl_pods (view w) (NN (pr_Namespace pr) (pr_Name pr)) = Some pod \<and> podReadiness pod) \<Longrightarrow> Q (ip, e, r) w'"
  shows "wp (getEnginePodInfo c engine) Q w"
  using assms by (auto simp: getEnginePodInfo_def split: option.split intro!: pod.wp_Get)

lemma wp_finishRunning:
  assumes start: "engine_phase_in k (- {EnginePhaseRunning}) (view w)"
    and k: "key_of e1 = k"
    and stored: "\<And>x. cl_engines (view w) k = Some x \<Longrightarrow> Spec x = Spec e1"
    and h: "h = replicasHash digest (es_Replicas (Spec e1))"
    and ok: "list_all2 (mirrored cl e) (es_Replicas (Spec e)) (es_Replicas (Spec e1))"
      "good_endpoint (est_Endpoint (Status e1))" "est_SubsystemNQN (Status e1) \<noteq> []"
      "\<exists>pr pod. est_PodRef (Status e) = Some pr \<and> cl_pods cl (NN (pr_Namespace pr) (pr_Name pr)) = Some pod
          \<and> podReadiness pod"
  shows "wp (finishRunning c h e1) (\<lambda>_ w'. engine_post digest cl e k (view w')) w"
  unfolding finishRunning_def wp_bind Let_def
proof (intro wp_Now wp_bdevNames eng.wp_StatusUpdate, goal_cases)
  case (1 t w1 ps w2 t1 w3 t2 w4 err w5)
  then show ?case using start by (simp add: engine_post_def)
next
  case (2 t w1 ps w2 t1 w3 t2 w4 old w5)
  have "Spec old = Spec e1" using 2 stored k by (auto simp: configured_def started_def)
  with 2 ok show ?case
    by (auto simp: engine_post_def engine_started_def configured_def started_def k h)
qed

lemma wp_triggerReconfigure:
  assumes "\<And>x w'. view w' = view w \<Longrightarrow> Q x w'"
  shows "wp (triggerReconfigure c ip ras) Q w"
  using assms by (auto simp: triggerReconfigure_def intro!: wp_Do split: sum.split)

lemma wp_configure:
  assumes start: "engine_phase_in k (- {EnginePhaseRunning}) (view w)"
    and k: "key_of e1 = k"
    and stored: "\<And>x. cl_engines (view w) k = Some x \<Longrightarrow> Spec x = Spec e1"
    and ok: "list_all2 (mirrored cl e) (es_Replicas (Spec e)) (es_Replicas (Spec e1))"
      "good_endpoint (est_Endpoint (Status e1))" "est_SubsystemNQN (Status e1) \<noteq> []"
      "\<exists>pr pod. est_PodRef (Status e) = Some pr \<and> cl_pods cl (NN (pr_Namespace pr) (pr_Name pr)) = Some pod
          \<and> podReadiness pod"
  shows "wp (configure c digest ip e1) (\<lambda>_ w'. engine_post digest cl e k (view w')) w"
proof -
  have run: "wp (finishRunning c (replicasHash digest (es_Replicas (Spec e1))) e1)
      (\<lambda>_ w'. engine_post digest cl e k (view w')) w1" if "view w1 = view w" for w1
    by (rule wp_finishRunning [OF _ k _ refl ok]) (use that start stored in auto)
  have degraded: "engine_post digest cl e k (view w1)" if "view w1 = view w" for w1
    using start that by (simp add: engine_post_def)
  have degrade: "wp (r_StatusUpdate (engines c) (reconfiguring t e1)) (\<lambda>_ w'. engine_post digest cl e k (view w')) w1"
    if "view w1 = view w" for w1 t
  proof (rule eng.wp_StatusUpdate, goal_cases)
    case (1 err w2)
    then show ?case using degraded that by simp
  next
    case (2 old w2)
    then show ?case using start that by (simp add: engine_post_def reconfiguring_def engine_phase_in_status)
  qed
  show ?thesis
    unfolding configure_def Let_def
    by (auto intro!: wp_triggerReconfigure wp_Now degrade run split: option.split)
qed

lemma wp_superviseEngine:
  assumes sc: "status_frame view sc"
    and start: "engine_phase_in k (- {EnginePhaseRunning}) (view w)"
    and k: "key_of e1 = k"
    and stored: "\<And>x. cl_engines (view w) k = Some x \<Longrightarrow> Spec x = Spec e1"
    and pr: "est_PodRef (Status e1) = est_PodRef (Status e)"
    and pods: "cl_pods (view w) = cl_pods cl"
    and ok: "list_all2 (mirrored cl e) (es_Replicas (Spec e)) (es_Replicas (Spec e1))"
  shows "wp (superviseEngine c sc digest e1) (\<lambda>_ w'. engine_post digest cl e k (view w')) w"
proof -
  have same: "engine_post digest cl e k (view w1)" if "view w1 = view w" for w1
    using start that by (simp add: engine_post_def)
  have lost: "wp (r_StatusUpdate (engines c) (podLost e1)) (\<lambda>_ w'. engine_post digest cl e k (view w')) w1"
    if "view w1 = view w" for w1
  proof (rule eng.wp_StatusUpdate, goal_cases)
    case (1 err w2)
    then show ?case using same that by simp
  next
    case (2 old w2)
    then show ?case using start that by (simp add: engine_post_def podLost_def engine_phase_in_status)
  qed
  have conf: "wp (configure c digest ip (withEndpoint s e1)) (\<lambda>_ w'. engine_post digest cl e k (view w')) w1"
    if "view w1 = view w" "validateEngineSidecarStatus s = None"
      "\<exists>pr pod. est_PodRef (Status e) = Some pr \<and> cl_pods cl (NN (pr_Namespace pr) (pr_Name pr)) = Some pod
          \<and> podReadiness pod" for ip s w1
    using validateEngine_None [OF that(2)] that(1,3) start k stored ok
    by (intro wp_configure) (auto simp: withEndpoint_def)
  show ?thesis
    unfolding superviseEngine_def wp_bind
  proof (rule wp_getEnginePodInfo, goal_cases)
    case (1 ip ex rdy w1)
    then have rdy: "\<exists>pr pod. est_PodRef (Status e) = Some pr
        \<and> cl_pods cl (NN (pr_Namespace pr) (pr_Name pr)) = Some pod \<and> podReadiness pod" if rdy
      using that pr pods by simp
    show ?case
      using 1(1)
      by (auto intro!: wp_statusClientOf [OF sc] same conf rdy lost split: sum.split)
  qed
qed

text \<open>What \<open>replicaStatus\<close> leaves of an engine \<open>e\<close>, as stored and as it hands it on.\<close>

lemma wp_replicaStatus:
  assumes stored: "cl_engines (view w) (key_of e) = Some e"
    and Q: "\<And>ready err e1 w'. (\<exists>m. view w' = cl_engines_update (\<lambda>_. m) (view w)
               \<and> (\<forall>j. j \<noteq> key_of e \<longrightarrow> m j = cl_engines (view w) j)
               \<and> (\<forall>x. m (key_of e) = Some x \<longrightarrow> Status x = Status e \<and> (err = None \<and> ready \<longrightarrow> Spec x = Spec e1))) \<Longrightarrow>
             (err = None \<Longrightarrow> ready \<Longrightarrow> key_of e1 = key_of e \<and> Status e1 = Status e
                \<and> list_all2 (mirrored (view w) e) (es_Replicas (Spec e)) (es_Replicas (Spec e1))) \<Longrightarrow>
             Q (ready, err, e1) w'"
  shows "wp (replicaStatus c e) Q w"
  unfolding replicaStatus_def wp_bind
proof (rule wp_mono [OF wp_replicaStatus_loop], goal_cases)
  case (1 r w1)
  then have w1: "view w1 = view w" by simp
  have same: "\<exists>m. view w2 = cl_engines_update (\<lambda>_. m) (view w)
               \<and> (\<forall>j. j \<noteq> key_of e \<longrightarrow> m j = cl_engines (view w) j)
               \<and> (\<forall>x. m (key_of e) = Some x \<longrightarrow> Status x = Status e \<and> (P \<longrightarrow> Spec x = Spec e1))"
    if "view w2 = view w" "P \<Longrightarrow> Spec e1 = Spec e" for w2 P e1
    using that stored by (intro exI [of _ "cl_engines (view w)"]) auto
  show ?case
  proof (cases r)
    case (Inl x)
    then show ?thesis using w1 same [OF w1, of False] by (cases x) (auto intro!: Q)
  next
    case (Inr x)
    obtain ras ok ch where x: "x = (ras, ok, ch)" by (cases x) auto
    with 1 Inr have l: "ok \<Longrightarrow> list_all2 (mirrored (view w) e) (es_Replicas (Spec e)) ras"
      and u: "\<not> ch \<Longrightarrow> ras = es_Replicas (Spec e)" by auto
    show ?thesis
    proof (cases ch)
      case False
      then have "with_replicas ras e = e" using u by (simp add: with_replicas_def)
      then show ?thesis using False l same [OF w1, of True e] by (auto simp: Inr x u intro!: Q)
    next
      case True
      show ?thesis
        unfolding Inr x sum.case prod.case if_P [OF True] wp_bind
      proof (rule eng.wp_Update, goal_cases)
        case (1 err w2)
        then show ?case using w1 same [of w2 False] by (auto intro!: Q)
      next
        case (2 old w2)
        then have "old = e" using w1 stored by simp
        with 2 w1 l show ?case
          by (auto simp: kept_def with_replicas_def split: if_splits intro!: Q exI [of _ "(cl_engines (view w))
            (key_of e := kept (updated e (with_replicas ras e)))"])
      qed
    qed
  qed
qed

lemma keeps_allowedHosts [keeps_intros]: "keeps view P (allowedHosts c env)"
  unfolding allowedHosts_def by (intro keeps_intros)

lemma wp_startPod_phase:
  assumes "engine_phase_in k (- {EnginePhaseRunning}) (view w)"
  shows "wp (startPod c env images e1) (\<lambda>_ w'. engine_post digest cl e k (view w')) w"
proof -
  have "keeps view (engine_phase_in k (- {EnginePhaseRunning})) (startPod c env images e1)"
    by (auto simp: startPod_def podCreated_def Let_def intro!: keeps_intros engine_phase_in_status)
  from wp_mono [OF keepsD [OF this assms]] show ?thesis by (simp add: engine_post_def)
qed

lemma wp_EngineReconcile_phase:
  assumes sc: "status_frame view sc"
    and e: "cl_engines (view w) req = Some e" "est_Phase (Status e) \<noteq> EnginePhaseRunning"
  shows "wp (EngineReconciler_Reconcile c sc env images digest req)
     (\<lambda>_ w'. engine_post digest (view w) e req (view w')) w"
proof -
  have key: "key_of e = req" using eng.keyed [OF e(1)] .
  have start: "engine_phase_in req (- {EnginePhaseRunning}) (view w)"
    using e by (simp add: engine_phase_in_def)
  have same: "engine_post digest (view w) e req (view w1)" if "engine_phase_in req (- {EnginePhaseRunning}) (view w1)" for w1
    using that by (simp add: engine_post_def)
  show ?thesis
    unfolding EngineReconciler_Reconcile_def wp_bind
  proof (rule eng.wp_Get, goal_cases)
    case (1 err w1)
    then show ?case using start by (simp add: same)
  next
    case (2 e' w1)
    then have e': "e' = e" using e by simp
    have st: "cl_engines (view w1) (key_of e) = Some e" using 2(1) e key by simp
    show ?case
      unfolding sum.case e' wp_bind
    proof (rule wp_replicaStatus [OF st], goal_cases)
      case (1 ready err e1 w2)
      then have ph: "engine_phase_in req (- {EnginePhaseRunning}) (view w2)"
        using e(2) key by (auto simp: engine_phase_in_def)
      have sup: "wp (superviseEngine c sc digest e1) (\<lambda>_ w'. engine_post digest (view w) e req (view w')) w2"
        if "err = None" "ready"
        by (rule wp_superviseEngine [OF sc ph]) (use 1 2(1) key that in auto)
      show ?case
        using wp_startPod_phase [OF ph] sup same [OF ph]
        by (cases err) auto
    qed
  qed
qed

end

section \<open>Whose objects a reconciliation of an engine changes\<close>

definition engine_confined :: "Engine \<Rightarrow> cluster \<Rightarrow> cluster \<Rightarrow> bool" where
  "engine_confined e cl cl' \<longleftrightarrow>
     (\<forall>k. k \<noteq> key_of e \<longrightarrow> cl_engines cl' k = cl_engines cl k)
     \<and> (\<forall>k. k \<noteq> NN (obj_Namespace e) (obj_Name e @ ''-pod'') \<longrightarrow> cl_pods cl' k = cl_pods cl k)
     \<and> cl_pods cl \<subseteq>\<^sub>m cl_pods cl'
     \<and> cl_volumes cl' = cl_volumes cl \<and> cl_replicas cl' = cl_replicas cl
     \<and> cl_snapshots cl' = cl_snapshots cl \<and> cl_nodes cl' = cl_nodes cl"

lemma engine_confined_updates:
  "engine_confined e a cl \<Longrightarrow> k = key_of e \<Longrightarrow>
     engine_confined e a (cl_engines_update (\<lambda>m. m(k := x)) cl)"
  "engine_confined e a cl \<Longrightarrow> k = NN (obj_Namespace e) (obj_Name e @ ''-pod'') \<Longrightarrow> cl_pods cl k = None \<Longrightarrow>
     engine_confined e a (cl_pods_update (\<lambda>m. m(k := y)) cl)"
  by (auto simp: engine_confined_def map_le_def dom_def)

context kube_client
begin

lemma keeps_bdevNames [keeps_intros]: "keeps view P (bdevNames c ns ras acc)"
  by (rule keepsI, rule wp_bdevNames) simp

lemma keeps_triggerReconfigure [keeps_intros]: "keeps view P (triggerReconfigure c ip ras)"
  by (rule keepsI, rule wp_triggerReconfigure) simp

lemma confined_supervise:
  assumes sc: "status_frame view sc" and k: "key_of e1 = key_of e"
  shows "keeps view (engine_confined e a) (superviseEngine c sc digest e1)"
proof -
  have finish: "keeps view (engine_confined e a) (finishRunning c h x)" if "key_of x = key_of e" for h x
    using that
    by (auto simp: finishRunning_def started_def configured_def Let_def intro!: keeps_intros engine_confined_updates)
  have configure: "keeps view (engine_confined e a) (configure c digest ip x)" if "key_of x = key_of e" for ip x
    using that
    by (auto simp: configure_def reconfiguring_def Let_def intro!: keeps_intros engine_confined_updates finish)
  have info: "keeps view (engine_confined e a) (getEnginePodInfo c x)" for x
    by (rule keepsI, rule wp_getEnginePodInfo) simp
  note status = keeps_statusClientOf [OF sc]
  show ?thesis
    using k
    by (auto simp: superviseEngine_def podLost_def withEndpoint_def
        intro!: keeps_intros engine_confined_updates configure info status)
qed

lemma confined_startPod:
  assumes k: "key_of e1 = key_of e"
  shows "keeps view (engine_confined e a) (startPod c env images e1)"
proof -
  have nm: "obj_Namespace e1 = obj_Namespace e" "obj_Name e1 = obj_Name e" using k by (simp_all add: key_of_def)
  have pk: "key_of (ownedBy owner p) = key_of p" for owner p by (simp add: ownedBy_def key_of_def)
  show ?thesis
    using k
    by (auto simp: startPod_def podCreated_def Let_def pk nm intro!: keeps_intros engine_confined_updates)
qed

lemma wp_EngineReconcile_confined:
  assumes sc: "status_frame view sc" and e: "cl_engines (view w) req = Some e"
  shows "wp (EngineReconciler_Reconcile c sc env images digest req)
     (\<lambda>_ w'. engine_confined e (view w) (view w')) w"
proof -
  have key: "key_of e = req" using eng.keyed [OF e(1)] .
  show ?thesis
    unfolding EngineReconciler_Reconcile_def wp_bind
  proof (rule eng.wp_Get, goal_cases)
    case (1 err w1)
    then show ?case by (simp add: engine_confined_def)
  next
    case (2 e' w1)
    then have e': "e' = e" using e by simp
    have st: "cl_engines (view w1) (key_of e) = Some e" using 2(1) e key by simp
    show ?case
      unfolding sum.case e' wp_bind
    proof (rule wp_replicaStatus [OF st], goal_cases)
      case (1 ready err e1 w2)
      then have here: "engine_confined e (view w) (view w2)" using 2(1) by (auto simp: engine_confined_def)
      have k1: "key_of e1 = key_of e" if "err = None" "ready" using 1(2) that by simp
      show ?case
        using keepsD [OF confined_supervise [OF sc k1] here] keepsD [OF confined_startPod [OF k1] here] here
        by (cases err) auto
    qed
  qed
qed

end

section \<open>Properties\<close>


text \<open>
  A reconciliation of an engine changes no object but the engine and its pod, and the
  pod only by creating it.
\<close>

theorem engine_reconcile_confined:
  assumes client: "kube_client c view" and sc: "status_frame view sc"
    and run: "run_state (EngineReconciler_Reconcile c sc env images digest req) w = (r, w')"
    and e: "cl_engines (view w) req = Some e"
  shows "engine_confined e (view w) (view w')"
  using wp_run [OF kube_client.wp_EngineReconcile_confined [OF client sc e] run] .

definition runningPod :: Pod where
  "runningPod = samplePod ''vol-engine-pod'' ''engine'' ''Running''"

definition waitingEngine :: Engine where
  "waitingEngine = (sampleEngine [attachment ''vol-replica-0'' ''n1'', attachment ''vol-replica-1'' ''n2''] ''Pending'')
     \<lparr>Status := zero_EngineStatus\<lparr>est_Phase := ''Pending'',
        est_PodRef := Some \<lparr>pr_Name = ''vol-engine-pod'', pr_Namespace = ''ns''\<rparr>\<rparr>\<rparr>"

definition engineSample :: mem where
  "engineSample = sampleMem [] [waitingEngine]
     [sampleReplica 0 ''n1'' ''Running'' [],
      (sampleReplica 1 ''n2'' ''Running'' ''nqn1'')\<lparr>Status := zero_ReplicaStatus\<lparr>rst_Phase := ''Running'',
         rst_NQN := ''nqn1'', rst_Endpoint := ''10.0.0.8:4420''\<rparr>\<rparr>]
     [runningPod, samplePod ''vol-replica-1-pod'' ''replica'' ''Running'']"

definition engineHttp :: "http_request \<Rightarrow> error + http_response" where
  "engineHttp q = Inr \<lparr>hr_StatusCode = 200, hr_Body = Some (encodeStatus \<lparr>sc_Role = ''engine'',
     sc_Endpoint = ''10.0.0.7:4420'', sc_SubsystemNQN = ''nqn:vol'', sc_ReplicaNQN = []\<rparr>)\<rparr>"

definition engReq :: NamespacedName where
  "engReq = NN ''ns'' ''vol-engine''"

lemma engineSample_engine: "cl_engines (mem_view engineSample) engReq = Some waitingEngine"
  by (simp add: mem_view_def engineSample_def sampleMem_def waitingEngine_def sampleEngine_def key_of_def
      meta_for_def engReq_def)


theorem engine_reconcile_confined_witness:
  "engine_confined waitingEngine (mem_view engineSample)
     (mem_view (snd (run_state (EngineReconciler_Reconcile (mem_env engineHttp) None [] PodImages (\<lambda>s. s) engReq)
        engineSample)))"
  by (rule engine_reconcile_confined [OF kube_client_mem status_frame_None prod.collapse [symmetric] engineSample_engine])

context kube_client
begin

lemma wp_configure_retry:
  assumes refused: "\<And>q w x w' resp. run_state (http_Do c q) w = (x, w') \<Longrightarrow> x = Inr resp \<Longrightarrow> hr_StatusCode resp \<noteq> 200"
    and hash: "est_LastReplicasHash (Status e) \<noteq> []"
      "est_LastReplicasHash (Status e) \<noteq> replicasHash digest (es_Replicas (Spec e))"
  shows "wp (configure c digest ip e) (\<lambda>(res, err) w'. RequeueAfter res = 5 * Second \<and>
     (err = None \<longrightarrow> (\<exists>e'. cl_engines (view w') (key_of e) = Some e' \<and> est_Phase (Status e') = EnginePhaseDegraded
        \<and> est_LastReplicasHash (Status e') = est_LastReplicasHash (Status e)))) w"
proof -
  have fails: "wp (triggerReconfigure c ip ras) (\<lambda>x w'. x \<noteq> None) w1" for ras w1
    unfolding triggerReconfigure_def wp_bind
    by (rule wp_of_run) (auto split: sum.split dest: refused)
  show ?thesis
    using hash
    by (auto simp: configure_def Let_def reconfiguring_def intro!: wp_mono [OF fails] wp_Now eng.wp_StatusUpdate)
qed

end

text \<open>
  A refused reconfiguration is tried again. When the attachments have changed since the
  last configuration and the sidecar does not accept the change, the engine is recorded as
  degraded, the digest of the last accepted attachments stays, so the next call tries again,
  and that call comes after five seconds.
\<close>

theorem configure_retries:
  assumes client: "kube_client c view"
    and refused: "\<And>q w x w' resp. run_state (http_Do c q) w = (x, w') \<Longrightarrow> x = Inr resp \<Longrightarrow> hr_StatusCode resp \<noteq> 200"
    and hash: "est_LastReplicasHash (Status e) \<noteq> []"
      "est_LastReplicasHash (Status e) \<noteq> replicasHash digest (es_Replicas (Spec e))"
    and run: "run_state (configure c digest ip e) w = ((res, None), w')"
  shows "RequeueAfter res = 5 * Second \<and>
     (\<exists>e'. cl_engines (view w') (key_of e) = Some e' \<and> est_Phase (Status e') = EnginePhaseDegraded
        \<and> est_LastReplicasHash (Status e') = est_LastReplicasHash (Status e))"
  using wp_run [OF kube_client.wp_configure_retry [OF client refused hash] run] by simp

theorem configure_retries_witness:
  "let e = waitingEngine\<lparr>Status := zero_EngineStatus\<lparr>est_LastReplicasHash := ''old''\<rparr>\<rparr>;
       w' = snd (run_state (configure (mem_env noHttp) (\<lambda>s. s) ''10.0.0.7'' e) engineSample)
   in \<exists>e'. cl_engines (mem_view w') (key_of e) = Some e' \<and> est_Phase (Status e') = EnginePhaseDegraded
        \<and> est_LastReplicasHash (Status e') = ''old''"
proof -
  let ?e = "waitingEngine\<lparr>Status := zero_EngineStatus\<lparr>est_LastReplicasHash := ''old''\<rparr>\<rparr>"
  let ?r = "run_state (configure (mem_env noHttp) (\<lambda>s. s) ''10.0.0.7'' ?e) engineSample"
  have "replicasHash (\<lambda>s. s) (es_Replicas (Spec ?e)) \<noteq> ''old''" by code_simp
  moreover have "snd (fst ?r) = None" by code_simp
  moreover have "\<And>q w x w' resp. run_state (http_Do (mem_env noHttp) q) w = (x, w') \<Longrightarrow> x = Inr resp \<Longrightarrow>
      hr_StatusCode resp \<noteq> 200" by (auto simp: mem_env_def noHttp_def)
  ultimately show ?thesis
    unfolding Let_def
    using configure_retries [OF kube_client_mem, of noHttp ?e "\<lambda>s. s" "''10.0.0.7''" engineSample
        "fst (fst ?r)" "snd ?r"] by (auto simp: prod_eq_iff)
qed

lemma Split_first:
  assumes "sep \<noteq> []" and "first_at sep a"
  shows "Split (a @ sep @ b) sep = a # Split b sep"
  using Cut_first_at [OF assms, of b] assms(1) by (subst Split.simps) simp

text \<open>
  The scheduling of a replica's pod wakes the engine of its volume, for every volume whose
  name does not run into the text \<^verbatim>\<open>-replica-\<close> itself.
\<close>

theorem mapEventToEngine_replica_pod:
  assumes "first_at ''-replica-'' volumeName"
  shows "mapEventToEngine \<lparr>ev_Reason = ''Scheduled'', ev_Kind = ''Pod'',
           ev_Name = ReplicaName volumeName i @ ''-pod'', ev_Namespace = ns\<rparr>
         = [NN ns (EngineName volumeName)]"
proof -
  have "Split (ReplicaName volumeName i @ ''-pod'') ''-replica-''
      = volumeName # Split (show_nat i @ ''-pod'') ''-replica-''"
    using Split_first [OF _ assms, of "show_nat i @ ''-pod''"] by (simp add: ReplicaName_def)
  moreover have "Split (show_nat i @ ''-pod'') ''-replica-'' \<noteq> []" by (rule Split_nonempty) simp
  ultimately show ?thesis
    by (cases "Split (show_nat i @ ''-pod'') ''-replica-''")
      (simp_all add: mapEventToEngine_def Let_def HasSuffix_def suffix_def)
qed

theorem mapEventToEngine_replica_pod_witness:
  "mapEventToEngine \<lparr>ev_Reason = ''Scheduled'', ev_Kind = ''Pod'',
     ev_Name = ReplicaName ''pvc-1'' 2 @ ''-pod'', ev_Namespace = ''ns''\<rparr> = [NN ''ns'' (EngineName ''pvc-1'')]"
proof -
  have "first_at ''-replica-'' ''pvc-1''"
    by (simp add: first_at_Cons) (simp add: first_at_def)
  then show ?thesis by (rule mapEventToEngine_replica_pod)
qed

text \<open>
  A volume whose own name contains the text \<^verbatim>\<open>-replica-\<close> is taken for another: the event of
  its replica's pod wakes the engine of the volume named by the part before.
\<close>

theorem mapEventToEngine_misroutes:
  "mapEventToEngine \<lparr>ev_Reason = ''Scheduled'', ev_Kind = ''Pod'',
     ev_Name = ReplicaName ''db-replica-a'' 0 @ ''-pod'', ev_Namespace = ''ns''\<rparr> = [NN ''ns'' (EngineName ''db'')]"
  by code_simp

end

