(* ===== verification/Agent_Client.thy ===== *)
theory Agent_Client
  imports Kube_Client
begin

text \<open>
  The interface of the controllers to the node agents, \<^verbatim>\<open>src/internal/agent/types.go\<close>: the
  requests, the answers and the client, a record of its calls. An agent works on the disks of
  its node; the locale \<open>agent_frame\<close> states the one thing the controllers' properties need
  of it, that it changes no object of the API server.
\<close>

type_synonym ReplicaState = string

definition ReplicaStateMissing :: ReplicaState where [simp]: "ReplicaStateMissing = ''Missing''"
definition ReplicaStateReady :: ReplicaState where [simp]: "ReplicaStateReady = ''Ready''"

record CreateReplicaRequest =
  crq_Path :: string
  crq_Size :: string
  crq_SnapshotSource :: string

record CreateReplicaResponse =
  crs_DevicePath :: string
  crs_State :: ReplicaState

record GetReplicaResponse =
  grs_State :: ReplicaState
  grs_Size :: string

datatype DeleteReplicaRequest = DeleteReplicaRequest (drq_Path: string)
datatype GetReplicaRequest = GetReplicaRequest (grq_Path: string)
datatype DeleteSnapshotRequest = DeleteSnapshotRequest (dsq_Path: string)

record 'w agent_client =
  ac_CreateReplica :: "CreateReplicaRequest \<Rightarrow> ('w, error + CreateReplicaResponse) state"
  ac_DeleteReplica :: "DeleteReplicaRequest \<Rightarrow> ('w, error option) state"
  ac_GetReplica :: "GetReplicaRequest \<Rightarrow> ('w, error + GetReplicaResponse) state"
  ac_DeleteSnapshot :: "DeleteSnapshotRequest \<Rightarrow> ('w, error option) state"

type_synonym 'w agent_factory = "string \<Rightarrow> ('w, error + 'w agent_client) state"

locale agent_frame =
  fixes a :: "'w agent_client"
    and view :: "'w \<Rightarrow> cluster"
  assumes create_frame: "run_state (ac_CreateReplica a q) w = (x, w') \<Longrightarrow> view w' = view w"
    and delete_snapshot_frame: "run_state (ac_DeleteSnapshot a s) w = (y, w') \<Longrightarrow> view w' = view w"
begin

lemma wp_CreateReplica:
  assumes "\<And>x w'. view w' = view w \<Longrightarrow> Q x w'"
  shows "wp (ac_CreateReplica a q) Q w"
  using assms create_frame by (auto intro!: wp_of_run)

lemma wp_DeleteSnapshot:
  assumes "\<And>x w'. view w' = view w \<Longrightarrow> Q x w'"
  shows "wp (ac_DeleteSnapshot a q) Q w"
  using assms delete_snapshot_frame by (auto intro!: wp_of_run)

lemma keeps_CreateReplica [keeps_intros]: "keeps view P (ac_CreateReplica a q)"
  by (rule keepsI, rule wp_CreateReplica) simp

lemma keeps_DeleteSnapshot [keeps_intros]: "keeps view P (ac_DeleteSnapshot a q)"
  by (rule keepsI, rule wp_DeleteSnapshot) simp

end

text \<open>A factory that looks an agent up without changing an object, and gives well-behaved agents.\<close>

definition factory_frame :: "('w \<Rightarrow> cluster) \<Rightarrow> 'w agent_factory \<Rightarrow> bool" where
  "factory_frame view f \<longleftrightarrow>
     (\<forall>n w x w'. run_state (f n) w = (x, w') \<longrightarrow> view w' = view w \<and> (\<forall>a. x = Inr a \<longrightarrow> agent_frame a view))"

lemma wp_factory:
  assumes "factory_frame view f"
    and "\<And>e w'. view w' = view w \<Longrightarrow> Q (Inl e) w'"
    and "\<And>a w'. view w' = view w \<Longrightarrow> agent_frame a view \<Longrightarrow> Q (Inr a) w'"
  shows "wp (f n) Q w"
proof (rule wp_of_run)
  fix x w' assume "run_state (f n) w = (x, w')"
  with assms(1) have "view w' = view w \<and> (\<forall>a. x = Inr a \<longrightarrow> agent_frame a view)"
    by (auto simp: factory_frame_def)
  with assms(2,3) show "Q x w'" by (cases x) auto
qed

section \<open>An agent that always answers\<close>

definition readyAgent :: "mem agent_client" where
  "readyAgent =
     \<lparr>ac_CreateReplica = (\<lambda>q. ret (Inr \<lparr>crs_DevicePath = ''/dev/loop0'', crs_State = ReplicaStateReady\<rparr>)),
      ac_DeleteReplica = (\<lambda>q. ret None),
      ac_GetReplica = (\<lambda>q. ret (Inr \<lparr>grs_State = ReplicaStateReady, grs_Size = []\<rparr>)),
      ac_DeleteSnapshot = (\<lambda>q. ret None)\<rparr>"

interpretation ready_agent: agent_frame readyAgent mem_view
  by unfold_locales (simp_all add: readyAgent_def State_Monad.return_def)

lemma factory_frame_ready: "factory_frame mem_view (\<lambda>n. ret (Inr readyAgent))"
  by (simp add: factory_frame_def State_Monad.return_def ready_agent.agent_frame_axioms)

end
