(* ===== verification/Replica_Reconcile.thy ===== *)
theory Replica_Reconcile
  imports Engine_Reconcile Agent_Client
begin

text \<open>
  The reconciler of replicas, \<^verbatim>\<open>src/internal/controller/replica_controller.go\<close>, with the helper
  \<open>replicaPod\<close> of \<^verbatim>\<open>nodes.go\<close>. The agent of the replica's node provides the backing file; a
  remote replica then gets a pod that exports it, and is running once the pod's sidecar
  reports a valid endpoint; a local replica is served by its engine and has no pod. The
  reconciler's fields are arguments: a fixed agent client or a factory of them, and the status
  client, \<open>None\<close> for a nil field.
\<close>

section \<open>The operations\<close>

definition replicaPod :: "'w env \<Rightarrow> Replica \<Rightarrow> ('w, error + Pod option) state" where
  "replicaPod c replica = do {
     g \<leftarrow> r_Get (pods c) (NN (obj_Namespace replica) (obj_Name replica @ ''-pod''));
     case g of
       Inl err \<Rightarrow> if IsNotFound err then ret (Inr None) else ret (Inl err)
     | Inr pod \<Rightarrow> ret (Inr (Some pod))
   }"

definition replicaOwner :: "Replica \<Rightarrow> OwnerReference" where
  "replicaOwner replica =
     \<lparr>or_APIVersion = GroupVersion, or_Kind = ''Replica'', or_Name = obj_Name replica, or_UID = obj_UID replica,
      or_Controller = None, or_BlockOwnerDeletion = None\<rparr>"

definition replicaPodOwned :: "Images \<Rightarrow> Replica \<Rightarrow> Pod" where
  "replicaPodOwned images replica =
     (let pod = ReplicaPodFor images replica in pod\<lparr>Meta := (Meta pod)\<lparr>om_OwnerReferences := [replicaOwner replica]\<rparr>\<rparr>)"

definition exported :: "int \<Rightarrow> SidecarStatus \<Rightarrow> Replica \<Rightarrow> Replica" where
  "exported now status replica = replica\<lparr>Status := (Status replica)\<lparr>
     rst_NQN := sc_ReplicaNQN status,
     rst_Endpoint := sc_Endpoint status,
     rst_Conditions := SetTrue now (rst_Conditions (Status replica)) ReplicaConditionNVMFExported
                         ''Exported'' ''remote replica is exported over NVMe-oF''\<rparr>\<rparr>"

definition unexported :: "Replica \<Rightarrow> Replica" where
  "unexported replica = replica\<lparr>Status := (Status replica)\<lparr>rst_NQN := [], rst_Endpoint := []\<rparr>\<rparr>"

definition replicaUp :: "int \<Rightarrow> int \<Rightarrow> Replica \<Rightarrow> Replica" where
  "replicaUp now now' replica = replica\<lparr>Status := (Status replica)\<lparr>
     rst_Phase := ReplicaPhaseRunning,
     rst_BdevName := ''aio0'',
     rst_Conditions :=
       SetTrue now'
         (SetTrue now (rst_Conditions (Status replica)) ReplicaConditionFilesystemCreated
            ''Created'' ''replica backing file was created'')
         ReplicaConditionBdevAttached ''Attached'' ''replica backing bdev is attached''\<rparr>\<rparr>"

definition finishReplica :: "'w env \<Rightarrow> Replica \<Rightarrow> ('w, ctrl_Result \<times> error option) state" where
  "finishReplica c replica = do {
     now \<leftarrow> clock_Now c;
     now' \<leftarrow> clock_Now c;
     s \<leftarrow> r_StatusUpdate (replicas c) (replicaUp now now' replica);
     ret (noRequeue, err_of s)
   }"

definition serveRemote ::
  "'w env \<Rightarrow> 'w status_client option \<Rightarrow> Images \<Rightarrow> Replica
   \<Rightarrow> ('w, ctrl_Result \<times> error option) state" where
  "serveRemote c sc images replica = do {
     e \<leftarrow> createIfMissing (pods c) (replicaPodOwned images replica);
     case e of
       Some err \<Rightarrow> ret (noRequeue, Some err)
     | None \<Rightarrow> do {
         p \<leftarrow> replicaPod c replica;
         case p of
           Inl err \<Rightarrow> ret (noRequeue, Some err)
         | Inr None \<Rightarrow> ret (requeueIn (2 * Second), None)
         | Inr (Some pod) \<Rightarrow>
             if pst_PodIP (Status pod) = [] then ret (requeueIn (2 * Second), None)
             else do {
               st \<leftarrow> statusClientOf c sc (pst_PodIP (Status pod));
               case st of
                 Inl _ \<Rightarrow> ret (requeueIn (2 * Second), None)
               | Inr status \<Rightarrow>
                   if validateReplicaSidecarStatus status \<noteq> None then ret (requeueIn (2 * Second), None)
                   else do {
                     now \<leftarrow> clock_Now c;
                     finishReplica c (exported now status replica)
                   }
             }
       }
   }"

definition serveLocal :: "'w env \<Rightarrow> Replica \<Rightarrow> ('w, ctrl_Result \<times> error option) state" where
  "serveLocal c replica = do {
     p \<leftarrow> replicaPod c replica;
     case p of
       Inr (Some pod) \<Rightarrow> do {
         d \<leftarrow> r_Delete (pods c) (key_of pod);
         case d of
           Inl err \<Rightarrow> if \<not> IsNotFound err then ret (noRequeue, Some err) else finishReplica c (unexported replica)
         | Inr _ \<Rightarrow> finishReplica c (unexported replica)
       }
     | _ \<Rightarrow> finishReplica c (unexported replica)
   }"

definition agentFor ::
  "'w agent_client option \<Rightarrow> 'w agent_factory option \<Rightarrow> string \<Rightarrow> ('w, error + 'w agent_client) state" where
  "agentFor agent factory nodeID =
     (case agent of
        Some a \<Rightarrow> ret (Inr a)
      | None \<Rightarrow> (case factory of None \<Rightarrow> ret (Inl AgentNotConfigured) | Some f \<Rightarrow> f nodeID))"

definition snapshotPathFor :: "'w env \<Rightarrow> Replica \<Rightarrow> ('w, string) state" where
  "snapshotPathFor c replica =
     (if rs_SnapshotSource (Spec replica) \<noteq> []
      then do {
        g \<leftarrow> r_Get (snapshots c) (NN (obj_Namespace replica) (rs_SnapshotSource (Spec replica)));
        case g of Inl _ \<Rightarrow> ret [] | Inr snap \<Rightarrow> ret (snst_SnapshotPath (Status snap))
      }
      else ret [])"

definition provision ::
  "'w env \<Rightarrow> 'w agent_client option \<Rightarrow> 'w agent_factory option
   \<Rightarrow> 'w status_client option \<Rightarrow> Images \<Rightarrow> Replica
   \<Rightarrow> ('w, ctrl_Result \<times> error option) state" where
  "provision c agent factory sc images replica = do {
     a \<leftarrow> agentFor agent factory (rs_NodeID (Spec replica));
     case a of
       Inl err \<Rightarrow> ret (noRequeue, Some err)
     | Inr agentClient \<Rightarrow> do {
         snapPath \<leftarrow> snapshotPathFor c replica;
         r \<leftarrow> ac_CreateReplica agentClient
                \<lparr>crq_Path = rs_DataPath (Spec replica), crq_Size = rs_Size (Spec replica),
                 crq_SnapshotSource = snapPath\<rparr>;
         case r of
           Inl err \<Rightarrow> ret (noRequeue, Some err)
         | Inr _ \<Rightarrow>
             if rs_Type (Spec replica) = ReplicaTypeRemote then serveRemote c sc images replica
             else serveLocal c replica
       }
   }"

definition ReplicaReconciler_Reconcile ::
  "'w env \<Rightarrow> 'w agent_client option \<Rightarrow> 'w agent_factory option
   \<Rightarrow> 'w status_client option \<Rightarrow> Images \<Rightarrow> NamespacedName
   \<Rightarrow> ('w, ctrl_Result \<times> error option) state" where
  "ReplicaReconciler_Reconcile c agent factory sc images req = do {
     g \<leftarrow> r_Get (replicas c) req;
     case g of
       Inl err \<Rightarrow> if IsNotFound err then ret (noRequeue, None) else ret (noRequeue, Some err)
     | Inr replica \<Rightarrow>
         if rst_Phase (Status replica) = ReplicaPhaseRunning \<and> rs_Type (Spec replica) = ReplicaTypeRemote
         then do {
           p \<leftarrow> replicaPod c replica;
           case p of
             Inr (Some pod) \<Rightarrow>
               if pst_PodIP (Status pod) \<noteq> [] then ret (noRequeue, None)
               else provision c agent factory sc images replica
           | _ \<Rightarrow> provision c agent factory sc images replica
         }
         else provision c agent factory sc images replica
   }"

definition replicaIndexFromName :: "string \<Rightarrow> int" where
  "replicaIndexFromName name =
     (let parts = Split name ''-'' in
      case find (\<lambda>idx. parts ! idx = ''replica'' \<and> idx + 1 < length parts) [0..<length parts] of
        None \<Rightarrow> 0
      | Some idx \<Rightarrow> (case scan_d (parts ! (idx + 1)) of None \<Rightarrow> 0 | Some i \<Rightarrow> i))"

section \<open>What a reconciliation of a replica does\<close>

text \<open>
  The specification: the reconciliation of the replica \<open>r\<close> touches the replica and its pod
  only, and leaves the replica as it was or records it as \<open>served\<close>: running, with what its
  type requires. A pod that was not there is the one of the template, a pod that is gone was
  the one of a local replica.
\<close>

definition replicaPodKey :: "Replica \<Rightarrow> NamespacedName" where
  "replicaPodKey r = NN (obj_Namespace r) (obj_Name r @ ''-pod'')"

definition served :: "cluster \<Rightarrow> Replica \<Rightarrow> Replica \<Rightarrow> bool" where
  "served cl r r' \<longleftrightarrow>
     Meta r' = Meta r \<and> Spec r' = Spec r
     \<and> rst_Phase (Status r') = ReplicaPhaseRunning \<and> rst_BdevName (Status r') = ''aio0''
     \<and> is_true ReplicaConditionFilesystemCreated (rst_Conditions (Status r'))
     \<and> is_true ReplicaConditionBdevAttached (rst_Conditions (Status r'))
     \<and> (if rs_Type (Spec r) = ReplicaTypeRemote
        then rst_NQN (Status r') \<noteq> [] \<and> good_endpoint (rst_Endpoint (Status r'))
          \<and> is_true ReplicaConditionNVMFExported (rst_Conditions (Status r'))
          \<and> (\<exists>p. cl_pods cl (replicaPodKey r) = Some p \<and> pst_PodIP (Status p) \<noteq> [])
        else rst_NQN (Status r') = [] \<and> rst_Endpoint (Status r') = [])"

definition replica_frame :: "Replica \<Rightarrow> cluster \<Rightarrow> cluster \<Rightarrow> bool" where
  "replica_frame r cl cl' \<longleftrightarrow>
     cl_volumes cl' = cl_volumes cl \<and> cl_engines cl' = cl_engines cl
     \<and> cl_snapshots cl' = cl_snapshots cl \<and> cl_nodes cl' = cl_nodes cl
     \<and> (\<forall>k. k \<noteq> key_of r \<longrightarrow> cl_replicas cl' k = cl_replicas cl k)
     \<and> (\<forall>k. k \<noteq> replicaPodKey r \<longrightarrow> cl_pods cl' k = cl_pods cl k)"

definition pod_step :: "Images \<Rightarrow> Replica \<Rightarrow> Pod option \<Rightarrow> Pod option \<Rightarrow> bool" where
  "pod_step images r p p' \<longleftrightarrow>
     p' = p
     \<or> (rs_Type (Spec r) = ReplicaTypeRemote \<and> p = None \<and> (\<exists>s. p' = Some s \<and> created (replicaPodOwned images r) s))
     \<or> (rs_Type (Spec r) \<noteq> ReplicaTypeRemote \<and> (\<exists>old. p = Some old \<and> deleted old p'))"

definition replica_step :: "Images \<Rightarrow> Replica \<Rightarrow> cluster \<Rightarrow> cluster \<Rightarrow> bool" where
  "replica_step images r cl cl' \<longleftrightarrow>
     replica_frame r cl cl'
     \<and> pod_step images r (cl_pods cl (replicaPodKey r)) (cl_pods cl' (replicaPodKey r))
     \<and> (cl_replicas cl' (key_of r) = cl_replicas cl (key_of r)
        \<or> (\<exists>r'. cl_replicas cl' (key_of r) = Some r' \<and> served cl' r r'))"

lemma key_of_replicaPodOwned [simp]: "key_of (replicaPodOwned images r) = replicaPodKey r"
  by (simp add: replicaPodOwned_def replicaPodKey_def key_of_def Let_def ReplicaPodFor_def spdkPod_def meta_for_def)

lemma key_of_replica_updates [simp]:
  "key_of (replicaUp t t' r) = key_of r" "key_of (exported now st r) = key_of r" "key_of (unexported r) = key_of r"
  by (simp_all add: replicaUp_def exported_def unexported_def key_of_def)

lemma served_pods: "cl_pods cl' = cl_pods cl \<Longrightarrow> served cl' r r' = served cl r r'"
  by (simp add: served_def)

lemma replica_step_refl [simp]: "replica_step images r cl cl"
  by (simp add: replica_step_def replica_frame_def pod_step_def)

text \<open>A call that neither fails nor asks to be called again has the replica \<open>served\<close>.\<close>

definition replica_post :: "Images \<Rightarrow> Replica \<Rightarrow> cluster \<Rightarrow> ctrl_Result \<Rightarrow> error option \<Rightarrow> cluster \<Rightarrow> bool" where
  "replica_post images r cl res err cl' \<longleftrightarrow>
     replica_step images r cl cl'
     \<and> (err = None \<and> RequeueAfter res = 0 \<longrightarrow>
          (\<exists>r'. cl_replicas cl' (key_of r) = Some r' \<and> served cl' r r'))"

lemma replica_post_other [simp]:
  "replica_post images r cl res (Some e) cl' = replica_step images r cl cl'"
  "d \<noteq> 0 \<Longrightarrow> replica_post images r cl (requeueIn d) None cl' = replica_step images r cl cl'"
  by (simp_all add: replica_post_def)

lemma Second_pos [simp]: "Second \<noteq> 0"
  by (simp add: Second_def)

definition exporting :: "Replica \<Rightarrow> bool" where
  "exporting r \<longleftrightarrow> rst_Phase (Status r) = ReplicaPhaseRunning \<and> rs_Type (Spec r) = ReplicaTypeRemote"

context kube_client
begin

lemma wp_replicaPod:
  assumes "\<And>e w'. view w' = view w \<Longrightarrow> Q (Inl e) w'"
    and "\<And>w'. view w' = view w \<Longrightarrow> cl_pods (view w) (replicaPodKey r) = None \<Longrightarrow> Q (Inr None) w'"
    and "\<And>p w'. view w' = view w \<Longrightarrow> cl_pods (view w) (replicaPodKey r) = Some p \<Longrightarrow> key_of p = replicaPodKey r \<Longrightarrow>
      Q (Inr (Some p)) w'"
  shows "wp (replicaPod c r) Q w"
  using assms by (auto simp: replicaPod_def replicaPodKey_def intro!: pod.wp_Get)

text \<open>The last step: from a world in which only the pod may have changed.\<close>

lemma wp_finishReplica:
  assumes stored: "cl_replicas (view w) (key_of r) = Some r"
    and here: "replica_step images r cl (view w)" and cl: "cl_replicas cl = cl_replicas (view w)"
    and ok: "\<And>t t'. served (view w) r (r\<lparr>Status := Status (replicaUp t t' r1)\<rparr>)"
    and key: "key_of r1 = key_of r"
  shows "wp (finishReplica c r1) (\<lambda>(res, err) w'. replica_post images r cl res err (view w')) w"
  unfolding finishReplica_def wp_bind
proof (intro wp_Now rep.wp_StatusUpdate, goal_cases)
  case (1 t w1 t' w2 e w3)
  then show ?case using here by simp
next
  case (2 t w1 t' w2 old w3)
  then have old: "old = r" using stored key by simp
  have "cl_pods (view w3) = cl_pods (view w)" using 2 by simp
  then have "served (view w3) r (r\<lparr>Status := Status (replicaUp t t' r1)\<rparr>)"
    using ok [of t t'] served_pods by blast
  then show ?case
    using 2 here by (simp add: replica_post_def replica_step_def replica_frame_def key old)
qed

lemma wp_serveRemote:
  assumes sc: "status_frame view sc"
    and stored: "cl_replicas (view w) (key_of r) = Some r" and ty: "rs_Type (Spec r) = ReplicaTypeRemote"
  shows "wp (serveRemote c sc images r) (\<lambda>(res, err) w'. replica_post images r (view w) res err (view w')) w"
proof -
  have go: "wp (serveRemote_tail c sc r) (\<lambda>(res, err) w'. replica_post images r (view w) res err (view w')) w1"
    if "replica_step images r (view w) (view w1)" "cl_replicas (view w1) = cl_replicas (view w)"
      "serveRemote_tail = (\<lambda>c sc r. do {
         p \<leftarrow> replicaPod c r;
         case p of
           Inl err \<Rightarrow> ret (noRequeue, Some err)
         | Inr None \<Rightarrow> ret (requeueIn (2 * Second), None)
         | Inr (Some pod) \<Rightarrow>
             if pst_PodIP (Status pod) = [] then ret (requeueIn (2 * Second), None)
             else do {
               st \<leftarrow> statusClientOf c sc (pst_PodIP (Status pod));
               case st of
                 Inl _ \<Rightarrow> ret (requeueIn (2 * Second), None)
               | Inr status \<Rightarrow>
                   if validateReplicaSidecarStatus status \<noteq> None then ret (requeueIn (2 * Second), None)
                   else do {
                     now \<leftarrow> clock_Now c;
                     finishReplica c (exported now status r)
                   }
             }
       })" for w1 serveRemote_tail
  proof -
    have fin: "wp (finishReplica c (exported now status r)) (\<lambda>(res, err) w'. replica_post images r (view w) res err (view w')) w2"
      if "view w2 = view w1" "validateReplicaSidecarStatus status = None"
        "\<exists>p. cl_pods (view w1) (replicaPodKey r) = Some p \<and> pst_PodIP (Status p) \<noteq> []" for w2 now status
      using \<open>replica_step images r (view w) (view w1)\<close> \<open>cl_replicas (view w1) = cl_replicas (view w)\<close>
        that stored validateReplica_None [OF that(2)]
      by (intro wp_finishReplica) (auto simp: served_def exported_def replicaUp_def is_true_SetTrue ty key_of_def)
    show ?thesis
      using that(1)
      unfolding that(3) wp_bind
      by (auto intro!: wp_replicaPod wp_statusClientOf [OF sc] wp_Now fin split: sum.split)
  qed
  show ?thesis
    unfolding serveRemote_def wp_bind
  proof (rule pod.wp_createIfMissing, goal_cases)
    case (1 e w1)
    then show ?case by simp
  next
    case (2 w1)
    then show ?case using go [OF _ _ refl, of w1] by simp
  next
    case (3 s w1)
    then have "replica_step images r (view w) (view w1)"
      by (auto simp: replica_step_def replica_frame_def pod_step_def ty)
    then show ?case using go [OF _ _ refl] 3 by simp
  qed
qed

lemma wp_serveLocal:
  assumes stored: "cl_replicas (view w) (key_of r) = Some r" and ty: "rs_Type (Spec r) \<noteq> ReplicaTypeRemote"
  shows "wp (serveLocal c r) (\<lambda>(res, err) w'. replica_post images r (view w) res err (view w')) w"
proof -
  have fin: "wp (finishReplica c (unexported r)) (\<lambda>(res, err) w'. replica_post images r (view w) res err (view w')) w1"
    if "replica_step images r (view w) (view w1)" "cl_replicas (view w1) = cl_replicas (view w)" for w1
    using that stored ty
    by (intro wp_finishReplica) (auto simp: served_def unexported_def replicaUp_def is_true_SetTrue key_of_def)
  have drop: "replica_step images r (view w) (cl_pods_update (\<lambda>m. m(replicaPodKey r := rest)) (view w))"
    if "\<exists>old. cl_pods (view w) (replicaPodKey r) = Some old \<and> deleted old rest" for rest
    using that ty by (auto simp: replica_step_def replica_frame_def pod_step_def)
  show ?thesis
    unfolding serveLocal_def wp_bind
    by (auto intro!: wp_replicaPod pod.wp_Delete fin drop)
qed

lemma wp_snapshotPathFor:
  assumes "\<And>x w'. view w' = view w \<Longrightarrow> Q x w'"
  shows "wp (snapshotPathFor c r) Q w"
  using assms by (auto simp: snapshotPathFor_def intro!: snap.wp_Get)

end

text \<open>The agents a reconciler may use: those given and those its factory gives.\<close>

definition agents_frame :: "('w \<Rightarrow> cluster) \<Rightarrow> 'w agent_client option \<Rightarrow> 'w agent_factory option \<Rightarrow> bool" where
  "agents_frame view agent factory \<longleftrightarrow>
     (\<forall>a. agent = Some a \<longrightarrow> agent_frame a view) \<and> (\<forall>f. factory = Some f \<longrightarrow> factory_frame view f)"

lemma wp_agentFor:
  assumes "agents_frame view agent factory"
    and "\<And>e w'. view w' = view w \<Longrightarrow> Q (Inl e) w'"
    and "\<And>a w'. view w' = view w \<Longrightarrow> agent_frame a view \<Longrightarrow> Q (Inr a) w'"
  shows "wp (agentFor agent factory n) Q w"
  using assms by (cases agent; cases factory) (auto simp: agentFor_def agents_frame_def intro!: wp_factory [of view])

context kube_client
begin

lemma wp_provision:
  assumes ag: "agents_frame view agent factory" and sc: "status_frame view sc"
    and stored: "cl_replicas (view w) (key_of r) = Some r" and v: "view w = v"
  shows "wp (provision c agent factory sc images r) (\<lambda>(res, err) w'. replica_post images r v res err (view w')) w"
proof -
  have serve: "rs_Type (Spec r) = ReplicaTypeRemote \<Longrightarrow>
      wp (serveRemote c sc images r) (\<lambda>(res, err) w'. replica_post images r (view w) res err (view w')) w1"
      "rs_Type (Spec r) \<noteq> ReplicaTypeRemote \<Longrightarrow>
      wp (serveLocal c r) (\<lambda>(res, err) w'. replica_post images r (view w) res err (view w')) w1" if "view w1 = view w" for w1
    using wp_serveRemote [OF sc, of w1 r images] wp_serveLocal [of w1 r images] stored that by auto
  show ?thesis
    unfolding provision_def wp_bind
    using v
    by (auto intro!: wp_agentFor [OF ag] wp_snapshotPathFor agent_frame.wp_CreateReplica [of _ view] serve
        split: sum.split)
qed

lemma wp_ReplicaReconcile:
  assumes ag: "agents_frame view agent factory" and sc: "status_frame view sc"
    and r: "cl_replicas (view w) req = Some r"
  shows "wp (ReplicaReconciler_Reconcile c agent factory sc images req)
     (\<lambda>(res, err) w'. replica_step images r (view w) (view w')
        \<and> (\<not> exporting r \<longrightarrow> replica_post images r (view w) res err (view w'))) w"
proof -
  have key: "key_of r = req" using rep.keyed [OF r] .
  define Post where "Post = (\<lambda>(res, err) w'. replica_step images r (view w) (view w')
        \<and> (\<not> exporting r \<longrightarrow> replica_post images r (view w) res err (view w')))"
  have quit: "Post (res, Some e) w1" "exporting r \<Longrightarrow> Post (res, None) w1" if "view w1 = view w" for res e w1
    using that by (simp_all add: Post_def)
  have prov: "wp (provision c agent factory sc images r) Post w1" if "view w1 = view w" for w1
    by (rule wp_mono [OF wp_provision [OF ag sc, of w1 r "view w"]])
      (use that key r in \<open>auto simp: Post_def replica_post_def\<close>)
  show ?thesis
    unfolding ReplicaReconciler_Reconcile_def wp_bind Post_def [symmetric]
    using r
    by (auto intro!: rep.wp_Get wp_replicaPod prov quit simp: exporting_def)
qed

end

text \<open>
  The agent of a node fails with an error: it cannot be found, whether it is a fixed one or comes
  from the factory, or it answers every request to create a replica with the error.
\<close>

definition agent_fails ::
  "('w \<Rightarrow> cluster) \<Rightarrow> 'w agent_client option \<Rightarrow> 'w agent_factory option \<Rightarrow> string \<Rightarrow> error \<Rightarrow> bool" where
  "agent_fails view agent factory node e \<longleftrightarrow>
     (\<forall>w x w1. run_state (agentFor agent factory node) w = (x, w1) \<longrightarrow> view w1 = view w \<and>
        (case x of
           Inl e' \<Rightarrow> e' = e
         | Inr a \<Rightarrow> \<forall>q w2 y w3. run_state (ac_CreateReplica a q) w2 = (y, w3) \<longrightarrow> view w3 = view w2 \<and> y = Inl e))"

lemma wp_agentFor_fails:
  assumes "agent_fails view agent factory n e" and "\<And>w'. view w' = view w \<Longrightarrow> Q (Inl e) w'"
    and "\<And>a w'. view w' = view w \<Longrightarrow> (\<And>q w2 R. (\<And>w3. view w3 = view w2 \<Longrightarrow> R (Inl e) w3) \<Longrightarrow> wp (ac_CreateReplica a q) R w2)
      \<Longrightarrow> Q (Inr a) w'"
  shows "wp (agentFor agent factory n) Q w"
proof (rule wp_of_run)
  fix x w' assume run: "run_state (agentFor agent factory n) w = (x, w')"
  have x: "view w' = view w" "case x of Inl e' \<Rightarrow> e' = e
      | Inr a \<Rightarrow> \<forall>q w2 y w3. run_state (ac_CreateReplica a q) w2 = (y, w3) \<longrightarrow> view w3 = view w2 \<and> y = Inl e"
    using assms(1) run unfolding agent_fails_def by blast+
  show "Q x w'"
  proof (cases x)
    case (Inr a)
    have "wp (ac_CreateReplica a q) R w2" if "\<And>w3. view w3 = view w2 \<Longrightarrow> R (Inl e) w3" for q w2 R
      by (rule wp_of_run) (use x(2) Inr that in auto)
    then show ?thesis using assms(3) [OF x(1)] Inr by blast
  qed (use x assms(2) in auto)
qed

context kube_client
begin

text \<open>An agent that fails: nothing changes, and the failure is reported.\<close>

lemma wp_provision_fails:
  assumes fails: "agent_fails view agent factory (rs_NodeID (Spec r)) e"
    and "\<And>w'. view w' = view w \<Longrightarrow> Q (noRequeue, Some e) w'"
  shows "wp (provision c agent factory sc images r) Q w"
  unfolding provision_def wp_bind
  using assms(2) by (auto intro!: wp_agentFor_fails [OF fails] wp_snapshotPathFor)

lemma wp_ReplicaReconcile_fails:
  assumes fails: "agent_fails view agent factory (rs_NodeID (Spec r)) e"
    and r: "cl_replicas (view w) req = Some r"
  shows "wp (ReplicaReconciler_Reconcile c agent factory sc images req)
     (\<lambda>(res, err) w'. view w' = view w \<and> RequeueAfter res = 0
        \<and> (err = Some e
           \<or> (\<exists>e' w1. run_state (r_Get (replicas c) req) w = (Inl e', w1) \<and> err = Some e')
           \<or> err = None \<and> exporting r
               \<and> (\<exists>p. cl_pods (view w) (replicaPodKey r) = Some p \<and> pst_PodIP (Status p) \<noteq> []))) w"
  unfolding ReplicaReconciler_Reconcile_def wp_bind
proof (rule wp_of_run)
  fix x w1 assume run: "run_state (r_Get (replicas c) req) w = (x, w1)"
  note get = rep.get_law [OF run]
  show "wp (case x of
       Inl err \<Rightarrow> if IsNotFound err then ret (noRequeue, None) else ret (noRequeue, Some err)
     | Inr replica \<Rightarrow>
         if rst_Phase (Status replica) = ReplicaPhaseRunning \<and> rs_Type (Spec replica) = ReplicaTypeRemote
         then do {
           p \<leftarrow> replicaPod c replica;
           case p of
             Inr (Some pod) \<Rightarrow>
               if pst_PodIP (Status pod) \<noteq> [] then ret (noRequeue, None)
               else provision c agent factory sc images replica
           | _ \<Rightarrow> provision c agent factory sc images replica
         }
         else provision c agent factory sc images replica)
     (\<lambda>(res, err) w'. view w' = view w \<and> RequeueAfter res = 0
        \<and> (err = Some e
           \<or> (\<exists>e' w1. run_state (r_Get (replicas c) req) w = (Inl e', w1) \<and> err = Some e')
           \<or> err = None \<and> exporting r
               \<and> (\<exists>p. cl_pods (view w) (replicaPodKey r) = Some p \<and> pst_PodIP (Status p) \<noteq> []))) w1"
  proof (cases x)
    case (Inl e')
    then show ?thesis using get r run by auto
  next
    case (Inr r')
    then have "r' = r" "view w1 = view w" using get r by auto
    then show ?thesis
      unfolding Inr sum.case
      using fails by (auto intro!: wp_replicaPod wp_provision_fails simp: exporting_def)
  qed
qed

end

section \<open>Properties\<close>

text \<open>
  C4: the reconciler of replicas refines the specification \<open>replica_step\<close>. Whatever the API
  server, the agent and the sidecar answer, it leaves the replica as it is or records it as
  running with what its type requires: for a remote replica an NQN, a valid endpoint and a
  pod with an address, for a local one neither NQN nor endpoint. It creates only the pod of
  its template and deletes only the pod of a local replica, and no other object changes.
\<close>

theorem replica_reconcile_refines:
  assumes client: "kube_client c view" and ag: "agents_frame view agent factory" and sc: "status_frame view sc"
    and run: "run_state (ReplicaReconciler_Reconcile c agent factory sc images req) w = (res, w')"
    and r: "cl_replicas (view w) req = Some r"
  shows "replica_step images r (view w) (view w')"
  using wp_run [OF kube_client.wp_ReplicaReconcile [OF client ag sc r] run] by (auto split: prod.splits)

text \<open>
  C23: a replica that is not being exported yet is never dropped. A reconciliation of it that
  ends without an error and without asking to be called again has recorded it as running
  with what its type requires.
\<close>

theorem replica_progress:
  assumes client: "kube_client c view" and ag: "agents_frame view agent factory" and sc: "status_frame view sc"
    and run: "run_state (ReplicaReconciler_Reconcile c agent factory sc images req) w = ((res, None), w')"
    and r: "cl_replicas (view w) req = Some r" and idle: "\<not> exporting r" and rest: "RequeueAfter res = 0"
  shows "\<exists>r'. cl_replicas (view w') (key_of r) = Some r' \<and> served (view w') r r'"
  using wp_run [OF kube_client.wp_ReplicaReconcile [OF client ag sc r] run] idle rest by (simp add: replica_post_def)

text \<open>
  C25: a node agent that cannot provide the backing file stops everything. When the agent of the
  replica's node, fixed or from the factory, is not found with some error or answers every
  request with it, no object is changed, so no pod is created, and the reconciliation returns
  that error to the queue. It returns another only when the replica itself could not be read;
  and it succeeds only for a remote replica that is recorded as running and whose pod has an
  address, for which the agent is not asked.
\<close>

theorem replica_agent_error:
  assumes client: "kube_client c view"
    and fails: "agent_fails view agent factory (rs_NodeID (Spec r)) e"
    and run: "run_state (ReplicaReconciler_Reconcile c agent factory sc images req) w = ((res, err), w')"
    and r: "cl_replicas (view w) req = Some r"
  shows "view w' = view w \<and> RequeueAfter res = 0
    \<and> (err = Some e
       \<or> (\<exists>e' w1. run_state (r_Get (replicas c) req) w = (Inl e', w1) \<and> err = Some e')
       \<or> err = None \<and> exporting r
           \<and> (\<exists>p. cl_pods (view w) (replicaPodKey r) = Some p \<and> pst_PodIP (Status p) \<noteq> []))"
  using wp_run [OF kube_client.wp_ReplicaReconcile_fails [OF client fails r] run] by auto

definition replicaHttp :: "http_request \<Rightarrow> error + http_response" where
  "replicaHttp q = Inr \<lparr>hr_StatusCode = 200, hr_Body = Some (encodeStatus \<lparr>sc_Role = ''replica'',
     sc_Endpoint = ''10.0.0.8:4420'', sc_SubsystemNQN = [], sc_ReplicaNQN = ''nqn1''\<rparr>)\<rparr>"

definition newReplica :: Replica where
  "newReplica = sampleReplica 1 ''n2'' [] []"

definition repReq :: NamespacedName where
  "repReq = NN ''ns'' ''vol-replica-1''"

definition replicaSample :: "string \<Rightarrow> mem" where
  "replicaSample phase = sampleMem [] [waitingEngine]
     [sampleReplica 0 ''n1'' ''Running'' [], sampleReplica 1 ''n2'' phase []]
     [samplePod ''vol-replica-1-pod'' ''replica'' ''Running'', runningPod]"

lemma agents_frame_ready: "agents_frame mem_view (Some readyAgent) None"
  by (simp add: agents_frame_def ready_agent.agent_frame_axioms)

lemma sampleName_1: "ReplicaName ''vol'' (Suc 0) = ''vol-replica-1''"
  by code_simp

lemma replicaSample_replica: "cl_replicas (mem_view (replicaSample [])) repReq = Some newReplica"
  by (simp add: mem_view_def replicaSample_def sampleMem_def newReplica_def sampleReplica_def key_of_def
      meta_for_def repReq_def sampleName_0 sampleName_1)

theorem replica_reconcile_refines_witness:
  "replica_step PodImages newReplica (mem_view (replicaSample []))
     (mem_view (snd (run_state (ReplicaReconciler_Reconcile (mem_env replicaHttp) (Some readyAgent) None None
        PodImages repReq) (replicaSample []))))"
  by (rule replica_reconcile_refines [OF kube_client_mem agents_frame_ready status_frame_None
        prod.collapse [symmetric] replicaSample_replica])

theorem replica_progress_witness:
  "\<exists>r'. served (mem_view (snd (run_state (ReplicaReconciler_Reconcile (mem_env replicaHttp) (Some readyAgent) None None
        PodImages repReq) (replicaSample [])))) newReplica r'"
proof -
  let ?r = "run_state (ReplicaReconciler_Reconcile (mem_env replicaHttp) (Some readyAgent) None None
        PodImages repReq) (replicaSample [])"
  have "RequeueAfter (fst (fst ?r)) = 0" "snd (fst ?r) = None" by code_simp+
  moreover have "\<not> exporting newReplica" by code_simp
  ultimately show ?thesis
    using replica_progress [OF kube_client_mem agents_frame_ready status_frame_None, of replicaHttp PodImages repReq
        "replicaSample []" "fst (fst ?r)" "snd ?r" newReplica] replicaSample_replica
    by (auto simp: prod_eq_iff)
qed

definition brokenAgent :: "mem agent_client" where
  "brokenAgent = readyAgent\<lparr>ac_CreateReplica := \<lambda>q. ret (Inl (ServerError ''no space''))\<rparr>"

theorem replica_agent_error_witness:
  "let (x, w') = run_state (ReplicaReconciler_Reconcile (mem_env replicaHttp) None (Some (\<lambda>n. ret (Inr brokenAgent))) None
        PodImages repReq) (replicaSample [])
   in mem_view w' = mem_view (replicaSample []) \<and> snd x = Some (ServerError ''no space'')"
proof -
  let ?f = "Some (\<lambda>n. ret (Inr brokenAgent))"
  let ?r = "run_state (ReplicaReconciler_Reconcile (mem_env replicaHttp) None ?f None PodImages repReq) (replicaSample [])"
  have run: "?r = ((fst (fst ?r), snd (fst ?r)), snd ?r)" by simp
  have fails: "agent_fails mem_view None ?f n (ServerError ''no space'')" for n
    by (auto simp: agent_fails_def agentFor_def brokenAgent_def State_Monad.return_def)
  have "snd (fst ?r) \<noteq> None" by code_simp
  moreover have "\<not> (\<exists>e' w1. run_state (r_Get (replicas (mem_env replicaHttp)) repReq) (replicaSample []) = (Inl e', w1))"
  proof -
    have "\<not> isl (fst (run_state (r_Get (replicas (mem_env replicaHttp)) repReq) (replicaSample [])))" by code_simp
    then show ?thesis by auto
  qed
  ultimately show ?thesis
    using replica_agent_error [OF kube_client_mem fails run replicaSample_replica] by (auto simp: split_beta)
qed

text \<open>
  A local replica that becomes remote is stuck. Its phase is \<^verbatim>\<open>Running\<close> already, so once its
  new pod has an address the reconciler returns at once, although the pod's sidecar answers:
  the NQN stays empty. The engine's reconciler waits for the NQN. Neither changes anything.
\<close>

theorem replica_never_exported:
  "run_state (ReplicaReconciler_Reconcile (mem_env replicaHttp) (Some readyAgent) None None PodImages repReq)
     (replicaSample ''Running'') = ((noRequeue, None), replicaSample ''Running'')
   \<and> (let w' = snd (run_state (EngineReconciler_Reconcile (mem_env replicaHttp) None [] PodImages (\<lambda>s. s) engReq)
                     (replicaSample ''Running''))
      in snd (run_state (EngineReconciler_Reconcile (mem_env replicaHttp) None [] PodImages (\<lambda>s. s) engReq) w') = w'
         \<and> map_option (\<lambda>r. rst_NQN (Status r)) (cl_replicas (mem_view w') repReq) = Some []
         \<and> map_option (\<lambda>e. est_Phase (Status e)) (cl_engines (mem_view w') engReq) = Some ''Pending'')"
  by code_simp

end
