(* ===== verification/Snapshot_Reconcile.thy ===== *)
theory Snapshot_Reconcile
  imports Sidecar_Status Agent_Client
begin

text \<open>
  The reconciler of snapshots, \<^verbatim>\<open>src/internal/controller/snapshot_controller.go\<close>. A snapshot
  gets a finalizer, then moves through its phases: pending, creating (the sidecar of the
  source engine is asked to copy the volume's file), and ready or failed. A snapshot that is
  being deleted has its file removed by the agent of the engine's node, and loses the
  finalizer. The phases and their order are the relation \<open>phase_step\<close>.

  The answer of \<^verbatim>\<open>http.NewRequest\<close> to a malformed URL is the error \<open>InvalidURL\<close> of the
  exchange, which the code treats differently from a failed exchange.
\<close>

section \<open>The operations\<close>

definition SnapshotFinalizer :: string where
  "SnapshotFinalizer = ''storage.krea.to/snapshot-protection''"

definition containsString :: "string list \<Rightarrow> string \<Rightarrow> bool" where
  "containsString slice s = list_ex (\<lambda>item. item = s) slice"

definition removeString :: "string list \<Rightarrow> string \<Rightarrow> string list" where
  "removeString slice s = filter (\<lambda>item. item \<noteq> s) slice"

definition snapshotURL :: "(string \<Rightarrow> string) option \<Rightarrow> string \<Rightarrow> string" where
  "snapshotURL fn podIP =
     (case fn of Some f \<Rightarrow> f podIP | None \<Rightarrow> ''http://'' @ podIP @ '':9810/snapshot'')"

definition with_status :: "('st \<Rightarrow> 'st) \<Rightarrow> ('sp, 'st) kobj \<Rightarrow> ('sp, 'st) kobj" where
  "with_status f o' = o'\<lparr>Status := f (Status o')\<rparr>"

definition with_finalizers :: "string list \<Rightarrow> ('sp, 'st) kobj \<Rightarrow> ('sp, 'st) kobj" where
  "with_finalizers fs o' = o'\<lparr>Meta := (Meta o')\<lparr>om_Finalizers := fs\<rparr>\<rparr>"

definition snapshotFailed :: "int \<Rightarrow> string \<Rightarrow> string \<Rightarrow> Snapshot \<Rightarrow> Snapshot" where
  "snapshotFailed now reason message = with_status (\<lambda>st. st\<lparr>
     snst_Phase := SnapshotPhaseFailed,
     snst_Conditions := SetTrue now (snst_Conditions st) SnapshotConditionCreated reason message\<rparr>)"

definition startCreate :: "'w env \<Rightarrow> Snapshot \<Rightarrow> ('w, ctrl_Result \<times> error option) state" where
  "startCreate c snap = do {
     g \<leftarrow> r_Get (engines c) (NN (obj_Namespace snap) (EngineName (sns_VolumeRef (Spec snap))));
     case g of
       Inl err \<Rightarrow> do {
         now \<leftarrow> clock_Now c;
         _ \<leftarrow> r_StatusUpdate (snapshots c)
                (snapshotFailed now ''EngineNotFound'' ''source volume engine not found'' snap);
         ret (noRequeue, IgnoreNotFound err)
       }
     | Inr engine \<Rightarrow> do {
         now \<leftarrow> clock_Now c;
         s \<leftarrow> r_StatusUpdate (snapshots c) (with_status (\<lambda>st. st\<lparr>
                snst_EngineNode := es_NodeID (Spec engine),
                snst_Phase := SnapshotPhaseCreating,
                snst_Conditions := SetTrue now (snst_Conditions st) SnapshotConditionCreated
                                     ''Creating'' ''creating snapshot on engine''\<rparr>) snap);
         ret (noRequeue, err_of s)
       }
   }"

definition enginePodIP :: "'w env \<Rightarrow> Engine \<Rightarrow> ('w, string \<times> error option) state" where
  "enginePodIP c engine =
     (case est_PodRef (Status engine) of
        None \<Rightarrow> ret ([], None)
      | Some pr \<Rightarrow> do {
          g \<leftarrow> r_Get (pods c) (NN (pr_Namespace pr) (pr_Name pr));
          case g of
            Inl err \<Rightarrow> ret ([], IgnoreNotFound err)
          | Inr pod \<Rightarrow>
              if pst_Phase (Status pod) = PodRunning then ret (pst_PodIP (Status pod), None)
              else ret ([], None)
        })"

definition snapshotReady :: "int \<Rightarrow> int \<Rightarrow> snapshotResp \<Rightarrow> Snapshot \<Rightarrow> Snapshot" where
  "snapshotReady now now' result = with_status (\<lambda>st. st\<lparr>
     snst_Phase := SnapshotPhaseReady,
     snst_ReadyToUse := True,
     snst_SnapshotPath := sr_SnapshotPath result,
     snst_SizeBytes := sr_SizeBytes result,
     snst_CreationTime := Some now,
     snst_Conditions := SetTrue now' (snst_Conditions st) SnapshotConditionFileReady
                          ''Ready'' ''snapshot file is ready''\<rparr>)"

definition takeSnapshot ::
  "'w env \<Rightarrow> (string \<Rightarrow> string) option \<Rightarrow> string \<Rightarrow> Snapshot \<Rightarrow> ('w, ctrl_Result \<times> error option) state" where
  "takeSnapshot c fn podIP snap = do {
     r \<leftarrow> http_Do c \<lparr>hq_Method = ''POST'', hq_URL = snapshotURL fn podIP,
                      hq_Payload = Some (encodeSnapshotReq (sns_SnapshotID (Spec snap)))\<rparr>;
     case r of
       Inl (InvalidURL u) \<Rightarrow> ret (noRequeue, Some (InvalidURL u))
     | Inl _ \<Rightarrow> ret (requeueIn (2 * Second), None)
     | Inr resp \<Rightarrow>
         if hr_StatusCode resp \<noteq> 200 then do {
           now \<leftarrow> clock_Now c;
           s \<leftarrow> r_StatusUpdate (snapshots c)
                  (snapshotFailed now ''SidecarError'' (''sidecar returned '' @ Itoa (hr_StatusCode resp)) snap);
           ret (noRequeue, err_of s)
         }
         else case Option.bind (hr_Body resp) decodeSnapshotResp of
                None \<Rightarrow> do {
                  s \<leftarrow> r_StatusUpdate (snapshots c)
                         (with_status (\<lambda>st. st\<lparr>snst_Phase := SnapshotPhaseFailed\<rparr>) snap);
                  ret (noRequeue, err_of s)
                }
              | Some result \<Rightarrow> do {
                  now \<leftarrow> clock_Now c;
                  now' \<leftarrow> clock_Now c;
                  s \<leftarrow> r_StatusUpdate (snapshots c) (snapshotReady now now' result snap);
                  ret (noRequeue, err_of s)
                }
   }"

definition pollCreate ::
  "'w env \<Rightarrow> (string \<Rightarrow> string) option \<Rightarrow> Snapshot \<Rightarrow> ('w, ctrl_Result \<times> error option) state" where
  "pollCreate c fn snap = do {
     g \<leftarrow> r_Get (engines c) (NN (obj_Namespace snap) (EngineName (sns_VolumeRef (Spec snap))));
     case g of
       Inl _ \<Rightarrow> ret (requeueIn (2 * Second), None)
     | Inr engine \<Rightarrow> do {
         p \<leftarrow> enginePodIP c engine;
         case p of (podIP, err) \<Rightarrow>
           if err \<noteq> None \<or> podIP = [] then ret (requeueIn (2 * Second), None)
           else takeSnapshot c fn podIP snap
       }
   }"

definition dropFile :: "'w agent_factory \<Rightarrow> Snapshot \<Rightarrow> ('w, unit) state" where
  "dropFile factory snap =
     (if snst_SnapshotPath (Status snap) \<noteq> [] \<and> snst_EngineNode (Status snap) \<noteq> []
      then do {
        a \<leftarrow> factory (snst_EngineNode (Status snap));
        case a of
          Inl _ \<Rightarrow> ret ()
        | Inr agentClient \<Rightarrow> do {
            _ \<leftarrow> ac_DeleteSnapshot agentClient (DeleteSnapshotRequest (snst_SnapshotPath (Status snap)));
            ret ()
          }
      }
      else ret ())"

definition reconcileDelete ::
  "'w env \<Rightarrow> 'w agent_factory \<Rightarrow> Snapshot \<Rightarrow> ('w, ctrl_Result \<times> error option) state" where
  "reconcileDelete c factory snap = do {
     _ \<leftarrow> dropFile factory snap;
     if containsString (om_Finalizers (Meta snap)) SnapshotFinalizer
     then do {
       u \<leftarrow> r_Update (snapshots c)
              (with_finalizers (removeString (om_Finalizers (Meta snap)) SnapshotFinalizer) snap);
       ret (noRequeue, err_of u)
     }
     else ret (noRequeue, None)
   }"

definition SnapshotReconciler_Reconcile ::
  "'w env \<Rightarrow> 'w agent_factory \<Rightarrow> (string \<Rightarrow> string) option \<Rightarrow> NamespacedName
   \<Rightarrow> ('w, ctrl_Result \<times> error option) state" where
  "SnapshotReconciler_Reconcile c factory fn req = do {
     g \<leftarrow> r_Get (snapshots c) req;
     case g of
       Inl err \<Rightarrow> ret (noRequeue, IgnoreNotFound err)
     | Inr snap \<Rightarrow>
         if om_DeletionTimestamp (Meta snap) \<noteq> None then reconcileDelete c factory snap
         else if \<not> containsString (om_Finalizers (Meta snap)) SnapshotFinalizer
         then do {
           u \<leftarrow> r_Update (snapshots c)
                  (with_finalizers (om_Finalizers (Meta snap) @ [SnapshotFinalizer]) snap);
           ret (noRequeue, err_of u)
         }
         else if snst_Phase (Status snap) = [] then do {
           s \<leftarrow> r_StatusUpdate (snapshots c) (with_status (\<lambda>st. st\<lparr>snst_Phase := SnapshotPhasePending\<rparr>) snap);
           ret (noRequeue, err_of s)
         }
         else if snst_Phase (Status snap) = SnapshotPhasePending then startCreate c snap
         else if snst_Phase (Status snap) = SnapshotPhaseCreating then pollCreate c fn snap
         else ret (noRequeue, None)
   }"

section \<open>The life of a snapshot\<close>

definition sourceEngine :: "cluster \<Rightarrow> Snapshot \<Rightarrow> Engine option" where
  "sourceEngine cl s = cl_engines cl (NN (obj_Namespace s) (EngineName (sns_VolumeRef (Spec s))))"

text \<open>
  The steps of the status of a live snapshot \<open>s\<close>. Ready is reached only from creating, with the
  pod of the source engine running at an address, and the node recorded is the engine's.
\<close>

inductive snap_step :: "cluster \<Rightarrow> Snapshot \<Rightarrow> SnapshotStatus \<Rightarrow> bool" for cl s where
  accept: "snst_Phase (Status s) = [] \<Longrightarrow> snap_step cl s ((Status s)\<lparr>snst_Phase := SnapshotPhasePending\<rparr>)"
| start: "snst_Phase (Status s) = SnapshotPhasePending \<Longrightarrow> sourceEngine cl s = Some e \<Longrightarrow>
    snap_step cl s ((Status s)\<lparr>snst_EngineNode := es_NodeID (Spec e), snst_Phase := SnapshotPhaseCreating,
      snst_Conditions := cs\<rparr>)"
| lost: "snst_Phase (Status s) \<in> {SnapshotPhasePending, SnapshotPhaseCreating} \<Longrightarrow>
    snap_step cl s ((Status s)\<lparr>snst_Phase := SnapshotPhaseFailed, snst_Conditions := cs\<rparr>)"
| taken: "snst_Phase (Status s) = SnapshotPhaseCreating \<Longrightarrow> sourceEngine cl s = Some e \<Longrightarrow>
    est_PodRef (Status e) = Some pr \<Longrightarrow> cl_pods cl (NN (pr_Namespace pr) (pr_Name pr)) = Some pod \<Longrightarrow>
    pst_Phase (Status pod) = PodRunning \<Longrightarrow> pst_PodIP (Status pod) \<noteq> [] \<Longrightarrow>
    snap_step cl s ((Status s)\<lparr>snst_Phase := SnapshotPhaseReady, snst_ReadyToUse := True,
      snst_SnapshotPath := path, snst_SizeBytes := bytes, snst_CreationTime := Some t, snst_Conditions := cs\<rparr>)"

inductive_simps snap_step_simps: "snap_step cl s st"

definition deleting :: "Snapshot \<Rightarrow> bool" where
  "deleting s \<longleftrightarrow> om_DeletionTimestamp (Meta s) \<noteq> None"

definition guarded :: "Snapshot \<Rightarrow> bool" where
  "guarded s \<longleftrightarrow> SnapshotFinalizer \<in> set (om_Finalizers (Meta s))"

text \<open>What may be stored in the place of the snapshot \<open>s\<close> after a reconciliation.\<close>

definition snap_next :: "cluster \<Rightarrow> Snapshot \<Rightarrow> Snapshot option \<Rightarrow> bool" where
  "snap_next cl s s' \<longleftrightarrow>
     (if deleting s
      then guarded s \<and> s' = kept (with_finalizers (removeString (om_Finalizers (Meta s)) SnapshotFinalizer) s)
      else if \<not> guarded s
      then s' = Some (with_finalizers (om_Finalizers (Meta s) @ [SnapshotFinalizer]) s)
      else (\<exists>st. snap_step cl s st \<and> s' = Some (s\<lparr>Status := st\<rparr>)))"

definition snap_refines :: "Snapshot \<Rightarrow> cluster \<Rightarrow> cluster \<Rightarrow> bool" where
  "snap_refines s cl cl' \<longleftrightarrow>
     (\<exists>s'. cl' = cl_snapshots_update (\<lambda>m. m(key_of s := s')) cl \<and> (s' = cl_snapshots cl (key_of s) \<or> snap_next cl s s'))"

lemma containsString_iff [simp]: "containsString xs s \<longleftrightarrow> s \<in> set xs"
  by (auto simp: containsString_def list_ex_iff)

lemma with_status_sel [simp]:
  "Meta (with_status f o') = Meta o'" "Spec (with_status f o') = Spec o'" "Status (with_status f o') = f (Status o')"
  "key_of (with_status f o') = key_of o'"
  by (simp_all add: with_status_def key_of_def)

lemma key_of_with_finalizers [simp]: "key_of (with_finalizers fs o') = key_of o'"
  by (simp add: with_finalizers_def key_of_def)

lemma updated_with_finalizers: "updated s (with_finalizers fs s) = with_finalizers fs s"
  by (simp add: updated_def with_finalizers_def)

lemma snap_refines_refl [simp]: "snap_refines s cl cl"
  unfolding snap_refines_def by (intro exI [of _ "cl_snapshots cl (key_of s)"]) simp

lemma snap_refinesI: "snap_next cl s s' \<Longrightarrow> snap_refines s cl (cl_snapshots_update (\<lambda>m. m(key_of s := s')) cl)"
  by (auto simp: snap_refines_def)

context kube_client
begin

lemma wp_snap_status:
  assumes "view w = cl" and "cl_snapshots cl (key_of s) = Some s" and "\<not> deleting s" and "guarded s"
    and "snap_step cl s (f (Status s))"
    and "\<And>e w'. view w' = cl \<Longrightarrow> Q (Inl e) w'"
    and "\<And>x w'. snap_refines s cl (view w') \<Longrightarrow> Q (Inr x) w'"
  shows "wp (r_StatusUpdate (snapshots c) (with_status f s)) Q w"
proof (rule snap.wp_StatusUpdate, goal_cases)
  case (1 e w')
  then show ?case using assms(1,6) by simp
next
  case (2 old w')
  have "snap_next cl s (Some (s\<lparr>Status := f (Status s)\<rparr>))" using assms(3-5) by (auto simp: snap_next_def)
  from snap_refinesI [OF this] show ?case using 2 assms(1,2) by (auto intro: assms(7))
qed

lemma wp_snap_finalizers:
  assumes "view w = cl" and "cl_snapshots cl (key_of s) = Some s" and "snap_next cl s (kept (with_finalizers fs s))"
    and "\<And>e w'. view w' = cl \<Longrightarrow> Q (Inl e) w'"
    and "\<And>w'. view w' = cl_snapshots_update (\<lambda>m. m(key_of s := kept (with_finalizers fs s))) cl \<Longrightarrow>
      Q (Inr (with_finalizers fs s)) w'"
  shows "wp (r_Update (snapshots c) (with_finalizers fs s)) Q w"
  using assms by (auto intro!: snap.wp_Update simp: updated_with_finalizers)

lemma wp_enginePodIP:
  assumes "\<And>ip e w'. view w' = view w \<Longrightarrow>
      (ip \<noteq> [] \<Longrightarrow> \<exists>pr pod. est_PodRef (Status engine) = Some pr
          \<and> cl_pods (view w) (NN (pr_Namespace pr) (pr_Name pr)) = Some pod
          \<and> pst_Phase (Status pod) = PodRunning \<and> pst_PodIP (Status pod) \<noteq> []) \<Longrightarrow> Q (ip, e) w'"
  shows "wp (enginePodIP c engine) Q w"
  using assms by (auto simp: enginePodIP_def split: option.split intro!: pod.wp_Get)

lemma wp_startCreate:
  assumes "view w = cl" "cl_snapshots cl (key_of s) = Some s" "\<not> deleting s" "guarded s"
    and ph: "snst_Phase (Status s) = SnapshotPhasePending"
  shows "wp (startCreate c s) (\<lambda>_ w'. snap_refines s cl (view w')) w"
proof -
  note step = snap_step.start [of s cl] snap_step.lost [of s cl]
  show ?thesis
    unfolding startCreate_def snapshotFailed_def
    using assms step
    by (auto intro!: eng.wp_Get wp_Now wp_snap_status [where cl = cl] simp: sourceEngine_def)
qed

lemma wp_takeSnapshot:
  assumes "view w = cl" "cl_snapshots cl (key_of s) = Some s" "\<not> deleting s" "guarded s"
    and ph: "snst_Phase (Status s) = SnapshotPhaseCreating"
    and e: "sourceEngine cl s = Some e" "est_PodRef (Status e) = Some pr"
      "cl_pods cl (NN (pr_Namespace pr) (pr_Name pr)) = Some pod" "pst_Phase (Status pod) = PodRunning"
      "pst_PodIP (Status pod) \<noteq> []"
  shows "wp (takeSnapshot c fn ip s) (\<lambda>_ w'. snap_refines s cl (view w')) w"
proof -
  note lost = snap_step.lost [of s cl]
  have bare: "snap_step cl s ((Status s)\<lparr>snst_Phase := SnapshotPhaseFailed\<rparr>)"
    using lost [of "snst_Conditions (Status s)"] ph by (cases "Status s") simp
  note taken = snap_step.taken [OF ph e]
  show ?thesis
    unfolding takeSnapshot_def snapshotFailed_def snapshotReady_def
    using assms(1-4) ph lost bare taken
    by (auto intro!: wp_Do wp_Now wp_snap_status [where cl = cl] split: sum.split option.split error.split)
qed

lemma wp_pollCreate:
  assumes "view w = cl" "cl_snapshots cl (key_of s) = Some s" "\<not> deleting s" "guarded s"
    and ph: "snst_Phase (Status s) = SnapshotPhaseCreating"
  shows "wp (pollCreate c fn s) (\<lambda>_ w'. snap_refines s cl (view w')) w"
  unfolding pollCreate_def wp_bind
proof (rule eng.wp_Get, goal_cases)
  case (1 e w1)
  then show ?case using assms by simp
next
  case (2 e w1)
  then have e: "sourceEngine cl s = Some e" "view w1 = cl" using assms(1) by (simp_all add: sourceEngine_def)
  show ?case
    unfolding sum.case wp_bind
  proof (rule wp_enginePodIP, goal_cases)
    case (1 ip err w2)
    show ?case
    proof (cases "err \<noteq> None \<or> ip = []")
      case True
      then show ?thesis using 1 e by auto
    next
      case False
      with 1 e obtain pr pod where "est_PodRef (Status e) = Some pr"
        "cl_pods cl (NN (pr_Namespace pr) (pr_Name pr)) = Some pod"
        "pst_Phase (Status pod) = PodRunning" "pst_PodIP (Status pod) \<noteq> []" by auto
      from wp_takeSnapshot [OF _ assms(2-5) e(1) this] show ?thesis using False 1 e by auto
    qed
  qed
qed

lemma wp_dropFile:
  assumes f: "factory_frame view factory" and "\<And>w'. view w' = view w \<Longrightarrow> Q () w'"
  shows "wp (dropFile factory s) Q w"
proof -
  have delete: "wp (ac_DeleteSnapshot a q) (\<lambda>_. Q ()) w1" if "agent_frame a view" "view w1 = view w" for a q w1
    by (rule agent_frame.wp_DeleteSnapshot [OF that(1)]) (use that(2) assms(2) in simp)
  show ?thesis
    using assms(2)
    by (auto simp: dropFile_def intro!: wp_factory [OF f] delete)
qed

text \<open>Deleting: without an error the finalizer is gone, and the object with it when it was the last one.\<close>

lemma wp_reconcileDelete:
  assumes f: "factory_frame view factory"
    and st: "view w = cl" "cl_snapshots cl (key_of s) = Some s" and del: "deleting s"
  shows "wp (reconcileDelete c factory s) (\<lambda>(res, err) w'. snap_refines s cl (view w')
      \<and> (err = None \<and> guarded s \<longrightarrow> cl_snapshots (view w') (key_of s) =
           kept (with_finalizers (removeString (om_Finalizers (Meta s)) SnapshotFinalizer) s))) w"
proof -
  have next_s: "snap_next cl s (kept (with_finalizers (removeString (om_Finalizers (Meta s)) SnapshotFinalizer) s))"
    if "guarded s" using that del by (simp add: snap_next_def)
  show ?thesis
    unfolding reconcileDelete_def wp_bind
    using st next_s
    by (auto intro!: wp_dropFile [OF f] wp_snap_finalizers [where cl = cl] snap_refinesI simp: guarded_def)
qed

lemma wp_SnapshotReconcile:
  assumes f: "factory_frame view factory"
    and s: "cl_snapshots (view w) req = Some s"
  shows "wp (SnapshotReconciler_Reconcile c factory fn req) (\<lambda>_ w'. snap_refines s (view w) (view w')) w"
  unfolding SnapshotReconciler_Reconcile_def wp_bind
proof (rule snap.wp_Get, goal_cases)
  case (1 e w1)
  then show ?case by simp
next
  case (2 s' w1)
  then have st: "s' = s" "view w1 = view w" "cl_snapshots (view w) (key_of s) = Some s" using s by auto
  have fin: "snap_next (view w) s (kept (with_finalizers (om_Finalizers (Meta s) @ [SnapshotFinalizer]) s))"
    if "\<not> deleting s" "\<not> guarded s"
    using that by (simp add: snap_next_def kept_def finalized_def with_finalizers_def deleting_def)
  note accept = snap_step.accept [of s "view w"]
  have del: "wp (reconcileDelete c factory s) (\<lambda>_ w'. snap_refines s (view w) (view w')) w1" if "deleting s"
    by (rule wp_mono [OF wp_reconcileDelete [OF f st(2,3) that]]) auto
  show ?case
    unfolding sum.case st(1)
    using st(2,3) fin del accept wp_startCreate [OF st(2,3)] wp_pollCreate [OF st(2,3)]
    by (auto intro!: wp_snap_finalizers [where cl = "view w"] wp_snap_status [where cl = "view w"] snap_refinesI
        simp: guarded_def deleting_def)
qed

lemma wp_SnapshotReconcile_deleting:
  assumes f: "factory_frame view factory"
    and s: "cl_snapshots (view w) req = Some s" and del: "deleting s" and g: "guarded s"
  shows "wp (SnapshotReconciler_Reconcile c factory fn req) (\<lambda>(res, err) w'. err = None \<longrightarrow>
      cl_snapshots (view w') req = kept (with_finalizers (removeString (om_Finalizers (Meta s)) SnapshotFinalizer) s)) w"
  unfolding SnapshotReconciler_Reconcile_def wp_bind
proof (rule snap.wp_Get, goal_cases)
  case (1 e w1)
  then show ?case using s by (auto simp: IgnoreNotFound_def)
next
  case (2 s' w1)
  then have st: "s' = s" "view w1 = view w" "cl_snapshots (view w) (key_of s) = Some s" "key_of s = req" using s by auto
  show ?case
    unfolding sum.case st(1)
    using wp_mono [OF wp_reconcileDelete [OF f st(2,3) del]] del g st(4) by (auto simp: deleting_def)
qed

end

section \<open>Properties\<close>

text \<open>
  C5: the reconciler of snapshots refines the specification \<open>snap_refines\<close>. It changes no
  object but the snapshot; a live snapshot first gets the finalizer, after that only its
  status changes, by one step of \<open>snap_step\<close>, which reaches \<^verbatim>\<open>Ready\<close> only from \<^verbatim>\<open>Creating\<close> with
  the engine's pod running; a snapshot that is being deleted only loses the finalizer.
\<close>

theorem snapshot_reconcile_refines:
  assumes client: "kube_client c view" and f: "factory_frame view factory"
    and run: "run_state (SnapshotReconciler_Reconcile c factory fn req) w = (r, w')"
    and s: "cl_snapshots (view w) req = Some s"
  shows "snap_refines s (view w) (view w')"
  using wp_run [OF kube_client.wp_SnapshotReconcile [OF client f s] run] .

text \<open>The phases a snapshot still has before it.\<close>

definition phases_left :: "SnapshotStatus \<Rightarrow> nat" where
  "phases_left st =
     (if snst_Phase st = [] then 3 else if snst_Phase st = SnapshotPhasePending then 2
      else if snst_Phase st = SnapshotPhaseCreating then 1 else 0)"

lemma snap_step_phases: "snap_step cl s st \<Longrightarrow> phases_left st < phases_left (Status s)"
  by (induction rule: snap_step.induct) (auto simp: phases_left_def)

lemma snap_next_status: "snap_next cl s (Some s') \<Longrightarrow> Status s' \<noteq> Status s \<Longrightarrow> snap_step cl s (Status s')"
  by (auto simp: snap_next_def kept_def with_finalizers_def split: if_splits)

text \<open>
  C21: the life of a snapshot terminates. Every reconciliation that changes the status of a
  snapshot takes it to a later phase, so its status changes at most three times, and a
  snapshot that is ready, failed or in an unknown phase keeps its status for good.
\<close>

theorem snapshot_phase_decreases:
  assumes client: "kube_client c view" and f: "factory_frame view factory"
    and run: "run_state (SnapshotReconciler_Reconcile c factory fn req) w = (r, w')"
    and s: "cl_snapshots (view w) req = Some s" and s': "cl_snapshots (view w') req = Some s'"
    and changed: "Status s' \<noteq> Status s"
  shows "phases_left (Status s') < phases_left (Status s)"
proof -
  have key: "key_of s = req" by (rule kube_resource.keyed [OF kube_client.axioms(4) [OF client] s])
  with wp_run [OF kube_client.wp_SnapshotReconcile [OF client f s] run] s s' changed
  have "snap_next (view w) s (Some s')" by (auto simp: snap_refines_def)
  from snap_step_phases [OF snap_next_status [OF this changed]] show ?thesis .
qed

text \<open>What other components rely on: a snapshot is ready to use exactly in the phase \<^verbatim>\<open>Ready\<close>.\<close>

definition snap_sound :: "Snapshot \<Rightarrow> bool" where
  "snap_sound s \<longleftrightarrow> snst_ReadyToUse (Status s) = (snst_Phase (Status s) = SnapshotPhaseReady)"

lemma snap_next_sound:
  assumes "snap_next cl s (Some s')" and "snap_sound s"
  shows "snap_sound s'"
proof (cases "Status s' = Status s")
  case True
  then show ?thesis using assms(2) by (simp add: snap_sound_def)
next
  case False
  from snap_next_status [OF assms(1) this] assms(2) show ?thesis
    by (cases rule: snap_step.cases) (auto simp: snap_sound_def)
qed

text \<open>
  \<open>ReadyToUse\<close> and the phase \<^verbatim>\<open>Ready\<close> never disagree. It holds of a snapshot as created,
  and every reconciliation of any snapshot keeps it for all of them.
\<close>

theorem snapshots_stay_sound:
  assumes client: "kube_client c view" and f: "factory_frame view factory"
    and run: "run_state (SnapshotReconciler_Reconcile c factory fn req) w = (r, w')"
    and s: "cl_snapshots (view w) req = Some s"
    and sound: "\<And>k x. cl_snapshots (view w) k = Some x \<Longrightarrow> snap_sound x"
    and x: "cl_snapshots (view w') k = Some x"
  shows "snap_sound x"
  using wp_run [OF kube_client.wp_SnapshotReconcile [OF client f s] run] sound [OF s] sound x
  by (auto simp: snap_refines_def split: if_splits dest: snap_next_sound)

text \<open>
  C22: a deleted snapshot goes away. When the reconciliation of a snapshot that is being
  deleted reports no error, the finalizer of the controller is gone, and the object with it
  unless another finalizer is left.
\<close>

theorem snapshot_released:
  assumes client: "kube_client c view" and f: "factory_frame view factory"
    and run: "run_state (SnapshotReconciler_Reconcile c factory fn req) w = ((res, None), w')"
    and s: "cl_snapshots (view w) req = Some s" and del: "deleting s" "guarded s"
  shows "cl_snapshots (view w') req =
     (if removeString (om_Finalizers (Meta s)) SnapshotFinalizer = [] then None
      else Some (with_finalizers (removeString (om_Finalizers (Meta s)) SnapshotFinalizer) s))"
  using wp_run [OF kube_client.wp_SnapshotReconcile_deleting [OF client f s del] run] del
  by (auto simp: kept_def finalized_def with_finalizers_def deleting_def)

section \<open>Samples\<close>

definition sampleSnapshot :: "string list \<Rightarrow> int option \<Rightarrow> SnapshotStatus \<Rightarrow> Snapshot" where
  "sampleSnapshot fins t st =
     \<lparr>Meta = (meta_for ''snap'' ''ns'')\<lparr>om_Finalizers := fins, om_DeletionTimestamp := t\<rparr>,
      Spec = \<lparr>sns_VolumeRef = ''vol'', sns_SnapshotID = ''snap''\<rparr>, Status = st\<rparr>"

definition snapReq :: NamespacedName where
  "snapReq = NN ''ns'' ''snap''"

definition snapEngine :: Engine where
  "snapEngine = (sampleEngine [] ''Running'')
     \<lparr>Status := zero_EngineStatus\<lparr>est_Phase := ''Running'',
        est_PodRef := Some \<lparr>pr_Name = ''vol-engine-pod'', pr_Namespace = ''ns''\<rparr>\<rparr>\<rparr>"

definition snapSample :: "Snapshot \<Rightarrow> mem" where
  "snapSample s = (sampleMem [] [snapEngine] [] [samplePod ''vol-engine-pod'' ''engine'' ''Running''])
     \<lparr>m_snapshots := [s]\<rparr>"

definition snapHttp :: "http_request \<Rightarrow> error + http_response" where
  "snapHttp q = Inr \<lparr>hr_StatusCode = 200, hr_Body = Some (encodeSnapshotResp
     \<lparr>sr_SnapshotPath = ''/var/lib/kdfs/vol/snapshot-snap.img'', sr_SizeBytes = 1024\<rparr>)\<rparr>"

definition snapIn :: "string \<Rightarrow> Snapshot" where
  "snapIn phase = sampleSnapshot [SnapshotFinalizer] None (zero_SnapshotStatus\<lparr>snst_Phase := phase\<rparr>)"

definition snapResult :: "Snapshot \<Rightarrow> (ctrl_Result \<times> error option) \<times> mem" where
  "snapResult s = run_state (SnapshotReconciler_Reconcile (mem_env snapHttp) (\<lambda>n. ret (Inr readyAgent)) None snapReq)
     (snapSample s)"

abbreviation snapRun :: "Snapshot \<Rightarrow> mem" where
  "snapRun s \<equiv> snd (snapResult s)"

lemma snapResult_run:
  "run_state (SnapshotReconciler_Reconcile (mem_env snapHttp) (\<lambda>n. ret (Inr readyAgent)) None snapReq) (snapSample s)
   = (fst (snapResult s), snapRun s)"
  by (simp add: snapResult_def)

lemma snapSample_snapshot:
  "cl_snapshots (mem_view (snapSample s)) k = (if k = key_of s then Some s else None)"
  by (simp add: mem_view_def snapSample_def sampleMem_def)

lemma key_of_sampleSnapshot [simp]: "key_of (sampleSnapshot fins t st) = snapReq"
  by (simp add: sampleSnapshot_def key_of_def meta_for_def snapReq_def)

lemma snapIn_stored: "cl_snapshots (mem_view (snapSample (snapIn ph))) snapReq = Some (snapIn ph)"
  by (simp add: snapSample_snapshot snapIn_def)

theorem snapshot_reconcile_refines_witness:
  "snap_refines (snapIn ''Creating'') (mem_view (snapSample (snapIn ''Creating''))) (mem_view (snapRun (snapIn ''Creating'')))"
  by (rule snapshot_reconcile_refines [where view = mem_view, OF kube_client_mem factory_frame_ready snapResult_run snapIn_stored])

theorem snapshot_phase_decreases_witness:
  "\<exists>s'. cl_snapshots (mem_view (snapRun (snapIn ''Creating''))) snapReq = Some s'
      \<and> phases_left (Status s') < phases_left (Status (snapIn ''Creating''))"
proof -
  have "map_option (\<lambda>s. snst_Phase (Status s)) (cl_snapshots (mem_view (snapRun (snapIn ''Creating''))) snapReq)
      = Some ''Ready''" by code_simp
  then obtain s' where s': "cl_snapshots (mem_view (snapRun (snapIn ''Creating''))) snapReq = Some s'"
    "snst_Phase (Status s') = ''Ready''" by auto
  have "Status s' \<noteq> Status (snapIn ''Creating'')"
    using s'(2) by (auto simp: snapIn_def sampleSnapshot_def)
  from snapshot_phase_decreases [where view = mem_view, OF kube_client_mem factory_frame_ready snapResult_run snapIn_stored
      s'(1) this]
  show ?thesis using s'(1) by blast
qed

theorem snapshots_stay_sound_witness:
  "\<exists>s'. cl_snapshots (mem_view (snapRun (snapIn ''Creating''))) snapReq = Some s' \<and> snap_sound s'"
proof -
  have "cl_snapshots (mem_view (snapRun (snapIn ''Creating''))) snapReq \<noteq> None" by code_simp
  then obtain s' where s': "cl_snapshots (mem_view (snapRun (snapIn ''Creating''))) snapReq = Some s'" by auto
  have sound: "snap_sound x" if "cl_snapshots (mem_view (snapSample (snapIn ''Creating''))) k = Some x" for k x
    using that by (auto simp: snapSample_snapshot snapIn_def snap_sound_def sampleSnapshot_def zero_SnapshotStatus_def
        split: if_splits)
  from snapshots_stay_sound [where view = mem_view, OF kube_client_mem factory_frame_ready snapResult_run snapIn_stored
      sound s']
  show ?thesis using s' by simp
qed

definition snapDeleted :: Snapshot where
  "snapDeleted = sampleSnapshot [SnapshotFinalizer] (Some 5) (zero_SnapshotStatus\<lparr>snst_Phase := ''Ready''\<rparr>)"

theorem snapshot_released_witness:
  "cl_snapshots (mem_view (snapRun snapDeleted)) snapReq = None"
proof -
  have "snd (fst (snapResult snapDeleted)) = None" by code_simp
  then have run: "run_state (SnapshotReconciler_Reconcile (mem_env snapHttp) (\<lambda>n. ret (Inr readyAgent)) None snapReq)
      (snapSample snapDeleted) = ((fst (fst (snapResult snapDeleted)), None), snapRun snapDeleted)"
    unfolding snapResult_run by (simp add: prod_eq_iff)
  have st: "cl_snapshots (mem_view (snapSample snapDeleted)) snapReq = Some snapDeleted"
    by (simp add: snapSample_snapshot snapDeleted_def)
  have "deleting snapDeleted" "guarded snapDeleted"
    by (simp_all add: snapDeleted_def sampleSnapshot_def deleting_def guarded_def)
  from snapshot_released [where view = mem_view, OF kube_client_mem factory_frame_ready run st this]
  show ?thesis by (simp add: snapDeleted_def sampleSnapshot_def removeString_def)
qed

text \<open>A server whose engines cannot be read.\<close>

definition enginesUnread :: "mem env \<Rightarrow> mem env" where
  "enginesUnread c = c\<lparr>engines := (engines c)\<lparr>r_Get := (\<lambda>k. ret (Inl (ServerError ''timeout'')))\<rparr>\<rparr>"

text \<open>
  One failed read condemns a snapshot. When the engine of a pending snapshot cannot be
  read for a passing reason, the snapshot is recorded as failed, with the condition
  \<^verbatim>\<open>SnapshotCreated\<close> set to true and the reason \<^verbatim>\<open>EngineNotFound\<close>; the error is returned for a
  retry, but a failed snapshot is never tried again.
\<close>

theorem snapshot_fails_on_read_error:
  "let r = run_state (SnapshotReconciler_Reconcile (enginesUnread (mem_env snapHttp)) (\<lambda>n. ret (Inr readyAgent)) None snapReq)
             (snapSample (snapIn ''Pending''));
       r' = run_state (SnapshotReconciler_Reconcile (mem_env snapHttp) (\<lambda>n. ret (Inr readyAgent)) None snapReq) (snd r)
   in snd (fst r) = Some (ServerError ''timeout'')
      \<and> map_option (\<lambda>s. (snst_Phase (Status s), is_true ''SnapshotCreated'' (snst_Conditions (Status s))))
          (cl_snapshots (mem_view (snd r)) snapReq) = Some (''Failed'', True)
      \<and> snd r' = snd r \<and> fst r' = (noRequeue, None)"
  by code_simp

end
