(* ===== verification/Go_OS.thy ===== *)
theory Go_OS
  imports Conditions
begin

text \<open>
  The operating system as the source uses it: paths (\<^verbatim>\<open>path/filepath\<close>) and files
  (\<^verbatim>\<open>os\<close>, \<^verbatim>\<open>unix\<close>). The calls are a record \<open>os\<close> over an unspecified world; the locale
  \<open>os_files\<close> states their documented effect on the contents of files, through a view of the
  world, and every call may fail with no effect on them. It is interpreted on an in-memory
  file system, on which the properties of file code are instantiated. Modes and owners are
  left out. On top of it: \<^verbatim>\<open>src/internal/reflink/reflink.go\<close>.
\<close>

section \<open>Paths\<close>

fun clean_parts :: "bool \<Rightarrow> string list \<Rightarrow> string list \<Rightarrow> string list" where
  "clean_parts rooted out [] = rev out"
| "clean_parts rooted out (p # ps) =
     (if p = [] \<or> p = ''.'' then clean_parts rooted out ps
      else if p = ''..''
      then (case out of
              [] \<Rightarrow> clean_parts rooted (if rooted then [] else [''..'']) ps
            | q # qs \<Rightarrow> if q = ''..'' then clean_parts rooted (''..'' # out) ps else clean_parts rooted qs ps)
      else clean_parts rooted (p # out) ps)"

definition Clean :: "string \<Rightarrow> string" where
  "Clean path =
     (let rooted = HasPrefix path ''/'';
          out = (if rooted then ''/'' else []) @ Join (clean_parts rooted [] (Split path ''/'')) ''/''
      in if out = [] then ''.'' else out)"

text \<open>The path up to and with its last slash.\<close>

definition dir_part :: "string \<Rightarrow> string" where
  "dir_part path = rev (dropWhile (\<lambda>c. c \<noteq> CHR ''/'') (rev path))"

definition Dir :: "string \<Rightarrow> string" where
  "Dir path = Clean (dir_part path)"

definition Join2 :: "string \<Rightarrow> string \<Rightarrow> string" where
  "Join2 a b = (if a = [] \<and> b = [] then [] else if a = [] then Clean b else Clean (a @ ''/'' @ b))"

section \<open>Files\<close>

datatype os_error = NotExist | Permission | Invalid | OsError string | Wrapped string os_error

record 'w os =
  os_Stat :: "string \<Rightarrow> ('w, os_error + int) state"
  os_MkdirAll :: "string \<Rightarrow> ('w, os_error option) state"
  os_OpenCreate :: "string \<Rightarrow> ('w, os_error option) state"
  os_CreateExcl :: "string \<Rightarrow> ('w, os_error option) state"
  os_OpenRead :: "string \<Rightarrow> ('w, os_error option) state"
  os_Truncate :: "string \<Rightarrow> int \<Rightarrow> ('w, os_error option) state"
  os_Remove :: "string \<Rightarrow> ('w, os_error option) state"
  os_RemoveAll :: "string \<Rightarrow> ('w, os_error option) state"
  os_FileClone :: "string \<Rightarrow> string \<Rightarrow> ('w, os_error option) state"
  os_Copy :: "string \<Rightarrow> string \<Rightarrow> ('w, os_error option) state"
  os_ReadFile :: "string \<Rightarrow> ('w, os_error + string) state"
  os_WriteFile :: "string \<Rightarrow> string \<Rightarrow> ('w, os_error option) state"
  os_ReadDir :: "string \<Rightarrow> ('w, os_error + string list) state"

text \<open>The content of a file cut or padded with zero bytes.\<close>

definition resized :: "nat \<Rightarrow> string \<Rightarrow> string" where
  "resized n s = take n s @ replicate (n - length s) (CHR 0x00)"

lemma length_resized [simp]: "length (resized n s) = n"
  by (simp add: resized_def)

lemma resized_same: "length s = n \<Longrightarrow> resized n s = s"
  by (simp add: resized_def)

text \<open>
  What the source does with files never depends on their content after a failure, so the laws
  are about success; \<open>os_CreateExcl\<close> is an open with \<^verbatim>\<open>O_CREAT|O_EXCL\<close>, \<open>os_OpenCreate\<close> one with
  \<^verbatim>\<open>O_CREATE\<close>, and a clone or copy writes into the file just opened, which may be left with
  part of the data when it fails.
\<close>

locale os_files =
  fixes os :: "'w os"
    and files :: "'w \<Rightarrow> string \<rightharpoonup> string"
  assumes stat_law: "run_state (os_Stat os p) w = (x, w') \<Longrightarrow> files w' = files w \<and>
      (case x of Inl e \<Rightarrow> e = NotExist \<longrightarrow> files w p = None
               | Inr n \<Rightarrow> \<exists>s. files w p = Some s \<and> n = int (length s))"
    and read_law: "run_state (os_OpenRead os p) w = (y, w') \<Longrightarrow> files w' = files w \<and> (y = None \<longrightarrow> files w p \<noteq> None)"
    and excl_law: "run_state (os_CreateExcl os p) w = (y, w') \<Longrightarrow>
      (if y = None then files w p = None \<and> files w' = (files w)(p \<mapsto> []) else files w' = files w)"
    and create_law: "run_state (os_OpenCreate os p) w = (y, w') \<Longrightarrow>
      (if y = None then files w' = (files w)(p \<mapsto> (case files w p of None \<Rightarrow> [] | Some s \<Rightarrow> s)) else files w' = files w)"
    and truncate_law: "run_state (os_Truncate os p n) w = (y, w') \<Longrightarrow>
      (if y = None then \<exists>s. files w p = Some s \<and> 0 \<le> n \<and> files w' = (files w)(p \<mapsto> resized (nat n) s)
       else files w' = files w)"
    and remove_law: "run_state (os_Remove os p) w = (y, w') \<Longrightarrow>
      (if y = None then files w' = (files w)(p := None) else files w' = files w \<and> (y = Some NotExist \<longrightarrow> files w p = None))"
    and clone_law: "run_state (os_FileClone os src dst) w = (y, w') \<Longrightarrow>
      (if y = None then files w' = (files w)(dst := files w src)
       else \<exists>s. files w' = (files w)(dst := s))"
    and copy_law: "run_state (os_Copy os src dst) w = (y, w') \<Longrightarrow>
      (if y = None then files w' = (files w)(dst := files w src)
       else \<exists>s. files w' = (files w)(dst := s))"
    and mkdir_law: "run_state (os_MkdirAll os p) w = (y, w') \<Longrightarrow> files w' = files w"
begin

lemma wp_Stat:
  assumes "\<And>e w'. files w' = files w \<Longrightarrow> (e = NotExist \<Longrightarrow> files w p = None) \<Longrightarrow> Q (Inl e) w'"
    and "\<And>s w'. files w' = files w \<Longrightarrow> files w p = Some s \<Longrightarrow> Q (Inr (int (length s))) w'"
  shows "wp (os_Stat os p) Q w"
proof (rule wp_of_run)
  fix x w' assume "run_state (os_Stat os p) w = (x, w')"
  from stat_law [OF this] show "Q x w'" using assms by (cases x) auto
qed

lemma wp_MkdirAll: "(\<And>y w'. files w' = files w \<Longrightarrow> Q y w') \<Longrightarrow> wp (os_MkdirAll os p) Q w"
  by (rule wp_of_run) (auto dest: mkdir_law)

lemma wp_OpenRead:
  assumes "\<And>e w'. files w' = files w \<Longrightarrow> Q (Some e) w'"
    and "\<And>w'. files w' = files w \<Longrightarrow> files w p \<noteq> None \<Longrightarrow> Q None w'"
  shows "wp (os_OpenRead os p) Q w"
proof (rule wp_of_run)
  fix y w' assume "run_state (os_OpenRead os p) w = (y, w')"
  from read_law [OF this] show "Q y w'" using assms by (cases y) auto
qed

lemma wp_CreateExcl:
  assumes "\<And>e w'. files w' = files w \<Longrightarrow> Q (Some e) w'"
    and "\<And>w'. files w p = None \<Longrightarrow> files w' = (files w)(p \<mapsto> []) \<Longrightarrow> Q None w'"
  shows "wp (os_CreateExcl os p) Q w"
proof (rule wp_of_run)
  fix y w' assume "run_state (os_CreateExcl os p) w = (y, w')"
  from excl_law [OF this] show "Q y w'" using assms by (cases y) auto
qed

lemma wp_OpenCreate:
  assumes "\<And>e w'. files w' = files w \<Longrightarrow> Q (Some e) w'"
    and "\<And>w'. files w' = (files w)(p \<mapsto> (case files w p of None \<Rightarrow> [] | Some s \<Rightarrow> s)) \<Longrightarrow> Q None w'"
  shows "wp (os_OpenCreate os p) Q w"
proof (rule wp_of_run)
  fix y w' assume "run_state (os_OpenCreate os p) w = (y, w')"
  from create_law [OF this] show "Q y w'" using assms by (cases y) auto
qed

lemma wp_Truncate:
  assumes "\<And>e w'. files w' = files w \<Longrightarrow> Q (Some e) w'"
    and "\<And>s w'. files w p = Some s \<Longrightarrow> 0 \<le> n \<Longrightarrow> files w' = (files w)(p \<mapsto> resized (nat n) s) \<Longrightarrow> Q None w'"
  shows "wp (os_Truncate os p n) Q w"
proof (rule wp_of_run)
  fix y w' assume "run_state (os_Truncate os p n) w = (y, w')"
  from truncate_law [OF this] show "Q y w'" using assms by (cases y) auto
qed

lemma wp_Remove:
  assumes "\<And>e w'. files w' = files w \<Longrightarrow> (e = NotExist \<Longrightarrow> files w p = None) \<Longrightarrow> Q (Some e) w'"
    and "\<And>w'. files w' = (files w)(p := None) \<Longrightarrow> Q None w'"
  shows "wp (os_Remove os p) Q w"
proof (rule wp_of_run)
  fix y w' assume "run_state (os_Remove os p) w = (y, w')"
  from remove_law [OF this] show "Q y w'" using assms by (cases y) auto
qed

lemma wp_FileClone:
  assumes "\<And>e s w'. files w' = (files w)(dst := s) \<Longrightarrow> Q (Some e) w'"
    and "\<And>w'. files w' = (files w)(dst := files w src) \<Longrightarrow> Q None w'"
  shows "wp (os_FileClone os src dst) Q w"
proof (rule wp_of_run)
  fix y w' assume "run_state (os_FileClone os src dst) w = (y, w')"
  from clone_law [OF this] show "Q y w'" using assms by (cases y) auto
qed

lemma wp_Copy:
  assumes "\<And>e s w'. files w' = (files w)(dst := s) \<Longrightarrow> Q (Some e) w'"
    and "\<And>w'. files w' = (files w)(dst := files w src) \<Longrightarrow> Q None w'"
  shows "wp (os_Copy os src dst) Q w"
proof (rule wp_of_run)
  fix y w' assume "run_state (os_Copy os src dst) w = (y, w')"
  from copy_law [OF this] show "Q y w'" using assms by (cases y) auto
qed

end

section \<open>An in-memory file system\<close>

type_synonym memfs = "(string \<times> string) list"

definition put_file :: "string \<Rightarrow> string \<Rightarrow> memfs \<Rightarrow> memfs" where
  "put_file p s w = (p, s) # filter (\<lambda>(q, _). q \<noteq> p) w"

definition drop_file :: "string \<Rightarrow> memfs \<Rightarrow> memfs" where
  "drop_file p w = filter (\<lambda>(q, _). q \<noteq> p) w"

definition with_file :: "string \<Rightarrow> memfs \<Rightarrow> (string \<Rightarrow> 'a option \<times> memfs) \<Rightarrow> 'a \<Rightarrow> 'a option \<times> memfs" where
  "with_file p w f e = (case map_of w p of None \<Rightarrow> (Some e, w) | Some s \<Rightarrow> f s)"

definition memfs_os :: "bool \<Rightarrow> memfs os" where
  "memfs_os clones =
     \<lparr>os_Stat = (\<lambda>p. State (\<lambda>w. (case map_of w p of None \<Rightarrow> Inl NotExist | Some s \<Rightarrow> Inr (int (length s)), w))),
      os_MkdirAll = (\<lambda>p. ret None),
      os_OpenCreate = (\<lambda>p. State (\<lambda>w. (None, put_file p (case map_of w p of None \<Rightarrow> [] | Some s \<Rightarrow> s) w))),
      os_CreateExcl = (\<lambda>p. State (\<lambda>w. if map_of w p = None then (None, put_file p [] w) else (Some (OsError ''file exists''), w))),
      os_OpenRead = (\<lambda>p. State (\<lambda>w. (if map_of w p = None then Some NotExist else None, w))),
      os_Truncate = (\<lambda>p n. State (\<lambda>w. with_file p w
        (\<lambda>s. if n < 0 then (Some (OsError ''invalid argument''), w) else (None, put_file p (resized (nat n) s) w)) NotExist)),
      os_Remove = (\<lambda>p. State (\<lambda>w. with_file p w (\<lambda>s. (None, drop_file p w)) NotExist)),
      os_RemoveAll = (\<lambda>p. State (\<lambda>w. (None, drop_file p w))),
      os_FileClone = (\<lambda>src dst. State (\<lambda>w.
        if clones then with_file src w (\<lambda>s. (None, put_file dst s w)) NotExist else (Some (OsError ''not supported''), w))),
      os_Copy = (\<lambda>src dst. State (\<lambda>w. with_file src w (\<lambda>s. (None, put_file dst s w)) NotExist)),
      os_ReadFile = (\<lambda>p. State (\<lambda>w. (case map_of w p of None \<Rightarrow> Inl NotExist | Some s \<Rightarrow> Inr s, w))),
      os_WriteFile = (\<lambda>p s. State (\<lambda>w. (None, put_file p s w))),
      os_ReadDir = (\<lambda>p. State (\<lambda>w. (Inr (map (\<lambda>(q, _). drop (length p + 1) q) (filter (\<lambda>(q, _). HasPrefix q (p @ ''/'')) w)), w)))\<rparr>"

lemma map_of_filter_key: "map_of (filter (\<lambda>(q, _). q \<noteq> p) w) = (map_of w)(p := None)"
  by (induction w) (auto simp: fun_eq_iff)

lemma map_of_put_file [simp]: "map_of (put_file p s w) = (map_of w)(p \<mapsto> s)"
  by (simp add: put_file_def map_of_filter_key)

lemma map_of_drop_file [simp]: "map_of (drop_file p w) = (map_of w)(p := None)"
  by (simp add: drop_file_def map_of_filter_key)

lemma map_of_same: "\<exists>s. map_of w = (map_of w)(p := s)"
  by (intro exI [of _ "map_of w p"]) simp

interpretation memfs: os_files "memfs_os clones" map_of for clones
  by unfold_locales
    (auto simp: memfs_os_def with_file_def State_Monad.return_def split: option.splits if_splits intro: map_of_same)

section \<open>Copying a file\<close>

definition CopyFile :: "'w os \<Rightarrow> string \<Rightarrow> string \<Rightarrow> ('w, os_error option) state" where
  "CopyFile os dstPath srcPath = do {
     r \<leftarrow> os_OpenRead os srcPath;
     case r of
       Some err \<Rightarrow> ret (Some err)
     | None \<Rightarrow> do {
         d \<leftarrow> os_OpenCreate os dstPath;
         case d of
           Some err \<Rightarrow> ret (Some err)
         | None \<Rightarrow> do {
             t \<leftarrow> os_Truncate os dstPath 0;
             case t of Some err \<Rightarrow> ret (Some err) | None \<Rightarrow> os_Copy os srcPath dstPath
           }
       }
   }"

definition FileOrCopy :: "'w os \<Rightarrow> string \<Rightarrow> string \<Rightarrow> ('w, os_error option) state" where
  "FileOrCopy os src dst = do {
     r \<leftarrow> os_OpenRead os src;
     case r of
       Some err \<Rightarrow> ret (Some err)
     | None \<Rightarrow> do {
         d \<leftarrow> os_CreateExcl os dst;
         case d of
           Some err \<Rightarrow> ret (Some err)
         | None \<Rightarrow> do {
             cl \<leftarrow> os_FileClone os src dst;
             case cl of
               None \<Rightarrow> ret None
             | Some _ \<Rightarrow> do {
                 _ \<leftarrow> os_Remove os dst;
                 CopyFile os dst src
               }
           }
       }
   }"

context os_files
begin

lemma wp_CopyFile:
  assumes "dst \<noteq> src"
    and "\<And>e w'. \<forall>q. q \<noteq> dst \<longrightarrow> files w' q = files w q \<Longrightarrow> Q (Some e) w'"
    and "\<And>w'. files w' = (files w)(dst := files w src) \<Longrightarrow> files w src \<noteq> None \<Longrightarrow> Q None w'"
  shows "wp (CopyFile os dst src) Q w"
  unfolding CopyFile_def wp_bind
  using assms(1)
  by (auto intro!: wp_OpenRead wp_OpenCreate wp_Truncate wp_Copy assms(2,3) split: option.splits)

text \<open>Both ways of copying give the same file; a failure touches nothing but a destination that was not there.\<close>

lemma wp_FileOrCopy:
  assumes fail: "\<And>e w'. \<forall>q. q \<noteq> dst \<or> files w dst \<noteq> None \<longrightarrow> files w' q = files w q \<Longrightarrow> Q (Some e) w'"
    and ok: "\<And>w'. files w dst = None \<Longrightarrow> files w src \<noteq> None \<Longrightarrow> files w' = (files w)(dst := files w src) \<Longrightarrow> Q None w'"
  shows "wp (FileOrCopy os src dst) Q w"
proof -
  have copy: "wp (CopyFile os dst src) Q w1"
    if "files w dst = None" "files w src \<noteq> None" "dst \<noteq> src" "\<forall>q. q \<noteq> dst \<longrightarrow> files w1 q = files w q" for w1
  proof (rule wp_CopyFile [OF that(3)], goal_cases)
    case (1 e w2)
    then show ?case using that by (auto intro!: fail)
  next
    case (2 w2)
    have "files w2 = (files w)(dst := files w src)" using 2 that(3,4) by (auto simp: fun_eq_iff)
    then show ?case using that by (auto intro: ok)
  qed
  show ?thesis
    unfolding FileOrCopy_def wp_bind
  proof (rule wp_OpenRead, goal_cases)
    case (1 e w1)
    then show ?case by (auto intro!: fail)
  next
    case (2 w1)
    then have src: "files w1 = files w" "files w src \<noteq> None" by auto
    show ?case
      unfolding option.case wp_bind
    proof (rule wp_CreateExcl, goal_cases)
      case (1 e w2)
      then show ?case using src by (auto intro!: fail)
    next
      case (2 w2)
      have ne: "dst \<noteq> src" using 2 src by auto
      have "wp (os_FileClone os src dst) (\<lambda>y w'. (y = None \<longrightarrow> files w' = (files w)(dst := files w src))
          \<and> (\<forall>q. q \<noteq> dst \<longrightarrow> files w' q = files w q)) w2"
        using 2 src ne by (auto intro!: wp_FileClone)
      then show ?case
        unfolding option.case wp_bind
        using 2 src ne by (elim wp_mono) (auto intro!: wp_Remove copy ok split: option.split)
    qed
  qed
qed

end

end
