(* ===== verification/Xfs.thy ===== *)
theory Xfs
  imports Go_OS
begin

text \<open>
  Formatting and mounting a device, \<^verbatim>\<open>src/internal/xfs/xfs.go\<close>. Running a program and mounting
  are parameters; a program answers with its output and an error.
\<close>

type_synonym 'w runner = "string \<Rightarrow> string list \<Rightarrow> ('w, string \<times> os_error option) state"

datatype xfs_error = MkfsFailed string os_error string | MountAfterMkfs string os_error

definition mkfsArgs :: "string \<Rightarrow> string list" where
  "mkfsArgs device =
     [''-f'', ''-s'', ''size=4096'', ''-m'', ''crc=0,finobt=0,rmapbt=0,reflink=0'',
      ''-i'', ''nrext64=0,maxpct=25'', ''-i'', ''bigtime=0,inobtcount=0'', device]"

definition Format :: "string \<Rightarrow> 'w runner \<Rightarrow> ('w, xfs_error option) state" where
  "Format device run = do {
     r \<leftarrow> run ''mkfs.xfs'' (mkfsArgs device);
     case r of
       (out, Some err) \<Rightarrow> ret (Some (MkfsFailed device err out))
     | (_, None) \<Rightarrow> ret None
   }"

definition EnsureMounted ::
  "string \<Rightarrow> ('w, os_error option) state \<Rightarrow> 'w runner \<Rightarrow> ('w, bool \<times> xfs_error option) state" where
  "EnsureMounted device mount run = do {
     m \<leftarrow> mount;
     case m of
       None \<Rightarrow> ret (False, None)
     | Some _ \<Rightarrow> do {
         f \<leftarrow> Format device run;
         case f of
           Some formatErr \<Rightarrow> ret (False, Some formatErr)
         | None \<Rightarrow> do {
             m \<leftarrow> mount;
             case m of
               Some mountErr \<Rightarrow> ret (True, Some (MountAfterMkfs device mountErr))
             | None \<Rightarrow> ret (True, None)
           }
       }
   }"

end
