(* ===== verification/Agent_Server.thy ===== *)
theory Agent_Server
  imports Xfs Agent_Client
begin

text \<open>
  The node agent: the server that creates and deletes backing files
  (\<^verbatim>\<open>src/internal/agent/server.go\<close>), its HTTP interface (\<^verbatim>\<open>src/cmd/node-agent/main.go\<close>) and the
  client the controllers use (\<^verbatim>\<open>src/internal/agent/http.go\<close>). A server's fields are functions
  that may be nil (\<open>None\<close>), for which the operating system is used: its file calls, the
  execution of programs and \<^verbatim>\<open>attachLoopDevice\<close>, which is in \<open>Loop_Device\<close>. The parser of
  quantities is a library's, and a parameter too.
\<close>

section \<open>The server\<close>

datatype agent_error =
    AgentOS os_error
  | ParseSize string
  | NegativeSize string
  | SnapshotRestore os_error
  | AgentFormat xfs_error

record 'w host =
  host_os :: "'w os"
  host_Exec :: "'w runner"
  host_Loop :: "string \<Rightarrow> ('w, os_error + string) state"

record 'w Server =
  sv_Runner :: "'w runner option"
  sv_MkdirAll :: "(string \<Rightarrow> ('w, os_error option) state) option"
  sv_TruncateFile :: "(string \<Rightarrow> int \<Rightarrow> ('w, os_error option) state) option"
  sv_AttachLoopDevice :: "(string \<Rightarrow> ('w, os_error + string) state) option"
  sv_RemoveFile :: "(string \<Rightarrow> ('w, os_error option) state) option"
  sv_StatFile :: "(string \<Rightarrow> ('w, os_error option) state) option"
  sv_CopyFile :: "(string \<Rightarrow> string \<Rightarrow> ('w, os_error option) state) option"

definition emptyServer :: "'w Server" where
  "emptyServer =
     \<lparr>sv_Runner = None, sv_MkdirAll = None, sv_TruncateFile = None, sv_AttachLoopDevice = None,
      sv_RemoveFile = None, sv_StatFile = None, sv_CopyFile = None\<rparr>"

definition server_runner :: "'w host \<Rightarrow> 'w Server \<Rightarrow> 'w runner" where
  "server_runner h s = (case sv_Runner s of None \<Rightarrow> host_Exec h | Some r \<Rightarrow> r)"

definition server_mkdirAll :: "'w host \<Rightarrow> 'w Server \<Rightarrow> string \<Rightarrow> ('w, os_error option) state" where
  "server_mkdirAll h s path =
     (case sv_MkdirAll s of Some f \<Rightarrow> f path | None \<Rightarrow> os_MkdirAll (host_os h) path)"

definition server_truncateFile :: "'w host \<Rightarrow> 'w Server \<Rightarrow> string \<Rightarrow> int \<Rightarrow> ('w, os_error option) state" where
  "server_truncateFile h s path bytes =
     (case sv_TruncateFile s of
        Some f \<Rightarrow> f path bytes
      | None \<Rightarrow> do {
          r \<leftarrow> os_OpenCreate (host_os h) path;
          case r of Some err \<Rightarrow> ret (Some err) | None \<Rightarrow> os_Truncate (host_os h) path bytes
        })"

definition server_attachLoopDevice :: "'w host \<Rightarrow> 'w Server \<Rightarrow> string \<Rightarrow> ('w, os_error + string) state" where
  "server_attachLoopDevice h s path =
     (case sv_AttachLoopDevice s of Some f \<Rightarrow> f path | None \<Rightarrow> host_Loop h path)"

definition server_removeFile :: "'w host \<Rightarrow> 'w Server \<Rightarrow> string \<Rightarrow> ('w, os_error option) state" where
  "server_removeFile h s path =
     (case sv_RemoveFile s of
        Some f \<Rightarrow> f path
      | None \<Rightarrow> do {
          r \<leftarrow> os_Remove (host_os h) path;
          case r of
            Some err \<Rightarrow> if err \<noteq> NotExist then ret (Some err) else ret None
          | None \<Rightarrow> ret None
        })"

definition server_statFile :: "'w host \<Rightarrow> 'w Server \<Rightarrow> string \<Rightarrow> ('w, os_error option) state" where
  "server_statFile h s path =
     (case sv_StatFile s of
        Some f \<Rightarrow> f path
      | None \<Rightarrow> do { r \<leftarrow> os_Stat (host_os h) path; ret (err_of r) })"

definition server_copyFile :: "'w host \<Rightarrow> 'w Server \<Rightarrow> string \<Rightarrow> string \<Rightarrow> ('w, os_error option) state" where
  "server_copyFile h s src dst =
     (case sv_CopyFile s of Some f \<Rightarrow> f src dst | None \<Rightarrow> FileOrCopy (host_os h) src dst)"

definition parseReplicaSize :: "(string \<Rightarrow> int option) \<Rightarrow> string \<Rightarrow> agent_error + int" where
  "parseReplicaSize ParseQuantity s =
     (case ParseQuantity s of
        None \<Rightarrow> Inl (ParseSize s)
      | Some value \<Rightarrow> if value < 0 then Inl (NegativeSize s) else Inr value)"

definition prepareFile ::
  "'w host \<Rightarrow> (string \<Rightarrow> int option) \<Rightarrow> 'w Server \<Rightarrow> CreateReplicaRequest \<Rightarrow> ('w, agent_error option) state" where
  "prepareFile h ParseQuantity s req =
     (if crq_SnapshotSource req \<noteq> []
      then do {
        _ \<leftarrow> server_removeFile h s (crq_Path req);
        r \<leftarrow> server_copyFile h s (crq_SnapshotSource req) (crq_Path req);
        ret (map_option SnapshotRestore r)
      }
      else case parseReplicaSize ParseQuantity (crq_Size req) of
        Inl err \<Rightarrow> ret (Some err)
      | Inr bytes \<Rightarrow> do {
          r \<leftarrow> server_truncateFile h s (crq_Path req) bytes;
          ret (map_option AgentOS r)
        })"

definition server_CreateReplica ::
  "'w host \<Rightarrow> (string \<Rightarrow> int option) \<Rightarrow> 'w Server \<Rightarrow> CreateReplicaRequest
   \<Rightarrow> ('w, agent_error + CreateReplicaResponse) state" where
  "server_CreateReplica h ParseQuantity s req = do {
     m \<leftarrow> server_mkdirAll h s (Dir (crq_Path req));
     case m of
       Some err \<Rightarrow> ret (Inl (AgentOS err))
     | None \<Rightarrow> do {
         p \<leftarrow> prepareFile h ParseQuantity s req;
         case p of
           Some err \<Rightarrow> ret (Inl err)
         | None \<Rightarrow> do {
             d \<leftarrow> server_attachLoopDevice h s (crq_Path req);
             case d of
               Inl err \<Rightarrow> ret (Inl (AgentOS err))
             | Inr device \<Rightarrow> do {
                 f \<leftarrow> Format device (server_runner h s);
                 case f of
                   Some err \<Rightarrow> ret (Inl (AgentFormat err))
                 | None \<Rightarrow> ret (Inr \<lparr>crs_DevicePath = device, crs_State = ReplicaStateReady\<rparr>)
               }
           }
       }
   }"

definition server_DeleteReplica :: "'w host \<Rightarrow> 'w Server \<Rightarrow> DeleteReplicaRequest \<Rightarrow> ('w, agent_error option) state" where
  "server_DeleteReplica h s req = do { r \<leftarrow> server_removeFile h s (drq_Path req); ret (map_option AgentOS r) }"

definition server_DeleteSnapshot :: "'w host \<Rightarrow> 'w Server \<Rightarrow> DeleteSnapshotRequest \<Rightarrow> ('w, agent_error option) state" where
  "server_DeleteSnapshot h s req = do { r \<leftarrow> server_removeFile h s (dsq_Path req); ret (map_option AgentOS r) }"

definition server_GetReplica :: "'w host \<Rightarrow> 'w Server \<Rightarrow> GetReplicaRequest \<Rightarrow> ('w, agent_error + GetReplicaResponse) state" where
  "server_GetReplica h s req = do {
     r \<leftarrow> server_statFile h s (grq_Path req);
     case r of
       Some _ \<Rightarrow> ret (Inr \<lparr>grs_State = ReplicaStateMissing, grs_Size = []\<rparr>)
     | None \<Rightarrow> ret (Inr \<lparr>grs_State = ReplicaStateReady, grs_Size = []\<rparr>)
   }"

section \<open>Requests and answers as JSON\<close>

definition encodeCreate :: "CreateReplicaRequest \<Rightarrow> json" where
  "encodeCreate q = JObj ([(''Path'', JStr (crq_Path q)), (''Size'', JStr (crq_Size q))]
     @ omitempty ''snapshotSource'' (crq_SnapshotSource q))"

definition decodeCreate :: "json \<Rightarrow> CreateReplicaRequest option" where
  "decodeCreate = as_struct (\<lambda>kvs. do {
     path \<leftarrow> field as_string ''Path'' [] kvs;
     sz \<leftarrow> field as_string ''Size'' [] kvs;
     source \<leftarrow> field as_string ''snapshotSource'' [] kvs;
     Some \<lparr>crq_Path = path, crq_Size = sz, crq_SnapshotSource = source\<rparr>
   })"

definition encodeCreated :: "CreateReplicaResponse \<Rightarrow> json" where
  "encodeCreated r = JObj [(''DevicePath'', JStr (crs_DevicePath r)), (''State'', JStr (crs_State r))]"

definition decodeCreated :: "json \<Rightarrow> CreateReplicaResponse option" where
  "decodeCreated = as_struct (\<lambda>kvs. do {
     device \<leftarrow> field as_string ''DevicePath'' [] kvs;
     st \<leftarrow> field as_string ''State'' [] kvs;
     Some \<lparr>crs_DevicePath = device, crs_State = st\<rparr>
   })"

definition encodeGot :: "GetReplicaResponse \<Rightarrow> json" where
  "encodeGot r = JObj [(''State'', JStr (grs_State r)), (''Size'', JStr (grs_Size r))]"

definition decodeGot :: "json \<Rightarrow> GetReplicaResponse option" where
  "decodeGot = as_struct (\<lambda>kvs. do {
     st \<leftarrow> field as_string ''State'' [] kvs;
     sz \<leftarrow> field as_string ''Size'' [] kvs;
     Some \<lparr>grs_State = st, grs_Size = sz\<rparr>
   })"

definition encodePath :: "string \<Rightarrow> string \<Rightarrow> json" where
  "encodePath key path = JObj [(key, JStr path)]"

definition decodePath :: "string \<Rightarrow> json \<Rightarrow> string option" where
  "decodePath key = as_struct (field as_string key [])"

interpretation create_requests: json_codec encodeCreate decodeCreate
  by unfold_locales (simp add: encodeCreate_def decodeCreate_def json_simps omitempty_def fold_eval)

interpretation create_answers: json_codec encodeCreated decodeCreated
  by unfold_locales (simp add: encodeCreated_def decodeCreated_def json_simps fold_eval)

interpretation get_answers: json_codec encodeGot decodeGot
  by unfold_locales (simp add: encodeGot_def decodeGot_def json_simps fold_eval)

interpretation paths: json_codec "encodePath key" "decodePath key" for key
  by unfold_locales (simp add: encodePath_def decodePath_def json_simps)

section \<open>The HTTP interface\<close>

record ('w, 'e) replicaServer =
  rv_CreateReplica :: "CreateReplicaRequest \<Rightarrow> ('w, 'e + CreateReplicaResponse) state"
  rv_DeleteReplica :: "DeleteReplicaRequest \<Rightarrow> ('w, 'e option) state"
  rv_GetReplica :: "GetReplicaRequest \<Rightarrow> ('w, 'e + GetReplicaResponse) state"
  rv_DeleteSnapshot :: "DeleteSnapshotRequest \<Rightarrow> ('w, 'e option) state"

definition newReplicaServer :: "'w host \<Rightarrow> (string \<Rightarrow> int option) \<Rightarrow> ('w, agent_error) replicaServer" where
  "newReplicaServer h ParseQuantity =
     \<lparr>rv_CreateReplica = server_CreateReplica h ParseQuantity emptyServer,
      rv_DeleteReplica = server_DeleteReplica h emptyServer,
      rv_GetReplica = server_GetReplica h emptyServer,
      rv_DeleteSnapshot = server_DeleteSnapshot h emptyServer\<rparr>"

definition reply :: "int \<Rightarrow> json option \<Rightarrow> http_response" where
  "reply code body = \<lparr>hr_StatusCode = code, hr_Body = body\<rparr>"

definition createReplicaHandler :: "('w, 'e) replicaServer \<Rightarrow> http_request \<Rightarrow> ('w, http_response) state" where
  "createReplicaHandler server r =
     (if hq_Method r \<noteq> ''POST'' then ret (reply 405 None)
      else case Option.bind (hq_Payload r) decodeCreate of
        None \<Rightarrow> ret (reply 400 None)
      | Some req \<Rightarrow> do {
          x \<leftarrow> rv_CreateReplica server req;
          case x of Inl _ \<Rightarrow> ret (reply 500 None) | Inr resp \<Rightarrow> ret (reply 200 (Some (encodeCreated resp)))
        })"

definition deleteReplicaHandler :: "('w, 'e) replicaServer \<Rightarrow> http_request \<Rightarrow> ('w, http_response) state" where
  "deleteReplicaHandler server r =
     (if hq_Method r \<noteq> ''POST'' then ret (reply 405 None)
      else case Option.bind (hq_Payload r) (decodePath ''Path'') of
        None \<Rightarrow> ret (reply 400 None)
      | Some path \<Rightarrow> do {
          x \<leftarrow> rv_DeleteReplica server (DeleteReplicaRequest path);
          case x of Some _ \<Rightarrow> ret (reply 500 None) | None \<Rightarrow> ret (reply 204 None)
        })"

definition deleteSnapshotHandler :: "('w, 'e) replicaServer \<Rightarrow> http_request \<Rightarrow> ('w, http_response) state" where
  "deleteSnapshotHandler server r =
     (if hq_Method r \<noteq> ''POST'' then ret (reply 405 None)
      else case Option.bind (hq_Payload r) (decodePath ''path'') of
        None \<Rightarrow> ret (reply 400 None)
      | Some path \<Rightarrow> do {
          x \<leftarrow> rv_DeleteSnapshot server (DeleteSnapshotRequest path);
          case x of Some _ \<Rightarrow> ret (reply 500 None) | None \<Rightarrow> ret (reply 204 None)
        })"

definition getReplicaHandler :: "('w, 'e) replicaServer \<Rightarrow> http_request \<Rightarrow> ('w, http_response) state" where
  "getReplicaHandler server r =
     (if hq_Method r \<noteq> ''POST'' then ret (reply 405 None)
      else case Option.bind (hq_Payload r) (decodePath ''Path'') of
        None \<Rightarrow> ret (reply 400 None)
      | Some path \<Rightarrow> do {
          x \<leftarrow> rv_GetReplica server (GetReplicaRequest path);
          case x of Inl _ \<Rightarrow> ret (reply 500 None) | Inr resp \<Rightarrow> ret (reply 200 (Some (encodeGot resp)))
        })"

definition agentHandler :: "('w, 'e) replicaServer \<Rightarrow> string \<Rightarrow> http_request \<Rightarrow> ('w, http_response) state" where
  "agentHandler server path r =
     (if path = ''/healthz'' then ret (reply 200 None)
      else if path = ''/replicas/create'' then createReplicaHandler server r
      else if path = ''/replicas/delete'' then deleteReplicaHandler server r
      else if path = ''/replicas/get'' then getReplicaHandler server r
      else if path = ''/snapshots/delete'' then deleteSnapshotHandler server r
      else ret (reply 404 None))"

section \<open>The client\<close>

type_synonym 'w transport = "http_request \<Rightarrow> ('w, error + http_response) state"

definition TrimRightSlash :: "string \<Rightarrow> string" where
  "TrimRightSlash s = rev (dropWhile (\<lambda>c. c = CHR ''/'') (rev s))"

definition doJSON :: "'w transport \<Rightarrow> string \<Rightarrow> string \<Rightarrow> json \<Rightarrow> (json \<Rightarrow> 'a option) \<Rightarrow> ('w, error + 'a) state" where
  "doJSON Do baseURL path reqBody dec = do {
     r \<leftarrow> Do \<lparr>hq_Method = ''POST'', hq_URL = baseURL @ path, hq_Payload = Some reqBody\<rparr>;
     case r of
       Inl err \<Rightarrow> ret (Inl (AgentPerform path err))
     | Inr resp \<Rightarrow>
         if hr_StatusCode resp < 200 \<or> hr_StatusCode resp \<ge> 300
         then ret (Inl (AgentStatus path (hr_StatusCode resp)))
         else case Option.bind (hr_Body resp) dec of
                None \<Rightarrow> ret (Inl (AgentDecode path))
              | Some x \<Rightarrow> ret (Inr x)
   }"

text \<open>The same call without a response to decode.\<close>

definition doJSON_nil :: "'w transport \<Rightarrow> string \<Rightarrow> string \<Rightarrow> json \<Rightarrow> ('w, error option) state" where
  "doJSON_nil Do baseURL path reqBody = do {
     r \<leftarrow> Do \<lparr>hq_Method = ''POST'', hq_URL = baseURL @ path, hq_Payload = Some reqBody\<rparr>;
     case r of
       Inl err \<Rightarrow> ret (Some (AgentPerform path err))
     | Inr resp \<Rightarrow>
         if hr_StatusCode resp < 200 \<or> hr_StatusCode resp \<ge> 300
         then ret (Some (AgentStatus path (hr_StatusCode resp)))
         else ret None
   }"

definition NewHTTPClient :: "'w transport \<Rightarrow> string \<Rightarrow> 'w agent_client" where
  "NewHTTPClient Do baseURL =
     (let base = TrimRightSlash baseURL in
      \<lparr>ac_CreateReplica = (\<lambda>req. doJSON Do base ''/replicas/create'' (encodeCreate req) decodeCreated),
       ac_DeleteReplica = (\<lambda>req. doJSON_nil Do base ''/replicas/delete'' (encodePath ''Path'' (drq_Path req))),
       ac_GetReplica = (\<lambda>req. doJSON Do base ''/replicas/get'' (encodePath ''Path'' (grq_Path req)) decodeGot),
       ac_DeleteSnapshot = (\<lambda>req. doJSON_nil Do base ''/snapshots/delete'' (encodePath ''path'' (dsq_Path req)))\<rparr>)"

section \<open>The client over HTTP is the server\<close>

text \<open>A transport that hands every request for \<open>baseURL\<close> to the server's handler.\<close>

definition servedAt :: "string \<Rightarrow> ('w, 'e) replicaServer \<Rightarrow> 'w transport" where
  "servedAt baseURL server r =
     (if HasPrefix (hq_URL r) baseURL
      then do { resp \<leftarrow> agentHandler server (drop (length baseURL) (hq_URL r)) r; ret (Inr resp) }
      else ret (Inl (InvalidURL (hq_URL r))))"

definition wired :: "string \<Rightarrow> 'e + 'a \<Rightarrow> error + 'a" where
  "wired path x = (case x of Inl _ \<Rightarrow> Inl (AgentStatus path 500) | Inr a \<Rightarrow> Inr a)"

definition remoteAgent :: "('w, 'e) replicaServer \<Rightarrow> 'w agent_client" where
  "remoteAgent server =
     \<lparr>ac_CreateReplica = (\<lambda>q. do { x \<leftarrow> rv_CreateReplica server q; ret (wired ''/replicas/create'' x) }),
      ac_DeleteReplica = (\<lambda>q. do {
        x \<leftarrow> rv_DeleteReplica server q; ret (map_option (\<lambda>_. AgentStatus ''/replicas/delete'' 500) x) }),
      ac_GetReplica = (\<lambda>q. do { x \<leftarrow> rv_GetReplica server q; ret (wired ''/replicas/get'' x) }),
      ac_DeleteSnapshot = (\<lambda>q. do {
        x \<leftarrow> rv_DeleteSnapshot server q; ret (map_option (\<lambda>_. AgentStatus ''/snapshots/delete'' 500) x) })\<rparr>"

lemma state_eqI: "(\<And>w. run_state m w = run_state n w) \<Longrightarrow> m = n"
  by (cases m; cases n) auto

lemmas handler_defs = servedAt_def agentHandler_def createReplicaHandler_def deleteReplicaHandler_def
  getReplicaHandler_def deleteSnapshotHandler_def reply_def

lemma run_bind: "run_state (State_Monad.bind m f) w = (case run_state m w of (a, w') \<Rightarrow> run_state (f a) w')"
  by (simp add: State_Monad.bind_def)

lemma run_ret: "run_state (ret a) w = (a, w)"
  by (simp add: State_Monad.return_def)

text \<open>
  C17: the protocol between the controllers and the node agents loses nothing. A client that
  talks over HTTP to an agent's handler behaves as the agent's server called directly: the
  same effect, the same answers, and the status 500 for its errors.
\<close>

theorem agent_over_http:
  assumes "TrimRightSlash baseURL = baseURL"
  shows "NewHTTPClient (servedAt baseURL server) baseURL = remoteAgent server"
proof -
  have "HasPrefix (baseURL @ path) baseURL" for path by (simp add: HasPrefix_def)
  then show ?thesis
    unfolding NewHTTPClient_def remoteAgent_def assms Let_def
    by (auto intro!: state_eqI simp: fun_eq_iff doJSON_def doJSON_nil_def handler_defs wired_def run_bind run_ret
        create_requests.decode_encode create_answers.decode_encode get_answers.decode_encode paths.decode_encode
        split: prod.split sum.split option.split)
qed

text \<open>The client over the controllers' own transport is an agent in the sense of \<open>agent_frame\<close>.\<close>

context kube_client
begin

lemma wp_doJSON:
  assumes "\<And>x w'. view w' = view w \<Longrightarrow> Q x w'"
  shows "wp (doJSON (http_Do c) base path q dec) Q w"
  using assms by (auto simp: doJSON_def intro!: wp_Do split: sum.split option.split)

lemma wp_doJSON_nil:
  assumes "\<And>x w'. view w' = view w \<Longrightarrow> Q x w'"
  shows "wp (doJSON_nil (http_Do c) base path q) Q w"
  using assms by (auto simp: doJSON_nil_def intro!: wp_Do split: sum.split)

lemma doJSON_frame: "run_state (doJSON (http_Do c) base path q dec) w = (x, w') \<Longrightarrow> view w' = view w"
  by (rule wp_run [OF wp_doJSON]) simp

lemma doJSON_nil_frame: "run_state (doJSON_nil (http_Do c) base path q) w = (y, w') \<Longrightarrow> view w' = view w"
  by (rule wp_run [OF wp_doJSON_nil]) simp

end

sublocale kube_client \<subseteq> http_agent: agent_frame "NewHTTPClient (http_Do c) baseURL" view for baseURL
  by unfold_locales
    (auto simp: NewHTTPClient_def Let_def dest: doJSON_frame doJSON_nil_frame)

section \<open>What creating a replica does to its file\<close>

text \<open>
  The law of the rest of the host: a loop device that is answered gives access to the file it was
  asked for, which is as it was. \<open>backing\<close> tells which file a device gives access to. Nothing is
  assumed of the programs the host runs: what matters is on what \<^verbatim>\<open>mkfs.xfs\<close> is run.
\<close>

locale agent_host = os_files "host_os h" files
  for h :: "'w host" and files :: "'w \<Rightarrow> string \<rightharpoonup> string" +
  fixes backing :: "'w \<Rightarrow> string \<rightharpoonup> string"
  assumes loop_law: "run_state (host_Loop h p) w = (Inr device, w') \<Longrightarrow>
      backing w' device = Some p \<and> files w' p = files w p"

text \<open>
  The last thing that happened is that \<^verbatim>\<open>mkfs.xfs -f\<close>, which overwrites a file system that is
  there, succeeded on a device that gave access to the file \<open>p\<close>, whose content was \<open>s\<close>.
\<close>

definition mkfs_last ::
  "'w host \<Rightarrow> ('w \<Rightarrow> string \<rightharpoonup> string) \<Rightarrow> ('w \<Rightarrow> string \<rightharpoonup> string) \<Rightarrow> string \<Rightarrow> string \<Rightarrow> 'w \<Rightarrow> bool" where
  "mkfs_last h files backing p s w' \<longleftrightarrow>
     (\<exists>w args out. ''-f'' \<in> set args \<and> args \<noteq> [] \<and> backing w (last args) = Some p \<and> files w p = Some s
        \<and> run_state (host_Exec h ''mkfs.xfs'' args) w = ((out, None), w'))"

lemma wp_Format:
  assumes "backing w device = Some p" and "files w p = Some s"
    and "\<And>w'. mkfs_last h files backing p s w' \<Longrightarrow> Q None w'"
    and "\<And>e w'. Q (Some e) w'"
  shows "wp (Format device (host_Exec h)) Q w"
proof -
  have args: "''-f'' \<in> set (mkfsArgs device)" "mkfsArgs device \<noteq> []" "last (mkfsArgs device) = device"
    by (simp_all add: mkfsArgs_def)
  have last_run: "mkfs_last h files backing p s w'" if "run_state (host_Exec h ''mkfs.xfs'' (mkfsArgs device)) w = ((out, None), w')"
    for out w'
    using that args assms(1,2) unfolding mkfs_last_def by metis
  show ?thesis
    unfolding Format_def wp_bind by (rule wp_of_run) (use last_run assms(3,4) in \<open>auto split: option.split prod.split\<close>)
qed

context agent_host
begin

lemma wp_Loop:
  assumes "\<And>e w'. Q (Inl e) w'"
    and "\<And>d w'. backing w' d = Some p \<Longrightarrow> files w' p = files w p \<Longrightarrow> Q (Inr d) w'"
  shows "wp (host_Loop h p) Q w"
proof (rule wp_of_run)
  fix x w' assume "run_state (host_Loop h p) w = (x, w')"
  then show "Q x w'" using assms loop_law by (cases x) auto
qed

text \<open>The file as prepared, before it is formatted: the snapshot, or what there was, cut or padded.\<close>

definition prepared :: "(string \<Rightarrow> int option) \<Rightarrow> CreateReplicaRequest \<Rightarrow> 'w \<Rightarrow> string \<Rightarrow> bool" where
  "prepared pq req w s \<longleftrightarrow>
     (if crq_SnapshotSource req \<noteq> []
      then crq_SnapshotSource req \<noteq> crq_Path req \<longrightarrow> files w (crq_SnapshotSource req) = Some s
      else \<exists>n. pq (crq_Size req) = Some n \<and> 0 \<le> n
             \<and> s = resized (nat n) (case files w (crq_Path req) of None \<Rightarrow> [] | Some old \<Rightarrow> old))"

lemma prepared_cong: "files w1 = files w \<Longrightarrow> prepared pq req w1 s = prepared pq req w s"
  by (simp add: prepared_def)

lemma wp_prepareFile:
  assumes ok: "\<And>s w'. files w' (crq_Path req) = Some s \<Longrightarrow> prepared pq req w s \<Longrightarrow> Q None w'"
    and fail: "\<And>e w'. Q (Some e) w'"
  shows "wp (prepareFile h pq emptyServer req) Q w"
proof (cases "crq_SnapshotSource req = []")
  case True
  have ok': "Q None w'" if "files w' (crq_Path req) \<noteq> None \<and> prepared pq req w (the (files w' (crq_Path req)))" for w'
    using that by (auto intro: ok)
  show ?thesis
    using True
    by (auto simp: prepareFile_def emptyServer_def server_truncateFile_def parseReplicaSize_def prepared_def
        intro!: wp_OpenCreate wp_Truncate ok' fail split: sum.split option.split)
next
  case False
  have copy: "wp (FileOrCopy (host_os h) (crq_SnapshotSource req) (crq_Path req))
      (\<lambda>r w'. Q (map_option SnapshotRestore r) w') w1"
    if "\<forall>q. q \<noteq> crq_Path req \<longrightarrow> files w1 q = files w q" for w1
  proof (rule wp_FileOrCopy, goal_cases)
    case (1 e w')
    then show ?case by (simp add: fail)
  next
    case (2 w')
    then obtain s where "files w1 (crq_SnapshotSource req) = Some s" by auto
    with 2 that False show ?case by (auto intro!: ok simp: prepared_def)
  qed
  show ?thesis
    using False
    by (auto simp: prepareFile_def emptyServer_def server_removeFile_def server_copyFile_def
        intro!: wp_Remove copy)
qed

lemma wp_server_CreateReplica:
  assumes ok: "\<And>s d w'. prepared pq req w s \<Longrightarrow> mkfs_last h files backing (crq_Path req) s w' \<Longrightarrow>
      Q (Inr \<lparr>crs_DevicePath = d, crs_State = ReplicaStateReady\<rparr>) w'"
    and fail: "\<And>e w'. Q (Inl e) w'"
  shows "wp (server_CreateReplica h pq emptyServer req) Q w"
proof -
  have format: "wp (Format d (host_Exec h)) (\<lambda>f w'. Q (case f of None \<Rightarrow> Inr \<lparr>crs_DevicePath = d, crs_State = ReplicaStateReady\<rparr>
      | Some err \<Rightarrow> Inl (AgentFormat err)) w') w1"
    if "prepared pq req w s" "files w1 (crq_Path req) = Some s" "backing w1 d = Some (crq_Path req)" for s d w1
    using that by (auto intro!: wp_Format [where p = "crq_Path req"] ok [OF that(1), unfolded ReplicaStateReady_def] fail)
  have attach: "wp (host_Loop h (crq_Path req)) (\<lambda>d. wp (case d of
        Inl err \<Rightarrow> ret (Inl (AgentOS err))
      | Inr device \<Rightarrow> do {
          f \<leftarrow> Format device (host_Exec h);
          case f of
            Some err \<Rightarrow> ret (Inl (AgentFormat err))
          | None \<Rightarrow> ret (Inr \<lparr>crs_DevicePath = device, crs_State = ReplicaStateReady\<rparr>)
        }) Q) w1"
    if "prepared pq req w s" "files w1 (crq_Path req) = Some s" for s w1
  proof (rule wp_Loop, goal_cases)
    case (1 e w')
    then show ?case by (simp add: fail)
  next
    case (2 d w')
    then have "files w' (crq_Path req) = Some s" using that by simp
    from format [OF that(1) this 2(1)] show ?case
      by (auto elim!: wp_mono split: option.splits)
  qed
  show ?thesis
    unfolding server_CreateReplica_def wp_bind
  proof (simp only: server_mkdirAll_def, simp add: emptyServer_def, rule wp_MkdirAll, goal_cases)
    case (1 y w1)
    show ?case
    proof (cases y)
      case None
      show ?thesis
        unfolding None option.case wp_bind
      proof (rule wp_prepareFile, goal_cases)
        case (1 s w2)
        then show ?case
          using attach [of s w2] prepared_cong [OF \<open>files w1 = files w\<close>]
          by (simp add: server_attachLoopDevice_def server_runner_def emptyServer_def del: ReplicaStateReady_def)
      next
        case (2 e w2)
        then show ?case by (simp add: fail)
      qed
    next
      case (Some e)
      then show ?thesis by (simp add: fail)
    qed
  qed
qed

end

section \<open>An in-memory node\<close>

text \<open>
  A node whose only loop device is a file that names what it gives access to, and whose
  \<^verbatim>\<open>mkfs.xfs\<close> writes zero bytes.
\<close>

definition blank :: "nat \<Rightarrow> string" where
  "blank n = replicate n (CHR 0x00)"

definition loop0 :: string where
  "loop0 = ''/dev/loop0''"

definition memHost :: "memfs host" where
  "memHost =
     \<lparr>host_os = memfs_os True,
      host_Exec = (\<lambda>cmd args. State (\<lambda>w. case map_of w (last args) of
        None \<Rightarrow> (([], Some NotExist), w)
      | Some p \<Rightarrow> (case map_of w p of
            None \<Rightarrow> (([], Some NotExist), w)
          | Some s \<Rightarrow> (([], None), put_file p (blank (length s)) w)))),
      host_Loop = (\<lambda>p. State (\<lambda>w.
        if p = loop0 then (Inl (OsError ''busy''), w) else (Inr loop0, put_file loop0 p w)))\<rparr>"

definition memBacking :: "memfs \<Rightarrow> string \<rightharpoonup> string" where
  "memBacking w d = map_of w d"

interpretation mem_host: agent_host memHost map_of memBacking
proof (intro agent_host.intro agent_host_axioms.intro)
  show "os_files (host_os memHost) map_of" by (simp add: memHost_def memfs.os_files_axioms)
  show "memBacking w' device = Some p \<and> map_of w' p = map_of w p"
    if "run_state (host_Loop memHost p) w = (Inr device, w')" for p w device w'
    using that by (auto simp: memHost_def memBacking_def split: if_splits)
qed

theorem agent_over_http_witness:
  "NewHTTPClient (servedAt ''http://10.0.0.9:9808'' (newReplicaServer memHost (\<lambda>s. Some 4))) ''http://10.0.0.9:9808''
   = remoteAgent (newReplicaServer memHost (\<lambda>s. Some 4))"
  by (rule agent_over_http) (simp add: TrimRightSlash_def)

section \<open>Properties\<close>

text \<open>
  Creating a replica from a snapshot formats the copy like a new file. When the agent reports
  the replica as created, the last thing it did was to run \<^verbatim>\<open>mkfs.xfs -f\<close> over the copy.
\<close>

theorem restore_is_formatted:
  assumes host: "agent_host h files backing"
    and run: "run_state (server_CreateReplica h pq emptyServer req) w = (Inr resp, w')"
    and src: "crq_SnapshotSource req \<noteq> []" "crq_SnapshotSource req \<noteq> crq_Path req"
  shows "\<exists>s. files w (crq_SnapshotSource req) = Some s \<and> mkfs_last h files backing (crq_Path req) s w'"
proof -
  have "wp (server_CreateReplica h pq emptyServer req) (\<lambda>x w'. \<forall>resp. x = Inr resp \<longrightarrow>
      (\<exists>s. files w (crq_SnapshotSource req) = Some s \<and> mkfs_last h files backing (crq_Path req) s w')) w"
    by (rule agent_host.wp_server_CreateReplica [OF host])
      (use src in \<open>auto simp: agent_host.prepared_def [OF host]\<close>)
  from wp_run [OF this run] show ?thesis by simp
qed

definition restoreReq :: CreateReplicaRequest where
  "restoreReq = \<lparr>crq_Path = ''/k/new/vol.img'', crq_Size = ''4'', crq_SnapshotSource = ''/k/old/snapshot-s.img''\<rparr>"

definition restoreFiles :: memfs where
  "restoreFiles = [(''/k/old/snapshot-s.img'', ''DATA'')]"

theorem restore_is_formatted_witness:
  "let w' = snd (run_state (server_CreateReplica memHost (\<lambda>s. Some 4) emptyServer restoreReq) restoreFiles)
   in mkfs_last memHost map_of memBacking ''/k/new/vol.img'' ''DATA'' w' \<and> map_of w' ''/k/new/vol.img'' = Some (blank 4)"
proof -
  let ?r = "run_state (server_CreateReplica memHost (\<lambda>s. Some 4) emptyServer restoreReq) restoreFiles"
  have "fst ?r = Inr \<lparr>crs_DevicePath = loop0, crs_State = ReplicaStateReady\<rparr>" by code_simp
  then have run: "?r = (Inr \<lparr>crs_DevicePath = loop0, crs_State = ReplicaStateReady\<rparr>, snd ?r)" by (simp add: prod_eq_iff)
  have "map_of (snd ?r) ''/k/new/vol.img'' = Some (blank 4)" by code_simp
  with restore_is_formatted [where files = map_of, OF mem_host.agent_host_axioms run]
  show ?thesis by (auto simp: restoreReq_def restoreFiles_def)
qed


definition recreateReq :: CreateReplicaRequest where
  "recreateReq = \<lparr>crq_Path = ''/k/v/vol.img'', crq_Size = ''4'', crq_SnapshotSource = []\<rparr>"


end
