(* ===== verification/Manager.thy ===== *)
theory Manager
  imports Agent_Server Network_Policy Pod_Templates
begin

text \<open>
  What the programs do before and around their services: the controller manager
  (\<^verbatim>\<open>src/cmd/controller-manager/main.go\<close>) keeps a config map, finds the agent of a node and
  takes the images of its pods from the environment; the CSI plugin
  (\<^verbatim>\<open>src/cmd/csi-plugin/main.go\<close>) parses the endpoint it serves. Environment variables are
  arguments, empty when unset.
\<close>

section \<open>The configuration of the cluster\<close>

definition kdfsNamespace :: string where "kdfsNamespace = ''kdfs''"
definition kdfsConfigMapName :: string where "kdfsConfigMapName = ''kdfs-config''"
definition nqnAuthorityKey :: string where "nqnAuthorityKey = ''nqnAuthority''"
definition networkPolicyKey :: string where "networkPolicyKey = ''networkPolicy''"

definition encodePolicy :: "Policy \<Rightarrow> json" where
  "encodePolicy p = JObj (omitempty ''bindAddress'' (po_BindAddress p) @ omitempty ''advertiseAddress'' (po_AdvertiseAddress p)
     @ omitempty ''port'' (po_Port p) @ omitempty ''preferredFamily'' (po_PreferredFamily p))"

definition encodePolicies :: "RolePolicies \<Rightarrow> json" where
  "encodePolicies ps =
     JObj [(''default'', encodePolicy (rp_Default ps)), (''engine'', encodePolicy (rp_Engine ps)),
           (''replica'', encodePolicy (rp_Replica ps))]"

definition defaultPolicies :: RolePolicies where
  "defaultPolicies =
     \<lparr>rp_Default = \<lparr>po_BindAddress = ''podIP'', po_AdvertiseAddress = ''podIP'', po_Port = [], po_PreferredFamily = FamilyAuto\<rparr>,
      rp_Engine = \<lparr>po_BindAddress = [], po_AdvertiseAddress = [], po_Port = ''4420'', po_PreferredFamily = []\<rparr>,
      rp_Replica = \<lparr>po_BindAddress = [], po_AdvertiseAddress = [], po_Port = ''4421'', po_PreferredFamily = []\<rparr>\<rparr>"

definition defaultNetworkPolicyJSON :: string where
  "defaultNetworkPolicyJSON = json_text (encodePolicies defaultPolicies)"

text \<open>A config map; its data may be nil.\<close>

type_synonym ConfigMap = "(smap option, unit) kobj"

definition newConfigMap :: "string \<Rightarrow> ConfigMap" where
  "newConfigMap namespace =
     \<lparr>Meta = meta_for kdfsConfigMapName namespace,
      Spec = Some [(nqnAuthorityKey, defaultNQNAuthority), (networkPolicyKey, defaultNetworkPolicyJSON)],
      Status = ()\<rparr>"

definition default_at :: "string \<Rightarrow> string \<Rightarrow> smap \<times> bool \<Rightarrow> smap \<times> bool" where
  "default_at k v = (\<lambda>(data, updated'). if TrimSpace (lookup_str data k) = [] then (put_str k v data, True) else (data, updated'))"

definition completed :: "smap \<Rightarrow> smap \<times> bool" where
  "completed data =
     default_at networkPolicyKey defaultNetworkPolicyJSON (default_at nqnAuthorityKey defaultNQNAuthority (data, False))"

definition ensureNQNConfig :: "('w, smap option, unit) resource \<Rightarrow> string \<Rightarrow> ('w, error option) state" where
  "ensureNQNConfig cms namespace = do {
     g \<leftarrow> r_Get cms (NN namespace kdfsConfigMapName);
     case g of
       Inl err \<Rightarrow>
         if \<not> IsNotFound err then ret (Some err)
         else do {
           r \<leftarrow> r_Create cms (newConfigMap namespace);
           ret (err_of r)
         }
     | Inr cm \<Rightarrow>
         (case completed (case Spec cm of None \<Rightarrow> [] | Some data \<Rightarrow> data) of (data, updated') \<Rightarrow>
            if \<not> updated' then ret None
            else do {
              u \<leftarrow> r_Update cms (cm\<lparr>Spec := Some data\<rparr>);
              ret (err_of u)
            })
   }"

definition runtimeNamespace :: "string \<Rightarrow> 'e + string \<Rightarrow> string" where
  "runtimeNamespace podNamespace serviceAccount =
     (if TrimSpace podNamespace \<noteq> [] then TrimSpace podNamespace
      else case serviceAccount of
        Inr data \<Rightarrow> if TrimSpace data \<noteq> [] then TrimSpace data else kdfsNamespace
      | Inl _ \<Rightarrow> kdfsNamespace)"

definition configureControllerPodImages :: "string \<Rightarrow> string \<Rightarrow> string \<Rightarrow> Images \<Rightarrow> Images" where
  "configureControllerPodImages spdk sidecar nfs images =
     (let images = (if TrimSpace spdk \<noteq> [] then images\<lparr>im_SPDK := TrimSpace spdk\<rparr> else images);
          images = (if TrimSpace sidecar \<noteq> [] then images\<lparr>im_Sidecar := TrimSpace sidecar\<rparr> else images)
      in if TrimSpace nfs \<noteq> [] then images\<lparr>im_NFSSidecar := TrimSpace nfs\<rparr> else images)"

section \<open>The agents of the nodes\<close>

definition isNodeAgent :: "string \<Rightarrow> Pod \<Rightarrow> bool" where
  "isNodeAgent nodeName pod \<longleftrightarrow>
     lookup_str (om_Labels (Meta pod)) ''app'' = ''kdfs-node-agent'' \<and> ps_NodeName (Spec pod) = nodeName
     \<and> \<not> (pst_Phase (Status pod) \<noteq> PodRunning \<or> TrimSpace (pst_PodIP (Status pod)) = [])"

definition nodeAgentBaseURL :: "'w env \<Rightarrow> string \<Rightarrow> string \<Rightarrow> ('w, error + string) state" where
  "nodeAgentBaseURL c namespace nodeName = do {
     l \<leftarrow> r_List (pods c) (Some namespace) [];
     ret (case l of
            Inl err \<Rightarrow> Inl err
          | Inr items \<Rightarrow>
              (case find (isNodeAgent nodeName) items of
                 Some pod \<Rightarrow> Inr (HTTPURL ''http'' (pst_PodIP (Status pod)) ''9808'' [])
               | None \<Rightarrow> Inl (AgentNotFound nodeName)))
   }"

definition replicaAgentFactory :: "'w env \<Rightarrow> string \<Rightarrow> 'w agent_factory" where
  "replicaAgentFactory c namespace nodeName = do {
     u \<leftarrow> nodeAgentBaseURL c namespace nodeName;
     ret (map_sum id (NewHTTPClient (http_Do c)) u)
   }"

text \<open>Reaching an agent and calling it leaves the objects of the cluster alone.\<close>

context kube_client
begin

lemma factory_frame_replicaAgent: "factory_frame view (replicaAgentFactory c ns)"
proof -
  have "wp (replicaAgentFactory c ns n) (\<lambda>x w'. view w' = view w \<and> (\<forall>a. x = Inr a \<longrightarrow> agent_frame a view)) w" for n w
    unfolding replicaAgentFactory_def nodeAgentBaseURL_def
    by (auto intro!: pod.wp_List http_agent.agent_frame_axioms split: option.split_asm)
  then show ?thesis unfolding factory_frame_def by (blast dest: wp_run)
qed

end

section \<open>The address the CSI plugin serves\<close>

text \<open>The scheme and the address; \<open>None\<close> is the panic of slicing beyond the end.\<close>

definition parseEndpoint :: "string \<Rightarrow> (string \<times> string) option" where
  "parseEndpoint ep =
     (if length ep \<ge> 6 \<and> length ep < 7 then None
      else if length ep \<ge> 6 \<and> take 7 ep = ''unix://'' then Some (''unix'', drop 7 ep)
      else if length ep \<ge> 5 \<and> take 5 ep = ''tcp://'' then Some (''tcp'', drop 5 ep)
      else Some ([], []))"

section \<open>Properties\<close>

text \<open>A config map in which both keys are set, and what was set before is unchanged.\<close>

definition configured_map :: "ConfigMap option \<Rightarrow> ConfigMap \<Rightarrow> bool" where
  "configured_map old cm \<longleftrightarrow>
     (\<exists>data. Spec cm = Some data
        \<and> TrimSpace (lookup_str data nqnAuthorityKey) \<noteq> [] \<and> TrimSpace (lookup_str data networkPolicyKey) \<noteq> []
        \<and> (\<forall>o' k. old = Some o' \<longrightarrow> TrimSpace (lookup_str (case Spec o' of None \<Rightarrow> [] | Some d \<Rightarrow> d) k) \<noteq> [] \<longrightarrow>
             lookup_str data k = lookup_str (case Spec o' of None \<Rightarrow> [] | Some d \<Rightarrow> d) k))"

lemma defaults_set [simp]: "TrimSpace defaultNQNAuthority \<noteq> []" "TrimSpace defaultNetworkPolicyJSON \<noteq> []"
  by code_simp+

lemma completed_sets:
  assumes "completed data = (data', u)"
  shows "TrimSpace (lookup_str data' nqnAuthorityKey) \<noteq> []" "TrimSpace (lookup_str data' networkPolicyKey) \<noteq> []"
    "TrimSpace (lookup_str data k) \<noteq> [] \<Longrightarrow> lookup_str data' k = lookup_str data k" "\<not> u \<Longrightarrow> data' = data"
  using assms
  by (auto simp: completed_def default_at_def nqnAuthorityKey_def networkPolicyKey_def split: if_splits)

lemma configured_mapI:
  assumes "completed (case Spec o' of None \<Rightarrow> [] | Some d \<Rightarrow> d) = (data, u)" "Spec cm = Some data"
  shows "configured_map (Some o') cm"
  using assms completed_sets [OF assms(1)] by (auto simp: configured_map_def)

lemma configured_map_new: "created (newConfigMap ns) s \<Longrightarrow> configured_map None s"
  by (simp add: configured_map_def created_def newConfigMap_def lookup_str_def nqnAuthorityKey_def networkPolicyKey_def)

lemma completed_None: "completed [] = (data, u) \<Longrightarrow> u"
  by (auto simp: completed_def default_at_def lookup_str_def TrimSpace_def split: if_splits)

locale config_maps = kube_resource cms view sel upd fresh
  for cms :: "('w, smap option, unit) resource" and view :: "'w \<Rightarrow> 'c"
    and sel :: "'c \<Rightarrow> NamespacedName \<rightharpoonup> ConfigMap"
    and upd :: "((NamespacedName \<rightharpoonup> ConfigMap) \<Rightarrow> NamespacedName \<rightharpoonup> ConfigMap) \<Rightarrow> 'c \<Rightarrow> 'c"
    and fresh :: "unit \<Rightarrow> bool"
begin

lemma wp_ensureNQNConfig:
  fixes ns
  defines "k \<equiv> NN ns kdfsConfigMapName"
  assumes live: "\<And>x. sel (view w) k = Some x \<Longrightarrow> \<not> finalized x"
    and conf: "\<And>w' cm. sel (view w') k = Some cm \<Longrightarrow> configured_map (sel (view w) k) cm \<Longrightarrow> Q None w'"
    and fail: "\<And>e w'. Q (Some e) w'"
  shows "wp (ensureNQNConfig cms ns) Q w"
  unfolding ensureNQNConfig_def wp_bind
proof (rule wp_Get, goal_cases)
  case (1 e w1)
  have key: "key_of (newConfigMap ns) = k" by (simp add: newConfigMap_def key_of_def meta_for_def k_def)
  have "Q None w2" if "sel (view w) k = None" "created (newConfigMap ns) s" "sel (view w2) k = Some s" for s w2
    using that by (intro conf) (auto intro: configured_map_new)
  then show ?case using 1 by (auto intro!: wp_Create fail simp: key sel_upd k_def)
next
  case (2 cm w1)
  obtain data u where d: "completed (case Spec cm of None \<Rightarrow> [] | Some d \<Rightarrow> d) = (data, u)" by fastforce
  have cm: "sel (view w1) k = Some cm" "sel (view w) k = Some cm" "key_of cm = k" using 2 by (simp_all add: k_def)
  have same: "Q None w1" if "\<not> u"
  proof (rule conf)
    have "Spec cm \<noteq> None" using d that by (cases "Spec cm") (auto dest: completed_None)
    then have "Spec cm = Some data" using completed_sets(4) [OF d that] by auto
    with d show "configured_map (sel (view w) k) cm" unfolding cm(2) by (rule configured_mapI)
  qed (rule cm)
  have changed: "Q None w2" if "view w2 = upd (\<lambda>m. m(k := kept (updated cm (cm\<lparr>Spec := Some data\<rparr>)))) (view w1)" for w2
  proof (rule conf)
    have "\<not> finalized (updated cm (cm\<lparr>Spec := Some data\<rparr>))"
      using live [OF cm(2)] by (simp add: finalized_def updated_def)
    then show "sel (view w2) k = Some (updated cm (cm\<lparr>Spec := Some data\<rparr>))"
      by (simp add: that sel_upd kept_def)
    show "configured_map (sel (view w) k) (updated cm (cm\<lparr>Spec := Some data\<rparr>))"
      unfolding cm(2) by (rule configured_mapI [OF d]) simp
  qed
  have "key_of (cm\<lparr>Spec := Some data\<rparr>) = k" using cm(3) by (simp add: key_of_def)
  then show ?case
    using cm(1) d same by (cases u) (auto intro!: wp_Update fail changed)
qed

end

section \<open>Config maps in memory\<close>

definition cm_resource :: "(ConfigMap list, smap option, unit) resource" where
  "cm_resource =
     \<lparr>r_Get = (\<lambda>k. State (\<lambda>w. (case at_key w k of None \<Rightarrow> Inl NotFound | Some o' \<Rightarrow> Inr o', w))),
      r_List = (\<lambda>ns ls. State (\<lambda>w. (Inr (stored_list ns ls w), w))),
      r_Create = (\<lambda>o'. State (\<lambda>w. if at_key w (key_of o') \<noteq> None then (Inl AlreadyExists, w) else (Inr o', w @ [o']))),
      r_Update = (\<lambda>o'. State (\<lambda>w.
        case at_key w (key_of o') of None \<Rightarrow> (Inl NotFound, w) | Some old \<Rightarrow> (Inr (updated old o'), put_kept (updated old o') w))),
      r_StatusUpdate = (\<lambda>o'. State (\<lambda>w. case at_key w (key_of o') of None \<Rightarrow> (Inl NotFound, w) | Some old \<Rightarrow> (Inl Conflict, w))),
      r_Delete = (\<lambda>k. State (\<lambda>w. (Inl Conflict, w)))\<rparr>"

lemma created_self: "created o' o'"
  by (auto simp: created_def intro!: exI [of _ "om_UID (Meta o')"])

interpretation mem_cms: config_maps cm_resource "\<lambda>w. at_key w" "\<lambda>m. m" "\<lambda>f. f" "\<lambda>_. True"
proof
  show "at_key w' = at_key w \<and> (case xs of Inl e \<Rightarrow> True
     | Inr os \<Rightarrow> distinct (map key_of os) \<and> set os = {o'. at_key w (key_of o') = Some o' \<and> matches ns ls o'})"
    if "run_state (r_List cm_resource ns ls) w = (xs, w')" for ns ls w xs w'
    using that distinct_stored_list [of ns ls w] set_stored_list [of ns ls w] by (auto simp: cm_resource_def)
qed (auto simp: cm_resource_def at_key_put_kept find_key_append created_self fun_eq_iff IsAlreadyExists_def
       IsNotFound_def split: option.splits if_splits, (fastforce dest: find_key_Some)+)


text \<open>
  C38: after the bootstrap the configuration is complete. When it reports no error, the config
  map is stored with an NQN authority and a network policy that are not blank, and every value
  that was set before is the same. The map found must not be one about to vanish.
\<close>

theorem bootstrap_completes_config:
  assumes server: "config_maps cms view sel upd fresh"
    and live: "\<And>x. sel (view w) (NN ns kdfsConfigMapName) = Some x \<Longrightarrow> \<not> finalized x"
    and run: "run_state (ensureNQNConfig cms ns) w = (None, w')"
  shows "\<exists>cm. sel (view w') (NN ns kdfsConfigMapName) = Some cm
     \<and> configured_map (sel (view w) (NN ns kdfsConfigMapName)) cm"
proof -
  have "wp (ensureNQNConfig cms ns) (\<lambda>r w'. r = None \<longrightarrow>
      (\<exists>cm. sel (view w') (NN ns kdfsConfigMapName) = Some cm
         \<and> configured_map (sel (view w) (NN ns kdfsConfigMapName)) cm)) w"
    by (rule config_maps.wp_ensureNQNConfig [OF server live]) auto
  from wp_run [OF this run] show ?thesis by simp
qed

definition blankConfig :: ConfigMap where
  "blankConfig = \<lparr>Meta = meta_for kdfsConfigMapName ''kdfs'',
     Spec = Some [(nqnAuthorityKey, '' ''), (''other'', ''kept'')], Status = ()\<rparr>"

theorem bootstrap_completes_config_witness:
  "\<exists>cm. at_key (snd (run_state (ensureNQNConfig cm_resource ''kdfs'') [blankConfig])) (NN ''kdfs'' kdfsConfigMapName) = Some cm
     \<and> configured_map (at_key [blankConfig] (NN ''kdfs'' kdfsConfigMapName)) cm"
proof -
  let ?r = "run_state (ensureNQNConfig cm_resource ''kdfs'') [blankConfig]"
  have "fst ?r = None" by code_simp
  then have run: "?r = (None, snd ?r)" by (simp add: prod_eq_iff)
  have live: "\<not> finalized x" if "at_key [blankConfig] (NN ''kdfs'' kdfsConfigMapName) = Some x" for x
    using that by (auto simp: blankConfig_def finalized_def meta_for_def split: if_splits)
  from bootstrap_completes_config [OF mem_cms.config_maps_axioms live run] show ?thesis .
qed

text \<open>
  The CSI plugin serves UNIX sockets only. An endpoint with the scheme \<^verbatim>\<open>unix\<close> gives its path;
  one with the scheme \<^verbatim>\<open>tcp\<close> gives neither scheme nor address, whatever the address is, because
  five characters are compared with six; and an endpoint of six characters is a panic.
\<close>

theorem tcp_endpoint_unsupported:
  "parseEndpoint (''unix://'' @ path) = Some (''unix'', path)
   \<and> parseEndpoint (''tcp://'' @ c # cs) = Some ([], [])
   \<and> parseEndpoint [c1, c2, c3, c4, c5, c6] = None"
  by (simp add: parseEndpoint_def)

end
