(* ===== verification/CSI_Controller.thy ===== *)
theory CSI_Controller
  imports Snapshot_Reconcile Volume_Scale
begin

text \<open>
  The controller service of the CSI driver: volumes (\<^verbatim>\<open>src/internal/csi/controller.go\<close>) and
  snapshots (\<^verbatim>\<open>src/internal/csi/snapshot.go\<close>). The requests are records with the fields the
  code reads, read as the protobuf getters do, so that what is unset is zero; maps are
  association lists, of equal keys the first counting. The driver is its namespace and node.
\<close>

section \<open>Requests\<close>

datatype AccessMode =
    UNKNOWN | SINGLE_NODE_WRITER | SINGLE_NODE_READER_ONLY | MULTI_NODE_READER_ONLY
  | MULTI_NODE_SINGLE_WRITER | MULTI_NODE_MULTI_WRITER | SINGLE_NODE_SINGLE_WRITER | SINGLE_NODE_MULTI_WRITER

text \<open>A capability, and its access mode: each may be nil.\<close>

type_synonym VolumeCapability = "AccessMode option option"

record Driver =
  dr_Namespace :: string
  dr_NodeID :: string

record TopologyRequirement =
  tr_Requisite :: "smap list"
  tr_Preferred :: "smap list"

datatype ContentSource = FromSnapshot string | FromVolume string

record CreateVolumeRequest =
  cv_Name :: string
  cv_RequiredBytes :: int
  cv_Parameters :: smap
  cv_Capabilities :: "VolumeCapability list"
  cv_Topology :: "TopologyRequirement option"
  cv_ContentSource :: "ContentSource option"

record CSIVolume =
  cvol_VolumeId :: string
  cvol_CapacityBytes :: int
  cvol_AccessibleTopology :: "smap list"

section \<open>Volumes\<close>

definition hostnameKey :: string where
  "hostnameKey = ''topology.storage.krea.to/hostname''"

definition isMultiNodeAccess :: "VolumeCapability list \<Rightarrow> bool" where
  "isMultiNodeAccess caps =
     list_ex (\<lambda>cap. cap \<in> {Some (Some MULTI_NODE_READER_ONLY), Some (Some MULTI_NODE_MULTI_WRITER)}) caps"

definition firstHostname :: "smap list \<Rightarrow> string option" where
  "firstHostname ts = map_option (\<lambda>t. lookup_str t hostnameKey) (find (\<lambda>t. lookup_str t hostnameKey \<noteq> []) ts)"

definition chosenNode :: "Driver \<Rightarrow> TopologyRequirement option \<Rightarrow> string" where
  "chosenNode d topology =
     (case topology of
        None \<Rightarrow> dr_NodeID d
      | Some t \<Rightarrow>
          let nodeID = (case firstHostname (tr_Requisite t) of Some n \<Rightarrow> n | None \<Rightarrow> dr_NodeID d) in
          if nodeID = [] then (case firstHostname (tr_Preferred t) of Some n \<Rightarrow> n | None \<Rightarrow> nodeID) else nodeID)"

definition newVolume :: "Driver \<Rightarrow> CreateVolumeRequest \<Rightarrow> string \<Rightarrow> SnapshotSource option \<Rightarrow> Volume" where
  "newVolume d req nodeID src =
     \<lparr>Meta = meta_for (cv_Name req) (dr_Namespace d),
      Spec = \<lparr>vs_Size = Itoa (cv_RequiredBytes req), vs_StorageClassName = lookup_str (cv_Parameters req) ''storageClassName'',
              vs_NodeID = nodeID, vs_ReplicaCount = [], vs_SnapshotSource = src\<rparr>,
      Status = zero_VolumeStatus\<rparr>"

definition requestedVolume ::
  "'w env \<Rightarrow> Driver \<Rightarrow> CreateVolumeRequest \<Rightarrow> string \<Rightarrow> ('w, error + Volume) state" where
  "requestedVolume c d req nodeID =
     (case cv_ContentSource req of
        None \<Rightarrow> ret (Inr (newVolume d req nodeID None))
      | Some (FromVolume _) \<Rightarrow> ret (Inl UnsupportedContentSource)
      | Some (FromSnapshot sid) \<Rightarrow> do {
          g \<leftarrow> r_Get (snapshots c) (NN (dr_Namespace d) sid);
          case g of
            Inl err \<Rightarrow> ret (Inl (SnapshotNotFound err))
          | Inr snap \<Rightarrow>
              if \<not> snst_ReadyToUse (Status snap) then ret (Inl (SnapshotNotReady sid))
              else ret (Inr (newVolume d req (snst_EngineNode (Status snap)) (Some \<lparr>ss_SnapshotName = sid\<rparr>)))
        })"

definition CreateVolume :: "'w env \<Rightarrow> Driver \<Rightarrow> CreateVolumeRequest \<Rightarrow> ('w, error + CSIVolume) state" where
  "CreateVolume c d req =
     (if cv_Name req = [] then ret (Inl NameRequired)
      else do {
        let nodeID = chosenNode d (cv_Topology req);
        v \<leftarrow> requestedVolume c d req nodeID;
        case v of
          Inl err \<Rightarrow> ret (Inl err)
        | Inr volume \<Rightarrow> do {
            e \<leftarrow> createIfMissing (volumes c) volume;
            case e of
              Some err \<Rightarrow> ret (Inl err)
            | None \<Rightarrow> ret (Inr
                \<lparr>cvol_VolumeId = cv_Name req, cvol_CapacityBytes = cv_RequiredBytes req,
                 cvol_AccessibleTopology =
                   (if isMultiNodeAccess (cv_Capabilities req) then [] else [[(hostnameKey, nodeID)]])\<rparr>)
          }
      })"

definition DeleteVolume :: "'w env \<Rightarrow> Driver \<Rightarrow> string \<Rightarrow> ('w, error option) state" where
  "DeleteVolume c d volumeId = do {
     r \<leftarrow> r_Delete (volumes c) (NN (dr_Namespace d) volumeId);
     case r of
       Inl err \<Rightarrow> if \<not> IsNotFound err then ret (Some err) else ret None
     | Inr _ \<Rightarrow> ret None
   }"

definition accessMode :: "VolumeCapability \<Rightarrow> AccessMode" where
  "accessMode cap = (case Option.bind cap id of None \<Rightarrow> UNKNOWN | Some m \<Rightarrow> m)"

definition publishContext :: "string \<Rightarrow> AccessMode \<Rightarrow> EngineStatus \<Rightarrow> error + smap" where
  "publishContext volumeId mode st =
     (let pubCtx = [(''volumeId'', volumeId)] in
      if mode \<in> {SINGLE_NODE_WRITER, SINGLE_NODE_MULTI_WRITER, MULTI_NODE_READER_ONLY}
      then Inr (pubCtx @ [(''endpoint'', est_Endpoint st), (''nqn'', est_SubsystemNQN st)])
      else if mode = MULTI_NODE_MULTI_WRITER
      then (case SplitEndpoint (est_Endpoint st) of
              Inl err \<Rightarrow> Inl err
            | Inr (host, _) \<Rightarrow> Inr (pubCtx @ [(''protocol'', ''nfs''), (''server'', host), (''export'', ''/'')]))
      else Inl UnsupportedAccessMode)"

definition ControllerPublishVolume ::
  "'w env \<Rightarrow> Driver \<Rightarrow> string \<Rightarrow> VolumeCapability \<Rightarrow> ('w, error + smap) state" where
  "ControllerPublishVolume c d volumeId cap = do {
     g \<leftarrow> r_Get (engines c) (NN (dr_Namespace d) (EngineName volumeId));
     case g of
       Inl err \<Rightarrow> ret (Inl err)
     | Inr engine \<Rightarrow>
         if est_Phase (Status engine) \<noteq> EnginePhaseRunning then ret (Inl (EngineNotRunning (obj_Name engine)))
         else ret (publishContext volumeId (accessMode cap) (Status engine))
   }"

definition ControllerUnpublishVolume :: "'w env \<Rightarrow> Driver \<Rightarrow> string \<Rightarrow> ('w, error + unit) state" where
  "ControllerUnpublishVolume c d volumeId = ret (Inr ())"

section \<open>Snapshots\<close>

record CreateSnapshotRequest =
  cs_Name :: string
  cs_SourceVolumeId :: string
  cs_Parameters :: smap

record CSISnapshot =
  csn_SnapshotId :: string
  csn_SourceVolumeId :: string
  csn_ReadyToUse :: bool
  csn_SizeBytes :: int
  csn_CreationTime :: "int option"

definition csiSnapshot :: "Snapshot \<Rightarrow> CSISnapshot" where
  "csiSnapshot snap =
     \<lparr>csn_SnapshotId = sns_SnapshotID (Spec snap), csn_SourceVolumeId = sns_VolumeRef (Spec snap),
      csn_ReadyToUse = snst_ReadyToUse (Status snap), csn_SizeBytes = snst_SizeBytes (Status snap),
      csn_CreationTime = snst_CreationTime (Status snap)\<rparr>"

definition internalName :: "CreateSnapshotRequest \<Rightarrow> string" where
  "internalName req =
     (let snapNS = lookup_str (cs_Parameters req) ''csi.storage.k8s.io/volumesnapshot/namespace'' in
      if snapNS \<noteq> [] then snapNS @ ''--'' @ cs_Name req else cs_Name req)"

definition newSnapshot :: "Driver \<Rightarrow> CreateSnapshotRequest \<Rightarrow> Snapshot" where
  "newSnapshot d req =
     \<lparr>Meta = meta_for (internalName req) (dr_Namespace d),
      Spec = \<lparr>sns_VolumeRef = cs_SourceVolumeId req, sns_SnapshotID = internalName req\<rparr>,
      Status = zero_SnapshotStatus\<rparr>"

definition CreateSnapshot :: "'w env \<Rightarrow> Driver \<Rightarrow> CreateSnapshotRequest \<Rightarrow> ('w, error + CSISnapshot) state" where
  "CreateSnapshot c d req =
     (if cs_Name req = [] then ret (Inl NameRequired)
      else if cs_SourceVolumeId req = [] then ret (Inl SourceVolumeRequired)
      else do {
        r \<leftarrow> r_Create (snapshots c) (newSnapshot d req);
        case r of
          Inr snap \<Rightarrow> ret (Inr (csiSnapshot snap))
        | Inl err \<Rightarrow>
            if \<not> IsAlreadyExists err then ret (Inl err)
            else do {
              g \<leftarrow> r_Get (snapshots c) (NN (dr_Namespace d) (internalName req));
              case g of
                Inl err \<Rightarrow> ret (Inl err)
              | Inr snap \<Rightarrow>
                  if sns_VolumeRef (Spec snap) \<noteq> cs_SourceVolumeId req
                  then ret (Inl (SnapshotOfOtherVolume (internalName req) (sns_VolumeRef (Spec snap))))
                  else ret (Inr (csiSnapshot snap))
            }
      })"

definition DeleteSnapshot :: "'w env \<Rightarrow> Driver \<Rightarrow> string \<Rightarrow> ('w, error option) state" where
  "DeleteSnapshot c d snapshotId = do {
     r \<leftarrow> r_Delete (snapshots c) (NN (dr_Namespace d) snapshotId);
     case r of
       Inl err \<Rightarrow> if \<not> IsNotFound err then ret (Some err) else ret None
     | Inr _ \<Rightarrow> ret None
   }"

definition ListSnapshots :: "'w env \<Rightarrow> Driver \<Rightarrow> string \<Rightarrow> string \<Rightarrow> ('w, error + CSISnapshot list) state" where
  "ListSnapshots c d snapID volID =
     (if snapID \<noteq> [] then do {
        g \<leftarrow> r_Get (snapshots c) (NN (dr_Namespace d) snapID);
        case g of
          Inl err \<Rightarrow> ret (case IgnoreNotFound err of None \<Rightarrow> Inr [] | Some e \<Rightarrow> Inl e)
        | Inr snap \<Rightarrow> ret (Inr [csiSnapshot snap])
      }
      else do {
        l \<leftarrow> r_List (snapshots c) (Some (dr_Namespace d)) [];
        case l of
          Inl err \<Rightarrow> ret (Inl err)
        | Inr items \<Rightarrow>
            ret (Inr (map csiSnapshot (if volID \<noteq> [] then filter (\<lambda>s. sns_VolumeRef (Spec s) = volID) items else items)))
      })"

section \<open>What the calls do to the cluster\<close>

text \<open>
  The spec a volume is to get. One that restores a snapshot needs it to be ready, and is
  placed on the node the snapshot was taken on.
\<close>

definition wanted :: "cluster \<Rightarrow> Driver \<Rightarrow> CreateVolumeRequest \<Rightarrow> VolumeSpec \<Rightarrow> bool" where
  "wanted cl d req spec \<longleftrightarrow>
     vs_Size spec = Itoa (cv_RequiredBytes req)
     \<and> vs_StorageClassName spec = lookup_str (cv_Parameters req) ''storageClassName'' \<and> vs_ReplicaCount spec = []
     \<and> (case cv_ContentSource req of
          None \<Rightarrow> vs_NodeID spec = chosenNode d (cv_Topology req) \<and> vs_SnapshotSource spec = None
        | Some (FromVolume _) \<Rightarrow> False
        | Some (FromSnapshot sid) \<Rightarrow>
            (\<exists>s. cl_snapshots cl (NN (dr_Namespace d) sid) = Some s \<and> snst_ReadyToUse (Status s)
               \<and> vs_NodeID spec = snst_EngineNode (Status s)
               \<and> vs_SnapshotSource spec = Some \<lparr>ss_SnapshotName = sid\<rparr>))"

text \<open>
  What a successful request does: it stores a new volume with the wanted spec, or nothing when there
  is a volume of the name. A volume that is there is not looked at.
\<close>

definition volume_created :: "Driver \<Rightarrow> CreateVolumeRequest \<Rightarrow> cluster \<Rightarrow> cluster \<Rightarrow> bool" where
  "volume_created d req cl cl' \<longleftrightarrow>
     Ex (wanted cl d req)
     \<and> (let k = NN (dr_Namespace d) (cv_Name req) in
        case cl_volumes cl k of
          Some _ \<Rightarrow> cl' = cl
        | None \<Rightarrow> \<exists>v. wanted cl d req (Spec v) \<and> Status v = zero_VolumeStatus \<and> key_of v = k
                   \<and> cl' = cl_volumes_update (\<lambda>m. m(k \<mapsto> v)) cl)"

lemma key_of_newVolume [simp]: "key_of (newVolume d req n src) = NN (dr_Namespace d) (cv_Name req)"
  by (simp add: newVolume_def key_of_def meta_for_def)

lemma spec_newVolume [simp]:
  "vs_Size (Spec (newVolume d req n src)) = Itoa (cv_RequiredBytes req)"
  "vs_StorageClassName (Spec (newVolume d req n src)) = lookup_str (cv_Parameters req) ''storageClassName''"
  "vs_NodeID (Spec (newVolume d req n src)) = n" "vs_ReplicaCount (Spec (newVolume d req n src)) = []"
  "vs_SnapshotSource (Spec (newVolume d req n src)) = src"
  by (simp_all add: newVolume_def)

lemma key_of_newSnapshot [simp]: "key_of (newSnapshot d req) = NN (dr_Namespace d) (internalName req)"
  by (simp add: newSnapshot_def key_of_def meta_for_def)

lemma volume_createdI:
  assumes "wanted cl d req (Spec (newVolume d req n src))"
  shows "cl_volumes cl (NN (dr_Namespace d) (cv_Name req)) = Some v \<Longrightarrow> volume_created d req cl cl"
    and "cl_volumes cl (NN (dr_Namespace d) (cv_Name req)) = None \<Longrightarrow> created (newVolume d req n src) v \<Longrightarrow>
      Status v = zero_VolumeStatus \<Longrightarrow>
      volume_created d req cl (cl_volumes_update (\<lambda>m. m(NN (dr_Namespace d) (cv_Name req) \<mapsto> v)) cl)"
proof -
  show "cl_volumes cl (NN (dr_Namespace d) (cv_Name req)) = Some v \<Longrightarrow> volume_created d req cl cl"
    using assms by (auto simp: volume_created_def)
next
  assume v: "cl_volumes cl (NN (dr_Namespace d) (cv_Name req)) = None" "created (newVolume d req n src) v"
    "Status v = zero_VolumeStatus"
  then have "Spec v = Spec (newVolume d req n src)" "key_of v = NN (dr_Namespace d) (cv_Name req)"
    using key_of_created [of "newVolume d req n src" v] by (simp_all add: created_def)
  with v assms show "volume_created d req cl (cl_volumes_update (\<lambda>m. m(NN (dr_Namespace d) (cv_Name req) \<mapsto> v)) cl)"
    unfolding volume_created_def Let_def
    by (intro conjI exI [of _ "Spec (newVolume d req n src)"]) (auto intro!: exI [of _ v])
qed

text \<open>The snapshots of the driver's namespace are named by their identifiers, as \<open>CreateSnapshot\<close> names them.\<close>

definition named_by_id :: "Driver \<Rightarrow> cluster \<Rightarrow> bool" where
  "named_by_id d cl \<longleftrightarrow>
     (\<forall>n s. cl_snapshots cl (NN (dr_Namespace d) n) = Some s \<longrightarrow> sns_SnapshotID (Spec s) = n)"

definition snapshot_named :: "Driver \<Rightarrow> CreateSnapshotRequest \<Rightarrow> cluster \<Rightarrow> CSISnapshot \<Rightarrow> bool" where
  "snapshot_named d req cl s \<longleftrightarrow>
     (\<exists>x. cl_snapshots cl (NN (dr_Namespace d) (internalName req)) = Some x \<and> s = csiSnapshot x
        \<and> sns_VolumeRef (Spec x) = cs_SourceVolumeId req)"

context kube_client
begin

lemma wp_requestedVolume:
  assumes "\<And>e w'. view w' = view w \<Longrightarrow> Q (Inl e) w'"
    and "\<And>n src w'. view w' = view w \<Longrightarrow> wanted (view w) d req (Spec (newVolume d req n src)) \<Longrightarrow>
      Q (Inr (newVolume d req n src)) w'"
  shows "wp (requestedVolume c d req (chosenNode d (cv_Topology req))) Q w"
  using assms
  by (auto simp: requestedVolume_def wanted_def split: option.split ContentSource.split intro!: snap.wp_Get)

lemma wp_CreateVolume:
  "wp (CreateVolume c d req)
     (\<lambda>r w'. case r of Inl _ \<Rightarrow> view w' = view w
             | Inr v \<Rightarrow> cvol_VolumeId v = cv_Name req \<and> cv_Name req \<noteq> []
                 \<and> cvol_CapacityBytes v = cv_RequiredBytes req \<and> volume_created d req (view w) (view w')) w"
  unfolding CreateVolume_def Let_def
  by (auto intro!: wp_requestedVolume vol.wp_createIfMissing elim!: volume_createdI)

lemma wp_CreateSnapshot:
  "wp (CreateSnapshot c d req)
     (\<lambda>r w'. case r of Inl _ \<Rightarrow> view w' = view w
             | Inr s \<Rightarrow> snapshot_named d req (view w') s \<and> (named_by_id d (view w) \<longrightarrow> named_by_id d (view w'))) w"
  unfolding CreateSnapshot_def
  by (auto intro!: snap.wp_Create snap.wp_Get
      simp: snapshot_named_def named_by_id_def created_def key_of_def newSnapshot_def meta_for_def)

lemma wp_DeleteSnapshot:
  "wp (DeleteSnapshot c d sid)
     (\<lambda>r w'. r = None \<longrightarrow> doomed (cl_snapshots (view w') (NN (dr_Namespace d) sid))) w"
  unfolding DeleteSnapshot_def by (auto intro!: snap.wp_Delete dest: doomed_deleted)

end


section \<open>Properties\<close>

text \<open>
  C26: what a successful \<open>CreateVolume\<close> has done. When no volume has the name, exactly one object is
  stored: a volume of that name with the size, the storage class and the node the request asks for
  and no status; one that restores a snapshot, which must exist and be ready to use, is placed on
  the node that holds it instead. When a volume of the name is there, nothing is changed, and
  whether it fits the request is not looked at (\<open>existing_volume_not_compared\<close>). In both cases the
  answer has the name and the capacity of the request; any other source is refused.
\<close>

theorem CreateVolume_creates:
  assumes client: "kube_client c view"
    and run: "run_state (CreateVolume c d req) w = (Inr v, w')"
  shows "cvol_VolumeId v = cv_Name req \<and> cv_Name req \<noteq> [] \<and> cvol_CapacityBytes v = cv_RequiredBytes req
    \<and> volume_created d req (view w) (view w')"
  using wp_run [OF kube_client.wp_CreateVolume [OF client] run] by simp

text \<open>
  C28: the identifier that \<open>CreateSnapshot\<close> returns names the snapshot: a deletion by it that
  reports no error removes the snapshot stored for the request, or marks it for removal.
\<close>

theorem snapshot_id_roundtrip:
  assumes client: "kube_client c view" and named: "named_by_id d (view w)"
    and create: "run_state (CreateSnapshot c d req) w = (Inr s, w1)"
    and delete: "run_state (DeleteSnapshot c d (csn_SnapshotId s)) w1 = (None, w2)"
  shows "snapshot_named d req (view w1) s
     \<and> doomed (cl_snapshots (view w2) (NN (dr_Namespace d) (internalName req)))"
proof -
  have s: "snapshot_named d req (view w1) s" "named_by_id d (view w1)"
    using wp_run [OF kube_client.wp_CreateSnapshot [OF client] create] named by simp_all
  then have "csn_SnapshotId s = internalName req"
    by (auto simp: snapshot_named_def named_by_id_def csiSnapshot_def)
  with s(1) wp_run [OF kube_client.wp_DeleteSnapshot [OF client] delete] show ?thesis by simp
qed

section \<open>Samples\<close>

definition sampleDriver :: Driver where
  "sampleDriver = \<lparr>dr_Namespace = ''ns'', dr_NodeID = ''n1''\<rparr>"

definition restoreRequest :: CreateVolumeRequest where
  "restoreRequest =
     \<lparr>cv_Name = ''new'', cv_RequiredBytes = 1024, cv_Parameters = [], cv_Capabilities = [],
      cv_Topology = Some \<lparr>tr_Requisite = [[(hostnameKey, ''n2'')]], tr_Preferred = []\<rparr>,
      cv_ContentSource = Some (FromSnapshot ''snap'')\<rparr>"

definition readySnapshot :: Snapshot where
  "readySnapshot = sampleSnapshot [SnapshotFinalizer] None
     (zero_SnapshotStatus\<lparr>snst_Phase := ''Ready'', snst_ReadyToUse := True, snst_EngineNode := ''n3''\<rparr>)"

definition restoreResult :: "(error + CSIVolume) \<times> mem" where
  "restoreResult = run_state (CreateVolume (mem_env noHttp) sampleDriver restoreRequest) (snapSample readySnapshot)"

theorem CreateVolume_creates_witness:
  "volume_created sampleDriver restoreRequest (mem_view (snapSample readySnapshot)) (mem_view (snd restoreResult))"
proof -
  have "\<not> isl (fst restoreResult)" by code_simp
  then have "run_state (CreateVolume (mem_env noHttp) sampleDriver restoreRequest) (snapSample readySnapshot)
      = (Inr (projr (fst restoreResult)), snd restoreResult)"
    by (simp add: restoreResult_def prod_eq_iff)
  from CreateVolume_creates [where view = mem_view, OF kube_client_mem this] show ?thesis by simp
qed

text \<open>
  Where a restored volume is, is not where the driver says it is. The volume is placed on
  the node of the snapshot, but the answer reports as its accessible topology the node that
  was chosen from the request, so that the pod is scheduled there.
\<close>

theorem restored_topology_differs:
  "map_sum id cvol_AccessibleTopology (fst restoreResult) = Inr [[(hostnameKey, ''n2'')]]
   \<and> map (\<lambda>v. (obj_Name v, vs_NodeID (Spec v))) (m_volumes (snd restoreResult)) = [(''new'', ''n3'')]"
  by code_simp

text \<open>
  A volume that has the name is passed off as the one requested. The volume \<^verbatim>\<open>vol\<close> is there with
  a size of its own; a request for a volume \<^verbatim>\<open>vol\<close> of another size succeeds, answers with the size
  requested and changes nothing, though the CSI specification asks for the error \<^verbatim>\<open>ALREADY_EXISTS\<close>.
\<close>

definition takenRequest :: CreateVolumeRequest where
  "takenRequest = restoreRequest\<lparr>cv_Name := ''vol'', cv_RequiredBytes := 2048, cv_ContentSource := None\<rparr>"

definition takenStart :: mem where
  "takenStart = sampleMem [sampleVolume ''3'' zero_VolumeStatus] [] [] []"

lemma existing_volume_not_compared:
  "let (x, w') = run_state (CreateVolume (mem_env noHttp) sampleDriver takenRequest) takenStart
   in map_sum id cvol_CapacityBytes x = Inr 2048 \<and> w' = takenStart
      \<and> map (\<lambda>v. vs_Size (Spec v)) (m_volumes w') \<noteq> [Itoa 2048]"
  by code_simp

definition snapshotRequest :: CreateSnapshotRequest where
  "snapshotRequest = \<lparr>cs_Name = ''s1'', cs_SourceVolumeId = ''vol'',
     cs_Parameters = [(''csi.storage.k8s.io/volumesnapshot/namespace'', ''app'')]\<rparr>"

definition snapshotCreated :: "(error + CSISnapshot) \<times> mem" where
  "snapshotCreated = run_state (CreateSnapshot (mem_env noHttp) sampleDriver snapshotRequest) (snapSample readySnapshot)"

definition snapshotDropped :: "error option \<times> mem" where
  "snapshotDropped = run_state (DeleteSnapshot (mem_env noHttp) sampleDriver (csn_SnapshotId (projr (fst snapshotCreated))))
     (snd snapshotCreated)"

theorem snapshot_id_roundtrip_witness:
  "doomed (cl_snapshots (mem_view (snd snapshotDropped)) (NN ''ns'' ''app--s1''))"
proof -
  have "\<not> isl (fst snapshotCreated)" by code_simp
  then have create: "run_state (CreateSnapshot (mem_env noHttp) sampleDriver snapshotRequest) (snapSample readySnapshot)
      = (Inr (projr (fst snapshotCreated)), snd snapshotCreated)"
    by (simp add: snapshotCreated_def prod_eq_iff)
  have "fst snapshotDropped = None" by code_simp
  then have delete: "run_state (DeleteSnapshot (mem_env noHttp) sampleDriver (csn_SnapshotId (projr (fst snapshotCreated))))
     (snd snapshotCreated) = (None, snd snapshotDropped)"
    by (simp add: snapshotDropped_def prod_eq_iff)
  have named: "named_by_id sampleDriver (mem_view (snapSample readySnapshot))"
    by (auto simp: named_by_id_def snapSample_snapshot readySnapshot_def sampleSnapshot_def key_of_def meta_for_def)
  have "NN (dr_Namespace sampleDriver) (internalName snapshotRequest) = NN ''ns'' ''app--s1''" by code_simp
  with snapshot_id_roundtrip [where view = mem_view, OF kube_client_mem named create delete] show ?thesis by simp
qed

end
