(* ===== verification/Dashboard.thy ===== *)
theory Dashboard
  imports Volume_Scale
begin

text \<open>
  The web dashboard, \<^verbatim>\<open>src/internal/dashboard/handler.go\<close>: the forms and views of volumes,
  replicas and snapshots. A reply is its status code, the redirection it asks for and its
  body; a page is named by its template and carries the data the template is given. The texts
  of errors in a body are kept as the errors, and rendering itself is left out, as are the
  list of volumes with its statistics in floating-point numbers.

  The one call the controllers do not make, a merge patch of a volume, is a parameter, whose
  documented effect is a law of the locale \<open>dash_client\<close>.
\<close>

section \<open>Requests and replies\<close>

record replicaView =
  rv_Name :: string
  rv_NodeID :: string
  rv_IsLocal :: bool
  rv_Phase :: string
  rv_NQN :: string

datatype page =
    CreatePage | DetailPage Volume int | OverviewPage Volume int | ReplicasPage "replicaView list"
  | ScalePage string int | DeletePage string | SnapshotsPage "Snapshot list" string

datatype body =
    NoBody | Mark string | MarkError string error | Row string | RowError string error
  | PlainError string "error option" | FormError | Page page

record reply =
  rp_Status :: int
  rp_Redirect :: "string option"
  rp_Body :: body

definition bad :: "string \<Rightarrow> reply" where
  "bad text = \<lparr>rp_Status = 400, rp_Redirect = None, rp_Body = Mark text\<rparr>"

definition badError :: "string \<Rightarrow> error \<Rightarrow> reply" where
  "badError text err = \<lparr>rp_Status = 400, rp_Redirect = None, rp_Body = MarkError text err\<rparr>"

definition failed :: "string \<Rightarrow> error \<Rightarrow> reply" where
  "failed text err = \<lparr>rp_Status = 500, rp_Redirect = None, rp_Body = MarkError text err\<rparr>"

definition failedRow :: "string \<Rightarrow> error \<Rightarrow> reply" where
  "failedRow text err = \<lparr>rp_Status = 500, rp_Redirect = None, rp_Body = RowError text err\<rparr>"

definition httpError :: "int \<Rightarrow> string \<Rightarrow> error option \<Rightarrow> reply" where
  "httpError code text err = \<lparr>rp_Status = code, rp_Redirect = None, rp_Body = PlainError text err\<rparr>"

definition badForm :: reply where
  "badForm = \<lparr>rp_Status = 400, rp_Redirect = None, rp_Body = FormError\<rparr>"

definition shown :: "page \<Rightarrow> reply" where
  "shown p = \<lparr>rp_Status = 200, rp_Redirect = None, rp_Body = Page p\<rparr>"

definition redirected :: "string \<Rightarrow> body \<Rightarrow> reply" where
  "redirected target b = \<lparr>rp_Status = 200, rp_Redirect = Some target, rp_Body = b\<rparr>"

definition done_with :: "body \<Rightarrow> reply" where
  "done_with b = \<lparr>rp_Status = 200, rp_Redirect = None, rp_Body = b\<rparr>"

text \<open>The form of a request, \<open>None\<close> when it cannot be parsed; a value that is missing is empty.\<close>

type_synonym form = "(string \<times> string) list option"

definition FormValue :: "(string \<times> string) list \<Rightarrow> string \<Rightarrow> string" where
  "FormValue f k = (case map_of f k of None \<Rightarrow> [] | Some v \<Rightarrow> v)"

section \<open>Names\<close>

definition maxKubernetesNameLength :: nat where
  "maxKubernetesNameLength = 253"

definition name_end :: "char \<Rightarrow> bool" where
  "name_end c = (isLower c \<or> isDigit c)"

text \<open>The pattern \<^verbatim>\<open>^[a-z0-9]([a-z0-9-]*[a-z0-9])?$\<close>.\<close>

definition namePattern :: "string \<Rightarrow> bool" where
  "namePattern s \<longleftrightarrow>
     s \<noteq> [] \<and> name_end (hd s) \<and> name_end (last s) \<and> list_all (\<lambda>c. name_end c \<or> c = CHR ''-'') s"

definition derivedVolumeNamesFit :: "string \<Rightarrow> bool" where
  "derivedVolumeNamesFit volumeName \<longleftrightarrow>
     (let engineCR = EngineName volumeName in
      \<not> (length engineCR > maxKubernetesNameLength \<or> length (engineCR @ ''-pod'') > maxKubernetesNameLength)
      \<and> list_all (\<lambda>idx. let replicaCR = ReplicaName volumeName idx in
          \<not> (length replicaCR > maxKubernetesNameLength \<or> length (replicaCR @ ''-pod'') > maxKubernetesNameLength))
        [0, 9, 99, 999])"

section \<open>Volumes\<close>

type_synonym 'w patcher = "NamespacedName \<Rightarrow> json \<Rightarrow> ('w, error + Volume) state"

record Handler =
  hd_Namespace :: string

definition HandleCreateForm :: "reply" where
  "HandleCreateForm = shown CreatePage"

definition dashVolume :: "Handler \<Rightarrow> string \<Rightarrow> VolumeSpec \<Rightarrow> Volume" where
  "dashVolume h name spec =
     \<lparr>Meta = meta_for name (hd_Namespace h), Spec = spec, Status = zero_VolumeStatus\<rparr>"

definition createVolumeReply :: "'w env \<Rightarrow> Handler \<Rightarrow> string \<Rightarrow> VolumeSpec \<Rightarrow> reply \<Rightarrow> ('w, reply) state" where
  "createVolumeReply c h name spec ok = do {
     r \<leftarrow> r_Create (volumes c) (dashVolume h name spec);
     case r of
       Inl err \<Rightarrow> ret (failed ''Create failed: '' err)
     | Inr _ \<Rightarrow> ret ok
   }"

definition HandleCreate :: "'w env \<Rightarrow> Handler \<Rightarrow> form \<Rightarrow> ('w, reply) state" where
  "HandleCreate c h form =
     (case form of
        None \<Rightarrow> ret badForm
      | Some f \<Rightarrow>
          let name = FormValue f ''name''; size = FormValue f ''size''; replicaCountStr = FormValue f ''replicaCount'' in
          if name = [] \<or> length name > maxKubernetesNameLength
          then ret (bad ''Name is required (max 253 characters)'')
          else if \<not> namePattern name
          then ret (bad ''Name must consist of lowercase letters, digits, and hyphens'')
          else if \<not> derivedVolumeNamesFit name
          then ret (bad ''Name is too long for generated engine, replica, and pod names'')
          else if (case Atoi size of Inl _ \<Rightarrow> True | Inr sizeNum \<Rightarrow> sizeNum \<le> 0)
          then ret (bad ''Size must be a positive integer (Gi)'')
          else
            let replicaCount = (if replicaCountStr = [] then ''auto'' else replicaCountStr) in
            case ParseReplicaCount replicaCount of
              Inl _ \<Rightarrow> ret (bad ''Replica count must be \"auto\" or a positive integer'')
            | Inr _ \<Rightarrow> createVolumeReply c h name
                \<lparr>vs_Size = size @ ''Gi'', vs_StorageClassName = [], vs_NodeID = [],
                 vs_ReplicaCount = replicaCount, vs_SnapshotSource = None\<rparr>
                (redirected ''/'' NoBody))"

definition getVolumeEngine :: "'w env \<Rightarrow> Handler \<Rightarrow> Volume \<Rightarrow> ('w, error + Engine option) state" where
  "getVolumeEngine c h volume =
     (case vst_EngineRef (Status volume) of
        None \<Rightarrow> ret (Inr None)
      | Some ref \<Rightarrow>
          if nor_Name ref = [] then ret (Inr None)
          else do {
            g \<leftarrow> r_Get (engines c) (NN (hd_Namespace h) (nor_Name ref));
            ret (map_sum id Some g)
          })"

definition found_engine :: "error + Engine option \<Rightarrow> Engine option" where
  "found_engine r = (case r of Inl _ \<Rightarrow> None | Inr e \<Rightarrow> e)"

definition effectiveReplicaCount :: "'w env \<Rightarrow> Handler \<Rightarrow> Volume \<Rightarrow> ('w, int) state" where
  "effectiveReplicaCount c h volume = do {
     e \<leftarrow> getVolumeEngine c h volume;
     ret (case found_engine e of
            Some engine \<Rightarrow> int (length (es_Replicas (Spec engine)))
          | None \<Rightarrow>
              (case ParseReplicaCount (vs_ReplicaCount (Spec volume)) of
                 Inl _ \<Rightarrow> 0
               | Inr (count, auto) \<Rightarrow> if auto then 0 else count))
   }"

definition volumePage ::
  "'w env \<Rightarrow> Handler \<Rightarrow> string \<Rightarrow> (error \<Rightarrow> reply) \<Rightarrow> (Volume \<Rightarrow> int \<Rightarrow> page) \<Rightarrow> ('w, reply) state" where
  "volumePage c h name missing page = do {
     g \<leftarrow> r_Get (volumes c) (NN (hd_Namespace h) name);
     case g of
       Inl err \<Rightarrow> ret (missing err)
     | Inr volume \<Rightarrow> do {
         n \<leftarrow> effectiveReplicaCount c h volume;
         ret (shown (page volume n))
       }
   }"

definition HandleDetail :: "'w env \<Rightarrow> Handler \<Rightarrow> string \<Rightarrow> ('w, reply) state" where
  "HandleDetail c h name = volumePage c h name (\<lambda>err. httpError 404 ''volume not found: '' (Some err)) DetailPage"

definition HandleOverview :: "'w env \<Rightarrow> Handler \<Rightarrow> string \<Rightarrow> ('w, reply) state" where
  "HandleOverview c h name = volumePage c h name (\<lambda>err. httpError 404 ''volume not found: '' (Some err)) OverviewPage"

definition HandleScaleForm :: "'w env \<Rightarrow> Handler \<Rightarrow> string \<Rightarrow> ('w, reply) state" where
  "HandleScaleForm c h name = volumePage c h name (\<lambda>err. httpError 404 ''not found'' None) (\<lambda>v n. ScalePage name n)"

definition HandleDeleteForm :: "string \<Rightarrow> reply" where
  "HandleDeleteForm name = shown (DeletePage name)"

definition HandleDelete :: "'w env \<Rightarrow> Handler \<Rightarrow> string \<Rightarrow> ('w, reply) state" where
  "HandleDelete c h name = do {
     r \<leftarrow> r_Delete (volumes c) (NN (hd_Namespace h) name);
     ret (case r of Inl err \<Rightarrow> httpError 500 ''delete failed: '' (Some err) | Inr _ \<Rightarrow> redirected ''/'' NoBody)
   }"

text \<open>The patches, as documents.\<close>

definition scalePatch :: "int \<Rightarrow> json" where
  "scalePatch count = JObj [(''spec'', JObj [(''replicaCount'', JStr (Itoa count))])]"

definition healPatch :: "int \<Rightarrow> json" where
  "healPatch seconds =
     JObj [(''metadata'', JObj [(''annotations'', JObj [(''kdfs.krea.to/last-heal'', JStr (Itoa seconds))])])]"

definition HandleScale :: "'w patcher \<Rightarrow> Handler \<Rightarrow> string \<Rightarrow> form \<Rightarrow> ('w, reply) state" where
  "HandleScale patch h name form =
     (case form of
        None \<Rightarrow> ret (bad ''Invalid form'')
      | Some f \<Rightarrow>
          let countStr = FormValue f ''replicaCount'' in
          case ParseReplicaCount countStr of
            Inl _ \<Rightarrow> ret (bad ''Replica count must be a positive integer'')
          | Inr (count, auto) \<Rightarrow>
              if auto then ret (bad ''Replica count must be a positive integer'')
              else do {
                r \<leftarrow> patch (NN (hd_Namespace h) name) (scalePatch count);
                ret (case r of Inl err \<Rightarrow> failed ''Scale failed: '' err
                       | Inr _ \<Rightarrow> done_with (Mark (''Scaled to '' @ countStr @ '' replicas'')))
              })"

section \<open>Replicas\<close>

fun replicaViews :: "'w env \<Rightarrow> Handler \<Rightarrow> Engine \<Rightarrow> ReplicaAttachment list \<Rightarrow> ('w, replicaView list) state" where
  "replicaViews c h engine [] = ret []"
| "replicaViews c h engine (rep # reps) = do {
     g \<leftarrow> r_Get (replicas c) (NN (hd_Namespace h) (ra_Name rep));
     vs \<leftarrow> replicaViews c h engine reps;
     ret (\<lparr>rv_Name = ra_Name rep, rv_NodeID = ra_NodeID rep, rv_IsLocal = (ra_NodeID rep = es_NodeID (Spec engine)),
           rv_Phase = (case g of Inl _ \<Rightarrow> ''Unknown'' | Inr cr \<Rightarrow> rst_Phase (Status cr)),
           rv_NQN = (case g of Inl _ \<Rightarrow> ra_NQN rep
                     | Inr cr \<Rightarrow> if rst_NQN (Status cr) \<noteq> [] then rst_NQN (Status cr) else ra_NQN rep)\<rparr> # vs)
   }"

definition HandleReplicas :: "'w env \<Rightarrow> Handler \<Rightarrow> string \<Rightarrow> ('w, reply) state" where
  "HandleReplicas c h name = do {
     g \<leftarrow> r_Get (volumes c) (NN (hd_Namespace h) name);
     case g of
       Inl _ \<Rightarrow> ret (shown (ReplicasPage []))
     | Inr volume \<Rightarrow> do {
         e \<leftarrow> getVolumeEngine c h volume;
         case found_engine e of
           None \<Rightarrow> ret (shown (ReplicasPage []))
         | Some engine \<Rightarrow> do {
             vs \<leftarrow> replicaViews c h engine (es_Replicas (Spec engine));
             ret (shown (ReplicasPage vs))
           }
       }
   }"

definition detachReplica :: "'w env \<Rightarrow> string \<Rightarrow> Engine \<Rightarrow> ('w, error option) state" where
  "detachReplica c replicaName engine =
     (let filtered = filter (\<lambda>rep. ra_Name rep \<noteq> replicaName) (es_Replicas (Spec engine)) in
      if length filtered < length (es_Replicas (Spec engine))
      then do {
        u \<leftarrow> r_Update (engines c) (with_replicas filtered engine);
        ret (err_of u)
      }
      else ret None)"

definition HandleDeleteReplica :: "'w env \<Rightarrow> 'w patcher \<Rightarrow> Handler \<Rightarrow> string \<Rightarrow> string \<Rightarrow> ('w, reply) state" where
  "HandleDeleteReplica c patch h volumeName replicaName = do {
     r \<leftarrow> r_Delete (replicas c) (NN (hd_Namespace h) replicaName);
     case r of
       Inl err \<Rightarrow> ret (failedRow ''Delete failed: '' err)
     | Inr _ \<Rightarrow> do {
         g \<leftarrow> r_Get (volumes c) (NN (hd_Namespace h) volumeName);
         case g of
           Inl _ \<Rightarrow> ret (done_with (Row ''Deleted''))
         | Inr volume \<Rightarrow> do {
             e \<leftarrow> getVolumeEngine c h volume;
             d \<leftarrow> (case found_engine e of None \<Rightarrow> ret None | Some engine \<Rightarrow> detachReplica c replicaName engine);
             case d of
               Some err \<Rightarrow> ret (failedRow ''Engine update failed: '' err)
             | None \<Rightarrow> do {
                 now \<leftarrow> clock_Now c;
                 p \<leftarrow> patch (key_of volume) (healPatch (now div Second));
                 ret (case p of Inl err \<Rightarrow> failedRow ''Patch failed: '' err | Inr _ \<Rightarrow> done_with (Row ''Deleted''))
               }
           }
       }
   }"

section \<open>Snapshots\<close>

definition HandleSnapshots :: "'w env \<Rightarrow> Handler \<Rightarrow> string \<Rightarrow> ('w, reply) state" where
  "HandleSnapshots c h volumeName = do {
     l \<leftarrow> r_List (snapshots c) (Some (hd_Namespace h)) [];
     ret (case l of
            Inl err \<Rightarrow> failed ''failed to list snapshots: '' err
          | Inr items \<Rightarrow> shown (SnapshotsPage (filter (\<lambda>s. sns_VolumeRef (Spec s) = volumeName) items) volumeName))
   }"

definition HandleSnapshotDelete :: "'w env \<Rightarrow> Handler \<Rightarrow> string \<Rightarrow> ('w, reply) state" where
  "HandleSnapshotDelete c h snapshotName = do {
     r \<leftarrow> r_Delete (snapshots c) (NN (hd_Namespace h) snapshotName);
     ret (case r of Inl err \<Rightarrow> failed ''Delete failed: '' err | Inr _ \<Rightarrow> done_with (Row ''Deleted''))
   }"

definition HandleSnapshotCreate :: "'w env \<Rightarrow> Handler \<Rightarrow> string \<Rightarrow> form \<Rightarrow> ('w, reply) state" where
  "HandleSnapshotCreate c h volumeName form =
     (case form of
        None \<Rightarrow> ret badForm
      | Some f \<Rightarrow>
          let snapshotName = FormValue f ''name'' in
          if snapshotName = [] \<or> length snapshotName > maxKubernetesNameLength
          then ret (bad ''Name is required (max 253 characters)'')
          else if \<not> namePattern snapshotName
          then ret (bad ''Name must consist of lowercase letters, digits, and hyphens'')
          else do {
            g \<leftarrow> r_Get (volumes c) (NN (hd_Namespace h) volumeName);
            case g of
              Inl err \<Rightarrow> ret (badError ''Source volume not found: '' err)
            | Inr _ \<Rightarrow> do {
                r \<leftarrow> r_Create (snapshots c)
                       \<lparr>Meta = meta_for snapshotName (hd_Namespace h),
                        Spec = \<lparr>sns_VolumeRef = volumeName, sns_SnapshotID = snapshotName\<rparr>,
                        Status = zero_SnapshotStatus\<rparr>;
                ret (case r of
                       Inl err \<Rightarrow> failed ''Create failed: '' err
                     | Inr _ \<Rightarrow> redirected (''/volumes/'' @ volumeName @ ''/snapshots'')
                                  (Mark (''Snapshot '' @ snapshotName @ '' created'')))
              }
          })"

definition HandleSnapshotCreateFromSnapshot ::
  "'w env \<Rightarrow> Handler \<Rightarrow> string \<Rightarrow> string \<Rightarrow> form \<Rightarrow> ('w, reply) state" where
  "HandleSnapshotCreateFromSnapshot c h volumeName snapshotName form =
     (case form of
        None \<Rightarrow> ret badForm
      | Some f \<Rightarrow>
          let restoreName = FormValue f ''name'' in
          if restoreName = [] \<or> length restoreName > maxKubernetesNameLength
          then ret (bad ''Volume name is required (max 253 characters)'')
          else if \<not> namePattern restoreName
          then ret (bad ''Volume name must consist of lowercase letters, digits, and hyphens'')
          else if \<not> derivedVolumeNamesFit restoreName
          then ret (bad ''Volume name is too long for generated engine, replica, and pod names'')
          else do {
            g \<leftarrow> r_Get (volumes c) (NN (hd_Namespace h) volumeName);
            case g of
              Inl err \<Rightarrow> ret (badError ''Source volume not found: '' err)
            | Inr source \<Rightarrow> do {
                s \<leftarrow> r_Get (snapshots c) (NN (hd_Namespace h) snapshotName);
                case s of
                  Inl err \<Rightarrow> ret (badError ''Snapshot not found: '' err)
                | Inr snap \<Rightarrow>
                    if \<not> snst_ReadyToUse (Status snap) then ret (bad ''Snapshot is not ready yet'')
                    else createVolumeReply c h restoreName
                      \<lparr>vs_Size = vs_Size (Spec source), vs_StorageClassName = [],
                       vs_NodeID = snst_EngineNode (Status snap), vs_ReplicaCount = ''1'',
                       vs_SnapshotSource = Some \<lparr>ss_SnapshotName = snapshotName\<rparr>\<rparr>
                      (redirected (''/volumes/'' @ restoreName)
                         (Mark (''Volume '' @ restoreName @ '' created from snapshot'')))
              }
          })"

text \<open>The deletions of the replicas, of which every failure is ignored.\<close>

fun deleteReplicas :: "'w env \<Rightarrow> Replica list \<Rightarrow> ('w, unit) state" where
  "deleteReplicas c [] = ret ()"
| "deleteReplicas c (r # rs) = do {
     _ \<leftarrow> r_Delete (replicas c) (key_of r);
     deleteReplicas c rs
   }"

definition dropEngine :: "'w env \<Rightarrow> Handler \<Rightarrow> string \<Rightarrow> ('w, error option) state" where
  "dropEngine c h volumeName = do {
     e \<leftarrow> r_Get (engines c) (NN (hd_Namespace h) (EngineName volumeName));
     case e of
       Inl _ \<Rightarrow> ret None
     | Inr engine \<Rightarrow> do {
         d \<leftarrow> r_Delete (engines c) (key_of engine);
         ret (err_of d)
       }
   }"

definition dropReplicas :: "'w env \<Rightarrow> Handler \<Rightarrow> string \<Rightarrow> ('w, unit) state" where
  "dropReplicas c h volumeName = do {
     l \<leftarrow> r_List (replicas c) (Some (hd_Namespace h)) [];
     case l of
       Inl _ \<Rightarrow> ret ()
     | Inr items \<Rightarrow> deleteReplicas c (filter (\<lambda>r. rs_VolumeRef (Spec r) = volumeName) items)
   }"

definition cleared :: "Volume \<Rightarrow> Volume" where
  "cleared volume = volume\<lparr>Status := (Status volume)
     \<lparr>vst_EngineRef := None, vst_ReplicaHealth := [], vst_Phase := [], vst_Conditions := []\<rparr>\<rparr>"

definition with_source :: "string \<Rightarrow> Volume \<Rightarrow> Volume" where
  "with_source snapshotName volume =
     volume\<lparr>Spec := (Spec volume)\<lparr>vs_SnapshotSource := Some \<lparr>ss_SnapshotName = snapshotName\<rparr>\<rparr>\<rparr>"

definition rollBack :: "'w env \<Rightarrow> Handler \<Rightarrow> string \<Rightarrow> string \<Rightarrow> Volume \<Rightarrow> ('w, reply) state" where
  "rollBack c h volumeName snapshotName volume = do {
     d \<leftarrow> dropEngine c h volumeName;
     case d of
       Some err \<Rightarrow> ret (httpError 500 ''delete engine: '' (Some err))
     | None \<Rightarrow> do {
         s \<leftarrow> r_StatusUpdate (volumes c) (cleared volume);
         case s of
           Inl err \<Rightarrow> ret (httpError 500 ''clear volume status: '' (Some err))
         | Inr volume \<Rightarrow> do {
             _ \<leftarrow> dropReplicas c h volumeName;
             u \<leftarrow> r_Update (volumes c) (with_source snapshotName volume);
             ret (case u of
                    Inl err \<Rightarrow> httpError 500 ''update volume: '' (Some err)
                  | Inr _ \<Rightarrow> redirected (''/volumes/'' @ volumeName)
                               (Mark (''Volume '' @ volumeName @ '' restoring from snapshot'')))
           }
       }
   }"

definition HandleSnapshotRestore :: "'w env \<Rightarrow> Handler \<Rightarrow> string \<Rightarrow> string \<Rightarrow> ('w, reply) state" where
  "HandleSnapshotRestore c h volumeName snapshotName = do {
     s \<leftarrow> r_Get (snapshots c) (NN (hd_Namespace h) snapshotName);
     case s of
       Inl err \<Rightarrow> ret (httpError 404 ''snapshot not found: '' (Some err))
     | Inr snap \<Rightarrow>
         if \<not> snst_ReadyToUse (Status snap) then ret (httpError 400 ''snapshot is not ready'' None)
         else do {
           g \<leftarrow> r_Get (volumes c) (NN (hd_Namespace h) volumeName);
           case g of
             Inl err \<Rightarrow> ret (httpError 404 ''volume not found: '' (Some err))
           | Inr volume \<Rightarrow> rollBack c h volumeName snapshotName volume
         }
   }"


section \<open>The laws of the patch\<close>

text \<open>
  A merge patch that succeeds changes the stored volume in the fields the document names. Of
  those that are modelled, the documents of the dashboard name the replica count at most.
\<close>

definition patchedCount :: "json \<Rightarrow> string option" where
  "patchedCount j =
     (case j of
        JObj kvs \<Rightarrow>
          (case map_of kvs ''spec'' of
             Some (JObj fs) \<Rightarrow> (case map_of fs ''replicaCount'' of Some (JStr s) \<Rightarrow> Some s | _ \<Rightarrow> None)
           | _ \<Rightarrow> None)
      | _ \<Rightarrow> None)"

definition merged :: "json \<Rightarrow> Volume \<Rightarrow> Volume" where
  "merged j v =
     (case patchedCount j of None \<Rightarrow> v | Some s \<Rightarrow> v\<lparr>Spec := (Spec v)\<lparr>vs_ReplicaCount := s\<rparr>\<rparr>)"

lemma merged_patches [simp]:
  "merged (scalePatch n) v = v\<lparr>Spec := (Spec v)\<lparr>vs_ReplicaCount := Itoa n\<rparr>\<rparr>"
  "merged (healPatch t) v = v"
  by (simp_all add: merged_def patchedCount_def scalePatch_def healPatch_def)

locale dash_client = kube_client c view for c :: "'w env" and view :: "'w \<Rightarrow> cluster" +
  fixes patch :: "'w patcher"
  assumes patch_law: "run_state (patch k j) w = (x, w') \<Longrightarrow>
    (case x of Inl e \<Rightarrow> view w' = view w
             | Inr v \<Rightarrow> \<exists>old. cl_volumes (view w) k = Some old \<and> v = merged j old
                 \<and> view w' = cl_volumes_update (\<lambda>m. m(k \<mapsto> merged j old)) (view w))"
begin

lemma wp_patch:
  assumes "\<And>e w'. view w' = view w \<Longrightarrow> Q (Inl e) w'"
    and "\<And>old w'. cl_volumes (view w) k = Some old \<Longrightarrow>
      view w' = cl_volumes_update (\<lambda>m. m(k \<mapsto> merged j old)) (view w) \<Longrightarrow> Q (Inr (merged j old)) w'"
  shows "wp (patch k j) Q w"
proof (rule wp_of_run)
  fix x w' assume "run_state (patch k j) w = (x, w')"
  from patch_law [OF this] show "Q x w'" using assms by (cases x) auto
qed

end

section \<open>What the handlers do to the cluster\<close>

lemma reply_sel [simp]:
  "rp_Status (bad t) = 400" "rp_Status (badError t e) = 400" "rp_Status (failed t e) = 500"
  "rp_Status (failedRow t e) = 500" "rp_Status (httpError n t o') = n" "rp_Status badForm = 400"
  "rp_Status (shown p) = 200" "rp_Status (redirected t b) = 200" "rp_Status (done_with b) = 200"
  by (simp_all add: bad_def badError_def failed_def failedRow_def httpError_def badForm_def shown_def
      redirected_def done_with_def)

lemma length_show_nat_less: "n < 10 ^ Suc k \<Longrightarrow> length (show_nat n) \<le> Suc k"
proof (induction k arbitrary: n)
  case 0
  then show ?case by (subst show_nat.simps) simp
next
  case (Suc k)
  have "length (show_nat (n div 10)) \<le> Suc k" using Suc.prems by (intro Suc.IH) auto
  then show ?case by (subst show_nat.simps) simp
qed

lemma derivedVolumeNamesFit_iff: "derivedVolumeNamesFit n \<longleftrightarrow> length n \<le> 237"
  by (auto simp: derivedVolumeNamesFit_def Let_def maxKubernetesNameLength_def EngineName_def ReplicaName_def
      show_nat.simps)

text \<open>The longest derived name is the pod of a replica; it fits for every index of up to three digits.\<close>

definition names_fit :: "string \<Rightarrow> bool" where
  "names_fit n \<longleftrightarrow> length (EngineName n @ ''-pod'') \<le> maxKubernetesNameLength
     \<and> (\<forall>i < 1000. length (ReplicaName n i @ ''-pod'') \<le> maxKubernetesNameLength)"

lemma names_fit: "derivedVolumeNamesFit n \<longleftrightarrow> names_fit n"
proof
  assume "derivedVolumeNamesFit n"
  then have n: "length n \<le> 237" by (simp add: derivedVolumeNamesFit_iff)
  have "length (show_nat i) \<le> 3" if "i < 1000" for i
    using length_show_nat_less [of i 2] that by simp
  with n show "names_fit n"
    by (fastforce simp: names_fit_def maxKubernetesNameLength_def EngineName_def ReplicaName_def)
next
  assume "names_fit n"
  then have "length (ReplicaName n 999 @ ''-pod'') \<le> 253" by (simp add: names_fit_def maxKubernetesNameLength_def)
  then show "derivedVolumeNamesFit n"
    by (simp add: derivedVolumeNamesFit_iff ReplicaName_def show_nat.simps)
qed

definition accepted_volume :: "Handler \<Rightarrow> string \<Rightarrow> cluster \<Rightarrow> cluster \<Rightarrow> bool" where
  "accepted_volume h name cl cl' \<longleftrightarrow>
     (\<exists>v n a gs. cl_volumes cl (NN (hd_Namespace h) name) = None
        \<and> cl' = cl_volumes_update (\<lambda>m. m(NN (hd_Namespace h) name \<mapsto> v)) cl
        \<and> namePattern name \<and> names_fit name
        \<and> ParseReplicaCount (vs_ReplicaCount (Spec v)) = Inr (n, a)
        \<and> vs_Size (Spec v) = gs @ ''Gi'' \<and> (\<exists>g > 0. Atoi gs = Inr g))"

lemma key_of_dashVolume [simp]: "key_of (dashVolume h n sp) = NN (hd_Namespace h) n"
  by (simp add: dashVolume_def key_of_def meta_for_def)

lemma accepted_volumeI:
  assumes "cl_volumes cl (NN (hd_Namespace h) name) = None" "created (dashVolume h name sp) s"
    "namePattern name" "derivedVolumeNamesFit name" "ParseReplicaCount (vs_ReplicaCount sp) = Inr (n, a)"
    "vs_Size sp = gs @ ''Gi''" "Atoi gs = Inr g" "0 < g"
  shows "accepted_volume h name cl (cl_volumes_update (\<lambda>m. m(NN (hd_Namespace h) name \<mapsto> s)) cl)"
proof -
  have "Spec s = sp" using assms(2) by (simp add: created_def dashVolume_def)
  with assms show ?thesis
    unfolding accepted_volume_def names_fit
    by (intro exI [of _ s] exI [of _ n] exI [of _ a] exI [of _ gs]) auto
qed

context kube_client
begin

lemma wp_HandleCreate:
  "wp (HandleCreate c h form)
     (\<lambda>r w'. if rp_Status r = 200 then accepted_volume h (FormValue (the form) ''name'') (view w) (view w')
             else view w' = view w) w"
  unfolding HandleCreate_def createVolumeReply_def Let_def
  by (auto split: option.split sum.split intro!: vol.wp_Create elim!: accepted_volumeI)

end

context dash_client
begin

lemma wp_HandleScale:
  "wp (HandleScale patch h name form)
     (\<lambda>r w'. if rp_Status r = 200
        then (\<exists>old n. cl_volumes (view w) (NN (hd_Namespace h) name) = Some old
               \<and> ParseReplicaCount (FormValue (the form) ''replicaCount'') = Inr (n, False)
               \<and> view w' = cl_volumes_update (\<lambda>m. m(NN (hd_Namespace h) name \<mapsto>
                    old\<lparr>Spec := (Spec old)\<lparr>vs_ReplicaCount := Itoa n\<rparr>\<rparr>)) (view w))
        else view w' = view w) w"
  unfolding HandleScale_def Let_def
  by (auto split: option.split sum.split intro!: wp_patch)

end


section \<open>The patch on the in-memory server\<close>

definition mem_patch :: "mem patcher" where
  "mem_patch k j = State (\<lambda>w.
     case at_key (m_volumes w) k of
       None \<Rightarrow> (Inl NotFound, w)
     | Some old \<Rightarrow> (Inr (merged j old), m_volumes_update (put_key key_of (merged j old)) w))"

lemma key_of_merged [simp]: "key_of (merged j v) = key_of v"
  by (simp add: merged_def key_of_def split: option.split)

interpretation mem_dash: dash_client "mem_env http" mem_view mem_patch for http
proof
  fix k j w x w' assume run: "run_state (mem_patch k j) w = (x, w')"
  show "case x of Inl e \<Rightarrow> mem_view w' = mem_view w
     | Inr v \<Rightarrow> \<exists>old. cl_volumes (mem_view w) k = Some old \<and> v = merged j old
         \<and> mem_view w' = cl_volumes_update (\<lambda>m. m(k \<mapsto> merged j old)) (mem_view w)"
  proof (cases "at_key (m_volumes w) k")
    case None
    with run show ?thesis by (auto simp: mem_patch_def)
  next
    case (Some old)
    have "mem_view (m_volumes_update (put_key key_of (merged j old)) w)
        = cl_volumes_update (\<lambda>m. m(k \<mapsto> merged j old)) (mem_view w)"
      using Some find_key_Some [OF Some] by (intro mem_volumes.view_put) (auto simp: find_put_key fun_eq_iff)
    with run Some show ?thesis by (auto simp: mem_patch_def mem_view_def)
  qed
qed

lemma Atoi_auto: "Atoi ''auto'' = Inl ErrSyntax" "Atoi [] = Inl ErrSyntax"
  by code_simp+

section \<open>Properties\<close>

text \<open>
  C29: what the dashboard creates can be provisioned. When the form is accepted, a new volume
  of that name is stored: its name is a sequence of lower-case letters, digits and inner
  hyphens, the names of its engine and of its replicas with indices below 1000, and of their
  pods, have at most 253 characters, its size is a positive number of Gi and its replica count
  is one the controller accepts. Every other reply leaves the cluster as it was.
\<close>

theorem dashboard_create_fits:
  assumes client: "kube_client c view"
    and run: "run_state (HandleCreate c h form) w = (r, w')"
  shows "if rp_Status r = 200 then accepted_volume h (FormValue (the form) ''name'') (view w) (view w')
     else view w' = view w"
  using wp_run [OF kube_client.wp_HandleCreate [OF client] run] .

text \<open>
  Scaling from the dashboard asks the controller for the number entered. When it is
  accepted, the number is positive, and the volume is stored with a replica count that
  \<open>ParseReplicaCount\<close> reads as that number; nothing else is changed. Otherwise nothing is.
\<close>

theorem dashboard_scale_count:
  assumes client: "dash_client c view patch"
    and run: "run_state (HandleScale patch h name form) w = (r, w')"
  shows "if rp_Status r = 200
     then \<exists>n old v. 0 < n \<and> ParseReplicaCount (FormValue (the form) ''replicaCount'') = Inr (n, False)
        \<and> cl_volumes (view w) (NN (hd_Namespace h) name) = Some old
        \<and> ParseReplicaCount (vs_ReplicaCount (Spec v)) = Inr (n, False)
        \<and> v\<lparr>Spec := (Spec v)\<lparr>vs_ReplicaCount := vs_ReplicaCount (Spec old)\<rparr>\<rparr> = old
        \<and> view w' = cl_volumes_update (\<lambda>m. m(NN (hd_Namespace h) name \<mapsto> v)) (view w)
     else view w' = view w"
proof (cases "rp_Status r = 200")
  case True
  with wp_run [OF dash_client.wp_HandleScale [OF client] run]
  obtain old n where n: "cl_volumes (view w) (NN (hd_Namespace h) name) = Some old"
      "ParseReplicaCount (FormValue (the form) ''replicaCount'') = Inr (n, False)"
      "view w' = cl_volumes_update (\<lambda>m. m(NN (hd_Namespace h) name \<mapsto>
          old\<lparr>Spec := (Spec old)\<lparr>vs_ReplicaCount := Itoa n\<rparr>\<rparr>)) (view w)"
    by auto
  have pos: "0 < n" "minInt64 \<le> n" "n \<le> maxInt64"
    using ParseReplicaCount_cases [OF n(2)] n(2)
    by (auto simp: ParseReplicaCount_def split: if_splits sum.splits dest: Atoi_range)
  then have "ParseReplicaCount (Itoa n) = Inr (n, False)"
    using Atoi_Itoa [of n] Atoi_auto by (auto simp: ParseReplicaCount_def)
  with n pos True show ?thesis
    by (auto intro!: exI [of _ n] exI [of _ "old\<lparr>Spec := (Spec old)\<lparr>vs_ReplicaCount := Itoa n\<rparr>\<rparr>"])
next
  case False
  with wp_run [OF dash_client.wp_HandleScale [OF client] run] show ?thesis by simp
qed

section \<open>Samples\<close>

definition sampleHandler :: Handler where
  "sampleHandler = \<lparr>hd_Namespace = ''ns''\<rparr>"

definition createForm :: form where
  "createForm = Some [(''name'', ''data-1''), (''size'', ''10''), (''replicaCount'', ''3'')]"

definition createResult :: "reply \<times> mem" where
  "createResult = run_state (HandleCreate (mem_env noHttp) sampleHandler createForm) (sampleMem [] [] [] [])"

theorem dashboard_create_fits_witness:
  "rp_Status (fst createResult) = 200
   \<and> accepted_volume sampleHandler ''data-1'' (mem_view (sampleMem [] [] [] [])) (mem_view (snd createResult))"
proof -
  have run: "run_state (HandleCreate (mem_env noHttp) sampleHandler createForm) (sampleMem [] [] [] [])
      = (fst createResult, snd createResult)" by (simp add: createResult_def)
  have "rp_Status (fst createResult) = 200" by code_simp
  moreover have "FormValue (the createForm) ''name'' = ''data-1''" by code_simp
  ultimately show ?thesis
    using dashboard_create_fits [where view = mem_view, OF kube_client_mem run] by simp
qed

definition scaleForm :: form where
  "scaleForm = Some [(''replicaCount'', ''+3'')]"

definition scaleResult :: "reply \<times> mem" where
  "scaleResult = run_state (HandleScale mem_patch sampleHandler ''vol'' scaleForm)
     (sampleMem [sampleVolume ''auto'' zero_VolumeStatus] [] [] [])"

theorem dashboard_scale_count_witness:
  "\<exists>v. cl_volumes (mem_view (snd scaleResult)) (NN ''ns'' ''vol'') = Some v
     \<and> ParseReplicaCount (vs_ReplicaCount (Spec v)) = Inr (3, False)"
proof -
  have run: "run_state (HandleScale mem_patch sampleHandler ''vol'' scaleForm)
      (sampleMem [sampleVolume ''auto'' zero_VolumeStatus] [] [] []) = (fst scaleResult, snd scaleResult)"
    by (simp add: scaleResult_def)
  have ok: "rp_Status (fst scaleResult) = 200" by code_simp
  have n: "ParseReplicaCount (FormValue (the scaleForm) ''replicaCount'') = Inr (3, False)" by code_simp
  from dashboard_scale_count [where view = mem_view and c = "mem_env noHttp", OF mem_dash.dash_client_axioms run] ok n
  show ?thesis by (auto simp: sampleHandler_def)
qed

text \<open>A server whose replicas cannot be listed, and whose engines cannot be read.\<close>

definition restoreBlind :: "mem env \<Rightarrow> mem env" where
  "restoreBlind c =
     c\<lparr>engines := (engines c)\<lparr>r_Get := (\<lambda>k. ret (Inl (ServerError ''timeout'')))\<rparr>,
       replicas := (replicas c)\<lparr>r_List := (\<lambda>ns ls. ret (Inl (ServerError ''timeout'')))\<rparr>\<rparr>"

definition restoreSample :: mem where
  "restoreSample =
     (sampleMem [sampleVolume ''1'' (zero_VolumeStatus\<lparr>vst_Phase := ''Ready''\<rparr>)] [sampleEngine [attachment ''vol-replica-0'' ''n1''] ''Running'']
        [sampleReplica 0 ''n1'' ''Running'' ''nqn''] [])
       \<lparr>m_snapshots := [\<lparr>Meta = meta_for ''snap'' ''ns'', Spec = \<lparr>sns_VolumeRef = ''vol'', sns_SnapshotID = ''snap''\<rparr>,
          Status = zero_SnapshotStatus\<lparr>snst_Phase := ''Ready'', snst_ReadyToUse := True\<rparr>\<rparr>]\<rparr>"

text \<open>
  A restore from the dashboard reports success without having removed the old data. The
  failures to read the engine, to list the replicas and to delete them are ignored: the reply
  is a success and the volume names the snapshot, while its engine and the replicas with the
  old data stay, to be taken up again by the controller, which creates only what is missing.
\<close>

theorem restore_ignores_failures:
  "let r = run_state (HandleSnapshotRestore (restoreBlind (mem_env noHttp)) sampleHandler ''vol'' ''snap'') restoreSample
   in rp_Status (fst r) = 200
      \<and> map (\<lambda>v. (vst_Phase (Status v), vs_SnapshotSource (Spec v))) (m_volumes (snd r)) = [([], Some \<lparr>ss_SnapshotName = ''snap''\<rparr>)]
      \<and> m_engines (snd r) = m_engines restoreSample \<and> m_replicas (snd r) = m_replicas restoreSample"
  by code_simp

end
