(* ===== verification/Shared_Client.thy ===== *)
theory Shared_Client
  imports Volume_Reconcile Engine_Reconcile Replica_Reconcile Snapshot_Reconcile Manager CSI_Controller Dashboard
begin

text \<open>
  The programs on a server that they share. Here a program is not alone with the API server:
  between two of its calls anything may happen that keeps an invariant \<open>P\<close> of what the server
  stores. What the program needs from its client is stated in the locales \<open>shared_kind\<close> and
  \<open>shared_client\<close>: a call keeps \<open>P\<close>, an object that is read has a sound status, and a status may
  only be written when it is sound. Every program is shown to keep \<open>P\<close> on these terms alone.
\<close>

section \<open>Sound statuses\<close>

text \<open>
  A running engine has an NQN, and an endpoint that is a host and a port: the CSI driver
  publishes them. A replica that names an NQN is running at such an endpoint: the engine reads
  both. A snapshot is ready to use exactly when its phase says so: the CSI driver and the
  dashboard read the one, the reconciler the other.
\<close>

definition engine_sound :: "EngineStatus \<Rightarrow> bool" where
  "engine_sound st \<longleftrightarrow>
     (est_Phase st = EnginePhaseRunning \<longrightarrow> est_SubsystemNQN st \<noteq> [] \<and> good_endpoint (est_Endpoint st))"

definition replica_sound :: "ReplicaStatus \<Rightarrow> bool" where
  "replica_sound st \<longleftrightarrow> (rst_NQN st \<noteq> [] \<longrightarrow> rst_Phase st = ReplicaPhaseRunning \<and> good_endpoint (rst_Endpoint st))"

definition snapshot_sound :: "SnapshotStatus \<Rightarrow> bool" where
  "snapshot_sound st \<longleftrightarrow> snst_ReadyToUse st = (snst_Phase st = SnapshotPhaseReady)"

lemma sound_zero [simp]:
  "engine_sound zero_EngineStatus" "replica_sound zero_ReplicaStatus" "snapshot_sound zero_SnapshotStatus"
  by (simp_all add: engine_sound_def zero_EngineStatus_def replica_sound_def zero_ReplicaStatus_def
      snapshot_sound_def zero_SnapshotStatus_def)

text \<open>A computation that keeps an invariant and whose results have a property.\<close>

definition yields :: "('w \<Rightarrow> 'c) \<Rightarrow> ('c \<Rightarrow> bool) \<Rightarrow> ('w, 'a) state \<Rightarrow> ('a \<Rightarrow> bool) \<Rightarrow> bool" where
  "yields view P m R \<longleftrightarrow> (\<forall>w. P (view w) \<longrightarrow> wp m (\<lambda>a w'. P (view w') \<and> R a) w)"

lemma yieldsI: "(\<And>w. P (view w) \<Longrightarrow> wp m (\<lambda>a w'. P (view w') \<and> R a) w) \<Longrightarrow> yields view P m R"
  by (simp add: yields_def)

lemma yields_keeps: "yields view P m R \<Longrightarrow> keeps view P m"
  unfolding yields_def keeps_def by (blast intro: wp_mono)

lemma keeps_bind_yields:
  assumes "yields view P m R" and "\<And>a. R a \<Longrightarrow> keeps view P (f a)"
  shows "keeps view P (State_Monad.bind m f)"
proof (rule keepsI)
  fix w assume "P (view w)"
  with assms(1) have "wp m (\<lambda>a w'. P (view w') \<and> R a) w" by (simp add: yields_def)
  then show "wp (State_Monad.bind m f) (\<lambda>_ w'. P (view w')) w"
    unfolding wp_bind by (rule wp_mono) (use keepsD [OF assms(2)] in blast)
qed

section \<open>The shared client\<close>

locale shared_kind =
  fixes r :: "('w, 'sp, 'st) resource"
    and view :: "'w \<Rightarrow> 'c"
    and P :: "'c \<Rightarrow> bool"
    and sound :: "'st \<Rightarrow> bool"
  assumes read: "yields view P (r_Get r k) (\<lambda>x. \<forall>o'. x = Inr o' \<longrightarrow> sound (Status o'))"
    and keeps_List: "keeps view P (r_List r ns ls)"
    and keeps_Create: "keeps view P (r_Create r o')"
    and keeps_Update: "keeps view P (r_Update r o')"
    and keeps_StatusUpdate: "sound (Status o') \<Longrightarrow> keeps view P (r_StatusUpdate r o')"
    and keeps_Delete: "keeps view P (r_Delete r k)"
begin

lemma keeps_Get: "keeps view P (r_Get r k)"
  using read by (rule yields_keeps)

lemma keeps_createIfMissing: "keeps view P (createIfMissing r o')"
  unfolding createIfMissing_def by (intro keeps_bind keeps_Create keeps_case_sum keeps_if keeps_return)

lemmas calls = keeps_Get keeps_List keeps_Create keeps_Update keeps_Delete keeps_createIfMissing

end

locale shared_client =
  vol: shared_kind "volumes c" view P "\<lambda>_. True" +
  eng: shared_kind "engines c" view P engine_sound +
  rep: shared_kind "replicas c" view P replica_sound +
  snap: shared_kind "snapshots c" view P snapshot_sound +
  pod: shared_kind "pods c" view P "\<lambda>_. True" +
  node: shared_kind "nodes c" view P "\<lambda>_. True"
  for c :: "'w env" and view :: "'w \<Rightarrow> 'c" and P :: "'c \<Rightarrow> bool" +
  fixes patch :: "'w patcher"
  assumes keeps_clock: "keeps view P (clock_Now c)"
    and keeps_http: "keeps view P (http_Do c q)"
    and keeps_patch: "keeps view P (patch k j)"
begin

lemmas steps = vol.calls vol.keeps_StatusUpdate eng.calls rep.calls snap.calls pod.calls node.calls keeps_clock keeps_http
  keeps_patch keeps_bind keeps_return keeps_if keeps_case_sum keeps_case_option keeps_case_prod keeps_Let

end

section \<open>The programs keep the invariant\<close>

definition agent_keeps :: "('w \<Rightarrow> 'c) \<Rightarrow> ('c \<Rightarrow> bool) \<Rightarrow> 'w agent_client \<Rightarrow> bool" where
  "agent_keeps view P a \<longleftrightarrow>
     (\<forall>q. keeps view P (ac_CreateReplica a q)) \<and> (\<forall>q. keeps view P (ac_DeleteSnapshot a q))"

context shared_client
begin

lemma keeps_reads:
  "keeps view P (replicasForVolume c volume)" "keeps view P (pickUnusedNode c used)" "keeps view P (pickAnyWorkerNode c)"
  "keeps view P (pickWorkerNodes c n)" "keeps view P (getReplicaPodByName c ns name)" "keeps view P (childrenReady c volume)"
proof -
  have running: "keeps view P (replicasRunning c ns ras)" for ns ras
    by (induction ras) (auto intro!: steps)
  show "keeps view P (replicasForVolume c volume)" "keeps view P (pickUnusedNode c used)"
    "keeps view P (pickAnyWorkerNode c)" "keeps view P (pickWorkerNodes c n)"
    "keeps view P (getReplicaPodByName c ns name)" "keeps view P (childrenReady c volume)"
    by (auto simp: replicasForVolume_def pickUnusedNode_def pickAnyWorkerNode_def pickWorkerNodes_def
        getReplicaPodByName_def childrenReady_def intro!: steps running)
qed

text \<open>The reconciler of volumes writes the statuses of volumes only.\<close>

lemma keeps_scale:
  "keeps view P (scaleUp c volume engine current desired)" "keeps view P (scaleDown c volume engine current desired)"
proof -
  have up: "keeps view P (scaleUp_loop c volume n i used u ras)" for n i used u ras
    by (induction n arbitrary: i used u ras) (auto simp: Let_def intro!: steps keeps_reads)
  have down: "keeps view P (scaleDown_loop c volume is)" for "is"
    by (induction "is") (auto intro!: steps)
  show "keeps view P (scaleUp c volume engine current desired)" "keeps view P (scaleDown c volume engine current desired)"
    by (auto simp: scaleUp_def scaleDown_def Let_def intro!: steps keeps_reads up down)
qed

lemma keeps_heal: "keeps view P (healReplicas c volume engine)"
proof -
  have scan: "keeps view P (scanReplicas c volume ras hs n)" for ras hs n
    by (induction ras arbitrary: hs n) (auto simp: Let_def intro!: steps keeps_reads)
  have detach: "keeps view P (detach c v engine i r m)" for v i r m
    by (auto simp: detach_def healed_def Let_def intro!: steps)
  have act: "keeps view P (recreate c v engine i m)" "keeps view P (restartPod c v i n h p)" for v i m n h p
    by (auto simp: recreate_def restartPod_def healed_def Let_def intro!: steps detach)
  have loop: "keeps view P (heal_loop c v engine is s)" for v "is" s
    by (induction "is" arbitrary: s) (auto simp: Let_def intro!: steps keeps_reads detach act)
  show ?thesis
    by (auto simp: healReplicas_def Let_def intro!: steps keeps_reads scan loop)
qed

lemma keeps_VolumeReconcile: "keeps view P (VolumeReconciler_Reconcile c req)"
proof -
  have loop: "keeps view P (ensureChildren_loop c v i ns ras)" for v i ns ras
    by (induction ns arbitrary: i ras) (auto simp: Let_def intro!: steps)
  have create: "keeps view P (createChildren c v)" for v
    by (auto simp: createChildren_def ensureChildren_def intro!: steps keeps_reads loop)
  have types: "keeps view P (syncTypes c v ras)" for v ras
    by (induction ras) (auto intro!: steps)
  have maintain: "keeps view P (maintain c v ready e)" for v ready e
    by (auto simp: maintain_def ensureScale_def Let_def intro!: steps keeps_reads types keeps_scale keeps_heal)
  show ?thesis
    by (auto simp: VolumeReconciler_Reconcile_def initialise_def intro!: steps keeps_reads create maintain)
qed

text \<open>
  The reconciler of engines writes the phase \<^verbatim>\<open>Running\<close> only over an endpoint and an NQN that it
  has checked, and every other phase whatever they are.
\<close>

lemma keeps_status: "keeps view P (statusClientOf c None ip)"
  by (auto simp: statusClientOf_def GetStatus_def intro!: steps)

lemma keeps_superviseEngine: "keeps view P (superviseEngine c None digest e)"
proof -
  have bdevs: "keeps view P (bdevNames c ns ras acc)" for ns ras acc
    by (induction ras arbitrary: acc) (auto intro!: steps)
  have finish: "keeps view P (finishRunning c h x)"
    if "est_SubsystemNQN (Status x) \<noteq> []" "good_endpoint (est_Endpoint (Status x))" for h x
    using that
    by (auto simp: finishRunning_def started_def configured_def engine_sound_def Let_def
        intro!: steps bdevs eng.keeps_StatusUpdate)
  have configure: "keeps view P (configure c digest ip x)"
    if "est_SubsystemNQN (Status x) \<noteq> []" "good_endpoint (est_Endpoint (Status x))" for ip x
    using that
    by (auto simp: configure_def triggerReconfigure_def reconfiguring_def engine_sound_def Let_def
        intro!: steps eng.keeps_StatusUpdate finish)
  have info: "keeps view P (getEnginePodInfo c x)" for x
    by (auto simp: getEnginePodInfo_def intro!: steps)
  show ?thesis
    by (auto simp: superviseEngine_def podLost_def withEndpoint_def engine_sound_def
        intro!: steps eng.keeps_StatusUpdate configure info keeps_status dest: validateEngine_None)
qed

lemma keeps_EngineReconcile: "keeps view P (EngineReconciler_Reconcile c None env images digest req)"
proof -
  have loop: "keeps view P (replicaStatus_loop c e ys ras ok ch)" for e ys ras ok ch
    by (induction ras arbitrary: ys ok ch) (auto simp: getReplicaPod_def Let_def intro!: steps split: sum.split)
  have status: "keeps view P (replicaStatus c e)" for e
    by (auto simp: replicaStatus_def intro!: steps loop)
  have start: "keeps view P (startPod c env images e)" for e
    by (auto simp: startPod_def allowedHosts_def podCreated_def engine_sound_def Let_def
        intro!: steps eng.keeps_StatusUpdate)
  show ?thesis
    by (auto simp: EngineReconciler_Reconcile_def intro!: steps status start keeps_superviseEngine split: option.split)
qed

text \<open>
  The agents are reached over HTTP. What is written of a replica is what its sidecar said, once
  it is checked, or nothing.
\<close>

lemma http_agent_keeps: "agent_keeps view P (NewHTTPClient (http_Do c) baseURL)"
  unfolding agent_keeps_def
  by (auto simp: NewHTTPClient_def doJSON_def doJSON_nil_def Let_def intro!: steps)

lemma factory_yields: "yields view P (replicaAgentFactory c ns n) (\<lambda>x. \<forall>a. x = Inr a \<longrightarrow> agent_keeps view P a)"
proof (rule yieldsI)
  fix w assume P: "P (view w)"
  have "keeps view P (replicaAgentFactory c ns n)"
    by (auto simp: replicaAgentFactory_def nodeAgentBaseURL_def intro!: steps)
  moreover have "wp (replicaAgentFactory c ns n) (\<lambda>x _. \<forall>a. x = Inr a \<longrightarrow> agent_keeps view P a) w"
    unfolding replicaAgentFactory_def wp_bind
    by (rule wp_of_run) (auto simp: http_agent_keeps map_sum_def split: sum.splits)
  ultimately show "wp (replicaAgentFactory c ns n) (\<lambda>x w'. P (view w') \<and> (\<forall>a. x = Inr a \<longrightarrow> agent_keeps view P a)) w"
    using P by (intro wp_conj keepsD)
qed

lemma keeps_ReplicaReconcile:
  "keeps view P (ReplicaReconciler_Reconcile c None (Some (replicaAgentFactory c ns)) None images req)"
proof -
  have pod: "keeps view P (replicaPod c r)" for r
    by (auto simp: replicaPod_def intro!: steps)
  have finish: "keeps view P (finishReplica c r)"
    if "rst_NQN (Status r) \<noteq> [] \<longrightarrow> good_endpoint (rst_Endpoint (Status r))" for r
    using that
    by (auto simp: finishReplica_def replicaUp_def replica_sound_def intro!: steps rep.keeps_StatusUpdate)
  have remote: "keeps view P (serveRemote c None images r)" for r
    by (auto simp: serveRemote_def exported_def intro!: steps keeps_status pod finish dest: validateReplica_None
        split: option.split)
  have local: "keeps view P (serveLocal c r)" for r
    by (auto simp: serveLocal_def unexported_def intro!: steps pod finish)
  have path: "keeps view P (snapshotPathFor c r)" for r
    by (auto simp: snapshotPathFor_def intro!: steps)
  have provision: "keeps view P (provision c None (Some (replicaAgentFactory c ns)) None images r)" for r
    unfolding provision_def agentFor_def option.case
    by (rule keeps_bind_yields [OF factory_yields])
      (auto simp: agent_keeps_def intro!: steps path remote local split: sum.split)
  show ?thesis
    by (auto simp: ReplicaReconciler_Reconcile_def intro!: steps pod provision split: sum.split option.split)
qed

text \<open>
  The reconciler of snapshots goes by the status it has read, which was sound: one that is not
  yet ready is not ready to use.
\<close>

lemma keeps_SnapshotReconcile: "keeps view P (SnapshotReconciler_Reconcile c (replicaAgentFactory c ns) None req)"
proof -
  have ip: "keeps view P (enginePodIP c e)" for e
    by (auto simp: enginePodIP_def intro!: steps)
  have delete: "keeps view P (reconcileDelete c (replicaAgentFactory c ns) s)" for s
  proof -
    have "keeps view P (dropFile (replicaAgentFactory c ns) s)"
      unfolding dropFile_def
      by (intro keeps_if keeps_bind_yields [OF factory_yields] keeps_return)
        (auto simp: agent_keeps_def intro!: steps split: sum.split)
    then show ?thesis by (auto simp: reconcileDelete_def intro!: steps)
  qed
  have go: "keeps view P (startCreate c s)" "keeps view P (pollCreate c None s)"
    if "\<not> snst_ReadyToUse (Status s)" for s
    using that
    by (auto simp: startCreate_def pollCreate_def takeSnapshot_def snapshotFailed_def snapshotReady_def snapshot_sound_def
        intro!: steps ip snap.keeps_StatusUpdate split: error.split option.split)
  show ?thesis
    unfolding SnapshotReconciler_Reconcile_def
    by (rule keeps_bind_yields [OF snap.read])
      (auto simp: snapshot_sound_def intro!: steps delete go snap.keeps_StatusUpdate split: sum.split)
qed

text \<open>The CSI driver and the dashboard write no status of these at all.\<close>

lemma keeps_csi:
  "keeps view P (CreateVolume c d cv)" "keeps view P (DeleteVolume c d vid)" "keeps view P (CreateSnapshot c d cs)"
  "keeps view P (DeleteSnapshot c d sid)"
  by (auto simp: CreateVolume_def requestedVolume_def DeleteVolume_def CreateSnapshot_def DeleteSnapshot_def Let_def
      intro!: steps split: option.split ContentSource.split)

lemma keeps_dashboard:
  "keeps view P (HandleCreate c h f)" "keeps view P (HandleDelete c h n)"
  "keeps view P (HandleSnapshotDelete c h n)" "keeps view P (HandleSnapshotCreate c h n f)"
  "keeps view P (HandleSnapshotCreateFromSnapshot c h n n' f)" "keeps view P (HandleScale patch h n f)"
  "keeps view P (HandleDeleteReplica c patch h n n')"
  by (auto simp: HandleCreate_def createVolumeReply_def HandleDelete_def HandleSnapshotDelete_def
      HandleSnapshotCreate_def HandleSnapshotCreateFromSnapshot_def HandleScale_def HandleDeleteReplica_def
      getVolumeEngine_def detachReplica_def Let_def intro!: steps split: option.split sum.split)

lemma keeps_restore: "keeps view P (HandleSnapshotRestore c h n n')"
proof -
  have "keeps view P (deleteReplicas c rs)" for rs
    by (induction rs) (auto intro!: steps)
  then show ?thesis
    by (auto simp: HandleSnapshotRestore_def rollBack_def dropEngine_def dropReplicas_def Let_def
        intro!: steps split: option.split sum.split)
qed

end

section \<open>Lawful steps\<close>

text \<open>
  What one call may do to what the server stores: every status afterwards is sound, or the one
  that was there before under the same name.
\<close>

definition kept_statuses ::
  "('st \<Rightarrow> bool) \<Rightarrow> (NamespacedName \<rightharpoonup> ('sp, 'st) kobj) \<Rightarrow> (NamespacedName \<rightharpoonup> ('sp, 'st) kobj) \<Rightarrow> bool" where
  "kept_statuses sound m m' \<longleftrightarrow>
     (\<forall>k x'. m' k = Some x' \<longrightarrow> sound (Status x') \<or> (\<exists>x. m k = Some x \<and> Status x' = Status x))"

definition lawful :: "cluster \<Rightarrow> cluster \<Rightarrow> bool" where
  "lawful cl cl' \<longleftrightarrow>
     kept_statuses engine_sound (cl_engines cl) (cl_engines cl')
     \<and> kept_statuses replica_sound (cl_replicas cl) (cl_replicas cl')
     \<and> kept_statuses snapshot_sound (cl_snapshots cl) (cl_snapshots cl')"

definition statuses_ok :: "('st \<Rightarrow> bool) \<Rightarrow> (NamespacedName \<rightharpoonup> ('sp, 'st) kobj) \<Rightarrow> bool" where
  "statuses_ok sound m \<longleftrightarrow> (\<forall>k x. m k = Some x \<longrightarrow> sound (Status x))"

definition sys_ok :: "cluster \<Rightarrow> bool" where
  "sys_ok cl \<longleftrightarrow>
     statuses_ok engine_sound (cl_engines cl) \<and> statuses_ok replica_sound (cl_replicas cl)
     \<and> statuses_ok snapshot_sound (cl_snapshots cl)"

lemma kept_statuses_refl [simp]: "kept_statuses sound m m"
  by (auto simp: kept_statuses_def)

lemma kept_statuses_ok: "statuses_ok sound m \<Longrightarrow> kept_statuses sound m m' \<Longrightarrow> statuses_ok sound m'"
  unfolding statuses_ok_def kept_statuses_def by metis

lemma kept_statuses_trans: "kept_statuses sound a b \<Longrightarrow> kept_statuses sound b d \<Longrightarrow> kept_statuses sound a d"
  unfolding kept_statuses_def by metis

lemma lawful_refl [simp]: "lawful cl cl"
  by (simp add: lawful_def)

lemma lawful_trans: "lawful a b \<Longrightarrow> lawful b d \<Longrightarrow> lawful a d"
  unfolding lawful_def by (blast intro: kept_statuses_trans)

lemma lawful_ok: "sys_ok cl \<Longrightarrow> lawful cl cl' \<Longrightarrow> sys_ok cl'"
  unfolding sys_ok_def lawful_def by (blast intro: kept_statuses_ok)

text \<open>The calls of one kind change the objects of that kind only, and lawfully.\<close>

definition own_call ::
  "('w \<Rightarrow> 'c) \<Rightarrow> ('c \<Rightarrow> NamespacedName \<rightharpoonup> ('sp, 'st) kobj)
   \<Rightarrow> (((NamespacedName \<rightharpoonup> ('sp, 'st) kobj) \<Rightarrow> NamespacedName \<rightharpoonup> ('sp, 'st) kobj) \<Rightarrow> 'c \<Rightarrow> 'c)
   \<Rightarrow> ('st \<Rightarrow> bool) \<Rightarrow> ('w, 'a) state \<Rightarrow> bool" where
  "own_call view sel upd sound m \<longleftrightarrow>
     (\<forall>w. wp m (\<lambda>_ w'. view w' = view w \<or>
        (\<exists>f. view w' = upd f (view w) \<and> kept_statuses sound (sel (view w)) (f (sel (view w))))) w)"

lemma kept_statuses_put: "sound (Status x) \<Longrightarrow> kept_statuses sound m (m(k \<mapsto> x))"
  by (simp add: kept_statuses_def)

lemma kept_statuses_edit:
  "m k = Some old \<Longrightarrow> (\<And>x. rest = Some x \<Longrightarrow> Status x = Status old) \<Longrightarrow> kept_statuses sound m (m(k := rest))"
  by (auto simp: kept_statuses_def)

context kube_resource
begin

lemma own_calls:
  assumes fresh: "\<And>st. fresh st \<Longrightarrow> sound st"
  shows "own_call view sel upd sound (r_Get r k)" "own_call view sel upd sound (r_List r ns ls)"
    "own_call view sel upd sound (r_Create r o')" "own_call view sel upd sound (r_Update r o')"
    "sound (Status o') \<Longrightarrow> own_call view sel upd sound (r_StatusUpdate r o')"
    "own_call view sel upd sound (r_Delete r k)"
  unfolding own_call_def
  using fresh
  by (auto intro!: wp_Get wp_List wp_Create wp_Update wp_StatusUpdate wp_Delete kept_statuses_put
      kept_statuses_edit exI simp: kept_def deleted_def split: if_splits)

lemma get_sound:
  assumes "statuses_ok sound (sel (view w))"
  shows "wp (r_Get r k) (\<lambda>x _. \<forall>o'. x = Inr o' \<longrightarrow> sound (Status o')) w"
  using assms by (auto simp: statuses_ok_def intro!: wp_Get)

end

text \<open>A computation is lawful when it makes a lawful step of every sound state.\<close>

definition lawful_call :: "('w \<Rightarrow> cluster) \<Rightarrow> ('w, 'a) state \<Rightarrow> bool" where
  "lawful_call view m \<longleftrightarrow> (\<forall>w. sys_ok (view w) \<longrightarrow> wp m (\<lambda>_ w'. lawful (view w) (view w')) w)"

lemma lawful_callI:
  assumes "own_call view sel upd sound m"
    and "\<And>f cl. kept_statuses sound (sel cl) (f (sel cl)) \<Longrightarrow> lawful cl (upd f cl)"
  shows "lawful_call view m"
  unfolding lawful_call_def
proof (intro allI impI)
  fix w
  from assms(1) show "wp m (\<lambda>_ w'. lawful (view w) (view w')) w"
    unfolding own_call_def by (rule allE [of _ w], elim wp_mono) (auto intro: assms(2))
qed

lemma lawful_own:
  "own_call view cl_volumes cl_volumes_update vs m1 \<Longrightarrow> lawful_call view m1"
  "own_call view cl_engines cl_engines_update engine_sound m2 \<Longrightarrow> lawful_call view m2"
  "own_call view cl_replicas cl_replicas_update replica_sound m3 \<Longrightarrow> lawful_call view m3"
  "own_call view cl_snapshots cl_snapshots_update snapshot_sound m4 \<Longrightarrow> lawful_call view m4"
  "own_call view cl_pods cl_pods_update ps m5 \<Longrightarrow> lawful_call view m5"
  "own_call view cl_nodes cl_nodes_update ns m6 \<Longrightarrow> lawful_call view m6"
  by (erule lawful_callI, simp add: lawful_def)+

text \<open>The states that are sound and lawfully reached from \<open>cl0\<close>.\<close>

definition lawful_from :: "cluster \<Rightarrow> cluster \<Rightarrow> bool" where
  "lawful_from cl0 cl \<longleftrightarrow> sys_ok cl \<and> lawful cl0 cl"

lemma keeps_lawful: "lawful_call view m \<Longrightarrow> keeps view (lawful_from cl0) m"
  unfolding lawful_call_def keeps_def lawful_from_def by (blast intro: wp_mono lawful_ok lawful_trans)

context dash_client
begin

lemmas volume_calls = vol.own_calls [of "\<lambda>_. True", OF TrueI, THEN lawful_own(1)]
lemmas engine_calls = eng.own_calls [of engine_sound, THEN lawful_own(2)]
lemmas replica_calls = rep.own_calls [of replica_sound, THEN lawful_own(3)]
lemmas snapshot_calls = snap.own_calls [of snapshot_sound, THEN lawful_own(4)]
lemmas pod_calls = pod.own_calls [of "\<lambda>_. True", OF TrueI, THEN lawful_own(5)]
lemmas node_calls = node.own_calls [of "\<lambda>_. True", OF TrueI, THEN lawful_own(6)]

lemma other_calls: "lawful_call view (clock_Now c)" "lawful_call view (http_Do c q)" "lawful_call view (patch k j)"
  unfolding lawful_call_def by (auto intro!: wp_Now wp_Do wp_patch simp: lawful_def)

lemma reads_sound:
  assumes "sys_ok (view w)"
  shows "wp (r_Get (engines c) k) (\<lambda>x _. \<forall>e. x = Inr e \<longrightarrow> engine_sound (Status e)) w"
    "wp (r_Get (replicas c) k) (\<lambda>x _. \<forall>e. x = Inr e \<longrightarrow> replica_sound (Status e)) w"
    "wp (r_Get (snapshots c) k) (\<lambda>x _. \<forall>e. x = Inr e \<longrightarrow> snapshot_sound (Status e)) w"
  using assms by (auto simp: sys_ok_def intro: eng.get_sound rep.get_sound snap.get_sound)

end

section \<open>A program alone with the server\<close>

lemma yields_lawful:
  assumes "lawful_call view m" and "\<And>w. sys_ok (view w) \<Longrightarrow> wp m (\<lambda>x _. R x) w"
  shows "yields view (lawful_from cl0) m R"
  by (intro yieldsI wp_conj keepsD [OF keeps_lawful [OF assms(1)]] assms(2)) (simp_all add: lawful_from_def)

lemma lawful_kind:
  assumes "\<And>k. lawful_call view (r_Get r k)" "\<And>ns ls. lawful_call view (r_List r ns ls)"
    "\<And>o'. lawful_call view (r_Create r o')" "\<And>o'. lawful_call view (r_Update r o')"
    "\<And>o'. sound (Status o') \<Longrightarrow> lawful_call view (r_StatusUpdate r o')" "\<And>k. lawful_call view (r_Delete r k)"
    and "\<And>k w. sys_ok (view w) \<Longrightarrow> wp (r_Get r k) (\<lambda>x _. \<forall>o'. x = Inr o' \<longrightarrow> sound (Status o')) w"
  shows "shared_kind r view (lawful_from cl0) sound"
  by unfold_locales (blast intro: yields_lawful keeps_lawful assms)+

lemma reads_any: "wp m (\<lambda>x _. True) w"
  by (rule wp_of_run) simp

sublocale dash_client \<subseteq> alone: shared_client c view "lawful_from cl0" patch for cl0
proof (intro shared_client.intro shared_client_axioms.intro)
  show "shared_kind (volumes c) view (lawful_from cl0) (\<lambda>_. True)" by (rule lawful_kind) (simp_all add: volume_calls reads_any)
  show "shared_kind (engines c) view (lawful_from cl0) engine_sound" by (rule lawful_kind) (simp_all add: engine_calls reads_sound)
  show "shared_kind (replicas c) view (lawful_from cl0) replica_sound" by (rule lawful_kind) (simp_all add: replica_calls reads_sound)
  show "shared_kind (snapshots c) view (lawful_from cl0) snapshot_sound" by (rule lawful_kind) (simp_all add: snapshot_calls reads_sound)
  show "shared_kind (pods c) view (lawful_from cl0) (\<lambda>_. True)" by (rule lawful_kind) (simp_all add: pod_calls reads_any)
  show "shared_kind (nodes c) view (lawful_from cl0) (\<lambda>_. True)" by (rule lawful_kind) (simp_all add: node_calls reads_any)
qed (rule keeps_lawful, rule other_calls)+

end
