(* ===== verification/CSI_Node.thy ===== *)
theory CSI_Node
  imports CSI_Controller Xfs "HOL-Library.Word"
begin

text \<open>
  The node service of the CSI driver, \<^verbatim>\<open>src/internal/csi/node.go\<close>, and its mounter,
  \<^verbatim>\<open>src/internal/csi/mount.go\<close>: a volume is staged by connecting to the subsystem of its
  engine over NVMe, finding the block device in \<^verbatim>\<open>/sys\<close> and mounting it, or by an NFS mount,
  and published by a bind mount. The system calls are a record \<open>machine\<close>; directory entries are
  their names, and logging is left out.
\<close>

unbundle bit_operations_syntax

section \<open>The machine and the mounter\<close>

record 'w machine =
  mc_OS :: "'w os"
  mc_Mknod :: "string \<Rightarrow> int \<Rightarrow> int \<Rightarrow> ('w, os_error option) state"
  mc_Mount :: "string \<Rightarrow> string \<Rightarrow> string \<Rightarrow> 64 word \<Rightarrow> string \<Rightarrow> ('w, os_error option) state"
  mc_Unmount :: "string \<Rightarrow> ('w, os_error option) state"
  mc_Sleep :: "int \<Rightarrow> ('w, unit) state"
  mc_Run :: "'w runner"

record 'w Mounter =
  mt_Mount :: "string \<Rightarrow> string \<Rightarrow> string \<Rightarrow> string list \<Rightarrow> ('w, os_error option) state"
  mt_BindMount :: "string \<Rightarrow> string \<Rightarrow> bool \<Rightarrow> ('w, os_error option) state"
  mt_Unmount :: "string \<Rightarrow> ('w, os_error option) state"

text \<open>The mount flags of Linux that are used.\<close>

definition MS_RDONLY :: "64 word" where "MS_RDONLY = 1"
definition MS_BIND :: "64 word" where "MS_BIND = 4096"

definition mountNFSViaHelper ::
  "'w machine \<Rightarrow> string \<Rightarrow> string \<Rightarrow> string \<Rightarrow> string list \<Rightarrow> ('w, os_error option) state" where
  "mountNFSViaHelper m source target fsType options = do {
     r \<leftarrow> mc_Run m ''mount'' [''-t'', fsType, ''-o'', Join options '','', source, target];
     case r of
       (out, Some err) \<Rightarrow> ret (Some (Wrapped (TrimSpace out) err))
     | (_, None) \<Rightarrow> ret None
   }"

definition exec_Mount ::
  "'w machine \<Rightarrow> string \<Rightarrow> string \<Rightarrow> string \<Rightarrow> string list \<Rightarrow> ('w, os_error option) state" where
  "exec_Mount m source target fsType options = do {
     e \<leftarrow> os_MkdirAll (mc_OS m) target;
     case e of
       Some err \<Rightarrow> ret (Some err)
     | None \<Rightarrow>
         if fsType = ''nfs'' \<or> fsType = ''nfs4'' then mountNFSViaHelper m source target fsType options
         else mc_Mount m source target fsType 0 (Join options '','')
   }"

definition exec_BindMount :: "'w machine \<Rightarrow> string \<Rightarrow> string \<Rightarrow> bool \<Rightarrow> ('w, os_error option) state" where
  "exec_BindMount m source target readonly = do {
     e \<leftarrow> os_MkdirAll (mc_OS m) target;
     case e of
       Some err \<Rightarrow> ret (Some err)
     | None \<Rightarrow> mc_Mount m source target [] (if readonly then MS_BIND OR MS_RDONLY else MS_BIND) []
   }"

definition exec_Unmount :: "'w machine \<Rightarrow> string \<Rightarrow> ('w, os_error option) state" where
  "exec_Unmount m target = mc_Unmount m target"

definition ExecMounter :: "'w machine \<Rightarrow> 'w Mounter" where
  "ExecMounter m = \<lparr>mt_Mount = exec_Mount m, mt_BindMount = exec_BindMount m, mt_Unmount = exec_Unmount m\<rparr>"

text \<open>The driver on a node: its own node, its mounter if one is set, and the authority of names.\<close>

record 'w NodeDriver =
  nd_NodeID :: string
  nd_Mounter :: "'w Mounter option"
  nd_Authority :: string

definition mounter :: "'w machine \<Rightarrow> 'w NodeDriver \<Rightarrow> 'w Mounter" where
  "mounter m d = (case nd_Mounter d of None \<Rightarrow> ExecMounter m | Some mt \<Rightarrow> mt)"

datatype node_error =
    NodeOS os_error
  | ServerRequired | EndpointRequired | MountNFS os_error | StageFailed node_error | PublishStage node_error
  | BadEndpoint string error | BadNQN | FabricsMissing os_error | HostNQNFailed node_error | NodeIDRequired
  | NoNVMeDevice string | ControllerNotLive string | FabricsWrite os_error | DeviceMissing string os_error
  | NodeXfs xfs_error

section \<open>Devices\<close>

definition subsystemDir :: string where
  "subsystemDir = ''/sys/devices/virtual/nvme-subsystem''"

definition isController :: "string \<Rightarrow> bool" where
  "isController n \<longleftrightarrow> HasPrefix n ''nvme'' \<and> \<not> Contains (drop 4 n) ''n''"

definition isNamespace :: "string \<Rightarrow> bool" where
  "isNamespace n \<longleftrightarrow> HasPrefix n ''nvme'' \<and> Contains (drop 4 n) ''n''"

definition ensureBlockDeviceNode :: "'w machine \<Rightarrow> string \<Rightarrow> int \<Rightarrow> int \<Rightarrow> ('w, os_error option) state" where
  "ensureBlockDeviceNode m devPath major minor = do {
     r \<leftarrow> os_Remove (mc_OS m) devPath;
     e \<leftarrow> (case r of
            None \<Rightarrow> ret None
          | Some err \<Rightarrow>
              if err = NotExist then ret None
              else if err = Permission \<or> err = Invalid then ret (Some err)
              else os_RemoveAll (mc_OS m) devPath);
     case e of
       Some err \<Rightarrow> ret (Some err)
     | None \<Rightarrow> mc_Mknod m devPath (major mod 2 ^ 32) (minor mod 2 ^ 32)
   }"

text \<open>The value \<^verbatim>\<open>strconv.Atoi\<close> returns along with an error that is ignored: zero, or the limit.\<close>

definition Atoi_value :: "string \<Rightarrow> int" where
  "Atoi_value s =
     (case Atoi s of
        Inr i \<Rightarrow> i
      | Inl ErrSyntax \<Rightarrow> 0
      | Inl ErrRange \<Rightarrow> if HasPrefix s ''-'' then minInt64 else maxInt64)"

fun controllerLive :: "'w machine \<Rightarrow> string \<Rightarrow> string list \<Rightarrow> ('w, bool) state" where
  "controllerLive m dir [] = ret False"
| "controllerLive m dir (ns # nss) =
     (if \<not> isController ns then controllerLive m dir nss
      else do {
        st \<leftarrow> os_ReadFile (mc_OS m) (Join2 (Join2 dir ns) ''state'');
        case st of
          Inr s \<Rightarrow> if TrimSpace s = ''live'' then ret True else controllerLive m dir nss
        | Inl _ \<Rightarrow> controllerLive m dir nss
      })"

fun namespaceDevice :: "'w machine \<Rightarrow> string \<Rightarrow> string list \<Rightarrow> ('w, (os_error + string) option) state" where
  "namespaceDevice m dir [] = ret None"
| "namespaceDevice m dir (ns # nss) =
     (if \<not> isNamespace ns then namespaceDevice m dir nss
      else do {
        dev \<leftarrow> os_ReadFile (mc_OS m) (Join2 (Join2 dir ns) ''dev'');
        case dev of
          Inl _ \<Rightarrow> namespaceDevice m dir nss
        | Inr majMin \<Rightarrow>
            (case Cut '':'' (TrimSpace majMin) of
               None \<Rightarrow> namespaceDevice m dir nss
             | Some (major, minor) \<Rightarrow> do {
                 e \<leftarrow> ensureBlockDeviceNode m (Join2 ''/dev'' ns) (Atoi_value major) (Atoi_value minor);
                 ret (Some (case e of Some err \<Rightarrow> Inl err | None \<Rightarrow> Inr (Join2 ''/dev'' ns)))
               })
      })"

text \<open>The entries of the directory of a subsystem, if it is the one of the given name and can be read.\<close>

definition subsystemEntries :: "'w machine \<Rightarrow> string \<Rightarrow> string \<Rightarrow> ('w, string list option) state" where
  "subsystemEntries m nqn entry = do {
     f \<leftarrow> os_ReadFile (mc_OS m) (Join2 (Join2 subsystemDir entry) ''subsysnqn'');
     case f of
       Inl _ \<Rightarrow> ret None
     | Inr subsysNQN \<Rightarrow>
         if TrimSpace subsysNQN \<noteq> nqn then ret None
         else do {
           ns \<leftarrow> os_ReadDir (mc_OS m) (Join2 subsystemDir entry);
           ret (case ns of Inl _ \<Rightarrow> None | Inr es \<Rightarrow> Some es)
         }
   }"

fun findDevice :: "'w machine \<Rightarrow> string \<Rightarrow> string list \<Rightarrow> ('w, node_error + string) state" where
  "findDevice m nqn [] = ret (Inl (NoNVMeDevice nqn))"
| "findDevice m nqn (entry # entries) = do {
     es \<leftarrow> subsystemEntries m nqn entry;
     case es of
       None \<Rightarrow> findDevice m nqn entries
     | Some nsEntries \<Rightarrow> do {
         live \<leftarrow> controllerLive m (Join2 subsystemDir entry) nsEntries;
         if \<not> live then ret (Inl (ControllerNotLive nqn))
         else do {
           d \<leftarrow> namespaceDevice m (Join2 subsystemDir entry) nsEntries;
           case d of
             Some (Inr dev) \<Rightarrow> ret (Inr dev)
           | Some (Inl err) \<Rightarrow> ret (Inl (NodeOS err))
           | None \<Rightarrow> findDevice m nqn entries
         }
       }
   }"

definition findExistingNVMEDevice :: "'w machine \<Rightarrow> string \<Rightarrow> ('w, node_error + string) state" where
  "findExistingNVMEDevice m nqn = do {
     r \<leftarrow> os_ReadDir (mc_OS m) subsystemDir;
     case r of
       Inl err \<Rightarrow> ret (Inl (NodeOS err))
     | Inr entries \<Rightarrow> findDevice m nqn entries
   }"

fun deleteControllers :: "'w machine \<Rightarrow> string \<Rightarrow> string list \<Rightarrow> ('w, unit) state" where
  "deleteControllers m dir [] = ret ()"
| "deleteControllers m dir (ns # nss) =
     (if \<not> isController ns then deleteControllers m dir nss
      else do {
        _ \<leftarrow> os_WriteFile (mc_OS m) (Join2 (Join2 dir ns) ''delete_controller'') ''1'';
        deleteControllers m dir nss
      })"

fun clearSubsystems :: "'w machine \<Rightarrow> string \<Rightarrow> string list \<Rightarrow> ('w, unit) state" where
  "clearSubsystems m nqn [] = ret ()"
| "clearSubsystems m nqn (entry # entries) = do {
     es \<leftarrow> subsystemEntries m nqn entry;
     case es of
       None \<Rightarrow> clearSubsystems m nqn entries
     | Some nsEntries \<Rightarrow> do {
         _ \<leftarrow> deleteControllers m (Join2 subsystemDir entry) nsEntries;
         clearSubsystems m nqn entries
       }
   }"

definition clearNVMeSubsystem :: "'w machine \<Rightarrow> string \<Rightarrow> ('w, unit) state" where
  "clearNVMeSubsystem m nqn = do {
     r \<leftarrow> os_ReadDir (mc_OS m) subsystemDir;
     case r of
       Inl _ \<Rightarrow> ret ()
     | Inr entries \<Rightarrow> clearSubsystems m nqn entries
   }"

section \<open>Staging over NVMe\<close>

definition mountOptions :: "bool \<Rightarrow> string list" where
  "mountOptions readonly = (if readonly then [''ro'', ''nouuid''] else [])"

definition ensureNVMeHostNQN :: "'w machine \<Rightarrow> 'w NodeDriver \<Rightarrow> ('w, node_error option) state" where
  "ensureNVMeHostNQN m d =
     (if TrimSpace (nd_NodeID d) = [] then ret (Some NodeIDRequired)
      else do {
        e \<leftarrow> os_WriteFile (mc_OS m) ''/etc/nvme/hostnqn'' (HostNQN (nd_Authority d) (nd_NodeID d) @ [CHR 0x0A]);
        ret (map_option NodeOS e)
      })"

text \<open>The text of an error, less the operation and the path in front of it.\<close>

fun error_text :: "os_error \<Rightarrow> string" where
  "error_text NotExist = ''no such file or directory''"
| "error_text Permission = ''permission denied''"
| "error_text Invalid = ''invalid argument''"
| "error_text (OsError t) = t"
| "error_text (Wrapped t e) = t @ '': '' @ error_text e"

fun connectNVMe :: "'w machine \<Rightarrow> string \<Rightarrow> string \<Rightarrow> nat list \<Rightarrow> ('w, node_error option) state" where
  "connectNVMe m nqn connStr [] = ret None"
| "connectNVMe m nqn connStr (retry # retries) = do {
     e \<leftarrow> os_WriteFile (mc_OS m) ''/dev/nvme-fabrics'' connStr;
     case e of
       None \<Rightarrow> ret None
     | Some err \<Rightarrow>
         if Contains (error_text err) ''operation already in progress'' \<and> retry < 2
         then do {
           _ \<leftarrow> clearNVMeSubsystem m nqn;
           _ \<leftarrow> mc_Sleep m (3 * Second);
           connectNVMe m nqn connStr retries
         }
         else ret (Some (FabricsWrite err))
   }"

fun awaitDevice :: "'w machine \<Rightarrow> string \<Rightarrow> nat \<Rightarrow> ('w, string) state" where
  "awaitDevice m nqn 0 = ret []"
| "awaitDevice m nqn (Suc n) = do {
     r \<leftarrow> findExistingNVMEDevice m nqn;
     case r of
       Inr dev \<Rightarrow> ret dev
     | Inl _ \<Rightarrow> do {
         _ \<leftarrow> mc_Sleep m Second;
         awaitDevice m nqn n
       }
   }"

definition mountStaged :: "'w machine \<Rightarrow> 'w NodeDriver \<Rightarrow> string \<Rightarrow> string \<Rightarrow> bool \<Rightarrow> ('w, node_error option) state" where
  "mountStaged m d targetPath device readonly = do {
     _ \<leftarrow> mt_Unmount (mounter m d) targetPath;
     _ \<leftarrow> os_RemoveAll (mc_OS m) targetPath;
     let mount = mt_Mount (mounter m d) device targetPath ''xfs'' (mountOptions readonly);
     if readonly
     then do {
       e \<leftarrow> mount;
       ret (map_option NodeOS e)
     }
     else do {
       r \<leftarrow> EnsureMounted device mount (mc_Run m);
       ret (map_option NodeXfs (snd r))
     }
   }"

definition connectAndMount ::
  "'w machine \<Rightarrow> 'w NodeDriver \<Rightarrow> string \<Rightarrow> string \<Rightarrow> string \<Rightarrow> bool \<Rightarrow> ('w, node_error option) state" where
  "connectAndMount m d targetPath connStr nqn readonly = do {
     e \<leftarrow> connectNVMe m nqn connStr [0..<3];
     case e of
       Some err \<Rightarrow> ret (Some err)
     | None \<Rightarrow> do {
         device \<leftarrow> awaitDevice m nqn 30;
         st \<leftarrow> os_Stat (mc_OS m) device;
         case st of
           Inl err \<Rightarrow> ret (Some (DeviceMissing device err))
         | Inr _ \<Rightarrow> mountStaged m d targetPath device readonly
       }
   }"

text \<open>Mounting a device that is already connected; when that fails, its connections are dropped.\<close>

definition mountExisting :: "'w machine \<Rightarrow> 'w NodeDriver \<Rightarrow> string \<Rightarrow> string \<Rightarrow> bool \<Rightarrow> ('w, bool) state" where
  "mountExisting m d targetPath nqn readonly = do {
     existing \<leftarrow> findExistingNVMEDevice m nqn;
     case existing of
       Inl _ \<Rightarrow> ret False
     | Inr device \<Rightarrow> do {
         e \<leftarrow> mt_Mount (mounter m d) device targetPath ''xfs'' (mountOptions readonly);
         if e = None then ret True
         else do {
           _ \<leftarrow> clearNVMeSubsystem m nqn;
           _ \<leftarrow> mc_Sleep m (3 * Second);
           ret False
         }
       }
   }"

definition connString :: "string \<Rightarrow> string \<Rightarrow> string \<Rightarrow> string" where
  "connString addr port nqn = ''transport=tcp,traddr='' @ addr @ '',trsvcid='' @ port @ '',nqn='' @ nqn"

definition ensureNVMeStaged ::
  "'w machine \<Rightarrow> 'w NodeDriver \<Rightarrow> string \<Rightarrow> string \<Rightarrow> string \<Rightarrow> bool \<Rightarrow> ('w, node_error option) state" where
  "ensureNVMeStaged m d targetPath endpoint nqn readonly =
     (case SplitEndpoint endpoint of
        Inl err \<Rightarrow> ret (Some (BadEndpoint endpoint err))
      | Inr (addr, port) \<Rightarrow>
          if \<not> HasPrefix nqn ''nqn'' then ret (Some BadNQN)
          else do {
            st \<leftarrow> os_Stat (mc_OS m) ''/dev/nvme-fabrics'';
            case st of
              Inl err \<Rightarrow> ret (Some (FabricsMissing err))
            | Inr _ \<Rightarrow> do {
                e \<leftarrow> ensureNVMeHostNQN m d;
                case e of
                  Some err \<Rightarrow> ret (Some (HostNQNFailed err))
                | None \<Rightarrow> do {
                    mounted \<leftarrow> mountExisting m d targetPath nqn readonly;
                    if mounted then ret None
                    else connectAndMount m d targetPath (connString addr port nqn) nqn readonly
                  }
              }
          })"

section \<open>The service\<close>

record NodeStageVolumeRequest =
  ns_PublishContext :: smap
  ns_StagingTargetPath :: string
  ns_VolumeCapability :: VolumeCapability

record NodePublishVolumeRequest =
  np_PublishContext :: smap
  np_StagingTargetPath :: string
  np_TargetPath :: string
  np_VolumeCapability :: VolumeCapability
  np_Readonly :: bool

definition stageReadonly :: "VolumeCapability \<Rightarrow> bool" where
  "stageReadonly cap = (cap = Some (Some MULTI_NODE_READER_ONLY))"

definition nfsSource :: "string \<Rightarrow> string \<Rightarrow> string" where
  "nfsSource server export =
     (case ParseIP server of
        Some ip \<Rightarrow> if To4 ip = None then ''['' @ server @ '']:'' @ export else server @ '':'' @ export
      | None \<Rightarrow> server @ '':'' @ export)"

definition stageNFS :: "'w machine \<Rightarrow> 'w NodeDriver \<Rightarrow> NodeStageVolumeRequest \<Rightarrow> ('w, node_error option) state" where
  "stageNFS m d req =
     (let server = lookup_str (ns_PublishContext req) ''server'';
          export = lookup_str (ns_PublishContext req) ''export'' in
      if server = [] then ret (Some ServerRequired)
      else do {
        _ \<leftarrow> os_MkdirAll (mc_OS m) (ns_StagingTargetPath req);
        e \<leftarrow> mt_Mount (mounter m d) (nfsSource server export) (ns_StagingTargetPath req) ''nfs''
               [''nfsvers=3'', ''port=2049'', ''mountport=2049'', ''proto=tcp'', ''hard'', ''nolock'',
                ''noresvport'', ''timeo=10'', ''retrans=2''];
        ret (map_option MountNFS e)
      })"

definition stageNVMe :: "'w machine \<Rightarrow> 'w NodeDriver \<Rightarrow> NodeStageVolumeRequest \<Rightarrow> ('w, node_error option) state" where
  "stageNVMe m d req =
     (let endpoint = lookup_str (ns_PublishContext req) ''endpoint'';
          nqn = lookup_str (ns_PublishContext req) ''nqn'' in
      if endpoint = [] \<or> nqn = [] then ret (Some EndpointRequired)
      else do {
        e \<leftarrow> ensureNVMeStaged m d (ns_StagingTargetPath req) endpoint nqn (stageReadonly (ns_VolumeCapability req));
        ret (map_option StageFailed e)
      })"

definition NodeStageVolume :: "'w machine \<Rightarrow> 'w NodeDriver \<Rightarrow> NodeStageVolumeRequest \<Rightarrow> ('w, node_error option) state" where
  "NodeStageVolume m d req =
     (if lookup_str (ns_PublishContext req) ''protocol'' = ''nfs'' then stageNFS m d req else stageNVMe m d req)"

definition NodePublishVolume :: "'w machine \<Rightarrow> 'w NodeDriver \<Rightarrow> NodePublishVolumeRequest \<Rightarrow> ('w, node_error option) state" where
  "NodePublishVolume m d req =
     (let endpoint = lookup_str (np_PublishContext req) ''endpoint'';
          nqn = lookup_str (np_PublishContext req) ''nqn'' in do {
      e \<leftarrow> (if endpoint \<noteq> [] \<and> nqn \<noteq> []
            then ensureNVMeStaged m d (np_StagingTargetPath req) endpoint nqn
                   (np_Readonly req \<or> stageReadonly (np_VolumeCapability req))
            else ret None);
      case e of
        Some err \<Rightarrow> ret (Some (PublishStage err))
      | None \<Rightarrow> do {
          b \<leftarrow> mt_BindMount (mounter m d) (np_StagingTargetPath req) (np_TargetPath req) (np_Readonly req);
          ret (map_option NodeOS b)
        }
     })"

definition NodeUnpublishVolume :: "'w machine \<Rightarrow> 'w NodeDriver \<Rightarrow> string \<Rightarrow> ('w, node_error option) state" where
  "NodeUnpublishVolume m d targetPath = do {
     _ \<leftarrow> mt_Unmount (mounter m d) targetPath;
     ret None
   }"

definition NodeUnstageVolume :: "'w machine \<Rightarrow> 'w NodeDriver \<Rightarrow> string \<Rightarrow> ('w, node_error option) state" where
  "NodeUnstageVolume m d stagingTargetPath = do {
     _ \<leftarrow> mt_Unmount (mounter m d) stagingTargetPath;
     ret None
   }"


section \<open>What staging leaves alone\<close>

text \<open>
  A view of the machine that only running a program changes: every other call the driver makes
  keeps any property of it. A mounter that is set must keep it as well when it mounts XFS.
\<close>

locale quiet_machine =
  fixes m :: "'w machine" and d :: "'w NodeDriver" and view :: "'w \<Rightarrow> 'v"
  assumes q_Stat: "keeps view P (os_Stat (mc_OS m) p)"
    and q_MkdirAll: "keeps view P (os_MkdirAll (mc_OS m) p)"
    and q_Remove: "keeps view P (os_Remove (mc_OS m) p)"
    and q_RemoveAll: "keeps view P (os_RemoveAll (mc_OS m) p)"
    and q_ReadFile: "keeps view P (os_ReadFile (mc_OS m) p)"
    and q_WriteFile: "keeps view P (os_WriteFile (mc_OS m) p s)"
    and q_ReadDir: "keeps view P (os_ReadDir (mc_OS m) p)"
    and q_Mknod: "keeps view P (mc_Mknod m p i j)"
    and q_Mount: "keeps view P (mc_Mount m src p fs fl opts)"
    and q_Unmount: "keeps view P (mc_Unmount m p)"
    and q_Sleep: "keeps view P (mc_Sleep m t)"
    and q_mounter: "nd_Mounter d = Some mt \<Longrightarrow>
      keeps view P (mt_Mount mt src p ''xfs'' os) \<and> keeps view P (mt_Unmount mt p)"
begin

lemmas quiet_calls = q_Stat q_MkdirAll q_Remove q_RemoveAll q_ReadFile q_WriteFile q_ReadDir q_Mknod
  q_Mount q_Unmount q_Sleep

lemma quiet_mounter:
  "keeps view P (mt_Mount (mounter m d) src p ''xfs'' os)" "keeps view P (mt_Unmount (mounter m d) p)"
  using q_mounter
  by (auto simp: mounter_def ExecMounter_def exec_Mount_def exec_Unmount_def
      intro!: keeps_intros quiet_calls split: option.split)

lemma quiet_ensureBlockDeviceNode: "keeps view P (ensureBlockDeviceNode m p i j)"
  unfolding ensureBlockDeviceNode_def by (intro keeps_intros quiet_calls)

lemma quiet_controllerLive: "keeps view P (controllerLive m dir nss)"
  by (induction nss) (auto intro!: keeps_intros quiet_calls)

lemma quiet_namespaceDevice: "keeps view P (namespaceDevice m dir nss)"
  by (induction nss) (auto intro!: keeps_intros quiet_calls quiet_ensureBlockDeviceNode)

lemma quiet_subsystemEntries: "keeps view P (subsystemEntries m nqn e)"
  unfolding subsystemEntries_def by (intro keeps_intros quiet_calls)

lemma quiet_findDevice: "keeps view P (findDevice m nqn es)"
  by (induction es)
    (auto intro!: keeps_intros quiet_subsystemEntries quiet_controllerLive quiet_namespaceDevice split: sum.split)

lemma quiet_findExistingNVMEDevice: "keeps view P (findExistingNVMEDevice m nqn)"
  unfolding findExistingNVMEDevice_def by (intro keeps_intros quiet_calls quiet_findDevice)

lemma quiet_deleteControllers: "keeps view P (deleteControllers m dir nss)"
  by (induction nss) (auto intro!: keeps_intros quiet_calls)

lemma quiet_clearSubsystems: "keeps view P (clearSubsystems m nqn es)"
  by (induction es) (auto intro!: keeps_intros quiet_subsystemEntries quiet_deleteControllers)

lemma quiet_clearNVMeSubsystem: "keeps view P (clearNVMeSubsystem m nqn)"
  unfolding clearNVMeSubsystem_def by (intro keeps_intros quiet_calls quiet_clearSubsystems)

lemma quiet_connectNVMe: "keeps view P (connectNVMe m nqn s rs)"
  by (induction rs) (auto intro!: keeps_intros quiet_calls quiet_clearNVMeSubsystem)

lemma quiet_awaitDevice: "keeps view P (awaitDevice m nqn n)"
  by (induction n) (auto intro!: keeps_intros quiet_calls quiet_findExistingNVMEDevice)

lemma quiet_ensureNVMeStaged: "keeps view P (ensureNVMeStaged m d path endpoint nqn True)"
  unfolding ensureNVMeStaged_def ensureNVMeHostNQN_def mountExisting_def connectAndMount_def mountStaged_def
    Let_def if_True
  by (intro keeps_intros quiet_calls quiet_mounter quiet_findExistingNVMEDevice quiet_clearNVMeSubsystem
      quiet_connectNVMe quiet_awaitDevice)

end

section \<open>What staging mounts\<close>

text \<open>
  A view of the mounts, by target: a mount that succeeds is seen there, with its source, type
  and options, and no path is the empty one. Nothing is assumed of any other call.
\<close>

type_synonym mount_entry = "string \<times> string \<times> string"

locale node_mounts =
  fixes m :: "'w machine" and d :: "'w NodeDriver" and mounted :: "'w \<Rightarrow> string \<rightharpoonup> mount_entry"
  assumes mount_law: "run_state (mt_Mount (mounter m d) src p fs opts) w = (None, w') \<Longrightarrow>
      mounted w' p = Some (src, fs, Join opts '','')"
    and no_empty_path: "run_state (os_Stat (mc_OS m) []) w \<noteq> (Inr n, w')"

definition nvme_device :: "string \<Rightarrow> bool" where
  "nvme_device dev \<longleftrightarrow> (\<exists>ns. isNamespace ns \<and> dev = Join2 ''/dev'' ns)"

lemma nvme_deviceI: "isNamespace ns \<Longrightarrow> nvme_device (Join2 ''/dev'' ns)"
  by (auto simp: nvme_device_def)

lemma wp_TrueI: "(\<And>a w'. Q a w') \<Longrightarrow> wp m Q w"
  by (simp add: wp_def split: prod.split)

text \<open>The calls whose answers do not matter for what is mounted.\<close>

lemmas wp_any_call =
  wp_TrueI [where m = "os_ReadFile os p" for os p] wp_TrueI [where m = "os_ReadDir os p" for os p]
  wp_TrueI [where m = "os_RemoveAll os p" for os p] wp_TrueI [where m = "os_MkdirAll os p" for os p]
  wp_TrueI [where m = "os_Stat os p" for os p] wp_TrueI [where m = "os_WriteFile os p s" for os p s]
  wp_TrueI [where m = "ensureBlockDeviceNode m p i j" for m p i j]
  wp_TrueI [where m = "controllerLive m p ns" for m p ns] wp_TrueI [where m = "subsystemEntries m n e" for m n e]
  wp_TrueI [where m = "clearNVMeSubsystem m n" for m n] wp_TrueI [where m = "connectNVMe m n s rs" for m n s rs]
  wp_TrueI [where m = "mc_Sleep m t" for m t] wp_TrueI [where m = "Format dev run" for dev run]
  wp_TrueI [where m = "mt_Unmount mt p" for mt p] wp_TrueI [where m = "ensureNVMeHostNQN m d" for m d]

lemma wp_namespaceDevice:
  "wp (namespaceDevice m dir nss) (\<lambda>r _. \<forall>dev. r = Some (Inr dev) \<longrightarrow> nvme_device dev) w"
proof (induction nss arbitrary: w)
  case (Cons ns nss)
  then show ?case
    by (auto split: sum.split option.split option.split_asm simp: nvme_deviceI intro!: wp_any_call)
qed simp

lemma wp_findDevice: "wp (findDevice m nqn es) (\<lambda>r _. \<forall>dev. r = Inr dev \<longrightarrow> nvme_device dev) w"
proof (induction es arbitrary: w)
  case (Cons e es)
  then show ?case
    by (auto split: sum.split option.split intro!: wp_any_call wp_mono [OF wp_namespaceDevice])
qed simp

lemma wp_findExisting:
  "wp (findExistingNVMEDevice m nqn) (\<lambda>r _. \<forall>dev. r = Inr dev \<longrightarrow> nvme_device dev) w"
  unfolding findExistingNVMEDevice_def
  by (auto split: sum.split intro!: wp_any_call wp_findDevice)

lemma wp_awaitDevice: "wp (awaitDevice m nqn n) (\<lambda>dev _. dev = [] \<or> nvme_device dev) w"
proof (induction n arbitrary: w)
  case (Suc n)
  then show ?case
    by (auto split: sum.split intro!: wp_mono [OF wp_findExisting] wp_any_call)
qed simp

definition staged :: "(string \<rightharpoonup> mount_entry) \<Rightarrow> string \<Rightarrow> bool \<Rightarrow> bool" where
  "staged mounts path readonly \<longleftrightarrow>
     (\<exists>dev. nvme_device dev \<and> mounts path = Some (dev, ''xfs'', if readonly then ''ro,nouuid'' else []))"

definition staged_as :: "NodeStageVolumeRequest \<Rightarrow> (string \<rightharpoonup> mount_entry) \<Rightarrow> bool" where
  "staged_as req mounts \<longleftrightarrow>
     (if lookup_str (ns_PublishContext req) ''protocol'' = ''nfs''
      then \<exists>opts. mounts (ns_StagingTargetPath req) =
             Some (nfsSource (lookup_str (ns_PublishContext req) ''server'')
                             (lookup_str (ns_PublishContext req) ''export''), ''nfs'', opts)
      else staged mounts (ns_StagingTargetPath req) (stageReadonly (ns_VolumeCapability req)))"

lemma Join_mountOptions [simp]: "Join (mountOptions readonly) '','' = (if readonly then ''ro,nouuid'' else [])"
  by (simp add: mountOptions_def Join_def)

context node_mounts
begin

lemma wp_Mount:
  "wp (mt_Mount (mounter m d) src p fs opts) (\<lambda>e w'. e = None \<longrightarrow> mounted w' p = Some (src, fs, Join opts '','')) w"
  by (rule wp_of_run) (auto dest: mount_law)

lemma wp_Stat_nonempty: "wp (os_Stat (mc_OS m) p) (\<lambda>r _. \<not> isl r \<longrightarrow> p \<noteq> []) w"
  by (rule wp_of_run) (metis no_empty_path isl_def sum.exhaust)

lemma wp_EnsureMounted:
  "wp (EnsureMounted dev (mt_Mount (mounter m d) dev p fs opts) run)
     (\<lambda>r w'. snd r = None \<longrightarrow> mounted w' p = Some (dev, fs, Join opts '','')) w"
  unfolding EnsureMounted_def
  by (auto split: option.split prod.split intro!: wp_mono [OF wp_Mount] wp_any_call)

lemma wp_mountStaged:
  assumes "nvme_device dev"
  shows "wp (mountStaged m d p dev readonly) (\<lambda>r w'. r = None \<longrightarrow> staged (mounted w') p readonly) w"
  using assms
  by (auto simp: mountStaged_def staged_def Let_def
      intro!: wp_any_call wp_mono [OF wp_Mount] wp_mono [OF wp_EnsureMounted])

lemma wp_connectAndMount:
  "wp (connectAndMount m d p cs nqn readonly) (\<lambda>r w'. r = None \<longrightarrow> staged (mounted w') p readonly) w"
proof -
  have dev: "wp (do { st \<leftarrow> os_Stat (mc_OS m) dev;
        case st of Inl err \<Rightarrow> ret (Some (DeviceMissing dev err)) | Inr _ \<Rightarrow> mountStaged m d p dev readonly })
      (\<lambda>r w'. r = None \<longrightarrow> staged (mounted w') p readonly) w1"
    if "dev = [] \<or> nvme_device dev" for dev w1
    unfolding wp_bind
    using that by (intro wp_mono [OF wp_Stat_nonempty]) (auto split: sum.split intro!: wp_mountStaged)
  show ?thesis
    unfolding connectAndMount_def
    by (auto split: option.split intro!: wp_any_call wp_mono [OF wp_awaitDevice] dev [unfolded wp_bind])
qed

lemma wp_mountExisting:
  "wp (mountExisting m d p nqn readonly) (\<lambda>r w'. r \<longrightarrow> staged (mounted w') p readonly) w"
  unfolding mountExisting_def
  by (auto simp: staged_def split: sum.split
      intro!: wp_mono [OF wp_findExisting] wp_mono [OF wp_Mount] wp_any_call)

lemma wp_ensureNVMeStaged:
  "wp (ensureNVMeStaged m d p endpoint nqn readonly) (\<lambda>r w'. r = None \<longrightarrow> staged (mounted w') p readonly) w"
  unfolding ensureNVMeStaged_def
  by (auto split: sum.split option.split
      intro!: wp_any_call wp_mono [OF wp_mountExisting] wp_connectAndMount)

text \<open>What is mounted at the staging path of a request that succeeds.\<close>

lemma wp_NodeStageVolume:
  "wp (NodeStageVolume m d req) (\<lambda>r w'. r = None \<longrightarrow> staged_as req (mounted w')) w"
  unfolding NodeStageVolume_def stageNFS_def stageNVMe_def staged_as_def Let_def
  by (auto intro!: wp_any_call wp_mono [OF wp_Mount] wp_mono [OF wp_ensureNVMeStaged])

end

context kube_client
begin

lemma wp_ControllerPublishVolume:
  "wp (ControllerPublishVolume c d vid cap)
     (\<lambda>r w'. view w' = view w \<and> (\<forall>ctx. r = Inr ctx \<longrightarrow>
        (\<exists>e. cl_engines (view w) (NN (dr_Namespace d) (EngineName vid)) = Some e
           \<and> est_Phase (Status e) = EnginePhaseRunning \<and> publishContext vid (accessMode cap) (Status e) = Inr ctx))) w"
  unfolding ControllerPublishVolume_def by (auto intro!: eng.wp_Get)

end


section \<open>A machine in memory\<close>

text \<open>
  Files by path, mounts by target, and the programs run. Mounting what is mounted there already
  is refused, as Linux does; an unmount is refused when the mounts are pinned by their users.
\<close>

record nodemem =
  nm_files :: memfs
  nm_mounts :: "(string \<times> mount_entry) list"
  nm_runs :: "(string \<times> string list) list"

definition below :: "string \<Rightarrow> string \<Rightarrow> bool" where
  "below p q = HasPrefix q (p @ ''/'')"

definition children :: "string \<Rightarrow> memfs \<Rightarrow> string list" where
  "children p w = sort_Strings (remdups
     (map (\<lambda>(q, _). takeWhile (\<lambda>c. c \<noteq> CHR ''/'') (drop (length p + 1) q)) (filter (\<lambda>(q, _). below p q) w)))"

definition on_files :: "(memfs \<Rightarrow> 'a \<times> memfs) \<Rightarrow> (nodemem, 'a) state" where
  "on_files f = State (\<lambda>w. let (x, fs) = f (nm_files w) in (x, w\<lparr>nm_files := fs\<rparr>))"

definition node_os :: "nodemem os" where
  "node_os =
     \<lparr>os_Stat = (\<lambda>p. on_files (\<lambda>w. (case map_of w p of None \<Rightarrow> Inl NotExist
                                   | Some s \<Rightarrow> if p = [] then Inl NotExist else Inr (int (length s)), w))),
      os_MkdirAll = (\<lambda>p. ret None),
      os_OpenCreate = (\<lambda>p. ret (Some Invalid)), os_CreateExcl = (\<lambda>p. ret (Some Invalid)),
      os_OpenRead = (\<lambda>p. ret (Some Invalid)), os_Truncate = (\<lambda>p n. ret (Some Invalid)),
      os_Remove = (\<lambda>p. on_files (\<lambda>w. with_file p w (\<lambda>s. (None, drop_file p w)) NotExist)),
      os_RemoveAll = (\<lambda>p. on_files (\<lambda>w. (None, filter (\<lambda>(q, _). q \<noteq> p \<and> \<not> below p q) w))),
      os_FileClone = (\<lambda>src dst. ret (Some Invalid)), os_Copy = (\<lambda>src dst. ret (Some Invalid)),
      os_ReadFile = (\<lambda>p. on_files (\<lambda>w. (case map_of w p of None \<Rightarrow> Inl NotExist | Some s \<Rightarrow> Inr s, w))),
      os_WriteFile = (\<lambda>p s. on_files (\<lambda>w. (None, put_file p s w))),
      os_ReadDir = (\<lambda>p. on_files (\<lambda>w. (if children p w = [] then Inl NotExist else Inr (children p w), w)))\<rparr>"

definition node_mount :: "string \<Rightarrow> string \<Rightarrow> string \<Rightarrow> string \<Rightarrow> nodemem \<Rightarrow> os_error option \<times> nodemem" where
  "node_mount source target fsType opts w =
     (if map_option fst (map_of (nm_mounts w) target) = Some source then (Some (OsError ''device or resource busy''), w)
      else (None, w\<lparr>nm_mounts := (target, source, fsType, opts) # nm_mounts w\<rparr>))"

definition node_run :: "string \<Rightarrow> string list \<Rightarrow> nodemem \<Rightarrow> (string \<times> os_error option) \<times> nodemem" where
  "node_run prog args w =
     (let w1 = w\<lparr>nm_runs := nm_runs w @ [(prog, args)]\<rparr> in
      if prog = ''mount'' \<and> length args = 6
      then (let (e, w2) = node_mount (args ! 4) (args ! 5) (args ! 1) (args ! 3) w1 in (([], e), w2))
      else (([], None), w1))"

definition node_machine :: "bool \<Rightarrow> nodemem machine" where
  "node_machine pinned =
     \<lparr>mc_OS = node_os, mc_Mknod = (\<lambda>p i j. on_files (\<lambda>w. (None, put_file p [] w))),
      mc_Mount = (\<lambda>source target fsType flags opts. State (node_mount source target fsType opts)),
      mc_Unmount = (\<lambda>target. State (\<lambda>w.
        if pinned \<or> map_of (nm_mounts w) target = None then (Some (OsError ''device or resource busy''), w)
        else (None, w\<lparr>nm_mounts := filter (\<lambda>(q, _). q \<noteq> target) (nm_mounts w)\<rparr>))),
      mc_Sleep = (\<lambda>t. ret ()),
      mc_Run = (\<lambda>prog args. State (node_run prog args))\<rparr>"

definition node_driver :: "nodemem NodeDriver" where
  "node_driver = \<lparr>nd_NodeID = ''n1'', nd_Mounter = None, nd_Authority = []\<rparr>"

lemma keeps_on_files: "keeps nm_runs P (on_files f)"
  by (auto simp: keeps_def wp_def on_files_def split: prod.split)

lemma keeps_node_mount: "keeps nm_runs P (State (node_mount src p fs opts))"
  by (auto simp: keeps_def wp_def node_mount_def)

interpretation quiet_node: quiet_machine "node_machine pinned" node_driver nm_runs for pinned
  by unfold_locales
    (simp_all add: node_machine_def node_os_def node_driver_def keeps_on_files keeps_node_mount keeps_return,
      auto simp: keeps_def wp_def)

lemma node_mount_recorded:
  "node_mount src p fs opts w = (None, w') \<Longrightarrow> map_of (nm_mounts w') p = Some (src, fs, opts)"
  by (auto simp: node_mount_def split: if_splits)

interpretation mem_mounts: node_mounts "node_machine pinned" node_driver "\<lambda>w. map_of (nm_mounts w)" for pinned
proof
  show "map_of (nm_mounts w') p = Some (src, fs, Join opts '','')"
    if "run_state (mt_Mount (mounter (node_machine pinned) node_driver) src p fs opts) w = (None, w')"
    for src p fs opts w w'
    using that
    by (auto simp: mounter_def node_driver_def ExecMounter_def exec_Mount_def mountNFSViaHelper_def node_machine_def
        node_os_def node_run_def Let_def State_Monad.bind_def State_Monad.return_def
        split: if_splits prod.splits option.splits dest!: node_mount_recorded)
  show "run_state (os_Stat (mc_OS (node_machine pinned)) []) w \<noteq> (Inr n, w')" for w n w'
    by (simp add: node_machine_def node_os_def on_files_def split: option.split)
qed


section \<open>Properties\<close>

text \<open>
  C15: a volume that is mounted for reading only is never formatted. Whatever the connections,
  devices and failures are, staging it runs no program, so that the view of the programs run,
  which every other call leaves alone, is unchanged; the mount options are read-only.
\<close>

theorem readonly_stage_runs_nothing:
  assumes quiet: "quiet_machine m d view"
    and run: "run_state (ensureNVMeStaged m d path endpoint nqn True) w = (r, w')"
  shows "view w' = view w"
  using keeps_run [OF quiet_machine.quiet_ensureNVMeStaged [OF quiet, of "\<lambda>v. v = view w"] run] by simp

lemma publishContext_cases:
  assumes "publishContext vid mode st = Inr ctx" and "req = \<lparr>ns_PublishContext = ctx, ns_StagingTargetPath = path, ns_VolumeCapability = cap\<rparr>"
    and "staged_as req mounts" and "mode = accessMode cap"
  shows "if mode = MULTI_NODE_MULTI_WRITER
    then \<exists>host port opts. SplitEndpoint (est_Endpoint st) = Inr (host, port) \<and>
           mounts path = Some (nfsSource host ''/'', ''nfs'', opts)
    else mode \<in> {SINGLE_NODE_WRITER, SINGLE_NODE_MULTI_WRITER, MULTI_NODE_READER_ONLY}
       \<and> staged mounts path (mode = MULTI_NODE_READER_ONLY)"
proof -
  have ro: "stageReadonly cap \<longleftrightarrow> accessMode cap = MULTI_NODE_READER_ONLY"
    by (auto simp: stageReadonly_def accessMode_def split: option.splits Option.bind_splits)
  show ?thesis
    using assms ro
    by (auto simp: publishContext_def staged_as_def lookup_str_def Let_def split: if_splits sum.splits)
qed

text \<open>
  C14: a volume that the controller publishes and the node stages is mounted the way its access
  mode asks for. The engine is running, and at the staging path there is an NFS mount of the
  host of the engine's endpoint for many writers, read-only XFS on an NVMe device for many
  readers, and XFS on an NVMe device for a single node; no other mode gets this far.
\<close>

theorem published_volume_staged:
  assumes client: "kube_client c view" and node: "node_mounts m nd mounted"
    and publish: "run_state (ControllerPublishVolume c d vid cap) w = (Inr ctx, w1)"
    and stage: "run_state (NodeStageVolume m nd
        \<lparr>ns_PublishContext = ctx, ns_StagingTargetPath = path, ns_VolumeCapability = cap\<rparr>) n = (None, n1)"
  shows "\<exists>e. cl_engines (view w) (NN (dr_Namespace d) (EngineName vid)) = Some e
    \<and> est_Phase (Status e) = EnginePhaseRunning
    \<and> (if accessMode cap = MULTI_NODE_MULTI_WRITER
       then \<exists>host port opts. SplitEndpoint (est_Endpoint (Status e)) = Inr (host, port) \<and>
              mounted n1 path = Some (nfsSource host ''/'', ''nfs'', opts)
       else accessMode cap \<in> {SINGLE_NODE_WRITER, SINGLE_NODE_MULTI_WRITER, MULTI_NODE_READER_ONLY}
          \<and> staged (mounted n1) path (accessMode cap = MULTI_NODE_READER_ONLY))"
proof -
  obtain e where e: "cl_engines (view w) (NN (dr_Namespace d) (EngineName vid)) = Some e"
      "est_Phase (Status e) = EnginePhaseRunning" "publishContext vid (accessMode cap) (Status e) = Inr ctx"
    using wp_run [OF kube_client.wp_ControllerPublishVolume [OF client] publish] by blast
  have "staged_as \<lparr>ns_PublishContext = ctx, ns_StagingTargetPath = path, ns_VolumeCapability = cap\<rparr> (mounted n1)"
    using wp_run [OF node_mounts.wp_NodeStageVolume [OF node] stage] by simp
  from publishContext_cases [OF e(3) refl this refl] show ?thesis
    by (intro exI [of _ e] conjI) (rule e)+
qed

section \<open>Samples\<close>

definition sys0 :: string where
  "sys0 = subsystemDir @ ''/nvme-subsys0''"

definition connectedNode :: nodemem where
  "connectedNode =
     \<lparr>nm_files = [(''/dev/nvme-fabrics'', ''x''), (''/stage/data'', ''payload''), (''/dev/nvme0n1'', []),
        (sys0 @ ''/subsysnqn'', ''nqn.vol''), (sys0 @ ''/nvme0/state'', ''live''), (sys0 @ ''/nvme0n1/dev'', ''259:0'')],
      nm_mounts = [], nm_runs = []\<rparr>"

definition runningEngine :: Engine where
  "runningEngine = (sampleEngine [] ''Running'')
     \<lparr>Status := zero_EngineStatus\<lparr>est_Phase := ''Running'', est_Endpoint := ''10.0.0.7:4420'', est_SubsystemNQN := ''nqn.vol''\<rparr>\<rparr>"

definition publishing :: "VolumeCapability \<Rightarrow> (error + smap) \<times> mem" where
  "publishing cap = run_state (ControllerPublishVolume (mem_env noHttp) sampleDriver ''vol'' cap)
     (sampleMem [] [runningEngine] [] [])"

definition stageRequest :: "VolumeCapability \<Rightarrow> NodeStageVolumeRequest" where
  "stageRequest cap =
     \<lparr>ns_PublishContext = projr (fst (publishing cap)), ns_StagingTargetPath = ''/stage'', ns_VolumeCapability = cap\<rparr>"

definition staging :: "VolumeCapability \<Rightarrow> node_error option \<times> nodemem" where
  "staging cap = run_state (NodeStageVolume (node_machine False) node_driver (stageRequest cap)) connectedNode"

definition readonlyStaging :: "node_error option \<times> nodemem" where
  "readonlyStaging = run_state (ensureNVMeStaged (node_machine True) node_driver ''/stage'' ''10.0.0.7:4420'' ''nqn.vol'' True)
     (connectedNode\<lparr>nm_mounts := [(''/stage'', ''/dev/nvme0n1'', ''xfs'', [])]\<rparr>)"

theorem readonly_stage_runs_nothing_witness:
  "nm_runs (snd readonlyStaging) = []"
proof -
  have "run_state (ensureNVMeStaged (node_machine True) node_driver ''/stage'' ''10.0.0.7:4420'' ''nqn.vol'' True)
     (connectedNode\<lparr>nm_mounts := [(''/stage'', ''/dev/nvme0n1'', ''xfs'', [])]\<rparr>) = (fst readonlyStaging, snd readonlyStaging)"
    by (simp add: readonlyStaging_def)
  from readonly_stage_runs_nothing [OF quiet_node.quiet_machine_axioms this] show ?thesis
    by (simp add: connectedNode_def)
qed

theorem published_volume_staged_witness:
  "staged (map_of (nm_mounts (snd (staging (Some (Some MULTI_NODE_READER_ONLY)))))) ''/stage'' True"
proof -
  let ?cap = "Some (Some MULTI_NODE_READER_ONLY)"
  have "\<not> isl (fst (publishing ?cap))" by code_simp
  then have publish: "run_state (ControllerPublishVolume (mem_env noHttp) sampleDriver ''vol'' ?cap)
     (sampleMem [] [runningEngine] [] []) = (Inr (projr (fst (publishing ?cap))), snd (publishing ?cap))"
    by (simp add: publishing_def prod_eq_iff)
  have "fst (staging ?cap) = None" by code_simp
  then have stage: "run_state (NodeStageVolume (node_machine False) node_driver
      \<lparr>ns_PublishContext = projr (fst (publishing ?cap)), ns_StagingTargetPath = ''/stage'', ns_VolumeCapability = ?cap\<rparr>)
      connectedNode = (None, snd (staging ?cap))"
    by (simp add: staging_def stageRequest_def prod_eq_iff)
  from published_volume_staged [where view = mem_view, OF kube_client_mem mem_mounts.node_mounts_axioms publish stage]
  show ?thesis by (auto simp: accessMode_def)
qed

text \<open>
  Publishing a volume that is staged on the node drops its connection. Publication stages
  the volume again; the device is found, but mounting it where it is mounted already is refused,
  which the code takes for a stale device: the controllers of the live connection are deleted,
  the staging path is unmounted, removed with what it holds and mounted again. When the unmount
  is refused too, the removal goes through the mounted volume: its data is deleted, and the
  device is formatted.
\<close>

theorem publish_after_stage:
  "let cap = Some (Some SINGLE_NODE_WRITER);
       req = \<lparr>np_PublishContext = ns_PublishContext (stageRequest cap), np_StagingTargetPath = ''/stage'',
              np_TargetPath = ''/pod'', np_VolumeCapability = cap, np_Readonly = False\<rparr>;
       w = snd (staging cap);
       free = run_state (NodePublishVolume (node_machine False) node_driver req) w;
       pinned = run_state (NodePublishVolume (node_machine True) node_driver req) w
   in fst (staging cap) = None \<and> map_of (nm_files w) ''/stage/data'' = Some ''payload''
      \<and> map_of (nm_files w) (sys0 @ ''/nvme0/delete_controller'') = None
      \<and> fst free = None \<and> map_of (nm_files (snd free)) (sys0 @ ''/nvme0/delete_controller'') = Some ''1''
      \<and> map_of (nm_files (snd pinned)) ''/stage/data'' = None
      \<and> nm_runs (snd pinned) = [(''mkfs.xfs'', mkfsArgs ''/dev/nvme0n1'')]"
  by code_simp

end
