(* ===== verification/System.thy ===== *)
theory System
  imports Shared_Client CSI_Node
begin

text \<open>
  The programs together: the four reconcilers of the controller manager, with the agents found
  as \<^verbatim>\<open>src/cmd/controller-manager/main.go\<close> finds them, the controller service of the CSI driver
  and the dashboard work on one API server, in any order, and the rest of the world (users,
  kubelets, the garbage collector) may do anything but write the statuses of engines, replicas
  and snapshots. The invariant is what the components rely on from each other.
\<close>

section \<open>The steps of the system\<close>

text \<open>
  A deployment: the settings of the manager, and the API's client. The digest is SHA-256 of
  the attachments, the authority and the images come from the environment.
\<close>

record 'w deployment =
  dp_Client :: "'w env"
  dp_Patch :: "'w patcher"
  dp_Namespace :: string
  dp_Authority :: string
  dp_Images :: Images
  dp_Digest :: "string \<Rightarrow> string"
  dp_Driver :: Driver
  dp_Handler :: Handler

datatype operation =
    ReconcileVolume NamespacedName | ReconcileEngine NamespacedName
  | ReconcileReplica NamespacedName | ReconcileSnapshot NamespacedName
  | CSICreateVolume CreateVolumeRequest | CSIDeleteVolume string
  | CSICreateSnapshot CreateSnapshotRequest | CSIDeleteSnapshot string
  | UICreate form | UIDelete string | UIScale string form | UIDeleteReplica string string
  | UISnapshot string form | UIDeleteSnapshot string | UIFromSnapshot string string form | UIRestore string string

definition world_after :: "('w, 'a) state \<Rightarrow> 'w \<Rightarrow> 'w" where
  "world_after m w = snd (run_state m w)"

primrec perform :: "'w deployment \<Rightarrow> operation \<Rightarrow> 'w \<Rightarrow> 'w" where
  "perform d (ReconcileVolume k) = world_after (VolumeReconciler_Reconcile (dp_Client d) k)"
| "perform d (ReconcileEngine k) =
     world_after (EngineReconciler_Reconcile (dp_Client d) None (dp_Authority d) (dp_Images d) (dp_Digest d) k)"
| "perform d (ReconcileReplica k) =
     world_after (ReplicaReconciler_Reconcile (dp_Client d) None
       (Some (replicaAgentFactory (dp_Client d) (dp_Namespace d))) None (dp_Images d) k)"
| "perform d (ReconcileSnapshot k) =
     world_after (SnapshotReconciler_Reconcile (dp_Client d) (replicaAgentFactory (dp_Client d) (dp_Namespace d)) None k)"
| "perform d (CSICreateVolume q) = world_after (CreateVolume (dp_Client d) (dp_Driver d) q)"
| "perform d (CSIDeleteVolume v) = world_after (DeleteVolume (dp_Client d) (dp_Driver d) v)"
| "perform d (CSICreateSnapshot q) = world_after (CreateSnapshot (dp_Client d) (dp_Driver d) q)"
| "perform d (CSIDeleteSnapshot s) = world_after (DeleteSnapshot (dp_Client d) (dp_Driver d) s)"
| "perform d (UICreate f) = world_after (HandleCreate (dp_Client d) (dp_Handler d) f)"
| "perform d (UIDelete n) = world_after (HandleDelete (dp_Client d) (dp_Handler d) n)"
| "perform d (UIScale n f) = world_after (HandleScale (dp_Patch d) (dp_Handler d) n f)"
| "perform d (UIDeleteReplica n r) = world_after (HandleDeleteReplica (dp_Client d) (dp_Patch d) (dp_Handler d) n r)"
| "perform d (UISnapshot n f) = world_after (HandleSnapshotCreate (dp_Client d) (dp_Handler d) n f)"
| "perform d (UIDeleteSnapshot s) = world_after (HandleSnapshotDelete (dp_Client d) (dp_Handler d) s)"
| "perform d (UIFromSnapshot n s f) = world_after (HandleSnapshotCreateFromSnapshot (dp_Client d) (dp_Handler d) n s f)"
| "perform d (UIRestore n s) = world_after (HandleSnapshotRestore (dp_Client d) (dp_Handler d) n s)"

text \<open>
  What the rest of the world may do between two operations: anything to volumes, pods and
  nodes; it creates engines, replicas and snapshots with an empty status, edits and deletes them.
\<close>

definition outside :: "cluster \<Rightarrow> cluster \<Rightarrow> bool" where
  "outside cl cl' \<longleftrightarrow>
     (\<forall>k e'. cl_engines cl' k = Some e' \<longrightarrow>
        Status e' = zero_EngineStatus \<or> (\<exists>e. cl_engines cl k = Some e \<and> Status e' = Status e))
     \<and> (\<forall>k r'. cl_replicas cl' k = Some r' \<longrightarrow>
        Status r' = zero_ReplicaStatus \<or> (\<exists>r. cl_replicas cl k = Some r \<and> Status r' = Status r))
     \<and> (\<forall>k s'. cl_snapshots cl' k = Some s' \<longrightarrow>
        Status s' = zero_SnapshotStatus \<or> (\<exists>s. cl_snapshots cl k = Some s \<and> Status s' = Status s))"

inductive sys_step :: "'w deployment \<Rightarrow> ('w \<Rightarrow> cluster) \<Rightarrow> 'w \<Rightarrow> 'w \<Rightarrow> bool" for d view where
  operate: "sys_step d view w (perform d op w)"
| interfere: "outside (view w) (view w') \<Longrightarrow> sys_step d view w w'"

inductive reachable :: "'w deployment \<Rightarrow> ('w \<Rightarrow> cluster) \<Rightarrow> 'w \<Rightarrow> bool" for d view where
  start: "cl_engines (view w) = Map.empty \<Longrightarrow> cl_replicas (view w) = Map.empty \<Longrightarrow> cl_snapshots (view w) = Map.empty \<Longrightarrow> reachable d view w"
| step: "reachable d view w \<Longrightarrow> sys_step d view w w' \<Longrightarrow> reachable d view w'"

inductive_cases sys_stepE: "sys_step d view w w'"

lemma world_after_keeps: "keeps view P m \<Longrightarrow> P (view w) \<Longrightarrow> P (view (world_after m w))"
  unfolding world_after_def by (erule keeps_run [OF _ prod.collapse [symmetric]])

lemma outside_lawful: "outside cl cl' \<Longrightarrow> lawful cl cl'"
  unfolding outside_def lawful_def kept_statuses_def by (metis sound_zero)

lemma outside_ok: "sys_ok cl \<Longrightarrow> outside cl cl' \<Longrightarrow> sys_ok cl'"
  by (rule lawful_ok [OF _ outside_lawful])

context shared_client
begin

lemma keeps_perform:
  assumes "dp_Client d = c" "dp_Patch d = patch" and "P (view w)"
  shows "P (view (perform d op w))"
  using assms
  by (cases op)
    (simp_all add: world_after_keeps keeps_VolumeReconcile keeps_EngineReconcile keeps_ReplicaReconcile
      keeps_SnapshotReconcile keeps_csi keeps_dashboard keeps_restore)

end

context dash_client
begin

text \<open>An operation that has the server to itself between its calls makes one lawful step.\<close>

lemma perform_lawful:
  assumes "dp_Client d = c" "dp_Patch d = patch" and "sys_ok (view w)"
  shows "lawful (view w) (view (perform d op w))"
  using alone.keeps_perform [OF assms(1,2), of "view w" w op] assms(3) by (simp add: lawful_from_def)

end

text \<open>
  What the invariant is for: whatever a running engine recorded can be published, and a node
  that stages over NVMe is given an endpoint it can split and an NQN.
\<close>

lemma sys_ok_publishes:
  assumes "sys_ok cl" "cl_engines cl k = Some e" "est_Phase (Status e) = EnginePhaseRunning"
    and mode: "mode \<in> {SINGLE_NODE_WRITER, SINGLE_NODE_MULTI_WRITER, MULTI_NODE_READER_ONLY, MULTI_NODE_MULTI_WRITER}"
  shows "\<exists>ctx. publishContext vid mode (Status e) = Inr ctx
    \<and> (lookup_str ctx ''protocol'' \<noteq> ''nfs'' \<longrightarrow> lookup_str ctx ''nqn'' \<noteq> [] \<and> good_endpoint (lookup_str ctx ''endpoint''))
    \<and> (lookup_str ctx ''protocol'' = ''nfs'' \<longrightarrow> lookup_str ctx ''server'' \<noteq> [])"
proof -
  have "est_SubsystemNQN (Status e) \<noteq> []" "good_endpoint (est_Endpoint (Status e))"
    using assms(1-3) by (auto simp: sys_ok_def statuses_ok_def engine_sound_def)
  with mode show ?thesis
    by (auto simp: publishContext_def good_endpoint_def lookup_str_def Let_def)
qed

section \<open>The property\<close>

text \<open>
  C2: the invariant of the system. In every state that is reachable from one without engines,
  replicas and snapshots, by any sequence of reconciliations, CSI calls and dashboard requests,
  with any answers of the API server, the agents and the sidecars, and any interference of the
  rest of the world in between, a running engine has an NQN and an endpoint with a host and a
  port, a replica that names an NQN is running at such an endpoint, and a snapshot is ready to
  use exactly when its phase is \<^verbatim>\<open>Ready\<close>.
\<close>

theorem reachable_ok:
  assumes client: "dash_client (dp_Client d) view (dp_Patch d)" and w: "reachable d view w"
  shows "sys_ok (view w)"
  using w
proof induction
  case (start w)
  then show ?case by (simp add: sys_ok_def statuses_ok_def)
next
  case (step w w')
  from step(2) step(3) show ?case
    by (cases rule: sys_stepE) (auto intro: lawful_ok dash_client.perform_lawful [OF client refl refl] outside_ok)
qed


text \<open>A run from the first volume to its snapshot: what is reached is sound because it is reachable.\<close>

definition sampleDeployment :: "mem deployment" where
  "sampleDeployment =
     \<lparr>dp_Client = mem_env snapHttp, dp_Patch = mem_patch, dp_Namespace = ''ns'', dp_Authority = [], dp_Images = PodImages,
      dp_Digest = id, dp_Driver = sampleDriver, dp_Handler = sampleHandler\<rparr>"

definition systemStart :: mem where
  "systemStart = sampleMem [sampleVolume ''2'' zero_VolumeStatus] [] [] []"

definition systemRun :: mem where
  "systemRun = fold (perform sampleDeployment)
     [ReconcileVolume (NN ''ns'' ''vol''), CSICreateSnapshot snapshotRequest, ReconcileSnapshot (NN ''ns'' ''app--s1'')] systemStart"

lemma reachable_fold: "reachable d view w \<Longrightarrow> reachable d view (fold (perform d) ops w)"
  by (induction ops arbitrary: w) (auto intro: reachable.step sys_step.operate)

theorem reachable_ok_witness:
  "sys_ok (mem_view systemRun) \<and> length (m_replicas systemRun) = 2 \<and> length (m_snapshots systemRun) = 1"
proof -
  have "reachable sampleDeployment mem_view systemStart"
    by (rule reachable.start) (auto simp: mem_view_def systemStart_def sampleMem_def)
  then have "reachable sampleDeployment mem_view systemRun"
    unfolding systemRun_def by (rule reachable_fold)
  moreover have "dash_client (dp_Client sampleDeployment) mem_view (dp_Patch sampleDeployment)"
    using mem_dash.dash_client_axioms by (simp add: sampleDeployment_def)
  ultimately have "sys_ok (mem_view systemRun)" by (intro reachable_ok)
  moreover have "length (m_replicas systemRun) = 2" "length (m_snapshots systemRun) = 1" by code_simp+
  ultimately show ?thesis by simp
qed

end
