(* ===== verification/Interleaving.thy ===== *)
theory Interleaving
  imports System
begin

text \<open>
  The programs among each other. A reconciliation is not atomic: between two of its calls the
  other programs call the server too. Here every call of an operation is preceded by a
  computation \<open>others\<close>, which stands for whatever the others do in the meantime and may be
  different each time, as it depends on the world; and every state the server goes through is
  recorded. The assumption about the others is that what they do is \<open>lawful\<close>; the guarantee of
  an operation is that all it does itself is, so that operations of which each runs among
  the calls of the others satisfy each other's assumption.
\<close>

section \<open>Calls among the calls of others\<close>

definition observe :: "('w \<Rightarrow> cluster) \<Rightarrow> ('w, unit) state \<Rightarrow> ('w, 'a) state \<Rightarrow> ('w \<times> cluster list, 'a) state" where
  "observe view others m =
     State_Monad.State (\<lambda>(w, h).
       let w1 = world_after others w; (x, w2) = run_state m w1 in (x, (w2, h @ [view w1, view w2])))"

definition raced_resource ::
  "('w \<Rightarrow> cluster) \<Rightarrow> ('w, unit) state \<Rightarrow> ('w, 'sp, 'st) resource \<Rightarrow> ('w \<times> cluster list, 'sp, 'st) resource" where
  "raced_resource view others r =
     \<lparr>r_Get = (\<lambda>k. observe view others (r_Get r k)),
      r_List = (\<lambda>ns ls. observe view others (r_List r ns ls)),
      r_Create = (\<lambda>o'. observe view others (r_Create r o')),
      r_Update = (\<lambda>o'. observe view others (r_Update r o')),
      r_StatusUpdate = (\<lambda>o'. observe view others (r_StatusUpdate r o')),
      r_Delete = (\<lambda>k. observe view others (r_Delete r k))\<rparr>"

definition raced_env :: "('w \<Rightarrow> cluster) \<Rightarrow> ('w, unit) state \<Rightarrow> 'w env \<Rightarrow> ('w \<times> cluster list) env" where
  "raced_env view others c =
     \<lparr>volumes = raced_resource view others (volumes c), engines = raced_resource view others (engines c),
      replicas = raced_resource view others (replicas c), snapshots = raced_resource view others (snapshots c),
      pods = raced_resource view others (pods c), nodes = raced_resource view others (nodes c),
      clock_Now = observe view others (clock_Now c), http_Do = (\<lambda>q. observe view others (http_Do c q))\<rparr>"

definition raced_patch :: "('w \<Rightarrow> cluster) \<Rightarrow> ('w, unit) state \<Rightarrow> 'w patcher \<Rightarrow> ('w \<times> cluster list) patcher" where
  "raced_patch view others patch k j = observe view others (patch k j)"

definition raced :: "('w \<Rightarrow> cluster) \<Rightarrow> ('w, unit) state \<Rightarrow> 'w deployment \<Rightarrow> ('w \<times> cluster list) deployment" where
  "raced view others d =
     \<lparr>dp_Client = raced_env view others (dp_Client d), dp_Patch = raced_patch view others (dp_Patch d),
      dp_Namespace = dp_Namespace d, dp_Authority = dp_Authority d, dp_Images = dp_Images d,
      dp_Digest = dp_Digest d, dp_Driver = dp_Driver d, dp_Handler = dp_Handler d\<rparr>"

section \<open>Histories\<close>

text \<open>A history of the server: each state follows lawfully from the one before, and is sound.\<close>

definition history_ok :: "cluster \<times> cluster list \<Rightarrow> bool" where
  "history_ok vh \<longleftrightarrow>
     (case vh of (v, h) \<Rightarrow> h \<noteq> [] \<and> last h = v \<and> successively lawful h \<and> list_all sys_ok h)"

definition seen :: "('w \<Rightarrow> cluster) \<Rightarrow> 'w \<times> cluster list \<Rightarrow> cluster \<times> cluster list" where
  "seen view = (\<lambda>(w, h). (view w, h))"

lemma history_start [simp]: "history_ok (cl, [cl]) \<longleftrightarrow> sys_ok cl"
  by (simp add: history_ok_def)

lemma history_extend:
  assumes "history_ok (v, h)" "lawful v v1" "lawful v1 v2"
  shows "history_ok (v2, h @ [v1, v2]) \<and> sys_ok v1"
proof -
  have "sys_ok v" using assms(1) by (auto simp: history_ok_def list_all_iff)
  then have "sys_ok v1" "sys_ok v2" using assms(2,3) by (auto intro: lawful_ok)
  then show ?thesis using assms by (simp add: history_ok_def successively_append_iff)
qed

lemma observe_yields:
  assumes "lawful_call view others" "lawful_call view m" "\<And>w. sys_ok (view w) \<Longrightarrow> wp m (\<lambda>x _. R x) w"
  shows "yields (seen view) history_ok (observe view others m) R"
proof (rule yieldsI)
  fix wh assume ok: "history_ok (seen view wh)"
  obtain w h where wh: "wh = (w, h)" by (cases wh)
  obtain x w2 where run: "run_state m (world_after others w) = (x, w2)" by (cases "run_state m (world_after others w)")
  have "sys_ok (view w)" using ok by (auto simp: wh seen_def history_ok_def list_all_iff dest!: last_in_set)
  moreover from this have before: "lawful (view w) (view (world_after others w))"
    using assms(1) by (simp add: lawful_call_def wp_def world_after_def case_prod_beta)
  ultimately have between: "sys_ok (view (world_after others w))" by (rule lawful_ok)
  have "lawful (view (world_after others w)) (view w2)"
    using assms(2) between run by (auto simp: lawful_call_def wp_def split: prod.splits)
  with before have "history_ok (view w2, h @ [view (world_after others w), view w2])" "sys_ok (view (world_after others w))"
    using history_extend ok unfolding wh seen_def by auto
  moreover from this(2) have "R x" using wp_run [OF assms(3) run] by blast
  ultimately show "wp (observe view others m) (\<lambda>a w'. history_ok (seen view w') \<and> R a) wh"
    by (simp add: wh wp_def observe_def seen_def Let_def run)
qed

lemma observe_keeps: "lawful_call view others \<Longrightarrow> lawful_call view m \<Longrightarrow> keeps (seen view) history_ok (observe view others m)"
  by (rule yields_keeps [OF observe_yields [where R = "\<lambda>_. True"]]) (auto intro: reads_any)

lemma raced_kind:
  assumes "lawful_call view others"
    and "\<And>k. lawful_call view (r_Get r k)" "\<And>ns ls. lawful_call view (r_List r ns ls)"
    "\<And>o'. lawful_call view (r_Create r o')" "\<And>o'. lawful_call view (r_Update r o')"
    "\<And>o'. sound (Status o') \<Longrightarrow> lawful_call view (r_StatusUpdate r o')" "\<And>k. lawful_call view (r_Delete r k)"
    and "\<And>k w. sys_ok (view w) \<Longrightarrow> wp (r_Get r k) (\<lambda>x _. \<forall>o'. x = Inr o' \<longrightarrow> sound (Status o')) w"
  shows "shared_kind (raced_resource view others r) (seen view) history_ok sound"
  by unfold_locales (auto simp: raced_resource_def intro!: observe_yields observe_keeps assms)

locale raced_client = dash_client c view patch
  for c :: "'w env" and view :: "'w \<Rightarrow> cluster" and patch :: "'w patcher" +
  fixes others :: "('w, unit) state"
  assumes others_lawful: "lawful_call view others"

sublocale raced_client \<subseteq> among: shared_client "raced_env view others c" "seen view" history_ok "raced_patch view others patch"
proof (intro shared_client.intro shared_client_axioms.intro)
  let ?c = "raced_env view others c"
  note kind = raced_kind [OF others_lawful]
  show "shared_kind (volumes ?c) (seen view) history_ok (\<lambda>_. True)"
    by (simp add: raced_env_def, rule kind) (simp_all add: volume_calls reads_any)
  show "shared_kind (engines ?c) (seen view) history_ok engine_sound"
    by (simp add: raced_env_def, rule kind) (simp_all add: engine_calls reads_sound)
  show "shared_kind (replicas ?c) (seen view) history_ok replica_sound"
    by (simp add: raced_env_def, rule kind) (simp_all add: replica_calls reads_sound)
  show "shared_kind (snapshots ?c) (seen view) history_ok snapshot_sound"
    by (simp add: raced_env_def, rule kind) (simp_all add: snapshot_calls reads_sound)
  show "shared_kind (pods ?c) (seen view) history_ok (\<lambda>_. True)"
    by (simp add: raced_env_def, rule kind) (simp_all add: pod_calls reads_any)
  show "shared_kind (nodes ?c) (seen view) history_ok (\<lambda>_. True)"
    by (simp add: raced_env_def, rule kind) (simp_all add: node_calls reads_any)
qed (auto simp: raced_env_def raced_patch_def intro!: observe_keeps others_lawful other_calls)

context raced_client
begin

lemma raced_shared: "shared_client (raced_env view others c) (seen view) history_ok (raced_patch view others patch)"
  by unfold_locales

end

section \<open>The property\<close>

text \<open>
  C1: the programs do not break each other's invariant, call by call. Whatever an operation is
  (a reconciliation, a CSI call, a dashboard request) and whatever lawful things the others do
  before each of its calls, every state the server goes through is sound, every step of the
  operation itself is lawful, and so the operations may be run at the same time.
\<close>

theorem interleaved_ok:
  assumes client: "dash_client (dp_Client d) view (dp_Patch d)" and others: "lawful_call view others"
    and start: "sys_ok (view w)"
    and run: "perform (raced view others d) op (w, [view w]) = (w', h)"
  shows "successively lawful h \<and> (\<forall>cl \<in> set h. sys_ok cl) \<and> last h = view w'"
proof -
  have "raced_client (dp_Client d) view (dp_Patch d) others"
    using client others by (simp add: raced_client_def raced_client_axioms_def)
  then have "history_ok (seen view (perform (raced view others d) op (w, [view w])))"
    using start
    by (intro shared_client.keeps_perform [OF raced_client.raced_shared]) (simp_all add: raced_def seen_def)
  with run show ?thesis by (simp add: seen_def history_ok_def list_all_iff)
qed

text \<open>What the others may be: any operations of the programs, chosen by what the world looks like.\<close>

definition working :: "'w deployment \<Rightarrow> ('w \<Rightarrow> operation list) \<Rightarrow> ('w, unit) state" where
  "working d ops = State_Monad.State (\<lambda>w. ((), fold (perform d) (ops w) w))"

lemma fold_perform_lawful:
  assumes "dash_client (dp_Client d) view (dp_Patch d)"
  shows "sys_ok (view w) \<Longrightarrow> lawful (view w) (view (fold (perform d) ops w))"
proof (induction ops arbitrary: w)
  case (Cons op ops)
  have "lawful (view w) (view (perform d op w))"
    using dash_client.perform_lawful [OF assms refl refl Cons.prems] .
  with Cons show ?case by (auto intro: lawful_trans lawful_ok)
qed simp

lemma working_lawful: "dash_client (dp_Client d) view (dp_Patch d) \<Longrightarrow> lawful_call view (working d ops)"
  by (simp add: lawful_call_def working_def wp_def fold_perform_lawful)

text \<open>Others who take away a replica before every call, while a volume is being given its replicas.\<close>

definition thief :: "(mem, unit) state" where
  "thief = State_Monad.State (\<lambda>w. ((), w\<lparr>m_replicas := butlast (m_replicas w)\<rparr>))"

lemma in_butlast: "find_key f k (butlast xs) = Some x \<Longrightarrow> find_key f k xs = Some x"
  by (induction xs) (auto split: if_splits)

lemma thief_lawful: "lawful_call mem_view thief"
  by (auto simp: lawful_call_def thief_def wp_def lawful_def mem_view_def kept_statuses_def dest: in_butlast)

interpretation mem_raced: raced_client "mem_env http" mem_view mem_patch thief for http
  by unfold_locales (rule thief_lawful)

definition racedRun :: "mem \<times> cluster list" where
  "racedRun = perform (raced mem_view thief sampleDeployment) (ReconcileVolume (NN ''ns'' ''vol'')) (systemStart, [mem_view systemStart])"

theorem interleaved_ok_witness:
  "successively lawful (snd racedRun) \<and> list_all sys_ok (snd racedRun) \<and> length (snd racedRun) > 10
     \<and> m_replicas (fst racedRun) = [] \<and> length (m_engines (fst racedRun)) = 1"
proof -
  have "dash_client (dp_Client sampleDeployment) mem_view (dp_Patch sampleDeployment)"
    using mem_dash.dash_client_axioms by (simp add: sampleDeployment_def)
  moreover have "sys_ok (mem_view systemStart)"
    by (simp add: sys_ok_def statuses_ok_def mem_view_def systemStart_def sampleMem_def)
  moreover have "perform (raced mem_view thief sampleDeployment) (ReconcileVolume (NN ''ns'' ''vol''))
      (systemStart, [mem_view systemStart]) = (fst racedRun, snd racedRun)"
    by (simp add: racedRun_def)
  moreover have "length (snd racedRun) > 10" by code_simp
  moreover have "m_replicas (fst racedRun) = []" "length (m_engines (fst racedRun)) = 1" by code_simp+
  ultimately show ?thesis using interleaved_ok [OF _ thief_lawful] unfolding list_all_iff by blast
qed

end
