(* ===== verification/Loop_Device.thy ===== *)
theory Loop_Device
  imports Agent_Server
begin

text \<open>
  Attaching a file to a loop device, \<^verbatim>\<open>src/internal/agent/loop_linux.go\<close>: the node agent asks
  the kernel for a free device, makes its node in \<^verbatim>\<open>/dev\<close>, binds the file and names it, and
  takes the binding back when naming it fails. The system calls are a record \<open>loop_os\<close>; the
  locale \<open>loop_kernel\<close> states their documented effect on the table of bound devices. Open files
  are named by their path; the deferred closes change nothing that is modelled.
\<close>

section \<open>The code\<close>

text \<open>
  The calls the code makes: opening a file for reading and writing, making a block device node
  of the given numbers, and the ioctls \<^verbatim>\<open>LOOP_CTL_GET_FREE\<close>, \<^verbatim>\<open>LOOP_SET_FD\<close>, \<^verbatim>\<open>LOOP_CLR_FD\<close>
  and \<^verbatim>\<open>LOOP_SET_STATUS64\<close>, the last with the name field of its argument.
\<close>

record 'w loop_os =
  lp_OS :: "'w os"
  lp_OpenRW :: "string \<Rightarrow> ('w, os_error option) state"
  lp_Mknod :: "string \<Rightarrow> int \<Rightarrow> int \<Rightarrow> ('w, os_error option) state"
  lp_GetFree :: "('w, os_error + int) state"
  lp_SetFd :: "string \<Rightarrow> string \<Rightarrow> ('w, os_error option) state"
  lp_ClrFd :: "string \<Rightarrow> ('w, os_error option) state"
  lp_SetStatus :: "string \<Rightarrow> string \<Rightarrow> ('w, os_error option) state"

definition ensureLoopDeviceNode :: "'w loop_os \<Rightarrow> string \<Rightarrow> int \<Rightarrow> int \<Rightarrow> ('w, os_error option) state" where
  "ensureLoopDeviceNode l path major minor = do {
     r \<leftarrow> os_Remove (lp_OS l) path;
     if r \<noteq> None \<and> r \<noteq> Some NotExist
     then ret (map_option (Wrapped (''remove stale loop device '' @ path)) r)
     else lp_Mknod l path (major mod 2 ^ 32) (minor mod 2 ^ 32)
   }"

text \<open>What \<^verbatim>\<open>fmt.Sscanf\<close> reads for \<^verbatim>\<open>%d:%d\<close>: the colon must follow the digits of the first number.\<close>

definition after_d :: "string \<Rightarrow> string" where
  "after_d s =
     (let t = dropWhile isSpace s;
          u = (case t of c # cs \<Rightarrow> if c = CHR ''-'' \<or> c = CHR ''+'' then cs else t | [] \<Rightarrow> [])
      in dropWhile isDigit u)"

definition scan_d_d :: "string \<Rightarrow> (int \<times> int) option" where
  "scan_d_d s =
     (case scan_d s of
        None \<Rightarrow> None
      | Some a \<Rightarrow> (case after_d s of
          [] \<Rightarrow> None
        | c # t \<Rightarrow> if c = CHR '':'' then map_option (Pair a) (scan_d t) else None))"

definition loopDeviceNumbers :: "'w loop_os \<Rightarrow> int \<Rightarrow> ('w, os_error + int \<times> int) state" where
  "loopDeviceNumbers l index = do {
     let devPath = ''/sys/class/block/loop'' @ Itoa index @ ''/dev'';
     r \<leftarrow> os_ReadFile (lp_OS l) devPath;
     ret (case r of
            Inl err \<Rightarrow> Inl (Wrapped (''read '' @ devPath) err)
          | Inr data \<Rightarrow>
              let parts = Split (TrimSpace data) '':'' in
              if length parts \<noteq> 2 then Inl (OsError (''parse '' @ devPath @ '': unexpected device''))
              else case scan_d_d (Join parts '':'') of
                None \<Rightarrow> Inl (OsError (''parse '' @ devPath))
              | Some numbers \<Rightarrow> Inr numbers)
   }"

definition loopPath :: "int \<Rightarrow> string" where
  "loopPath index = ''/dev/loop'' @ Itoa index"

text \<open>Binding the file to the device: what follows the choice of the device, with its clean-up.\<close>

definition bindLoop :: "'w loop_os \<Rightarrow> string \<Rightarrow> string \<Rightarrow> ('w, os_error + string) state" where
  "bindLoop l devicePath path = do {
     s \<leftarrow> lp_SetFd l devicePath path;
     case s of
       Some err \<Rightarrow> ret (Inl (Wrapped (''attach backing file to '' @ devicePath) err))
     | None \<Rightarrow> do {
         st \<leftarrow> lp_SetStatus l devicePath (resized 64 path);
         case st of
           Some err \<Rightarrow> do {
             _ \<leftarrow> lp_ClrFd l devicePath;
             ret (Inl (Wrapped (''configure '' @ devicePath) err))
           }
         | None \<Rightarrow> ret (Inr devicePath)
       }
   }"

definition openLoop :: "'w loop_os \<Rightarrow> int \<Rightarrow> ('w, os_error option) state" where
  "openLoop l index = do {
     let devicePath = loopPath index;
     n \<leftarrow> loopDeviceNumbers l index;
     case n of
       Inl err \<Rightarrow> ret (Some err)
     | Inr (major, minor) \<Rightarrow> do {
         e \<leftarrow> ensureLoopDeviceNode l devicePath major minor;
         case e of
           Some err \<Rightarrow> ret (Some (Wrapped (''ensure '' @ devicePath) err))
         | None \<Rightarrow> do {
             f \<leftarrow> lp_OpenRW l devicePath;
             ret (map_option (Wrapped (''open '' @ devicePath)) f)
           }
       }
   }"

definition attachLoopDevice :: "'w loop_os \<Rightarrow> string \<Rightarrow> ('w, os_error + string) state" where
  "attachLoopDevice l path = do {
     b \<leftarrow> lp_OpenRW l path;
     case b of
       Some err \<Rightarrow> ret (Inl (Wrapped (''open backing file '' @ path) err))
     | None \<Rightarrow> do {
         ctl \<leftarrow> lp_OpenRW l ''/dev/loop-control'';
         case ctl of
           Some err \<Rightarrow> ret (Inl (Wrapped ''open /dev/loop-control'' err))
         | None \<Rightarrow> do {
             g \<leftarrow> lp_GetFree l;
             case g of
               Inl err \<Rightarrow> ret (Inl (Wrapped ''get free loop device'' err))
             | Inr index \<Rightarrow> do {
                 o' \<leftarrow> openLoop l index;
                 case o' of
                   Some err \<Rightarrow> ret (Inl err)
                 | None \<Rightarrow> bindLoop l (loopPath index) path
               }
           }
       }
   }"

text \<open>The host of a node agent on Linux: programs are run by the given call, devices attached as above.\<close>

definition linuxHost :: "'w loop_os \<Rightarrow> 'w runner \<Rightarrow> 'w host" where
  "linuxHost l exec = \<lparr>host_os = lp_OS l, host_Exec = exec, host_Loop = attachLoopDevice l\<rparr>"

text \<open>The server the node agent makes has no field set: it uses the host.\<close>

lemmas bare_server = server_mkdirAll_def server_attachLoopDevice_def server_runner_def server_removeFile_def
  server_copyFile_def server_truncateFile_def emptyServer_def linuxHost_def Server.simps host.simps option.case

section \<open>The kernel's part\<close>

text \<open>
  \<open>loops\<close> is the table of the kernel, which file each device gives access to that is bound and not
  to be released when it is last closed. Only \<^verbatim>\<open>LOOP_SET_FD\<close>, on a device that is not bound, and
  \<^verbatim>\<open>LOOP_CLR_FD\<close> change it, and only when they succeed (\<^verbatim>\<open>loop(4)\<close>); the other calls of the agent are
  calls on files, and the programs it runs leave devices bound.
\<close>

locale loop_kernel =
  fixes l :: "'w loop_os" and exec :: "'w runner" and loops :: "'w \<Rightarrow> string \<rightharpoonup> string"
  assumes files_law: "keeps loops P (os_Remove (lp_OS l) p)" "keeps loops P (os_MkdirAll (lp_OS l) p)"
      "keeps loops P (os_OpenRead (lp_OS l) p)" "keeps loops P (os_OpenCreate (lp_OS l) p)"
      "keeps loops P (os_CreateExcl (lp_OS l) p)" "keeps loops P (os_Truncate (lp_OS l) p n)"
      "keeps loops P (os_FileClone (lp_OS l) p q)" "keeps loops P (os_Copy (lp_OS l) p q)"
      "keeps loops P (os_ReadFile (lp_OS l) p)" "keeps loops P (lp_OpenRW l p)"
    and node_law: "keeps loops P (lp_Mknod l p i j)"
    and exec_law: "keeps loops P (exec cmd args)"
    and query_law: "keeps loops P (lp_GetFree l)" "keeps loops P (lp_SetStatus l d s)"
    and set_law: "run_state (lp_SetFd l d p) w = (y, w') \<Longrightarrow>
      (if y = None then loops w d = None \<and> loops w' = (loops w)(d \<mapsto> p) else loops w' = loops w)"
    and clear_law: "run_state (lp_ClrFd l d) w = (y, w') \<Longrightarrow>
      loops w' = (if y = None then (loops w)(d := None) else loops w)"
begin

lemmas loop_calls = files_law node_law exec_law query_law

lemma wp_quiet:
  assumes "\<And>P. keeps loops P m" and "\<And>x w'. loops w' = loops w \<Longrightarrow> Q x w'"
  shows "wp m Q w"
  by (rule wp_mono [OF keepsD [OF assms(1), of "\<lambda>t. t = loops w"]]) (auto intro: assms(2))

lemma keeps_openLoop: "keeps loops P (openLoop l i)"
  unfolding openLoop_def loopDeviceNumbers_def ensureLoopDeviceNode_def
  by (intro keeps_intros loop_calls)

text \<open>
  A device that stays bound although the call fails: the kernel refused to release it, as the
  last call, whose error is ignored.
\<close>

definition stuck :: "string \<Rightarrow> string \<Rightarrow> 'w \<Rightarrow> 'w \<Rightarrow> bool" where
  "stuck d p w w' \<longleftrightarrow>
     loops w d = None \<and> loops w' = (loops w)(d \<mapsto> p) \<and> (\<exists>w1 e. run_state (lp_ClrFd l d) w1 = (Some e, w'))"

text \<open>Binding is all or nothing: a failure after the binding undoes it, if the kernel allows.\<close>

lemma wp_bindLoop:
  assumes "\<And>e w'. loops w' = loops w \<Longrightarrow> Q (Inl e) w'"
    and "\<And>w'. loops w d = None \<Longrightarrow> loops w' = (loops w)(d \<mapsto> p) \<Longrightarrow> Q (Inr d) w'"
    and "\<And>e w'. stuck d p w w' \<Longrightarrow> Q (Inl e) w'"
  shows "wp (bindLoop l d p) Q w"
  unfolding bindLoop_def wp_bind
proof (rule wp_of_run)
  fix y w1 assume "run_state (lp_SetFd l d p) w = (y, w1)"
  note set = set_law [OF this]
  have clr: "wp (lp_ClrFd l d) (\<lambda>_ w'. loops w' = loops w \<or> stuck d p w w') w2"
    if "loops w2 = (loops w)(d \<mapsto> p)" "loops w d = None" for w2
  proof (rule wp_of_run)
    fix y w' assume run: "run_state (lp_ClrFd l d) w2 = (y, w')"
    with clear_law [OF run] that show "loops w' = loops w \<or> stuck d p w w'"
      by (cases y) (auto simp: stuck_def fun_eq_iff)
  qed
  show "wp (case y of Some err \<Rightarrow> ret (Inl (Wrapped (''attach backing file to '' @ d) err))
      | None \<Rightarrow> do {
          st \<leftarrow> lp_SetStatus l d (resized 64 p);
          case st of
            Some err \<Rightarrow> do { _ \<leftarrow> lp_ClrFd l d; ret (Inl (Wrapped (''configure '' @ d) err)) }
          | None \<Rightarrow> ret (Inr d)
        }) Q w1"
    using set assms
    by (auto split: option.split intro!: wp_quiet [OF query_law(2)] elim!: wp_mono [OF clr])
qed

lemma wp_attachLoopDevice:
  assumes fail: "\<And>e w'. loops w' = loops w \<Longrightarrow> Q (Inl e) w'"
    and ok: "\<And>i w'. loops w (loopPath i) = None \<Longrightarrow> loops w' = (loops w)(loopPath i \<mapsto> p) \<Longrightarrow> Q (Inr (loopPath i)) w'"
    and left: "\<And>i e w'. stuck (loopPath i) p w w' \<Longrightarrow> Q (Inl e) w'"
  shows "wp (attachLoopDevice l p) Q w"
proof -
  have bind: "wp (bindLoop l (loopPath i) p) Q w1" if "loops w1 = loops w" for i w1
    using that by (intro wp_bindLoop) (auto simp: stuck_def intro: fail ok left [unfolded stuck_def])
  show ?thesis
    unfolding attachLoopDevice_def wp_bind
    by (rule wp_quiet [OF files_law(10)])
      (auto split: option.split sum.split intro!: fail wp_quiet [OF files_law(10)] wp_quiet [OF query_law(1)]
        wp_quiet [OF keeps_openLoop] bind)
qed

section \<open>The agent on this host\<close>

abbreviation "agent_loop \<equiv> linuxHost l exec"

lemma quiet_prepareFile: "keeps loops P (prepareFile agent_loop pq emptyServer req)"
  unfolding prepareFile_def bare_server FileOrCopy_def CopyFile_def
  by (intro keeps_intros loop_calls)

lemma quiet_DeleteReplica: "keeps loops P (server_DeleteReplica agent_loop emptyServer req)"
  unfolding server_DeleteReplica_def bare_server by (intro keeps_intros loop_calls)

lemma wp_CreateReplica_loops:
  "wp (server_CreateReplica agent_loop pq emptyServer req)
     (\<lambda>x w'. loops w' = loops w \<and> (\<exists>e. x = Inl e)
        \<or> (\<exists>i. loops w (loopPath i) = None \<and> loops w' = (loops w)(loopPath i \<mapsto> crq_Path req)
             \<and> (\<forall>resp. x = Inr resp \<longrightarrow> crs_DevicePath resp = loopPath i))) w"
proof -
  have format: "keeps loops P (Format d exec)" for P d
    unfolding Format_def by (intro keeps_intros loop_calls)
  show ?thesis
    unfolding server_CreateReplica_def wp_bind bare_server
    by (auto split: option.split
        intro!: wp_quiet [OF files_law(2)] wp_quiet [OF quiet_prepareFile [unfolded linuxHost_def emptyServer_def]]
          wp_attachLoopDevice wp_quiet [OF format] simp: stuck_def) (metis option.distinct(1))+
qed

end

section \<open>An in-memory node\<close>

text \<open>A file system, in which the kernel keeps its pages of \<^verbatim>\<open>/sys\<close>, and the table of bound devices.\<close>

type_synonym memloop = "memfs \<times> (string \<times> string) list"

definition on_fs :: "('f, 'a) state \<Rightarrow> ('f \<times> 't, 'a) state" where
  "on_fs m = State (\<lambda>(f, t). case run_state m f of (a, f') \<Rightarrow> (a, (f', t)))"

definition lift_os :: "'f os \<Rightarrow> ('f \<times> 't) os" where
  "lift_os os =
     \<lparr>os_Stat = on_fs \<circ> os_Stat os, os_MkdirAll = on_fs \<circ> os_MkdirAll os,
      os_OpenCreate = on_fs \<circ> os_OpenCreate os, os_CreateExcl = on_fs \<circ> os_CreateExcl os,
      os_OpenRead = on_fs \<circ> os_OpenRead os, os_Truncate = (\<lambda>p n. on_fs (os_Truncate os p n)),
      os_Remove = on_fs \<circ> os_Remove os, os_RemoveAll = on_fs \<circ> os_RemoveAll os,
      os_FileClone = (\<lambda>p q. on_fs (os_FileClone os p q)), os_Copy = (\<lambda>p q. on_fs (os_Copy os p q)),
      os_ReadFile = on_fs \<circ> os_ReadFile os, os_WriteFile = (\<lambda>p s. on_fs (os_WriteFile os p s)),
      os_ReadDir = on_fs \<circ> os_ReadDir os\<rparr>"

definition freeLoop :: "(string \<times> string) list \<Rightarrow> int option" where
  "freeLoop t = find (\<lambda>i. map_of t (loopPath i) = None) [0, 1, 2, 3]"

definition mem_loop :: "bool \<Rightarrow> bool \<Rightarrow> memloop loop_os" where
  "mem_loop names clears =
     \<lparr>lp_OS = lift_os (memfs_os True),
      lp_OpenRW = (\<lambda>p. on_fs (os_OpenRead (memfs_os True) p)),
      lp_Mknod = (\<lambda>p i j. on_fs (os_WriteFile (memfs_os True) p [])),
      lp_GetFree = State (\<lambda>(f, t). (case freeLoop t of None \<Rightarrow> Inl (OsError ''no device'') | Some i \<Rightarrow> Inr i, (f, t))),
      lp_SetFd = (\<lambda>d p. State (\<lambda>(f, t).
        if map_of t d = None then (None, (f, (d, p) # t)) else (Some (OsError ''busy''), (f, t)))),
      lp_ClrFd = (\<lambda>d. State (\<lambda>(f, t).
        if clears then (None, (f, filter (\<lambda>(q, _). q \<noteq> d) t)) else (Some (OsError ''no such device''), (f, t)))),
      lp_SetStatus = (\<lambda>d s. ret (if names then None else Some Invalid))\<rparr>"

definition no_exec :: "'w runner" where
  "no_exec cmd args = ret ([], None)"

definition bound :: "memloop \<Rightarrow> string \<rightharpoonup> string" where
  "bound w = map_of (snd w)"

lemma keeps_on_fs: "keeps bound P (on_fs m)"
  by (auto simp: keeps_def wp_def on_fs_def bound_def split: prod.splits)

interpretation mem_kernel: loop_kernel "mem_loop names clears" no_exec bound for names clears
proof (unfold_locales, goal_cases)
  case (15 d p w y w')
  then show ?case by (auto simp: mem_loop_def bound_def split: prod.splits if_splits)
next
  case (16 d w y w')
  then show ?case by (auto simp: mem_loop_def bound_def map_of_filter_key split: prod.splits if_splits)
qed (auto simp: mem_loop_def lift_os_def no_exec_def keeps_on_fs keeps_return,
     auto simp: keeps_def wp_def bound_def split: prod.splits)

section \<open>Properties\<close>

text \<open>
  C20: attaching a file is all or nothing, unless the kernel refuses to take a binding back. When
  it answers a device, that device was free and now gives access to the file. When it answers an
  error, from whichever of its steps, no device is left bound that was not before, with one
  exception: naming the device failed and so did \<^verbatim>\<open>LOOP_CLR_FD\<close>, whose error the code ignores;
  then the device, which was free, is left bound to the file.
\<close>

theorem attach_all_or_nothing:
  assumes kernel: "loop_kernel l exec loops"
    and run: "run_state (attachLoopDevice l path) w = (x, w')"
  shows "case x of
      Inl _ \<Rightarrow> loops w' = loops w
        \<or> (\<exists>device w1 err. loops w device = None \<and> loops w' = (loops w)(device \<mapsto> path)
             \<and> run_state (lp_ClrFd l device) w1 = (Some err, w'))
    | Inr device \<Rightarrow> loops w device = None \<and> loops w' = (loops w)(device \<mapsto> path)"
proof -
  have "wp (attachLoopDevice l path) (\<lambda>x w'. case x of
      Inl _ \<Rightarrow> loops w' = loops w
        \<or> (\<exists>device w1 err. loops w device = None \<and> loops w' = (loops w)(device \<mapsto> path)
             \<and> run_state (lp_ClrFd l device) w1 = (Some err, w'))
    | Inr device \<Rightarrow> loops w device = None \<and> loops w' = (loops w)(device \<mapsto> path)) w"
    by (rule loop_kernel.wp_attachLoopDevice [OF kernel]) (auto simp: loop_kernel.stuck_def [OF kernel])
  from wp_run [OF this run] show ?thesis .
qed

text \<open>A node with the file of a volume and one device bound.\<close>

definition loopNode :: memloop where
  "loopNode =
     ([(''/k/v/vol.img'', ''DATA''), (''/dev/loop-control'', []), (''/sys/class/block/loop0/dev'', ''7:0''),
       (''/sys/class/block/loop1/dev'', ''7:1''), (''/sys/class/block/loop2/dev'', ''7:2'')],
      [(loopPath 0, ''/other.img'')])"

lemma fst_run: "fst (run_state m w) = x \<Longrightarrow> run_state m w = (x, snd (run_state m w))"
  by (simp add: prod_eq_iff)

definition attached :: "bool \<Rightarrow> bool \<Rightarrow> (os_error + string) \<times> memloop" where
  "attached names clears = run_state (attachLoopDevice (mem_loop names clears) ''/k/v/vol.img'') loopNode"

text \<open>The exception: naming the device fails and so does releasing it.\<close>

lemma attach_leaves_bound:
  "fst (attached False False) = Inl (Wrapped ''configure /dev/loop1'' Invalid)
   \<and> bound (snd (attached False False)) ''/dev/loop1'' = Some ''/k/v/vol.img''"
  by code_simp

theorem attach_all_or_nothing_witness:
  "bound (snd (attached True True)) = (bound loopNode)(''/dev/loop1'' \<mapsto> ''/k/v/vol.img'')
   \<and> fst (attached False True) = Inl (Wrapped ''configure /dev/loop1'' Invalid)
   \<and> bound (snd (attached False True)) = bound loopNode"
proof -
  have ok: "fst (attached True True) = Inr ''/dev/loop1''" by code_simp
  have bad: "fst (attached False True) = Inl (Wrapped ''configure /dev/loop1'' Invalid)" by code_simp
  have cleared: "run_state (lp_ClrFd (mem_loop names True) d) w1 \<noteq> (Some err, w')" for names d w1 err w'
    by (auto simp: mem_loop_def split: prod.split)
  show ?thesis
    using attach_all_or_nothing [OF mem_kernel.loop_kernel_axioms fst_run [OF ok [unfolded attached_def]]]
      attach_all_or_nothing [OF mem_kernel.loop_kernel_axioms fst_run [OF bad [unfolded attached_def]]] bad
    by (simp add: cleared attached_def)
qed

text \<open>
  C39: devices leak. Each time the agent reports a replica as created it has bound another loop
  device, two for the same file when it is asked twice, and deleting the replica, whatever the
  outcome, leaves both bound: nothing in the agent ever takes a binding back.
\<close>

theorem devices_leak:
  assumes kernel: "loop_kernel l exec loops"
    and first: "run_state (server_CreateReplica (linuxHost l exec) pq emptyServer req) w = (Inr r1, w1)"
    and again: "run_state (server_CreateReplica (linuxHost l exec) pq emptyServer req) w1 = (Inr r2, w2)"
    and removed: "run_state (server_DeleteReplica (linuxHost l exec) emptyServer del) w2 = (x, w3)"
  shows "crs_DevicePath r1 \<noteq> crs_DevicePath r2
    \<and> loops w3 = (loops w)(crs_DevicePath r1 \<mapsto> crq_Path req, crs_DevicePath r2 \<mapsto> crq_Path req)"
proof -
  note create = wp_run [OF loop_kernel.wp_CreateReplica_loops [OF kernel]]
  have 1: "loops w1 = (loops w)(crs_DevicePath r1 \<mapsto> crq_Path req)" using create [OF first] by auto
  have 2: "loops w1 (crs_DevicePath r2) = None" "loops w2 = (loops w1)(crs_DevicePath r2 \<mapsto> crq_Path req)"
    using create [OF again] by auto
  have "loops w3 = loops w2"
    by (rule keeps_run [OF loop_kernel.quiet_DeleteReplica [OF kernel, where P = "\<lambda>t. t = loops w2"] removed]) simp
  with 1 2 show ?thesis by auto
qed

definition leakCreate :: "(memloop, agent_error + CreateReplicaResponse) state" where
  "leakCreate = server_CreateReplica (linuxHost (mem_loop True True) no_exec) (\<lambda>s. Some 4) emptyServer recreateReq"

definition leakDelete :: "(memloop, agent_error option) state" where
  "leakDelete = server_DeleteReplica (linuxHost (mem_loop True True) no_exec) emptyServer (DeleteReplicaRequest ''/k/v/vol.img'')"

theorem devices_leak_witness:
  "bound (snd (run_state (do { a \<leftarrow> leakCreate; b \<leftarrow> leakCreate; leakDelete }) loopNode))
     = (bound loopNode)(''/dev/loop1'' \<mapsto> ''/k/v/vol.img'', ''/dev/loop2'' \<mapsto> ''/k/v/vol.img'')"
proof -
  let ?r1 = "run_state leakCreate loopNode" let ?r2 = "run_state leakCreate (snd ?r1)"
  let ?r3 = "run_state leakDelete (snd ?r2)"
  have 1: "fst ?r1 = Inr \<lparr>crs_DevicePath = ''/dev/loop1'', crs_State = ReplicaStateReady\<rparr>" by code_simp
  have 2: "fst ?r2 = Inr \<lparr>crs_DevicePath = ''/dev/loop2'', crs_State = ReplicaStateReady\<rparr>" by code_simp
  have "bound (snd ?r3) = (bound loopNode)(''/dev/loop1'' \<mapsto> ''/k/v/vol.img'', ''/dev/loop2'' \<mapsto> ''/k/v/vol.img'')"
    using devices_leak [OF mem_kernel.loop_kernel_axioms fst_run [OF 1, unfolded leakCreate_def]
        fst_run [OF 2, unfolded leakCreate_def] prod.collapse [of ?r3, symmetric, unfolded leakDelete_def leakCreate_def]]
    by (simp add: leakCreate_def leakDelete_def recreateReq_def)
  then show ?thesis by (simp add: State_Monad.bind_def split_beta)
qed

end
