(* ===== verification/Work_Queue.thy ===== *)
theory Work_Queue
  imports System
begin

text \<open>
  What wakes the reconcilers: the registrations of \<^verbatim>\<open>SetupWithManager\<close> in
  \<^verbatim>\<open>src/internal/controller\<close>, and the requests that a change of an object makes of them. The
  manager is part of controller-runtime, not of the repository; the locale \<open>manager\<close> states what
  is documented of it: a change of an object of the kind a reconciler is \<^verbatim>\<open>For\<close> wakes it for that
  object, a change of a kind it \<^verbatim>\<open>Owns\<close> wakes it for the object's controller, that is the owner
  whose reference says \<^verbatim>\<open>controller: true\<close>, and a kind it \<^verbatim>\<open>Watches\<close> is mapped by its function.
\<close>

section \<open>Registrations\<close>

record registration =
  rg_For :: string
  rg_Owns :: "string list"
  rg_Events :: "(Event \<Rightarrow> NamespacedName list) option"

definition VolumeReconciler_Setup :: registration where
  "VolumeReconciler_Setup = \<lparr>rg_For = ''Volume'', rg_Owns = [''Engine'', ''Replica''], rg_Events = None\<rparr>"

definition ReplicaReconciler_Setup :: registration where
  "ReplicaReconciler_Setup = \<lparr>rg_For = ''Replica'', rg_Owns = [''Pod''], rg_Events = None\<rparr>"

definition EngineReconciler_Setup :: registration where
  "EngineReconciler_Setup = \<lparr>rg_For = ''Engine'', rg_Owns = [''Pod''], rg_Events = Some mapEventToEngine\<rparr>"

definition SnapshotReconciler_Setup :: registration where
  "SnapshotReconciler_Setup = \<lparr>rg_For = ''Snapshot'', rg_Owns = [], rg_Events = None\<rparr>"

text \<open>In the order in which the manager's program sets them up.\<close>

definition registrations :: "registration list" where
  "registrations = [VolumeReconciler_Setup, ReplicaReconciler_Setup, EngineReconciler_Setup, SnapshotReconciler_Setup]"

section \<open>What a change wakes\<close>

datatype watched = Changed string ObjectMeta | Seen Event

definition controllerOf :: "ObjectMeta \<Rightarrow> OwnerReference option" where
  "controllerOf m = find (\<lambda>o'. or_Controller o' = Some True) (om_OwnerReferences m)"

locale manager =
  fixes enqueued :: "registration \<Rightarrow> watched \<Rightarrow> NamespacedName set"
  assumes for_law: "rg_For g = kind \<Longrightarrow> NN (om_Namespace m) (om_Name m) \<in> enqueued g (Changed kind m)"
    and owner_law: "kind \<in> set (rg_Owns g) \<Longrightarrow> controllerOf m = Some o' \<Longrightarrow> or_Kind o' = rg_For g \<Longrightarrow>
      or_APIVersion o' = GroupVersion \<Longrightarrow> NN (om_Namespace m) (or_Name o') \<in> enqueued g (Changed kind m)"
    and event_law: "rg_Events g = Some f \<Longrightarrow> set (f e) \<subseteq> enqueued g (Seen e)"
    and only_law: "k \<in> enqueued g (Changed kind m) \<Longrightarrow>
      (rg_For g = kind \<and> k = NN (om_Namespace m) (om_Name m))
      \<or> (kind \<in> set (rg_Owns g) \<and> (\<exists>o'. controllerOf m = Some o' \<and> or_Kind o' = rg_For g
            \<and> k = NN (om_Namespace m) (or_Name o')))"

text \<open>A manager that does just what is documented.\<close>

definition documented :: "registration \<Rightarrow> watched \<Rightarrow> NamespacedName set" where
  "documented g x =
     (case x of
        Changed kind m \<Rightarrow>
          (if rg_For g = kind then {NN (om_Namespace m) (om_Name m)} else {})
          \<union> (case controllerOf m of
               Some o' \<Rightarrow>
                 if kind \<in> set (rg_Owns g) \<and> or_Kind o' = rg_For g \<and> or_APIVersion o' = GroupVersion
                 then {NN (om_Namespace m) (or_Name o')} else {}
             | None \<Rightarrow> {})
      | Seen e \<Rightarrow> (case rg_Events g of Some f \<Rightarrow> set (f e) | None \<Rightarrow> {}))"

interpretation documented: manager documented
  by unfold_locales (auto simp: documented_def split: if_splits option.splits)

text \<open>Which reconcilers a change wakes, and for which objects.\<close>

definition woken :: "(registration \<Rightarrow> watched \<Rightarrow> NamespacedName set) \<Rightarrow> watched \<Rightarrow> (string \<times> NamespacedName) set" where
  "woken enqueued x = (\<Union>g \<in> set registrations. Pair (rg_For g) ` enqueued g x)"

lemmas setup_defs = VolumeReconciler_Setup_def ReplicaReconciler_Setup_def EngineReconciler_Setup_def
  SnapshotReconciler_Setup_def

context manager
begin

lemma enqueued_alone:
  "controllerOf m = None \<Longrightarrow>
   enqueued g (Changed kind m) = (if rg_For g = kind then {NN (om_Namespace m) (om_Name m)} else {})"
  using for_law [of g kind m] by (auto dest: only_law)

lemma enqueued_owner:
  "controllerOf m = Some o' \<Longrightarrow> or_APIVersion o' = GroupVersion \<Longrightarrow> rg_For g \<noteq> kind \<Longrightarrow>
   enqueued g (Changed kind m)
     = (if kind \<in> set (rg_Owns g) \<and> or_Kind o' = rg_For g then {NN (om_Namespace m) (or_Name o')} else {})"
  using owner_law [of kind g m o'] by (auto dest: only_law)

text \<open>An object without a controller wakes the reconciler of its own kind only.\<close>

lemma woken_alone:
  assumes "controllerOf m = None"
  shows "woken enqueued (Changed kind m)
    = (if kind \<in> {''Volume'', ''Engine'', ''Replica'', ''Snapshot''} then {(kind, NN (om_Namespace m) (om_Name m))} else {})"
  by (auto simp: woken_def registrations_def setup_defs enqueued_alone [OF assms])

lemma woken_engine_pod:
  assumes "controllerOf m = Some o'" "or_Kind o' = ''Engine''" "or_APIVersion o' = GroupVersion"
  shows "woken enqueued (Changed ''Pod'' m) = {(''Engine'', NN (om_Namespace m) (or_Name o'))}"
  by (simp add: woken_def registrations_def setup_defs enqueued_owner [OF assms(1,3)] assms(2))

end

lemma created_controller: "created o' s \<Longrightarrow> controllerOf (Meta s) = controllerOf (Meta o')"
  by (auto simp: created_def controllerOf_def)

lemma created_names: "created o' s \<Longrightarrow> om_Namespace (Meta s) = obj_Namespace o' \<and> om_Name (Meta s) = obj_Name o'"
  by (auto simp: created_def)

lemma no_controller:
  "controllerOf (Meta (replicaPodOwned images r)) = None" "controllerOf (Meta (engineFor v ras)) = None"
  "controllerOf (Meta (replicaFor v node i)) = None"
  by (simp_all add: controllerOf_def replicaPodOwned_def replicaOwner_def engineFor_def replicaFor_def volumeOwner_def Let_def)

lemmas children_wake = manager.woken_alone [OF _ trans [OF created_controller no_controller(1)]]
  manager.woken_alone [OF _ trans [OF created_controller no_controller(2)]]
  manager.woken_alone [OF _ trans [OF created_controller no_controller(3)]]

section \<open>Properties\<close>

text \<open>
  C7: what a change of an object that the controllers created wakes. A change of the pod of an
  engine wakes the reconciler of engines for that engine, and no other. A change of the pod of a
  replica wakes nobody; and a change of an engine or a replica wakes its own reconciler but not
  that of volumes: the owner references of these do not say \<^verbatim>\<open>controller: true\<close>, so that their
  owners, which \<^verbatim>\<open>Own\<close> them by the registrations, are not called.
\<close>

theorem changes_wake:
  assumes manager: "manager enqueued"
    and engine_pod: "created (ownedBy (engineOwner e) (EnginePodFor nqnEnv images e hosts)) ep"
    and replica_pod: "created (replicaPodOwned images r) rp"
    and engine: "created (engineFor v ras) e'" and replica: "created (replicaFor v node i) r'"
  shows "woken enqueued (Changed ''Pod'' (Meta ep)) = {(''Engine'', key_of e)}
    \<and> woken enqueued (Changed ''Pod'' (Meta rp)) = {}
    \<and> woken enqueued (Changed ''Engine'' (Meta e')) = {(''Engine'', key_of e')}
    \<and> woken enqueued (Changed ''Replica'' (Meta r')) = {(''Replica'', key_of r')}"
proof (intro conjI)
  have "controllerOf (Meta ep) = Some (engineOwner e)" "om_Namespace (Meta ep) = obj_Namespace e"
    using created_controller [OF engine_pod] created_names [OF engine_pod] key_of_EnginePodFor [of nqnEnv images e hosts]
    by (simp_all add: controllerOf_def ownedBy_def engineOwner_def key_of_def)
  then show "woken enqueued (Changed ''Pod'' (Meta ep)) = {(''Engine'', key_of e)}"
    using manager.woken_engine_pod [OF manager] by (simp add: engineOwner_def key_of_def)
qed (simp_all add: children_wake(1) [OF manager replica_pod] children_wake(2) [OF manager engine]
  children_wake(3) [OF manager replica] key_of_def)

lemma created_unchanged: "created o' o'"
proof -
  have "Meta o' = (Meta o')\<lparr>om_UID := om_UID (Meta o')\<rparr>" by simp
  then show ?thesis unfolding created_def by blast
qed

theorem changes_wake_witness:
  "woken documented (Changed ''Pod'' (Meta (ownedBy (engineOwner waitingEngine) (EnginePodFor [] PodImages waitingEngine []))))
     = {(''Engine'', NN ''ns'' ''vol-engine'')}
   \<and> woken documented (Changed ''Pod'' (Meta (replicaPodOwned PodImages (sampleReplica 1 ''n2'' ''Running'' ''nqn1'')))) = {}"
proof -
  have "key_of waitingEngine = NN ''ns'' ''vol-engine''" by code_simp
  then show ?thesis
    using changes_wake [OF documented.manager_axioms created_unchanged created_unchanged
      created_unchanged created_unchanged] by auto
qed

text \<open>
  A volume once recorded as ready is not looked at again by itself: the reconciliation of a
  settled volume asks for no other, and of the changes that could unsettle it (its engine, its
  replicas, their pods), none calls for one.
\<close>

lemma ready_volume_rests:
  assumes client: "kube_client c view" and manager: "manager enqueued"
    and run: "run_state (VolumeReconciler_Reconcile c req) w = ((res, err), w')"
    and v: "cl_volumes (view w) req = Some v" "settled (view w) v"
    and replica_pod: "created (replicaPodOwned images r) rp"
    and engine: "created (engineFor v' ras) e'" and replica: "created (replicaFor v' node i) r'"
  shows "RequeueAfter res = 0
    \<and> (\<forall>x \<in> {Changed ''Pod'' (Meta rp), Changed ''Engine'' (Meta e'), Changed ''Replica'' (Meta r')}.
         \<forall>k. (''Volume'', k) \<notin> woken enqueued x)"
  using wp_run [OF kube_client.wp_Reconcile_settled [OF client v] run]
  by (simp add: children_wake(1) [OF manager replica_pod] children_wake(2) [OF manager engine] children_wake(3) [OF manager replica])

end
