(* ===== verification/Spdk_Client.thy ===== *)
theory Spdk_Client
  imports Names Json
begin

text \<open>
  The client of the SPDK target: its interface (\<^verbatim>\<open>src/internal/spdk/types.go\<close>), the client that
  speaks JSON-RPC (\<^verbatim>\<open>client.go\<close>) and the recording one (\<^verbatim>\<open>fake.go\<close>). SPDK and its RPC library
  are not part of the repository: a call is a parameter \<open>rpc\<close> that takes a method and its
  parameters and answers with a result or the text of an error, by which the code tells what
  went wrong. Parameters are JSON objects, a nil value is \<open>JNull\<close>.
\<close>

section \<open>The interface\<close>

datatype spdk_error =
    RpcError string
  | AttachNilResult
  | UnexpectedResultType
  | NoNamespaces
  | UnexpectedNamespaceType
  | NoBdevName
  | RAIDNotFound string
  | InvalidHostNQN string

record NVMeController =
  nc_Name :: string
  nc_TrAddr :: string
  nc_TrSvcID :: string
  nc_SubNQN :: string
  nc_AdrFam :: string

datatype Namespace = Namespace (ns_BdevName: string)

record Listener =
  li_TrType :: string
  li_AdrFam :: string
  li_TrAddr :: string
  li_TrSvcID :: string

type_synonym 'w spdk_step = "('w, spdk_error option) state"

record 'w spdk_client =
  sp_CreateTransport :: "string \<Rightarrow> 'w spdk_step"
  sp_CreateAIOBdev :: "string \<Rightarrow> string \<Rightarrow> int \<Rightarrow> 'w spdk_step"
  sp_AttachNVMeController :: "NVMeController \<Rightarrow> ('w, spdk_error + string) state"
  sp_CreateMirrorBdev :: "string \<Rightarrow> string list \<Rightarrow> int \<Rightarrow> 'w spdk_step"
  sp_CreateSubsystem :: "string \<Rightarrow> string \<Rightarrow> bool \<Rightarrow> 'w spdk_step"
  sp_AddHost :: "string \<Rightarrow> string \<Rightarrow> 'w spdk_step"
  sp_AddNamespace :: "string \<Rightarrow> Namespace \<Rightarrow> 'w spdk_step"
  sp_AddListener :: "string \<Rightarrow> Listener \<Rightarrow> 'w spdk_step"
  sp_DeleteSubsystem :: "string \<Rightarrow> 'w spdk_step"
  sp_DetachNVMeController :: "string \<Rightarrow> 'w spdk_step"
  sp_Health :: "'w spdk_step"
  sp_RemoveListener :: "string \<Rightarrow> Listener \<Rightarrow> 'w spdk_step"
  sp_RemoveNamespace :: "string \<Rightarrow> int \<Rightarrow> 'w spdk_step"
  sp_DestroyRAID :: "string \<Rightarrow> 'w spdk_step"
  sp_AddBaseBdev :: "string \<Rightarrow> string \<Rightarrow> 'w spdk_step"
  sp_RemoveBaseBdev :: "string \<Rightarrow> string \<Rightarrow> 'w spdk_step"
  sp_GetRAIDInfo :: "string \<Rightarrow> ('w, spdk_error + (string \<times> json) list) state"

section \<open>The JSON-RPC client\<close>

type_synonym 'w rpc = "string \<Rightarrow> json \<Rightarrow> ('w, string + json) state"

text \<open>A member of a decoded JSON object; of equal keys the last counts.\<close>

definition member :: "string \<Rightarrow> (string \<times> json) list \<Rightarrow> json option" where
  "member k kvs = map_of (rev kvs) k"

definition member_string :: "string \<Rightarrow> (string \<times> json) list \<Rightarrow> string" where
  "member_string k kvs = (case Option.bind (member k kvs) as_string of Some s \<Rightarrow> s | None \<Rightarrow> [])"

text \<open>The error of a call whose error texts in \<open>fine\<close> do not count.\<close>

definition tolerate :: "string list \<Rightarrow> string + json \<Rightarrow> spdk_error option" where
  "tolerate fine r =
     (case r of
        Inl err \<Rightarrow> if list_ex (Contains err) fine then None else Some (RpcError err)
      | Inr _ \<Rightarrow> None)"

definition rpc_CreateTransport :: "'w rpc \<Rightarrow> string \<Rightarrow> 'w spdk_step" where
  "rpc_CreateTransport rpc trType = do {
     r \<leftarrow> rpc ''nvmf_create_transport'' (JObj [(''trtype'', JStr trType)]);
     ret (tolerate [''already exists''] r)
   }"

definition rpc_CreateAIOBdev :: "'w rpc \<Rightarrow> string \<Rightarrow> string \<Rightarrow> int \<Rightarrow> 'w spdk_step" where
  "rpc_CreateAIOBdev rpc name filename blockSize = do {
     let params = JObj [(''name'', JStr name), (''filename'', JStr filename), (''block_size'', JNum blockSize)];
     r \<leftarrow> rpc ''bdev_aio_create'' params;
     case r of
       Inr _ \<Rightarrow> ret None
     | Inl err \<Rightarrow>
         if Contains err ''File exists'' \<or> Contains err ''already exists''
         then do {
           _ \<leftarrow> rpc ''bdev_aio_delete'' (JObj [(''name'', JStr name)]);
           r \<leftarrow> rpc ''bdev_aio_create'' params;
           ret (tolerate [] r)
         }
         else ret (Some (RpcError err))
   }"

definition attachNVMeControllerParams :: "NVMeController \<Rightarrow> json" where
  "attachNVMeControllerParams controller = JObj
     [(''name'', JStr (nc_Name controller)), (''trtype'', JStr ''tcp''), (''traddr'', JStr (nc_TrAddr controller)),
      (''trsvcid'', JStr (nc_TrSvcID controller)), (''subnqn'', JStr (nc_SubNQN controller)),
      (''adrfam'', JStr (TrimSpace (nc_AdrFam controller)))]"

definition namespaceBdev :: "(string \<times> json) list \<Rightarrow> string" where
  "namespaceBdev m =
     (case member ''namespaces'' m of
        Some (JArr (JObj ns # _)) \<Rightarrow> member_string ''bdev_name'' ns
      | _ \<Rightarrow> [])"

text \<open>The bdev an answer to an attach names, in any of the forms SPDK answers in.\<close>

definition attachedBdev :: "string \<Rightarrow> json \<Rightarrow> spdk_error + string" where
  "attachedBdev name result =
     (case result of
        JNull \<Rightarrow> Inl AttachNilResult
      | JArr (first # _) \<Rightarrow>
          Inr (case first of
                 JObj m \<Rightarrow>
                   if member_string ''bdev_name'' m \<noteq> [] then member_string ''bdev_name'' m
                   else if namespaceBdev m \<noteq> [] then namespaceBdev m
                   else name @ ''n1''
               | _ \<Rightarrow> name @ ''n1'')
      | JObj m \<Rightarrow>
          (case member ''namespaces'' m of
             Some (JArr (first # _)) \<Rightarrow>
               (case first of
                  JObj ns \<Rightarrow>
                    if member_string ''bdev_name'' ns = [] then Inl NoBdevName
                    else Inr (member_string ''bdev_name'' ns)
                | _ \<Rightarrow> Inl UnexpectedNamespaceType)
           | _ \<Rightarrow> Inl NoNamespaces)
      | _ \<Rightarrow> Inl UnexpectedResultType)"

definition rpc_AttachNVMeController :: "'w rpc \<Rightarrow> NVMeController \<Rightarrow> ('w, spdk_error + string) state" where
  "rpc_AttachNVMeController rpc controller = do {
     let attach = rpc ''bdev_nvme_attach_controller'' (attachNVMeControllerParams controller);
     r \<leftarrow> attach;
     case r of
       Inr result \<Rightarrow> ret (attachedBdev (nc_Name controller) result)
     | Inl err \<Rightarrow>
         if Contains err ''already exists''
         then do {
           _ \<leftarrow> rpc ''bdev_nvme_detach_controller'' (JObj [(''name'', JStr (nc_Name controller))]);
           r \<leftarrow> attach;
           case r of
             Inr result \<Rightarrow> ret (attachedBdev (nc_Name controller) result)
           | Inl err \<Rightarrow> ret (Inl (RpcError err))
         }
         else ret (Inl (RpcError err))
   }"

definition rpc_CreateMirrorBdev :: "'w rpc \<Rightarrow> string \<Rightarrow> string list \<Rightarrow> int \<Rightarrow> 'w spdk_step" where
  "rpc_CreateMirrorBdev rpc name baseBdevs stripSize = do {
     r \<leftarrow> rpc ''bdev_raid_create'' (JObj
            [(''name'', JStr name), (''raid_level'', JStr ''raid1''), (''base_bdevs'', JArr (map JStr baseBdevs))]);
     ret (tolerate [] r)
   }"

definition rpc_CreateSubsystem :: "'w rpc \<Rightarrow> string \<Rightarrow> string \<Rightarrow> bool \<Rightarrow> 'w spdk_step" where
  "rpc_CreateSubsystem rpc nqn serial allowAnyHost = do {
     r \<leftarrow> rpc ''nvmf_create_subsystem'' (JObj
            ([(''nqn'', JStr nqn), (''serial_number'', JStr serial)]
             @ (if allowAnyHost then [(''allow_any_host'', JBool True)] else [])));
     ret (tolerate [''already exists'', ''Unable to create''] r)
   }"

definition rpc_AddNamespace :: "'w rpc \<Rightarrow> string \<Rightarrow> Namespace \<Rightarrow> 'w spdk_step" where
  "rpc_AddNamespace rpc nqn namespace = do {
     r \<leftarrow> rpc ''nvmf_subsystem_add_ns'' (JObj
            [(''nqn'', JStr nqn), (''namespace'', JObj [(''bdev_name'', JStr (ns_BdevName namespace))])]);
     ret (tolerate [''already exists'', ''Invalid parameters''] r)
   }"

definition listenAddress :: "string \<Rightarrow> Listener \<Rightarrow> json" where
  "listenAddress nqn listener = JObj
     [(''nqn'', JStr nqn),
      (''listen_address'', JObj
         [(''trtype'', JStr (li_TrType listener)), (''adrfam'', JStr (li_AdrFam listener)),
          (''traddr'', JStr (li_TrAddr listener)), (''trsvcid'', JStr (li_TrSvcID listener))])]"

definition rpc_AddListener :: "'w rpc \<Rightarrow> string \<Rightarrow> Listener \<Rightarrow> 'w spdk_step" where
  "rpc_AddListener rpc nqn listener = do {
     r \<leftarrow> rpc ''nvmf_subsystem_add_listener'' (listenAddress nqn listener);
     ret (tolerate [''already exists'', ''Invalid parameters''] r)
   }"

definition rpc_DeleteSubsystem :: "'w rpc \<Rightarrow> string \<Rightarrow> 'w spdk_step" where
  "rpc_DeleteSubsystem rpc nqn = do {
     r \<leftarrow> rpc ''nvmf_delete_subsystem'' (JObj [(''nqn'', JStr nqn)]);
     ret (tolerate [] r)
   }"

definition rpc_DetachNVMeController :: "'w rpc \<Rightarrow> string \<Rightarrow> 'w spdk_step" where
  "rpc_DetachNVMeController rpc name = do {
     r \<leftarrow> rpc ''bdev_nvme_detach_controller'' (JObj [(''name'', JStr name)]);
     ret (tolerate [] r)
   }"

definition rpc_Health :: "'w rpc \<Rightarrow> 'w spdk_step" where
  "rpc_Health rpc = do {
     r \<leftarrow> rpc ''spdk_get_version'' JNull;
     ret (tolerate [] r)
   }"

definition rpc_RemoveListener :: "'w rpc \<Rightarrow> string \<Rightarrow> Listener \<Rightarrow> 'w spdk_step" where
  "rpc_RemoveListener rpc nqn listener = do {
     r \<leftarrow> rpc ''nvmf_subsystem_remove_listener'' (listenAddress nqn listener);
     ret (tolerate [''Listener was not found''] r)
   }"

definition rpc_RemoveNamespace :: "'w rpc \<Rightarrow> string \<Rightarrow> int \<Rightarrow> 'w spdk_step" where
  "rpc_RemoveNamespace rpc nqn nsID = do {
     r \<leftarrow> rpc ''nvmf_subsystem_remove_ns'' (JObj [(''nqn'', JStr nqn), (''nsid'', JNum nsID)]);
     ret (tolerate [''Namespace was not found''] r)
   }"

definition rpc_DestroyRAID :: "'w rpc \<Rightarrow> string \<Rightarrow> 'w spdk_step" where
  "rpc_DestroyRAID rpc name = do {
     r \<leftarrow> rpc ''bdev_raid_delete'' (JObj [(''name'', JStr name)]);
     ret (tolerate [''No such device''] r)
   }"

definition baseBdevParams :: "string \<Rightarrow> string \<Rightarrow> json" where
  "baseBdevParams raidName baseBdev = JObj [(''name'', JStr raidName), (''base_bdev'', JStr baseBdev)]"

definition rpc_AddBaseBdev :: "'w rpc \<Rightarrow> string \<Rightarrow> string \<Rightarrow> 'w spdk_step" where
  "rpc_AddBaseBdev rpc raidName baseBdev = do {
     r \<leftarrow> rpc ''bdev_raid_add_base_bdev'' (baseBdevParams raidName baseBdev);
     ret (tolerate [] r)
   }"

definition rpc_RemoveBaseBdev :: "'w rpc \<Rightarrow> string \<Rightarrow> string \<Rightarrow> 'w spdk_step" where
  "rpc_RemoveBaseBdev rpc raidName baseBdev = do {
     r \<leftarrow> rpc ''bdev_raid_remove_base_bdev'' (baseBdevParams raidName baseBdev);
     ret (tolerate [] r)
   }"

definition rpc_GetRAIDInfo :: "'w rpc \<Rightarrow> string \<Rightarrow> ('w, spdk_error + (string \<times> json) list) state" where
  "rpc_GetRAIDInfo rpc name = do {
     r \<leftarrow> rpc ''bdev_raid_get_bdevs'' (JObj [(''name'', JStr name)]);
     case r of
       Inl err \<Rightarrow> ret (Inl (RpcError err))
     | Inr (JArr (JObj m # _)) \<Rightarrow> ret (Inr m)
     | Inr _ \<Rightarrow> ret (Inl (RAIDNotFound name))
   }"

definition rpc_AddHost :: "'w rpc \<Rightarrow> string \<Rightarrow> string \<Rightarrow> string \<Rightarrow> 'w spdk_step" where
  "rpc_AddHost rpc nqnEnv nqn host =
     (if \<not> IsHostNQN nqnEnv host then ret (Some (InvalidHostNQN host))
      else do {
        r \<leftarrow> rpc ''nvmf_subsystem_add_host'' (JObj [(''nqn'', JStr nqn), (''host'', JStr host)]);
        ret (tolerate [''already exists''] r)
      })"

definition realClient :: "'w rpc \<Rightarrow> string \<Rightarrow> 'w spdk_client" where
  "realClient rpc nqnEnv =
     \<lparr>sp_CreateTransport = rpc_CreateTransport rpc,
      sp_CreateAIOBdev = rpc_CreateAIOBdev rpc,
      sp_AttachNVMeController = rpc_AttachNVMeController rpc,
      sp_CreateMirrorBdev = rpc_CreateMirrorBdev rpc,
      sp_CreateSubsystem = rpc_CreateSubsystem rpc,
      sp_AddHost = rpc_AddHost rpc nqnEnv,
      sp_AddNamespace = rpc_AddNamespace rpc,
      sp_AddListener = rpc_AddListener rpc,
      sp_DeleteSubsystem = rpc_DeleteSubsystem rpc,
      sp_DetachNVMeController = rpc_DetachNVMeController rpc,
      sp_Health = rpc_Health rpc,
      sp_RemoveListener = rpc_RemoveListener rpc,
      sp_RemoveNamespace = rpc_RemoveNamespace rpc,
      sp_DestroyRAID = rpc_DestroyRAID rpc,
      sp_AddBaseBdev = rpc_AddBaseBdev rpc,
      sp_RemoveBaseBdev = rpc_RemoveBaseBdev rpc,
      sp_GetRAIDInfo = rpc_GetRAIDInfo rpc\<rparr>"

section \<open>The recording client\<close>

text \<open>Its state is the list of calls so far; every call answers with the error it was given.\<close>

type_synonym calls = "string list"

definition record_call :: "spdk_error option \<Rightarrow> string \<Rightarrow> (calls, spdk_error option) state" where
  "record_call err call = State (\<lambda>cs. (err, cs @ [call]))"

definition fake_Attach :: "spdk_error option \<Rightarrow> NVMeController \<Rightarrow> (calls, spdk_error + string) state" where
  "fake_Attach err controller = do {
     e \<leftarrow> record_call err (''AttachNVMeController:'' @ nc_Name controller @ '':'' @ nc_SubNQN controller @ '':''
            @ nc_AdrFam controller @ '':'' @ nc_TrAddr controller);
     case e of Some e \<Rightarrow> ret (Inl e) | None \<Rightarrow> ret (Inr (nc_Name controller @ ''n1''))
   }"

definition fake_GetRAIDInfo :: "spdk_error option \<Rightarrow> string \<Rightarrow> (calls, spdk_error + (string \<times> json) list) state" where
  "fake_GetRAIDInfo err name = do {
     e \<leftarrow> record_call err (''GetRAIDInfo:'' @ name);
     case e of Some e \<Rightarrow> ret (Inl e) | None \<Rightarrow> ret (Inr [])
   }"

definition FakeClient :: "spdk_error option \<Rightarrow> calls spdk_client" where
  "FakeClient err =
     \<lparr>sp_CreateTransport = (\<lambda>trType. record_call err (''CreateTransport:'' @ trType)),
      sp_CreateAIOBdev = (\<lambda>name filename blockSize. record_call err (''CreateAIOBdev:'' @ name @ '':'' @ filename)),
      sp_AttachNVMeController = fake_Attach err,
      sp_CreateMirrorBdev = (\<lambda>name baseBdevs stripSize. record_call err (''CreateMirrorBdev:'' @ name)),
      sp_CreateSubsystem = (\<lambda>nqn serial allowAnyHost. record_call err (''CreateSubsystem:'' @ nqn)),
      sp_AddHost = (\<lambda>nqn host. record_call err (''AddHost:'' @ nqn @ '':'' @ host)),
      sp_AddNamespace = (\<lambda>nqn namespace. record_call err (''AddNamespace:'' @ ns_BdevName namespace)),
      sp_AddListener = (\<lambda>nqn listener. record_call err (''AddListener:'' @ li_TrSvcID listener @ '':''
                          @ li_AdrFam listener @ '':'' @ li_TrAddr listener)),
      sp_DeleteSubsystem = (\<lambda>nqn. record_call err (''DeleteSubsystem:'' @ nqn)),
      sp_DetachNVMeController = (\<lambda>name. record_call err (''DetachNVMeController:'' @ name)),
      sp_Health = record_call err ''Health'',
      sp_RemoveListener = (\<lambda>nqn listener. record_call err (''RemoveListener:'' @ nqn)),
      sp_RemoveNamespace = (\<lambda>nqn nsID. record_call err (''RemoveNamespace:'' @ nqn)),
      sp_DestroyRAID = (\<lambda>name. record_call err (''DestroyRAID:'' @ name)),
      sp_AddBaseBdev = (\<lambda>raidName baseBdev. record_call err (''AddBaseBdev:'' @ raidName @ '':'' @ baseBdev)),
      sp_RemoveBaseBdev = (\<lambda>raidName baseBdev. record_call err (''RemoveBaseBdev:'' @ raidName @ '':'' @ baseBdev)),
      sp_GetRAIDInfo = fake_GetRAIDInfo err\<rparr>"

end
