(* ===== verification/Sidecar_Engine.thy ===== *)
theory Sidecar_Engine
  imports Spdk_Client Sidecar_Protocol Network_Policy Kube_Client
begin

text \<open>
  The sidecar of an engine or replica pod: it builds the SPDK stack of an engine
  (\<^verbatim>\<open>src/internal/sidecar/engine.go\<close>), changes the members of its mirror
  (\<^verbatim>\<open>reconfigure.go\<close>), exports a replica (\<^verbatim>\<open>replica.go\<close>) and answers the controllers
  (\<^verbatim>\<open>status.go\<close>, \<^verbatim>\<open>snapshot.go\<close>). The SPDK client is a parameter, a record of its calls;
  waiting between attempts has no effect on the state and is left out, and so is logging.
  An HTTP handler is a function of the method and the body (\<open>None\<close> when it is not JSON); its
  answer has a status code and a body, \<open>None\<close> for plain text.
\<close>

datatype sidecar_error =
    Spdk spdk_error
  | ReplicaFamily error
  | AddBaseBdevFailed spdk_error
  | AttachFailed string
  | SnapshotFailed string

section \<open>Engines\<close>

record EngineConfig =
  ec_VolumeName :: string
  ec_LocalPath :: string
  ec_Replicas :: "ReplicaAttachment list"
  ec_Listener :: Listener
  ec_Endpoint :: string
  ec_AllowedHosts :: "string list"

record EngineState =
  en_config :: EngineConfig
  en_volumeName :: string
  en_listener :: Listener
  en_endpoint :: string
  en_subsystemNQN :: string

definition NewEngine :: "string \<Rightarrow> EngineConfig \<Rightarrow> EngineState" where
  "NewEngine nqnEnv config =
     \<lparr>en_config = config, en_volumeName = ec_VolumeName config, en_listener = ec_Listener config,
      en_endpoint = ec_Endpoint config, en_subsystemNQN = VolumeNQN nqnEnv (ec_VolumeName config)\<rparr>"

definition engineStatus :: "EngineState \<Rightarrow> SidecarStatus" where
  "engineStatus e =
     \<lparr>sc_Role = ''engine'', sc_Endpoint = en_endpoint e, sc_SubsystemNQN = en_subsystemNQN e, sc_ReplicaNQN = []\<rparr>"

definition nvmeAddressFamily :: "string \<Rightarrow> error + string" where
  "nvmeAddressFamily address =
     (case AddressFamilyForAddress address FamilyAuto of
        Inl _ \<Rightarrow> Inr ''ipv4''
      | Inr family \<Rightarrow> Inr (map lower family))"

definition localBdevName :: string where
  "localBdevName = ''aio0''"

definition nvmeName :: "nat \<Rightarrow> string" where
  "nvmeName i = ''nvme'' @ show_nat i"

definition controllerFor :: "nat \<Rightarrow> string \<Rightarrow> ReplicaAttachment \<Rightarrow> NVMeController" where
  "controllerFor i adrFam rep =
     \<lparr>nc_Name = nvmeName i, nc_TrAddr = ra_Address rep, nc_TrSvcID = ra_Port rep, nc_SubNQN = ra_NQN rep,
      nc_AdrFam = adrFam\<rparr>"

text \<open>A number of attempts to attach a replica: the bdev of the first that succeeds.\<close>

fun attachTries :: "'w spdk_client \<Rightarrow> NVMeController \<Rightarrow> nat \<Rightarrow> ('w, string option) state" where
  "attachTries client controller 0 = ret None"
| "attachTries client controller (Suc n) = do {
     r \<leftarrow> sp_AttachNVMeController client controller;
     case r of Inl _ \<Rightarrow> attachTries client controller n | Inr bdev \<Rightarrow> ret (Some bdev)
   }"

fun attachReplicas ::
  "'w spdk_client \<Rightarrow> nat \<Rightarrow> ReplicaAttachment list \<Rightarrow> string list \<Rightarrow> ('w, sidecar_error + string list) state" where
  "attachReplicas client i [] baseBdevs = ret (Inr baseBdevs)"
| "attachReplicas client i (rep # reps) baseBdevs =
     (if ra_IsLocal rep then attachReplicas client (Suc i) reps baseBdevs
      else if ra_Address rep = [] \<or> ra_NQN rep = [] then attachReplicas client (Suc i) reps baseBdevs
      else case nvmeAddressFamily (ra_Address rep) of
        Inl err \<Rightarrow> ret (Inl (ReplicaFamily err))
      | Inr adrFam \<Rightarrow> do {
          b \<leftarrow> attachTries client (controllerFor i adrFam rep) 5;
          case b of
            None \<Rightarrow> attachReplicas client (Suc i) reps baseBdevs
          | Some bdev \<Rightarrow> attachReplicas client (Suc i) reps (baseBdevs @ [bdev])
        })"

text \<open>A sequence of steps, up to the first that fails.\<close>

fun runSteps :: "'w spdk_step list \<Rightarrow> ('w, sidecar_error option) state" where
  "runSteps [] = ret None"
| "runSteps (step # steps) = do {
     e \<leftarrow> step;
     case e of Some err \<Rightarrow> ret (Some (Spdk err)) | None \<Rightarrow> runSteps steps
   }"

definition exportEngine ::
  "'w spdk_client \<Rightarrow> string \<Rightarrow> EngineConfig \<Rightarrow> string \<Rightarrow> ('w, sidecar_error + EngineState) state" where
  "exportEngine client nqnEnv config exportBdev = do {
     let nqn = VolumeNQN nqnEnv (ec_VolumeName config);
     e \<leftarrow> runSteps
            [sp_CreateSubsystem client nqn ''kdfs-vol'' True,
             sp_AddNamespace client nqn (Namespace exportBdev),
             sp_AddListener client nqn (ec_Listener config)];
     case e of Some err \<Rightarrow> ret (Inl err) | None \<Rightarrow> ret (Inr (NewEngine nqnEnv config))
   }"

definition ConfigureEngine ::
  "'w spdk_client \<Rightarrow> string \<Rightarrow> EngineConfig \<Rightarrow> ('w, sidecar_error + EngineState) state" where
  "ConfigureEngine client nqnEnv config = do {
     e \<leftarrow> runSteps
            [sp_CreateTransport client ''tcp'',
             sp_CreateAIOBdev client localBdevName (ec_LocalPath config) 4096];
     case e of
       Some err \<Rightarrow> ret (Inl err)
     | None \<Rightarrow> do {
         b \<leftarrow> attachReplicas client 0 (ec_Replicas config) [localBdevName];
         case b of
           Inl err \<Rightarrow> ret (Inl err)
         | Inr baseBdevs \<Rightarrow>
             if length baseBdevs \<le> 1 then exportEngine client nqnEnv config localBdevName
             else do {
               m \<leftarrow> sp_CreateMirrorBdev client ''raid0'' baseBdevs 131072;
               case m of
                 Some err \<Rightarrow> ret (Inl (Spdk err))
               | None \<Rightarrow> exportEngine client nqnEnv config ''raid0''
             }
       }
   }"

section \<open>Changing the members of the mirror\<close>

definition baseBdevNames :: "(string \<times> json) list \<Rightarrow> string list" where
  "baseBdevNames info =
     (case member ''base_bdevs_list'' info of
        Some (JArr bs) \<Rightarrow>
          concat (map (\<lambda>b. case b of
            JObj m \<Rightarrow> (case member ''name'' m of Some (JStr name) \<Rightarrow> [name] | _ \<Rightarrow> [])
          | _ \<Rightarrow> []) bs)
      | _ \<Rightarrow> [])"

fun removeOld ::
  "'w spdk_client \<Rightarrow> string list \<Rightarrow> ReplicaAttachment list \<Rightarrow> nat \<Rightarrow> ReplicaAttachment list \<Rightarrow> ('w, unit) state" where
  "removeOld client currentBdevs newReplicas i [] = ret ()"
| "removeOld client currentBdevs newReplicas i (oldRep # oldReps) = do {
     _ \<leftarrow> (if ra_IsLocal oldRep then ret ()
     else if \<not> list_ex (\<lambda>newRep. ra_Name newRep = ra_Name oldRep) newReplicas \<and> nvmeName i \<in> set currentBdevs
     then do {
       _ \<leftarrow> sp_RemoveBaseBdev client ''raid0'' (nvmeName i);
       _ \<leftarrow> sp_DetachNVMeController client (nvmeName i);
       ret ()
     }
     else ret ());
     removeOld client currentBdevs newReplicas (Suc i) oldReps
   }"

fun addNew ::
  "'w spdk_client \<Rightarrow> string list \<Rightarrow> nat \<Rightarrow> ReplicaAttachment list \<Rightarrow> ('w, sidecar_error option) state" where
  "addNew client currentBdevs i [] = ret None"
| "addNew client currentBdevs i (newRep # newReps) =
     (if ra_IsLocal newRep \<or> nvmeName i \<in> set currentBdevs then addNew client currentBdevs (Suc i) newReps
      else case nvmeAddressFamily (ra_Address newRep) of
        Inl err \<Rightarrow> ret (Some (ReplicaFamily err))
      | Inr adrFam \<Rightarrow> do {
          b \<leftarrow> attachTries client (controllerFor i adrFam newRep) 5;
          case b of
            None \<Rightarrow> ret (Some (AttachFailed (nvmeName i)))
          | Some _ \<Rightarrow> do {
              e \<leftarrow> sp_AddBaseBdev client ''raid0'' (nvmeName i);
              case e of
                Some err \<Rightarrow> ret (Some (AddBaseBdevFailed err))
              | None \<Rightarrow> addNew client currentBdevs (Suc i) newReps
            }
        })"

definition Reconfigure ::
  "'w spdk_client \<Rightarrow> EngineState \<Rightarrow> ReplicaAttachment list \<Rightarrow> ('w, sidecar_error option \<times> EngineState) state" where
  "Reconfigure client e newReplicas = do {
     info \<leftarrow> sp_GetRAIDInfo client ''raid0'';
     let currentBdevs = (case info of Inl _ \<Rightarrow> [] | Inr m \<Rightarrow> baseBdevNames m);
     _ \<leftarrow> removeOld client currentBdevs newReplicas 0 (ec_Replicas (en_config e));
     r \<leftarrow> addNew client currentBdevs 0 newReplicas;
     case r of
       Some err \<Rightarrow> ret (Some err, e)
     | None \<Rightarrow> ret (None, e\<lparr>en_config := (en_config e)\<lparr>ec_Replicas := newReplicas\<rparr>\<rparr>)
   }"

section \<open>Replicas\<close>

record ReplicaConfig =
  rc_VolumeName :: string
  rc_ReplicaIndex :: int
  rc_DataPath :: string
  rc_Listener :: Listener
  rc_Endpoint :: string

record ReplicaResult =
  rr_NQN :: string
  rr_Endpoint :: string

definition replicaStatusOf :: "ReplicaResult \<Rightarrow> SidecarStatus" where
  "replicaStatusOf result =
     \<lparr>sc_Role = ''replica'', sc_Endpoint = rr_Endpoint result, sc_SubsystemNQN = [], sc_ReplicaNQN = rr_NQN result\<rparr>"

definition ConfigureReplica ::
  "'w spdk_client \<Rightarrow> string \<Rightarrow> ReplicaConfig \<Rightarrow> ('w, sidecar_error + ReplicaResult) state" where
  "ConfigureReplica client nqnEnv config = do {
     let nqn = ReplicaNQN nqnEnv (rc_VolumeName config) (rc_ReplicaIndex config);
     e \<leftarrow> runSteps
            [sp_CreateAIOBdev client ''aio0'' (rc_DataPath config) 4096,
             sp_CreateTransport client ''tcp'',
             sp_CreateSubsystem client nqn ''kdfs-vol'' True,
             sp_AddNamespace client nqn (Namespace ''aio0''),
             sp_AddListener client nqn (rc_Listener config)];
     case e of
       Some err \<Rightarrow> ret (Inl err)
     | None \<Rightarrow> ret (Inr \<lparr>rr_NQN = nqn, rr_Endpoint = rc_Endpoint config\<rparr>)
   }"

section \<open>Answers to the controllers\<close>

definition replyText :: "int \<Rightarrow> http_response" where
  "replyText code = \<lparr>hr_StatusCode = code, hr_Body = None\<rparr>"

definition WriteStatusHTTP :: "SidecarStatus \<Rightarrow> http_response" where
  "WriteStatusHTTP status = \<lparr>hr_StatusCode = 200, hr_Body = Some (encodeStatus status)\<rparr>"

definition ReconfigureHTTP ::
  "'w spdk_client \<Rightarrow> EngineState \<Rightarrow> http_request \<Rightarrow> ('w, http_response \<times> EngineState) state" where
  "ReconfigureHTTP client e req =
     (if hq_Method req \<noteq> ''POST'' then ret (replyText 405, e)
      else case Option.bind (hq_Payload req) decodeReconfigure of
        None \<Rightarrow> ret (replyText 400, e)
      | Some newReplicas \<Rightarrow> do {
          r \<leftarrow> Reconfigure client e newReplicas;
          case r of
            (Some _, e) \<Rightarrow> ret (replyText 500, e)
          | (None, e) \<Rightarrow> ret (replyText 200, e)
        })"

type_synonym 'w snapshotter = "string \<Rightarrow> ('w, sidecar_error + string \<times> int) state"

definition SnapshotHTTP :: "'w snapshotter \<Rightarrow> http_request \<Rightarrow> ('w, http_response) state" where
  "SnapshotHTTP snapshotter req =
     (if hq_Method req \<noteq> ''POST'' then ret (replyText 405)
      else case Option.bind (hq_Payload req) decodeSnapshotReq of
        None \<Rightarrow> ret (replyText 400)
      | Some snapshotID \<Rightarrow>
          if snapshotID = [] then ret (replyText 400)
          else do {
            r \<leftarrow> snapshotter snapshotID;
            case r of
              Inl _ \<Rightarrow> ret (replyText 500)
            | Inr (path, bytes) \<Rightarrow>
                ret \<lparr>hr_StatusCode = 200,
                     hr_Body = Some (encodeSnapshotResp \<lparr>sr_SnapshotPath = path, sr_SizeBytes = bytes\<rparr>)\<rparr>
          })"

section \<open>The requests that build a stack\<close>

text \<open>
  The client of \<^verbatim>\<open>client.go\<close> on a connection that records every request with its parameters: \<open>answer\<close>
  is what the other side answers to a request.
\<close>

type_synonym requests = "(string \<times> json) list"

definition recordingRpc :: "(string \<Rightarrow> json \<Rightarrow> string + json) \<Rightarrow> requests rpc" where
  "recordingRpc answer meth params = State (\<lambda>log. (answer meth params, log @ [(meth, params)]))"

abbreviation attachMethod :: string where
  "attachMethod \<equiv> ''bdev_nvme_attach_controller''"

text \<open>
  A fresh target: it grants every request but attaching a controller, which it may refuse, but not
  because the controller is there already; when it attaches one, it answers with the names of the
  new bdevs.
\<close>

definition fresh_target :: "(string \<Rightarrow> json \<Rightarrow> string + json) \<Rightarrow> bool" where
  "fresh_target answer \<longleftrightarrow>
     (\<forall>meth params. meth \<noteq> attachMethod \<longrightarrow> \<not> isl (answer meth params))
     \<and> (\<forall>params. case answer attachMethod params of
          Inl err \<Rightarrow> \<not> Contains err ''already exists''
        | Inr bdevs \<Rightarrow> \<exists>b bs. bdevs = JArr (JStr b # bs))"

definition attachable :: "ReplicaAttachment \<Rightarrow> bool" where
  "attachable rep \<longleftrightarrow> \<not> ra_IsLocal rep \<and> ra_Address rep \<noteq> [] \<and> ra_NQN rep \<noteq> []"

definition familyOf :: "string \<Rightarrow> string" where
  "familyOf address = (case ParseIP address of Some ip \<Rightarrow> if To4 ip = None then ''ipv6'' else ''ipv4'' | None \<Rightarrow> ''ipv4'')"

definition remotes :: "nat \<Rightarrow> ReplicaAttachment list \<Rightarrow> (nat \<times> ReplicaAttachment) list" where
  "remotes i reps = filter (\<lambda>(_, rep). attachable rep) (enumerate i reps)"

definition attachRequest :: "nat \<times> ReplicaAttachment \<Rightarrow> string \<times> json" where
  "attachRequest = (\<lambda>(i, rep). (attachMethod, JObj
     [(''name'', JStr (''nvme'' @ show_nat i)), (''trtype'', JStr ''tcp''), (''traddr'', JStr (ra_Address rep)),
      (''trsvcid'', JStr (ra_Port rep)), (''subnqn'', JStr (ra_NQN rep)), (''adrfam'', JStr (familyOf (ra_Address rep)))]))"

definition attaches :: "(string \<Rightarrow> json \<Rightarrow> string + json) \<Rightarrow> nat \<times> ReplicaAttachment \<Rightarrow> bool" where
  "attaches answer r \<longleftrightarrow> \<not> isl (answer attachMethod (snd (attachRequest r)))"

definition exportRequests :: "string \<Rightarrow> string \<Rightarrow> Listener \<Rightarrow> requests" where
  "exportRequests nqn bdev li =
     [(''nvmf_create_subsystem'', JObj
         [(''nqn'', JStr nqn), (''serial_number'', JStr ''kdfs-vol''), (''allow_any_host'', JBool True)]),
      (''nvmf_subsystem_add_ns'', JObj [(''nqn'', JStr nqn), (''namespace'', JObj [(''bdev_name'', JStr bdev)])]),
      (''nvmf_subsystem_add_listener'', JObj
         [(''nqn'', JStr nqn),
          (''listen_address'', JObj
             [(''trtype'', JStr (li_TrType li)), (''adrfam'', JStr (li_AdrFam li)), (''traddr'', JStr (li_TrAddr li)),
              (''trsvcid'', JStr (li_TrSvcID li))])])]"

definition aioRequest :: "string \<Rightarrow> string \<times> json" where
  "aioRequest path =
     (''bdev_aio_create'', JObj [(''name'', JStr ''aio0''), (''filename'', JStr path), (''block_size'', JNum 4096)])"

definition transportRequest :: "string \<times> json" where
  "transportRequest = (''nvmf_create_transport'', JObj [(''trtype'', JStr ''tcp'')])"

text \<open>
  What SPDK is asked for, in order: the transport, the local bdev, every remote replica that has an
  endpoint, under the number of its place, five times if it is refused; a mirror of the local
  bdev and those that were attached, if there are any; and the export of the mirror, or of
  the local bdev.
\<close>

definition engineRequests :: "(string \<Rightarrow> json \<Rightarrow> string + json) \<Rightarrow> string \<Rightarrow> EngineConfig \<Rightarrow> requests" where
  "engineRequests answer nqnEnv config =
     (let remote = remotes 0 (ec_Replicas config); mirrored = filter (attaches answer) remote in
      [transportRequest, aioRequest (ec_LocalPath config)]
      @ concat (map (\<lambda>r. replicate (if attaches answer r then 1 else 5) (attachRequest r)) remote)
      @ (if mirrored = [] then [] else
          [(''bdev_raid_create'', JObj
              [(''name'', JStr ''raid0''), (''raid_level'', JStr ''raid1''),
               (''base_bdevs'', JArr (JStr ''aio0'' # map (\<lambda>(i, _). JStr (''nvme'' @ show_nat i @ ''n1'')) mirrored))])])
      @ exportRequests (VolumeNQN nqnEnv (ec_VolumeName config)) (if mirrored = [] then ''aio0'' else ''raid0'')
          (ec_Listener config))"

definition replicaRequests :: "string \<Rightarrow> ReplicaConfig \<Rightarrow> requests" where
  "replicaRequests nqnEnv config =
     [aioRequest (rc_DataPath config), transportRequest]
     @ exportRequests (ReplicaNQN nqnEnv (rc_VolumeName config) (rc_ReplicaIndex config)) ''aio0'' (rc_Listener config)"

lemma nvmeAddressFamily_total: "nvmeAddressFamily a = Inr (familyOf a)"
proof -
  have "map lower ''IPv4'' = ''ipv4''" "map lower ''IPv6'' = ''ipv6''" by code_simp+
  then show ?thesis
    by (cases "ParseIP a")
      (simp_all add: nvmeAddressFamily_def familyOf_def AddressFamilyForAddress_def normalizeFamily_def resolveAdrFam_def
        del: list.map)
qed

lemma TrimSpace_familyOf: "TrimSpace (familyOf a) = familyOf a"
proof -
  have "TrimSpace ''ipv4'' = ''ipv4''" "TrimSpace ''ipv6'' = ''ipv6''" by code_simp+
  then show ?thesis by (simp add: familyOf_def split: option.split)
qed

lemma remotes_Cons:
  "remotes i (rep # reps) = (if attachable rep then (i, rep) # remotes (Suc i) reps else remotes (Suc i) reps)"
  by (simp add: remotes_def)

lemma wp_recordingRpc [simp]: "wp (recordingRpc answer m p) Q log = Q (answer m p) (log @ [(m, p)])"
  by (simp add: wp_def recordingRpc_def)

text \<open>The steps of the client on this connection.\<close>

lemma granted:
  assumes "fresh_target answer" and "meth \<noteq> attachMethod"
  shows "\<exists>x. answer meth params = Inr x" "tolerate fine (answer meth params) = None"
proof -
  have "\<not> isl (answer meth params)" using assms by (simp add: fresh_target_def)
  then show "\<exists>x. answer meth params = Inr x" by (cases "answer meth params") simp_all
  then show "tolerate fine (answer meth params) = None" by (auto simp: tolerate_def)
qed

lemma refusal:
  assumes "fresh_target answer" and "answer attachMethod params = Inl err"
  shows "\<not> Contains err ''already exists''"
proof -
  have "case answer attachMethod params of Inl err \<Rightarrow> \<not> Contains err ''already exists''
      | Inr bdevs \<Rightarrow> \<exists>b bs. bdevs = JArr (JStr b # bs)"
    using assms(1) by (simp add: fresh_target_def)
  with assms(2) show ?thesis by simp
qed

lemma attached_bdev:
  assumes "fresh_target answer" and "answer attachMethod params = Inr bdevs"
  shows "\<exists>b bs. bdevs = JArr (JStr b # bs)"
proof -
  have "case answer attachMethod params of Inl err \<Rightarrow> \<not> Contains err ''already exists''
      | Inr bdevs \<Rightarrow> \<exists>b bs. bdevs = JArr (JStr b # bs)"
    using assms(1) by (simp add: fresh_target_def)
  with assms(2) show ?thesis by simp
qed

lemma wp_real_steps:
  assumes "fresh_target answer"
  shows "wp (sp_CreateTransport (realClient (recordingRpc answer) env) ''tcp'') Q log = Q None (log @ [transportRequest])"
    "wp (sp_CreateAIOBdev (realClient (recordingRpc answer) env) ''aio0'' path 4096) Q log = Q None (log @ [aioRequest path])"
    "wp (sp_CreateMirrorBdev (realClient (recordingRpc answer) env) name bs k) Q log
     = Q None (log @ [(''bdev_raid_create'', JObj
         [(''name'', JStr name), (''raid_level'', JStr ''raid1''), (''base_bdevs'', JArr (map JStr bs))])])"
proof -
  obtain x where "answer ''bdev_aio_create'' (snd (aioRequest path)) = Inr x"
    using granted(1) [OF assms, of "''bdev_aio_create''" "snd (aioRequest path)"] by auto
  then show "wp (sp_CreateAIOBdev (realClient (recordingRpc answer) env) ''aio0'' path 4096) Q log = Q None (log @ [aioRequest path])"
    by (simp add: realClient_def rpc_CreateAIOBdev_def Let_def aioRequest_def)
qed (simp_all add: realClient_def rpc_CreateTransport_def rpc_CreateMirrorBdev_def granted(2) [OF assms] transportRequest_def)

lemma wp_real_export:
  assumes "fresh_target answer"
  shows "wp (runSteps
       [sp_CreateSubsystem (realClient (recordingRpc answer) env) nqn ''kdfs-vol'' True,
        sp_AddNamespace (realClient (recordingRpc answer) env) nqn (Namespace bdev),
        sp_AddListener (realClient (recordingRpc answer) env) nqn li]) Q log
     = Q None (log @ exportRequests nqn bdev li)"
  by (simp add: realClient_def rpc_CreateSubsystem_def rpc_AddNamespace_def rpc_AddListener_def listenAddress_def
      granted(2) [OF assms] exportRequests_def)

lemma wp_real_attach:
  assumes "fresh_target answer"
  shows "wp (attachTries (realClient (recordingRpc answer) env) (controllerFor i (familyOf (ra_Address rep)) rep) (Suc n)) Q log
     = (if attaches answer (i, rep) then Q (Some (nvmeName i @ ''n1'')) (log @ [attachRequest (i, rep)])
        else Q None (log @ replicate (Suc n) (attachRequest (i, rep))))"
proof -
  have params: "attachNVMeControllerParams (controllerFor i (familyOf (ra_Address rep)) rep) = snd (attachRequest (i, rep))"
    "attachRequest (i, rep) = (attachMethod, snd (attachRequest (i, rep)))"
    by (simp_all add: attachNVMeControllerParams_def controllerFor_def attachRequest_def nvmeName_def TrimSpace_familyOf)
  show ?thesis
  proof (cases "answer attachMethod (snd (attachRequest (i, rep)))")
    case (Inl err)
    then have "\<not> Contains err ''already exists''" by (rule refusal [OF assms])
    then have refused: "wp (sp_AttachNVMeController (realClient (recordingRpc answer) env)
        (controllerFor i (familyOf (ra_Address rep)) rep)) R l = R (Inl (RpcError err)) (l @ [attachRequest (i, rep)])" for R l
      using Inl params by (simp add: realClient_def rpc_AttachNVMeController_def Let_def)
    have "wp (attachTries (realClient (recordingRpc answer) env) (controllerFor i (familyOf (ra_Address rep)) rep) m) Q l
        = Q None (l @ replicate m (attachRequest (i, rep)))" for m l
      by (induction m arbitrary: l) (simp_all add: refused)
    then show ?thesis using Inl by (simp add: attaches_def del: attachTries.simps)
  next
    case (Inr bdevs)
    then obtain b bs where "bdevs = JArr (JStr b # bs)" using attached_bdev [OF assms] by blast
    then show ?thesis
      using Inr params
      by (simp add: realClient_def rpc_AttachNVMeController_def Let_def attaches_def attachedBdev_def controllerFor_def)
  qed
qed

lemmas wp_real_attach5 = wp_real_attach [where n = 4, unfolded Suc_numeral semiring_norm]

lemma wp_real_attachReplicas:
  assumes "fresh_target answer"
  shows "wp (attachReplicas (realClient (recordingRpc answer) env) i reps bs) Q log
   = Q (Inr (bs @ map (\<lambda>(j, _). nvmeName j @ ''n1'') (filter (attaches answer) (remotes i reps))))
       (log @ concat (map (\<lambda>r. replicate (if attaches answer r then 1 else 5) (attachRequest r)) (remotes i reps)))"
proof (induction reps arbitrary: i bs log)
  case Nil
  then show ?case by (simp add: remotes_def)
next
  case (Cons rep reps)
  show ?case
    by (auto simp: Cons.IH remotes_Cons attachable_def nvmeAddressFamily_total wp_real_attach5 [OF assms])
qed

text \<open>
  C16: configuring an engine builds its whole stack in order. On a fresh target, whichever replicas
  it refuses to attach, \<open>ConfigureEngine\<close> sends exactly the requests \<open>engineRequests\<close>, with all
  their parameters, and gives the engine of the configuration: a replica is attached under the
  number of its place in the list, with its own NQN, address, port and family, and left out of
  the mirror when it is refused five times; local replicas and those without an endpoint are not
  attached; the mirror is made of the local bdev and of every replica that was attached, and it is
  exported, or the local bdev when there is none.
\<close>

theorem ConfigureEngine_requests:
  assumes fresh: "fresh_target answer"
  shows "run_state (ConfigureEngine (realClient (recordingRpc answer) nqnEnv) nqnEnv config) log
   = (Inr (NewEngine nqnEnv config), log @ engineRequests answer nqnEnv config)"
proof -
  have export: "wp (exportEngine (realClient (recordingRpc answer) nqnEnv) nqnEnv config b) Q l
      = Q (Inr (NewEngine nqnEnv config))
          (l @ exportRequests (VolumeNQN nqnEnv (ec_VolumeName config)) b (ec_Listener config))" for b Q l
    unfolding exportEngine_def Let_def wp_bind wp_real_export [OF fresh] by simp
  have "wp (ConfigureEngine (realClient (recordingRpc answer) nqnEnv) nqnEnv config)
      (\<lambda>x w'. (x, w') = (Inr (NewEngine nqnEnv config), log @ engineRequests answer nqnEnv config)) log"
    by (simp add: ConfigureEngine_def wp_real_steps [OF fresh] wp_real_attachReplicas [OF fresh] export engineRequests_def
        Let_def localBdevName_def nvmeName_def comp_def split_beta)
  then show ?thesis by (auto simp: wp_def split: prod.splits)
qed

text \<open>
  Configuring a replica sends exactly the requests \<open>replicaRequests\<close>, and reports the NQN of the
  replica's index, under which the engine attaches it.
\<close>

theorem ConfigureReplica_requests:
  assumes fresh: "fresh_target answer"
  shows "run_state (ConfigureReplica (realClient (recordingRpc answer) nqnEnv) nqnEnv config) log
   = (Inr \<lparr>rr_NQN = ReplicaNQN nqnEnv (rc_VolumeName config) (rc_ReplicaIndex config), rr_Endpoint = rc_Endpoint config\<rparr>,
      log @ replicaRequests nqnEnv config)"
proof -
  let ?c = "realClient (recordingRpc answer) nqnEnv" and ?nqn = "ReplicaNQN nqnEnv (rc_VolumeName config) (rc_ReplicaIndex config)"
  have "wp (runSteps (sp_CreateAIOBdev ?c ''aio0'' (rc_DataPath config) 4096 # sp_CreateTransport ?c ''tcp''
        # [sp_CreateSubsystem ?c ?nqn ''kdfs-vol'' True, sp_AddNamespace ?c ?nqn (Namespace ''aio0''),
           sp_AddListener ?c ?nqn (rc_Listener config)])) Q log = Q None (log @ replicaRequests nqnEnv config)" for Q
    unfolding runSteps.simps(2) [of "sp_CreateAIOBdev _ _ _ _"] runSteps.simps(2) [of "sp_CreateTransport _ _"]
      wp_bind wp_real_steps [OF fresh] option.case wp_real_export [OF fresh]
    by (simp add: replicaRequests_def)
  then have "wp (ConfigureReplica ?c nqnEnv config) (\<lambda>x w'. (x, w') =
      (Inr \<lparr>rr_NQN = ?nqn, rr_Endpoint = rc_Endpoint config\<rparr>, log @ replicaRequests nqnEnv config)) log"
    unfolding ConfigureReplica_def Let_def wp_bind by simp
  then show ?thesis by (auto simp: wp_def split: prod.splits)
qed

section \<open>Reconfiguring over HTTP\<close>

lemma state_run_eqI: "(\<And>w. run_state m w = run_state n w) \<Longrightarrow> m = n"
  by (cases m; cases n) auto

text \<open>
  A reconfiguration the controller sends reaches the engine as it is. Serving the request
  of \<open>triggerReconfigure\<close> runs \<open>Reconfigure\<close> on the very attachments the controller encoded,
  and answers 200 exactly when it succeeded, 500 when it failed.
\<close>

theorem reconfigure_over_http:
  "ReconfigureHTTP client e \<lparr>hq_Method = ''POST'', hq_URL = url, hq_Payload = Some (encodeReconfigure ras)\<rparr>
   = do {
       r \<leftarrow> Reconfigure client e ras;
       ret (replyText (if fst r = None then 200 else 500), snd r)
     }"
  by (rule state_run_eqI)
    (simp add: ReconfigureHTTP_def reconfigurations.decode_encode State_Monad.bind_def State_Monad.return_def
      split: prod.split option.split)

section \<open>An SPDK target\<close>

text \<open>
  A small target in memory, as its documentation describes it: a controller \<^verbatim>\<open>nvmeX\<close> gives the
  bdev \<^verbatim>\<open>nvmeXn1\<close>, a RAID bdev lists the names of its base bdevs, and detaching a controller
  removes its bdev from them.
\<close>

record target =
  tg_controllers :: "string list"
  tg_raids :: "(string \<times> string list) list"

definition bdevExists :: "target \<Rightarrow> string \<Rightarrow> bool" where
  "bdevExists t b \<longleftrightarrow> b = ''aio0'' \<or> (\<exists>ct \<in> set (tg_controllers t). b = ct @ ''n1'')"

definition params_of :: "json \<Rightarrow> (string \<times> json) list" where
  "params_of params = (case params of JObj kvs \<Rightarrow> kvs | _ \<Rightarrow> [])"

definition targetCall :: "string \<Rightarrow> (string \<times> json) list \<Rightarrow> target \<Rightarrow> (string + json) \<times> target" where
  "targetCall meth ps t =
     (let name = member_string ''name'' ps; base = member_string ''base_bdev'' ps in
      if meth = ''bdev_nvme_attach_controller''
      then (if name \<in> set (tg_controllers t) then (Inl ''controller already exists'', t)
            else (Inr (JArr [JStr (name @ ''n1'')]), t\<lparr>tg_controllers := name # tg_controllers t\<rparr>))
      else if meth = ''bdev_nvme_detach_controller''
      then (if name \<notin> set (tg_controllers t) then (Inl ''No such device'', t)
            else (Inr (JBool True),
                  \<lparr>tg_controllers = removeAll name (tg_controllers t),
                   tg_raids = map (\<lambda>(r, bs). (r, removeAll (name @ ''n1'') bs)) (tg_raids t)\<rparr>))
      else if meth = ''bdev_raid_create''
      then (case member ''base_bdevs'' ps of
              Some (JArr bs) \<Rightarrow>
                (Inr (JBool True), t\<lparr>tg_raids := (name, map (\<lambda>b. case as_string b of Some x \<Rightarrow> x | None \<Rightarrow> []) bs) # tg_raids t\<rparr>)
            | _ \<Rightarrow> (Inl ''Invalid parameters'', t))
      else if meth = ''bdev_raid_get_bdevs''
      then (case map_of (tg_raids t) name of
              None \<Rightarrow> (Inr (JArr []), t)
            | Some bs \<Rightarrow> (Inr (JArr [JObj [(''name'', JStr name),
                               (''base_bdevs_list'', JArr (map (\<lambda>b. JObj [(''name'', JStr b)]) bs))]]), t))
      else if meth = ''bdev_raid_add_base_bdev'' \<or> meth = ''bdev_raid_remove_base_bdev''
      then (if map_of (tg_raids t) name = None \<or> \<not> bdevExists t base then (Inl ''No such device'', t)
            else (Inr (JBool True), t\<lparr>tg_raids := map (\<lambda>(r, bs). (r,
                    if r \<noteq> name then bs else if meth = ''bdev_raid_add_base_bdev'' then bs @ [base] else removeAll base bs))
                    (tg_raids t)\<rparr>))
      else (Inr (JBool True), t))"

definition targetRpc :: "target rpc" where
  "targetRpc meth params = State (targetCall meth (params_of params))"

definition emptyTarget :: target where
  "emptyTarget = \<lparr>tg_controllers = [], tg_raids = []\<rparr>"

definition sampleRep :: "string \<Rightarrow> bool \<Rightarrow> ReplicaAttachment" where
  "sampleRep name loc = \<lparr>ra_Name = name, ra_NodeID = ''n'', ra_IsLocal = loc, ra_NQN = ''nqn:'' @ name,
     ra_Address = ''10.0.0.6'', ra_Port = ''4421''\<rparr>"

definition sampleConfig :: EngineConfig where
  "sampleConfig = \<lparr>ec_VolumeName = ''vol'', ec_LocalPath = ''/data/vol/vol.img'',
     ec_Replicas = [sampleRep ''r0'' True, sampleRep ''r1'' False],
     ec_Listener = \<lparr>li_TrType = ''TCP'', li_AdrFam = ''IPv4'', li_TrAddr = ''10.0.0.5'', li_TrSvcID = ''4420''\<rparr>,
     ec_Endpoint = ''10.0.0.5:4420'', ec_AllowedHosts = []\<rparr>"

text \<open>A target that refuses to attach the replica in third place.\<close>

definition sampleAnswer :: "string \<Rightarrow> json \<Rightarrow> string + json" where
  "sampleAnswer meth params =
     (if meth \<noteq> attachMethod then Inr (JBool True)
      else if params = snd (attachRequest (2, sampleRep ''r2'' False)) then Inl ''timed out''
      else Inr (JArr [JStr ''n1'']))"

definition refusedConfig :: EngineConfig where
  "refusedConfig = sampleConfig\<lparr>ec_Replicas := [sampleRep ''r0'' True, sampleRep ''r1'' False, sampleRep ''r2'' False]\<rparr>"

theorem ConfigureEngine_requests_witness:
  "let (x, log) = run_state (ConfigureEngine (realClient (recordingRpc sampleAnswer) []) [] refusedConfig) []
   in \<not> isl x \<and> map fst log =
        [''nvmf_create_transport'', ''bdev_aio_create'', attachMethod, attachMethod, attachMethod, attachMethod, attachMethod,
         attachMethod, ''bdev_raid_create'', ''nvmf_create_subsystem'', ''nvmf_subsystem_add_ns'', ''nvmf_subsystem_add_listener'']"
proof -
  have "\<not> Contains ''timed out'' ''already exists''" by code_simp
  then have fresh: "fresh_target sampleAnswer" by (simp add: fresh_target_def sampleAnswer_def)
  have "map fst (engineRequests sampleAnswer [] refusedConfig) =
        [''nvmf_create_transport'', ''bdev_aio_create'', attachMethod, attachMethod, attachMethod, attachMethod, attachMethod,
         attachMethod, ''bdev_raid_create'', ''nvmf_create_subsystem'', ''nvmf_subsystem_add_ns'', ''nvmf_subsystem_add_listener'']"
    by code_simp
  then show ?thesis by (simp add: ConfigureEngine_requests [OF fresh])
qed

definition configuredTarget :: target where
  "configuredTarget = snd (run_state (ConfigureEngine (realClient targetRpc []) [] sampleConfig) emptyTarget)"

text \<open>
  Adding a replica to a running engine fails and costs it the one it had. The members of
  the mirror are bdevs, \<^verbatim>\<open>nvme1n1\<close>, but a reconfiguration looks for the names of their
  controllers, \<^verbatim>\<open>nvme1\<close>: it does not find the replica that is attached, attaches it again,
  which removes it from the mirror, and then adds a bdev \<^verbatim>\<open>nvme1\<close> that does not exist.
\<close>

theorem reconfigure_drops_member:
  "map_of (tg_raids configuredTarget) ''raid0'' = Some [''aio0'', ''nvme1n1'']
   \<and> (let r = run_state (Reconfigure (realClient targetRpc []) (NewEngine [] sampleConfig)
                (ec_Replicas sampleConfig @ [sampleRep ''r2'' False])) configuredTarget
      in fst (fst r) = Some (AddBaseBdevFailed (RpcError ''No such device''))
         \<and> map_of (tg_raids (snd r)) ''raid0'' = Some [''aio0''])"
  by code_simp

text \<open>
  Removing a replica from a running engine removes nothing, for the same reason: the
  reconfiguration succeeds, and the mirror still writes to the replica that was detached.
\<close>

theorem reconfigure_keeps_detached:
  "let r = run_state (Reconfigure (realClient targetRpc []) (NewEngine [] sampleConfig) [sampleRep ''r0'' True])
             configuredTarget
   in fst (fst r) = None \<and> map_of (tg_raids (snd r)) ''raid0'' = Some [''aio0'', ''nvme1n1'']"
  by code_simp

end
