(* ===== verification/Json_Parser.thy ===== *)
theory Json_Parser
  imports Json
begin

text \<open>
  Reading a JSON text, as \<^verbatim>\<open>json.Unmarshal\<close> does for the documents the programs are given in
  environment variables: the grammar of \<^verbatim>\<open>encoding/json\<close>, without numbers that have a fraction
  or an exponent, none of which is ever written or read by the programs. A text is read with a
  fuel of its length, which is enough; what \<open>json_text\<close> writes is read back.
\<close>

section \<open>Strings\<close>

definition hex_val :: "char \<Rightarrow> nat option" where
  "hex_val c =
     (let n = (of_char c :: nat) in
      if isDigit c then Some (n - 48)
      else if 97 \<le> n \<and> n \<le> 102 then Some (n - 87)
      else if 65 \<le> n \<and> n \<le> 70 then Some (n - 55)
      else None)"

definition hex4 :: "string \<Rightarrow> (nat \<times> string) option" where
  "hex4 s =
     (case s of
        a # b # c # d # r \<Rightarrow>
          (case (hex_val a, hex_val b, hex_val c, hex_val d) of
             (Some i, Some j, Some k, Some l) \<Rightarrow> Some (4096 * i + 256 * j + 16 * k + l, r)
           | _ \<Rightarrow> None)
      | _ \<Rightarrow> None)"

text \<open>A code point as UTF-8.\<close>

definition utf8 :: "nat \<Rightarrow> string" where
  "utf8 n =
     map char_of
      (if n < 128 then [n]
       else if n < 2048 then [192 + n div 64, 128 + n mod 64]
       else if n < 65536 then [224 + n div 4096, 128 + n div 64 mod 64, 128 + n mod 64]
       else [240 + n div 262144, 128 + n div 4096 mod 64, 128 + n div 64 mod 64, 128 + n mod 64])"

text \<open>The escapes of one character; a unit of UTF-16 is a pair of surrogates, or is replaced when alone.\<close>

definition escaped :: "char \<Rightarrow> string option" where
  "escaped c =
     (if c \<in> {CHR 0x22, CHR 0x5C, CHR ''/''} then Some [c]
      else if c = CHR ''b'' then Some [char_of (8 :: nat)]
      else if c = CHR ''f'' then Some [char_of (12 :: nat)]
      else if c = CHR ''n'' then Some [char_of (10 :: nat)]
      else if c = CHR ''r'' then Some [char_of (13 :: nat)]
      else if c = CHR ''t'' then Some [char_of (9 :: nat)]
      else None)"

definition low_surrogate :: "string \<Rightarrow> (nat \<times> string) option" where
  "low_surrogate s =
     (if HasPrefix s [CHR 0x5C, CHR ''u'']
      then (case hex4 (drop 2 s) of
              Some (l, r) \<Rightarrow> if 0xDC00 \<le> l \<and> l \<le> 0xDFFF then Some (l - 0xDC00, r) else None
            | None \<Rightarrow> None)
      else None)"

definition unicode :: "string \<Rightarrow> (string \<times> string) option" where
  "unicode s =
     (case hex4 s of
        None \<Rightarrow> None
      | Some (u, r) \<Rightarrow>
          if 0xD800 \<le> u \<and> u \<le> 0xDBFF
          then (case low_surrogate r of
                  Some (l, r') \<Rightarrow> Some (utf8 (0x10000 + 1024 * (u - 0xD800) + l), r')
                | None \<Rightarrow> Some (utf8 0xFFFD, r))
          else if 0xDC00 \<le> u \<and> u \<le> 0xDFFF then Some (utf8 0xFFFD, r)
          else Some (utf8 u, r))"

lemma hex4_length: "hex4 s = Some (n, r) \<Longrightarrow> length r < length s"
  by (auto simp: hex4_def split: list.splits option.splits)

lemma unicode_length: "unicode s = Some (t, r) \<Longrightarrow> length r < length s"
  by (auto simp: unicode_def low_surrogate_def split: option.splits if_splits dest!: hex4_length)

text \<open>The rest of a string after its opening quote, with what follows the closing one.\<close>

function string_rest :: "string \<Rightarrow> (string \<times> string) option" where
  "string_rest [] = None"
| "string_rest (c # cs) =
     (if c = CHR 0x22 then Some ([], cs)
      else if c = CHR 0x5C
      then (case cs of
              [] \<Rightarrow> None
            | e # es \<Rightarrow>
                if e = CHR ''u''
                then (case unicode es of None \<Rightarrow> None | Some (t, r) \<Rightarrow> map_option (map_prod ((@) t) id) (string_rest r))
                else (case escaped e of None \<Rightarrow> None | Some t \<Rightarrow> map_option (map_prod ((@) t) id) (string_rest es)))
      else if (of_char c :: nat) < 32 then None
      else map_option (map_prod ((#) c) id) (string_rest cs))"
  by pat_completeness auto
termination
  by (relation "measure length") (auto dest: unicode_length)

section \<open>Documents\<close>

definition json_space :: "char \<Rightarrow> bool" where
  "json_space c \<longleftrightarrow> (of_char c :: nat) \<in> {9, 10, 13, 32}"

definition skip :: "string \<Rightarrow> string" where
  "skip s = dropWhile json_space s"

text \<open>A number of the grammar: no zero before another digit, no fraction, no exponent.\<close>

definition number :: "string \<Rightarrow> (json \<times> string) option" where
  "number s =
     (let neg = HasPrefix s ''-'';
          t = (if neg then tl s else s);
          ds = takeWhile isDigit t; r = dropWhile isDigit t;
          v = int (digits_val ds)
      in if ds = [] \<or> (hd ds = CHR ''0'' \<and> 1 < length ds) then None
         else if r \<noteq> [] \<and> hd r \<in> set ''.eE'' then None
         else Some (JNum (if neg then - v else v), r))"

definition keyword :: "string \<Rightarrow> (json \<times> string) option" where
  "keyword s =
     (if HasPrefix s ''null'' then Some (JNull, drop 4 s)
      else if HasPrefix s ''true'' then Some (JBool True, drop 4 s)
      else if HasPrefix s ''false'' then Some (JBool False, drop 5 s)
      else None)"

text \<open>
  A value, the values of an array after its bracket or a comma, and the members of an object
  likewise.
\<close>

fun parse_value :: "nat \<Rightarrow> string \<Rightarrow> (json \<times> string) option"
  and parse_elements :: "nat \<Rightarrow> string \<Rightarrow> (json list \<times> string) option"
  and parse_members :: "nat \<Rightarrow> string \<Rightarrow> ((string \<times> json) list \<times> string) option" where
  "parse_value 0 s = None"
| "parse_value (Suc n) s =
     (case skip s of
        [] \<Rightarrow> None
      | c # cs \<Rightarrow>
          if c = CHR 0x22 then map_option (map_prod JStr id) (string_rest cs)
          else if c = CHR ''[''
          then (if HasPrefix (skip cs) '']'' then Some (JArr [], tl (skip cs))
                else map_option (map_prod JArr id) (parse_elements n cs))
          else if c = CHR ''{''
          then (if HasPrefix (skip cs) ''}'' then Some (JObj [], tl (skip cs))
                else map_option (map_prod JObj id) (parse_members n cs))
          else if c = CHR ''-'' \<or> isDigit c then number (c # cs)
          else keyword (c # cs))"
| "parse_elements 0 s = None"
| "parse_elements (Suc n) s =
     (case parse_value n s of
        None \<Rightarrow> None
      | Some (v, r) \<Rightarrow>
          (case skip r of
             [] \<Rightarrow> None
           | c # cs \<Rightarrow>
               if c = CHR '']'' then Some ([v], cs)
               else if c = CHR '','' then map_option (map_prod ((#) v) id) (parse_elements n cs)
               else None))"
| "parse_members 0 s = None"
| "parse_members (Suc n) s =
     (if HasPrefix (skip s) [CHR 0x22]
      then (case string_rest (tl (skip s)) of
              None \<Rightarrow> None
            | Some (k, r) \<Rightarrow>
                if HasPrefix (skip r) '':''
                then (case parse_value n (tl (skip r)) of
                        None \<Rightarrow> None
                      | Some (v, r') \<Rightarrow>
                          (case skip r' of
                             [] \<Rightarrow> None
                           | c # cs \<Rightarrow>
                               if c = CHR ''}'' then Some ([(k, v)], cs)
                               else if c = CHR '','' then map_option (map_prod ((#) (k, v)) id) (parse_members n cs)
                               else None))
                else None)
      else None)"

definition parse_json :: "string \<Rightarrow> json option" where
  "parse_json s =
     (case parse_value (Suc (length s)) s of
        Some (j, r) \<Rightarrow> if skip r = [] then Some j else None
      | None \<Rightarrow> None)"

text \<open>What \<^verbatim>\<open>json.Unmarshal\<close> makes of a text, given the decoding of its document.\<close>

definition Unmarshal :: "(json \<Rightarrow> 'a option) \<Rightarrow> string \<Rightarrow> 'a option" where
  "Unmarshal dec s = Option.bind (parse_json s) dec"

section \<open>What is written is read back\<close>

lemma hex_digit: "k < 16 \<Longrightarrow> hex_val (''0123456789abcdef'' ! k) = Some k"
proof -
  have "list_all (\<lambda>k. hex_val (''0123456789abcdef'' ! k) = Some k) [0..<16]" by code_simp
  then show "k < 16 \<Longrightarrow> ?thesis" by (simp add: list_all_iff)
qed

lemma unicode_ascii:
  assumes "(of_char c :: nat) < 128"
  shows "unicode (CHR ''0'' # CHR ''0'' # ''0123456789abcdef'' ! (of_char c div 16) # ''0123456789abcdef'' ! (of_char c mod 16) # r)
    = Some ([c], r)"
proof -
  have "hex_val (CHR ''0'') = Some 0" by code_simp
  moreover have "(of_char c :: nat) div 16 < 16" "(of_char c :: nat) mod 16 < 16" using assms by auto
  ultimately have "hex4 (CHR ''0'' # CHR ''0'' # ''0123456789abcdef'' ! (of_char c div 16) # ''0123456789abcdef'' ! (of_char c mod 16) # r)
    = Some (of_char c, r)"
    by (simp add: hex4_def hex_digit)
  then show ?thesis using assms by (simp add: unicode_def utf8_def)
qed

lemma of_char_eqD: "(of_char c :: nat) = n \<Longrightarrow> char_of n = c"
  by (metis char_of_char)

lemma string_rest_char: "string_rest (json_char c @ s) = map_option (map_prod ((#) c) id) (string_rest s)"
proof (cases "((of_char c :: nat) < 32 \<or> c \<in> set ''<>&'') \<and> (of_char c :: nat) \<notin> {8, 9, 10, 12, 13}")
  case True
  then have small: "(of_char c :: nat) < 128" and not_quoted: "c \<noteq> CHR 0x22" "c \<noteq> CHR 0x5C" by auto
  with True show ?thesis
    using unicode_ascii [OF small, of s] by (simp add: json_char_def Let_def map_prod_def)
next
  case False
  then show ?thesis
    by (auto simp: json_char_def Let_def escaped_def map_prod_def dest: of_char_eqD split: if_splits)
qed

lemma string_rest_text: "string_rest (concat (map json_char s) @ CHR 0x22 # r) = Some (s, r)"
  by (induction s) (simp_all add: string_rest_char del: string_rest.simps(2), simp)

text \<open>A text after which a number ends.\<close>

definition stops :: "string \<Rightarrow> bool" where
  "stops r \<longleftrightarrow> r = [] \<or> \<not> isDigit (hd r) \<and> hd r \<notin> set ''.eE''"

lemma stops_simps [simp]:
  "stops []" "stops (CHR '','' # r)" "stops (CHR '']'' # r)" "stops (CHR ''}'' # r)"
  by (simp_all add: stops_def isDigit_def)

lemma show_nat_head: "1 < length (show_nat n) \<Longrightarrow> hd (show_nat n) \<noteq> CHR ''0''"
proof (induction n rule: show_nat.induct)
  case (1 n)
  show ?case
  proof (cases "n < 10")
    case False
    have eq: "show_nat n = show_nat (n div 10) @ [digit_char (n mod 10)]"
      using False by (subst show_nat.simps) simp
    show ?thesis
    proof (cases "n div 10 < 10")
      case True
      then have "show_nat (n div 10) = [digit_char (n div 10)]" by (subst show_nat.simps) simp
      moreover have "n div 10 \<noteq> 0" "CHR ''0'' = digit_char 0" using False by (simp, code_simp)
      ultimately show ?thesis using eq True digit_char_inject [of "n div 10" 0] by simp
    next
      case big: False
      then have "1 < length (show_nat (n div 10))"
        by (subst show_nat.simps) (simp add: Suc_lessI)
      with "1.IH" False eq show ?thesis by simp
    qed
  qed (use "1.prems" in \<open>subst (asm) show_nat.simps, simp\<close>)
qed

lemma digits_before:
  assumes "stops r"
  shows "takeWhile isDigit (show_nat n @ r) = show_nat n" "dropWhile isDigit (show_nat n @ r) = r"
  using show_nat_digits [of n] assms
  by (auto simp: takeWhile_append dropWhile_append list_all_iff stops_def takeWhile_eq_Nil_iff dropWhile_eq_self_iff)

lemma number_show_nat:
  assumes "stops r"
  shows "number (show_nat n @ r) = Some (JNum (int n), r)" "number (CHR ''-'' # show_nat n @ r) = Some (JNum (- int n), r)"
proof -
  have sign: "HasPrefix (show_nat n @ r) ''-'' = False" "HasPrefix (CHR ''-'' # show_nat n @ r) ''-'' = True"
    using show_nat_hd [of n] isDigit_not_sign by (cases "show_nat n", auto simp: HasPrefix_def)+
  show "number (show_nat n @ r) = Some (JNum (int n), r)" "number (CHR ''-'' # show_nat n @ r) = Some (JNum (- int n), r)"
    unfolding number_def Let_def sign if_False if_True list.sel digits_before [OF assms]
    using show_nat_head [of n] assms by (auto simp: stops_def)
qed

lemma number_Itoa: "stops r \<Longrightarrow> number (Itoa i @ r) = Some (JNum i, r)"
  using number_show_nat [of r "nat i"] number_show_nat [of r "nat (- i)"] by (auto simp: Itoa_def)

text \<open>The first character of a document's text tells what it is.\<close>

lemma json_text_head:
  obtains c s where "json_text j = c # s" "\<not> json_space c" "c \<noteq> CHR '']''" "c \<noteq> CHR ''}''"
proof (cases j)
  case (JNum i)
  have "Itoa i \<noteq> [] \<and> (hd (Itoa i) = CHR ''-'' \<or> isDigit (hd (Itoa i)))"
    using show_nat_hd by (simp add: Itoa_def)
  moreover have "\<not> json_space c \<and> c \<noteq> CHR '']'' \<and> c \<noteq> CHR ''}''" if "c = CHR ''-'' \<or> isDigit c" for c
    using that by (auto simp: json_space_def isDigit_def)
  ultimately show ?thesis using that JNum by (cases "Itoa i") auto
next
  case (JBool b)
  then show ?thesis using that by (cases b) (auto simp: json_space_def)
qed (use that in \<open>auto simp: json_string_def json_space_def\<close>)

lemma skip_json_text [simp]: "skip (json_text j @ r) = json_text j @ r"
  by (rule json_text_head [of j]) (simp add: skip_def)

lemma skip_simps [simp]: "skip [] = []" "\<not> json_space c \<Longrightarrow> skip (c # r) = c # r"
  by (simp_all add: skip_def)

lemma punctuation [simp]:
  "\<not> json_space (CHR '','')" "\<not> json_space (CHR '']'')" "\<not> json_space (CHR ''}'')" "\<not> json_space (CHR '':'')"
  "\<not> json_space (CHR ''['')" "\<not> json_space (CHR ''{'')" "\<not> json_space (CHR 0x22)"
  "\<not> isDigit (CHR '','')" "\<not> isDigit (CHR '']'')" "\<not> isDigit (CHR ''}'')"
  by (simp_all add: json_space_def isDigit_def)

text \<open>The fuel a document needs; the length of its text is enough.\<close>

definition deepest :: "nat list \<Rightarrow> nat" where
  "deepest ns = foldr (\<lambda>a b. Suc (max a b)) ns 0"

primrec need :: "json \<Rightarrow> nat" where
  "need JNull = 1"
| "need (JBool b) = 1"
| "need (JNum i) = 1"
| "need (JStr s) = 1"
| "need (JArr js) = Suc (deepest (map need js))"
| "need (JObj kvs) = Suc (deepest (map snd (map (map_prod id need) kvs)))"

lemma deepest_simps [simp]: "deepest [] = 0" "deepest (n # ns) = Suc (max n (deepest ns))"
  by (simp_all add: deepest_def)

lemma deepest_le:
  assumes "xs \<noteq> []" and "list_all2 (\<lambda>n x. n \<le> length x) ns xs"
  shows "deepest ns \<le> Suc (length (Join xs [c]))"
  using assms
proof (induction xs arbitrary: ns rule: list_nonempty_induct)
  case (single x)
  then show ?case by (auto simp: list_all2_Cons2 Join_def)
next
  case (cons x xs)
  from cons.prems obtain n ms where ns: "ns = n # ms" "n \<le> length x" "list_all2 (\<lambda>n x. n \<le> length x) ms xs"
    by (auto simp: list_all2_Cons2)
  with cons.IH [OF ns(3)] cons.hyps show ?case by (auto simp: Join_Cons)
qed

lemma need_length: "need j \<le> length (json_text j)"
proof (induction j)
  case (JArr js)
  show ?case
  proof (cases "js = []")
    case False
    have "list_all2 (\<lambda>n x. n \<le> length x) (map need js) (map json_text js)"
      using JArr by (auto simp: list_all2_conv_all_nth)
    from deepest_le [OF _ this, of "CHR '',''"] False show ?thesis by simp
  qed simp
next
  case (JObj kvs)
  let ?ms = "map (\<lambda>kt. json_string (fst kt) @ '':'' @ snd kt) (map (map_prod id json_text) kvs)"
  show ?case
  proof (cases "kvs = []")
    case False
    have "need v \<le> length (json_text v)" if "(k, v) \<in> set kvs" for k v
      using JObj.IH [OF that, of v] by (simp add: snds.intros)
    then have "list_all2 (\<lambda>n x. n \<le> length x) (map snd (map (map_prod id need) kvs)) ?ms"
      by (auto simp: list_all2_conv_all_nth) (metis nth_mem prod.collapse trans_le_add2 le_SucI)
    from deepest_le [OF _ this, of "CHR '',''"] False show ?thesis by simp
  qed simp
qed (auto simp: json_string_def Itoa_def Suc_le_eq)

text \<open>\<open>reads n j\<close> says that \<open>n\<close> steps are enough to read \<open>j\<close>, whatever follows it.\<close>

definition reads :: "nat \<Rightarrow> json \<Rightarrow> bool" where
  "reads n j \<longleftrightarrow> (\<forall>r. stops r \<longrightarrow> parse_value n (json_text j @ r) = Some (j, r))"

lemma readsD: "reads n j \<Longrightarrow> stops r \<Longrightarrow> parse_value n (json_text j @ r) = Some (j, r)"
  by (simp add: reads_def)

lemma parse_elements_text:
  assumes "js \<noteq> []" and "\<forall>j \<in> set js. \<forall>n \<ge> need j. reads n j" and "deepest (map need js) \<le> n"
  shows "parse_elements n (Join (map json_text js) '','' @ '']'' @ r) = Some (js, r)"
  using assms
proof (induction js arbitrary: n rule: list_nonempty_induct)
  case (single j)
  then obtain m where n: "n = Suc m" "need j \<le> m" by (cases n) auto
  with single show ?case using readsD [of m j "CHR '']'' # r"] by (simp add: Join_def)
next
  case (cons j js)
  then obtain m where n: "n = Suc m" "need j \<le> m" "deepest (map need js) \<le> m" by (cases n) auto
  with cons have "parse_elements m (Join (map json_text js) '','' @ '']'' @ r) = Some (js, r)" by simp
  with n cons show ?case
    using readsD [of m j "CHR '','' # Join (map json_text js) '','' @ CHR '']'' # r"] by (simp add: Join_Cons)
qed

definition member_text :: "string \<times> json \<Rightarrow> string" where
  "member_text kv = json_string (fst kv) @ '':'' @ json_text (snd kv)"

lemma parse_member:
  assumes "\<forall>n \<ge> need (snd kv). reads n (snd kv)" and "need (snd kv) \<le> n" and "stops r" and "r \<noteq> []" "\<not> json_space (hd r)"
  shows "parse_members (Suc n) (member_text kv @ r) =
    (if hd r = CHR ''}'' then Some ([kv], tl r)
     else if hd r = CHR '','' then map_option (map_prod ((#) kv) id) (parse_members n (tl r)) else None)"
proof -
  have "parse_value n (json_text (snd kv) @ r) = Some (snd kv, r)"
    using readsD [of n "snd kv" r] assms by simp
  then show ?thesis
    using assms(4,5) string_rest_text [of "fst kv" "CHR '':'' # json_text (snd kv) @ r"]
    by (cases r) (simp_all add: member_text_def json_string_def HasPrefix_def)
qed

lemma parse_members_text:
  assumes "kvs \<noteq> []" and "\<forall>kv \<in> set kvs. \<forall>n \<ge> need (snd kv). reads n (snd kv)"
    and "deepest (map (\<lambda>kv. need (snd kv)) kvs) \<le> n"
  shows "parse_members n (Join (map member_text kvs) '','' @ ''}'' @ r) = Some (kvs, r)"
  using assms
proof (induction kvs arbitrary: n rule: list_nonempty_induct)
  case (single kv)
  then obtain m where n: "n = Suc m" "need (snd kv) \<le> m" by (cases n) auto
  with single show ?case using parse_member [of kv m "CHR ''}'' # r"] by (simp add: Join_def)
next
  case (cons kv kvs)
  then obtain m where n: "n = Suc m" "need (snd kv) \<le> m" "deepest (map (\<lambda>kv. need (snd kv)) kvs) \<le> m" by (cases n) auto
  with cons have "parse_members m (Join (map member_text kvs) '','' @ ''}'' @ r) = Some (kvs, r)" by simp
  with n cons show ?case
    using parse_member [of kv m "CHR '','' # Join (map member_text kvs) '','' @ CHR ''}'' # r"] by (simp add: Join_Cons)
qed

lemma keywords_read:
  "parse_value (Suc n) (''null'' @ r) = Some (JNull, r)"
  "parse_value (Suc n) (''true'' @ r) = Some (JBool True, r)"
  "parse_value (Suc n) (''false'' @ r) = Some (JBool False, r)"
  by (simp_all add: json_space_def isDigit_def keyword_def HasPrefix_def)

lemma reads_need: "need j \<le> n \<Longrightarrow> reads n j"
proof (induction j arbitrary: n)
  case (JStr s)
  then show ?case
    using string_rest_text by (cases n) (auto simp: reads_def json_string_def)
next
  case (JNum i)
  have "\<exists>c s. Itoa i = c # s \<and> (c = CHR ''-'' \<or> isDigit c)"
    using show_nat_hd [of "nat i"] by (cases "Itoa i") (auto simp: Itoa_def split: if_splits)
  moreover have "\<not> json_space c \<and> c \<notin> set ''[{'' \<and> c \<noteq> CHR 0x22" if "c = CHR ''-'' \<or> isDigit c" for c
    using that by (auto simp: json_space_def isDigit_def)
  ultimately show ?case
    using JNum number_Itoa [of _ i] by (cases n) (fastforce simp: reads_def)+
next
  case (JArr js)
  then obtain m where n: "n = Suc m" "deepest (map need js) \<le> m" by (cases n) auto
  show ?case
  proof (cases "js = []")
    case False
    then obtain j ks where js: "js = j # ks" by (cases js) auto
    obtain c s where c: "json_text j = c # s" "\<not> json_space c" "c \<noteq> CHR '']''" by (rule json_text_head [of j])
    have "skip (Join (map json_text js) '','' @ CHR '']'' # r) = c # tl (Join (map json_text js) '','' @ CHR '']'' # r)" for r
      using c by (simp add: js Join_def)
    moreover have "parse_elements m (Join (map json_text js) '','' @ CHR '']'' # r) = Some (js, r)" for r
      using parse_elements_text [OF False, of m r] JArr.IH n by simp
    ultimately show ?thesis using n c(3) by (simp add: reads_def HasPrefix_def)
  qed (simp add: reads_def n HasPrefix_def Join_def)
next
  case (JObj kvs)
  have written: "json_text (JObj kvs) = CHR ''{'' # Join (map member_text kvs) '','' @ ''}''"
    unfolding json_text.simps map_map by (simp add: member_text_def [abs_def] comp_def)
  have deep: "map snd (map (map_prod id need) kvs) = map (\<lambda>kv. need (snd kv)) kvs" by simp
  obtain m where n: "n = Suc m" "deepest (map (\<lambda>kv. need (snd kv)) kvs) \<le> m"
    using JObj.prems unfolding need.simps deep by (cases n) auto
  have ih: "\<forall>kv \<in> set kvs. \<forall>n \<ge> need (snd kv). reads n (snd kv)"
    using JObj.IH by (auto simp: snds.intros)
  show ?case
  proof (cases "kvs = []")
    case False
    have "skip (Join (map member_text kvs) '','' @ CHR ''}'' # r)
        = CHR 0x22 # tl (Join (map member_text kvs) '','' @ CHR ''}'' # r)" for r
      using False by (cases kvs) (simp_all add: Join_def member_text_def json_string_def)
    then show ?thesis
      using n parse_members_text [OF False ih n(2)]
      by (simp add: reads_def HasPrefix_def written del: json_text.simps)
  qed (simp add: reads_def n HasPrefix_def Join_def)
next
  case JNull
  then show ?case using keywords_read by (cases n) (auto simp: reads_def)
next
  case (JBool b)
  then show ?case using keywords_read by (cases n; cases b) (auto simp: reads_def)
qed

lemma parse_written: "parse_json (json_text j) = Some j"
proof -
  have "reads (Suc (length (json_text j))) j" using need_length by (intro reads_need) (simp add: le_SucI)
  then have "parse_value (Suc (length (json_text j))) (json_text j @ []) = Some (j, [])" by (rule readsD) simp
  then show ?thesis by (simp add: parse_json_def)
qed

lemma Unmarshal_text [simp]: "Unmarshal dec (json_text j) = dec j"
  by (simp add: Unmarshal_def parse_written)

context json_codec
begin

lemma unmarshal_slice: "Unmarshal (as_slice dec) (json_text (JArr (map enc xs))) = Some xs"
  unfolding Unmarshal_text by (rule slice_codec)

end

end
