(* ===== verification/Sidecar_Main.thy ===== *)
theory Sidecar_Main
  imports Sidecar_Engine Sidecar_Status Json_Parser Go_OS
begin

text \<open>
  The sidecar program, \<^verbatim>\<open>src/cmd/sidecar/main.go\<close>: it reads its environment, waits for SPDK,
  resolves its network policy, provides the data file, configures the stack of its mode, and
  from then on is ready and reports the endpoint its policy advertises. The environment is a
  function that gives the empty string for what is unset; \<^verbatim>\<open>logger.Fatal\<close>, which ends the
  process, is the left of a sum; the endless waits for SPDK and for the setup of a replica take
  the number of attempts as fuel, and sleeping between them has no effect. The snapshots an
  engine takes are \<^verbatim>\<open>src/internal/sidecar/snapshot_linux.go\<close>.
\<close>

section \<open>The environment\<close>

type_synonym env_vars = "string \<Rightarrow> string"

definition zero_Policy :: Policy where
  "zero_Policy = \<lparr>po_BindAddress = [], po_AdvertiseAddress = [], po_Port = [], po_PreferredFamily = []\<rparr>"

definition defaultNetworkPolicies :: RolePolicies where
  "defaultNetworkPolicies =
     \<lparr>rp_Default = \<lparr>po_BindAddress = ''podIP'', po_AdvertiseAddress = ''podIP'', po_Port = [],
                    po_PreferredFamily = FamilyAuto\<rparr>,
      rp_Engine = zero_Policy\<lparr>po_Port := ''4420''\<rparr>,
      rp_Replica = zero_Policy\<lparr>po_Port := ''4421''\<rparr>\<rparr>"

text \<open>
  Decoding into a value that is there already: a field that is missing or null keeps its value,
  and a struct is decoded into its old value. Policies are decoded over the built-in ones.
\<close>

fun field_into :: "('a \<Rightarrow> json \<Rightarrow> 'a option) \<Rightarrow> string \<Rightarrow> 'a \<Rightarrow> (string \<times> json) list \<Rightarrow> 'a option" where
  "field_into dec name cur [] = Some cur"
| "field_into dec name cur ((k, v) # kvs) =
     (if \<not> EqualFold k name \<or> v = JNull then field_into dec name cur kvs
      else case dec cur v of None \<Rightarrow> None | Some x \<Rightarrow> field_into dec name x kvs)"

definition decodePolicyInto :: "Policy \<Rightarrow> json \<Rightarrow> Policy option" where
  "decodePolicyInto p = as_struct (\<lambda>kvs. do {
     bind \<leftarrow> field as_string ''bindAddress'' (po_BindAddress p) kvs;
     advertise \<leftarrow> field as_string ''advertiseAddress'' (po_AdvertiseAddress p) kvs;
     port \<leftarrow> field as_string ''port'' (po_Port p) kvs;
     family \<leftarrow> field as_string ''preferredFamily'' (po_PreferredFamily p) kvs;
     Some \<lparr>po_BindAddress = bind, po_AdvertiseAddress = advertise, po_Port = port, po_PreferredFamily = family\<rparr>
   })"

definition decodePoliciesInto :: "RolePolicies \<Rightarrow> json \<Rightarrow> RolePolicies option" where
  "decodePoliciesInto p = as_struct (\<lambda>kvs. do {
     default \<leftarrow> field_into decodePolicyInto ''default'' (rp_Default p) kvs;
     engine \<leftarrow> field_into decodePolicyInto ''engine'' (rp_Engine p) kvs;
     replica \<leftarrow> field_into decodePolicyInto ''replica'' (rp_Replica p) kvs;
     Some \<lparr>rp_Default = default, rp_Engine = engine, rp_Replica = replica\<rparr>
   })"

definition envPolicies :: "env_vars \<Rightarrow> RolePolicies option" where
  "envPolicies env =
     (let rawPolicy = env ''KDFS_NETWORK_POLICY'' in
      if rawPolicy = [] then Some defaultNetworkPolicies
      else Unmarshal (decodePoliciesInto defaultNetworkPolicies) rawPolicy)"

definition envReplicas :: "env_vars \<Rightarrow> ReplicaAttachment list option" where
  "envReplicas env =
     (let replicasJSON = env ''KDFS_REPLICAS'' in
      if replicasJSON = [] then Some [] else Unmarshal (as_slice decodeAttachment) replicasJSON)"

definition envRuntime :: "env_vars \<Rightarrow> RuntimeValues" where
  "envRuntime env =
     \<lparr>rv_PodIP = env ''KDFS_POD_IP'', rv_HostIP = env ''KDFS_HOST_IP'', rv_NodeName = env ''KDFS_NODE_NAME''\<rparr>"

section \<open>Starting\<close>

definition ensureDataFile :: "'w os \<Rightarrow> string \<Rightarrow> int \<Rightarrow> ('w, os_error option) state" where
  "ensureDataFile os path bytes = do {
     st \<leftarrow> os_Stat os path;
     case st of
       Inr _ \<Rightarrow> ret None
     | Inl err \<Rightarrow>
         if err \<noteq> NotExist then ret (Some err)
         else do {
           f \<leftarrow> os_OpenCreate os path;
           case f of Some err \<Rightarrow> ret (Some err) | None \<Rightarrow> os_Truncate os path bytes
         }
   }"

definition listenerFor :: "ResolvedPolicy \<Rightarrow> Listener" where
  "listenerFor r = \<lparr>li_TrType = ''TCP'', li_AdrFam = rsv_AdrFam r, li_TrAddr = rsv_BindAddress r, li_TrSvcID = rsv_Port r\<rparr>"

definition engineConfigFor ::
  "string \<Rightarrow> string \<Rightarrow> ReplicaAttachment list \<Rightarrow> string \<Rightarrow> ResolvedPolicy \<Rightarrow> EngineConfig" where
  "engineConfigFor volumeName localPath reps allowedHostsRaw r =
     \<lparr>ec_VolumeName = volumeName, ec_LocalPath = localPath, ec_Replicas = reps, ec_Listener = listenerFor r,
      ec_Endpoint = JoinEndpoint (rsv_AdvertiseAddress r) (rsv_Port r),
      ec_AllowedHosts = (if allowedHostsRaw = [] then [] else Split allowedHostsRaw '','')\<rparr>"

definition replicaIndexOf :: "string \<Rightarrow> int" where
  "replicaIndexOf s = (if s = [] then 0 else case Atoi s of Inl _ \<Rightarrow> 0 | Inr idx \<Rightarrow> idx)"

definition replicaConfigFor :: "string \<Rightarrow> string \<Rightarrow> string \<Rightarrow> ResolvedPolicy \<Rightarrow> ReplicaConfig" where
  "replicaConfigFor volumeName indexStr dataPath r =
     \<lparr>rc_VolumeName = volumeName, rc_ReplicaIndex = replicaIndexOf indexStr, rc_DataPath = dataPath,
      rc_Listener = listenerFor r, rc_Endpoint = JoinEndpoint (rsv_AdvertiseAddress r) (rsv_Port r)\<rparr>"

datatype fatal =
    UnsupportedMode string | NoVolumeName | BadPolicy | NoSocket | SPDKPending
  | PolicyFatal error | DataFileFatal os_error | BadReplicas | SetupFatal sidecar_error | SetupPending

definition engineConfig :: "env_vars \<Rightarrow> ResolvedPolicy \<Rightarrow> EngineConfig option" where
  "engineConfig env r =
     map_option (\<lambda>reps. engineConfigFor (env ''KDFS_VOLUME_NAME'') (env ''KDFS_LOCAL_PATH'') reps (env ''KDFS_ALLOWED_HOSTS'') r)
       (envReplicas env)"

definition replicaConfig :: "env_vars \<Rightarrow> ResolvedPolicy \<Rightarrow> ReplicaConfig" where
  "replicaConfig env r =
     replicaConfigFor (env ''KDFS_VOLUME_NAME'') (env ''KDFS_REPLICA_INDEX'') (env ''KDFS_DATA_PATH'') r"

definition engineMain ::
  "'w os \<Rightarrow> 'w spdk_client \<Rightarrow> env_vars \<Rightarrow> RolePolicies \<Rightarrow> ('w, fatal + EngineState) state" where
  "engineMain os client env policies =
     (case ResolvePolicy ''engine'' policies (envRuntime env) of
        Inl err \<Rightarrow> ret (Inl (PolicyFatal err))
      | Inr r \<Rightarrow> do {
          let localPath = env ''KDFS_LOCAL_PATH'';
          _ \<leftarrow> os_MkdirAll os (Dir localPath);
          f \<leftarrow> ensureDataFile os localPath 1073741824;
          case f of
            Some err \<Rightarrow> ret (Inl (DataFileFatal err))
          | None \<Rightarrow>
              (case engineConfig env r of
                 None \<Rightarrow> ret (Inl BadReplicas)
               | Some config \<Rightarrow> do {
                   e \<leftarrow> ConfigureEngine client (env ''NQN_AUTHORITY'') config;
                   case e of Inl err \<Rightarrow> ret (Inl (SetupFatal err)) | Inr engine \<Rightarrow> ret (Inr engine)
                 })
        })"

fun setupReplica :: "'w spdk_client \<Rightarrow> string \<Rightarrow> ReplicaConfig \<Rightarrow> nat \<Rightarrow> ('w, ReplicaResult option) state" where
  "setupReplica client nqnEnv config 0 = ret None"
| "setupReplica client nqnEnv config (Suc n) = do {
     r \<leftarrow> ConfigureReplica client nqnEnv config;
     case r of Inl _ \<Rightarrow> setupReplica client nqnEnv config n | Inr result \<Rightarrow> ret (Some result)
   }"

definition replicaMain ::
  "nat \<Rightarrow> 'w os \<Rightarrow> 'w spdk_client \<Rightarrow> env_vars \<Rightarrow> RolePolicies \<Rightarrow> ('w, fatal + ReplicaResult) state" where
  "replicaMain fuel os client env policies =
     (case ResolvePolicy ''replica'' policies (envRuntime env) of
        Inl err \<Rightarrow> ret (Inl (PolicyFatal err))
      | Inr r \<Rightarrow> do {
          let dataPath = env ''KDFS_DATA_PATH'';
          _ \<leftarrow> os_MkdirAll os (Dir dataPath);
          f \<leftarrow> ensureDataFile os dataPath 1073741824;
          case f of
            Some err \<Rightarrow> ret (Inl (DataFileFatal err))
          | None \<Rightarrow> do {
              x \<leftarrow> setupReplica client (env ''NQN_AUTHORITY'') (replicaConfig env r) fuel;
              case x of None \<Rightarrow> ret (Inl SetupPending) | Some result \<Rightarrow> ret (Inr result)
            }
        })"

text \<open>Waiting for the socket of SPDK, thirty times, and for SPDK to answer, for ever.\<close>

fun waitSocket :: "('w, spdk_error + 'w spdk_client) state \<Rightarrow> nat \<Rightarrow> ('w, 'w spdk_client option) state" where
  "waitSocket NewUnixClient 0 = ret None"
| "waitSocket NewUnixClient (Suc n) = do {
     c \<leftarrow> NewUnixClient;
     case c of Inr client \<Rightarrow> ret (Some client) | Inl _ \<Rightarrow> waitSocket NewUnixClient n
   }"

fun waitHealth :: "'w spdk_client \<Rightarrow> nat \<Rightarrow> ('w, bool) state" where
  "waitHealth client 0 = ret False"
| "waitHealth client (Suc n) = do {
     e \<leftarrow> sp_Health client;
     case e of None \<Rightarrow> ret True | Some _ \<Rightarrow> waitHealth client n
   }"

text \<open>What a ready sidecar serves, with the client its handlers use.\<close>

datatype 'w service = EngineService "'w spdk_client" EngineState | ReplicaService ReplicaResult

definition setupMode ::
  "nat \<Rightarrow> 'w os \<Rightarrow> 'w spdk_client \<Rightarrow> string \<Rightarrow> env_vars \<Rightarrow> RolePolicies \<Rightarrow> ('w, fatal + 'w service) state" where
  "setupMode fuel os client mode env policies =
     (if mode = ''engine''
      then do { e \<leftarrow> engineMain os client env policies; ret (map_sum id (EngineService client) e) }
      else do { x \<leftarrow> replicaMain fuel os client env policies; ret (map_sum id ReplicaService x) })"

definition sidecarMain ::
  "nat \<Rightarrow> ('w, spdk_error + 'w spdk_client) state \<Rightarrow> 'w os \<Rightarrow> string \<Rightarrow> env_vars \<Rightarrow> ('w, fatal + 'w service) state" where
  "sidecarMain fuel NewUnixClient os mode env =
     (if mode \<noteq> ''engine'' \<and> mode \<noteq> ''replica'' then ret (Inl (UnsupportedMode mode))
      else if env ''KDFS_VOLUME_NAME'' = [] then ret (Inl NoVolumeName)
      else case envPolicies env of
        None \<Rightarrow> ret (Inl BadPolicy)
      | Some policies \<Rightarrow> do {
          c \<leftarrow> waitSocket NewUnixClient 30;
          case c of
            None \<Rightarrow> ret (Inl NoSocket)
          | Some client \<Rightarrow> do {
              up \<leftarrow> waitHealth client fuel;
              if \<not> up then ret (Inl SPDKPending) else setupMode fuel os client mode env policies
            }
        })"

section \<open>Snapshots\<close>

definition snapshotTarget :: "string \<Rightarrow> string \<Rightarrow> string" where
  "snapshotTarget localPath snapshotID = Join2 (Dir localPath) (''snapshot-'' @ snapshotID @ ''.img'')"

text \<open>\<open>SnapshotFailed\<close> after the second look at an existing snapshot stands for a nil dereference.\<close>

definition reflinkSnapshot :: "'w os \<Rightarrow> string \<Rightarrow> string \<Rightarrow> 'w snapshotter" where
  "reflinkSnapshot os volumeName localPath snapshotID = do {
     let dst = snapshotTarget localPath snapshotID;
     st \<leftarrow> os_Stat os localPath;
     case st of
       Inl _ \<Rightarrow> ret (Inl (SnapshotFailed ''stat source''))
     | Inr bytes \<Rightarrow> do {
         old \<leftarrow> os_Stat os dst;
         case old of
           Inr _ \<Rightarrow> do {
             st2 \<leftarrow> os_Stat os dst;
             case st2 of
               Inl _ \<Rightarrow> ret (Inl (SnapshotFailed ''nil''))
             | Inr bytes2 \<Rightarrow> ret (Inr (SnapshotFilePath volumeName snapshotID, bytes2))
           }
         | Inl _ \<Rightarrow> do {
             f \<leftarrow> FileOrCopy os localPath dst;
             case f of
               Some _ \<Rightarrow> ret (Inl (SnapshotFailed ''snapshot''))
             | None \<Rightarrow> ret (Inr (SnapshotFilePath volumeName snapshotID, bytes))
           }
       }
   }"

section \<open>Serving\<close>

text \<open>
  The multiplexer: a sidecar that is not ready answers for its health only; the other handlers are
  registered right before it is ready, which is one step here. The handlers of an engine act on its
  state, which \<^verbatim>\<open>Reconfigure\<close> changes.
\<close>

definition serveEngine ::
  "'w os \<Rightarrow> env_vars \<Rightarrow> 'w spdk_client \<Rightarrow> EngineState \<Rightarrow> string \<Rightarrow> http_request \<Rightarrow> ('w, http_response \<times> EngineState) state" where
  "serveEngine os env client e path req =
     (if path = ''/reconfigure'' then ReconfigureHTTP client e req
      else if path = ''/status'' then ret (WriteStatusHTTP (engineStatus e), e)
      else if path = ''/snapshot''
      then do {
        r \<leftarrow> SnapshotHTTP (reflinkSnapshot os (env ''KDFS_VOLUME_NAME'') (env ''KDFS_LOCAL_PATH'')) req;
        ret (r, e)
      }
      else ret (replyText 404, e))"

definition sidecarHTTP ::
  "'w os \<Rightarrow> env_vars \<Rightarrow> 'w service option \<Rightarrow> string \<Rightarrow> http_request \<Rightarrow> ('w, http_response \<times> 'w service option) state" where
  "sidecarHTTP os env ready path req =
     (if path = ''/healthz'' then ret (replyText (if ready \<noteq> None then 200 else 503), ready)
      else case ready of
        None \<Rightarrow> ret (replyText 404, None)
      | Some (EngineService client e) \<Rightarrow> do {
          r \<leftarrow> serveEngine os env client e path req;
          ret (fst r, Some (EngineService client (snd r)))
        }
      | Some (ReplicaService result) \<Rightarrow>
          ret (if path = ''/status'' then WriteStatusHTTP (replicaStatusOf result) else replyText 404, ready))"

section \<open>Lemmas\<close>

lemma TrimSpace_Nil_iff: "TrimSpace s = [] \<longleftrightarrow> list_all isSpace s"
proof -
  have "TrimSpace s = [] \<longleftrightarrow> list_all isSpace (dropWhile isSpace s)"
    by (simp add: TrimSpace_def dropWhile_eq_Nil_conv list_all_iff)
  also have "\<dots> \<longleftrightarrow> list_all isSpace s"
    by (induction s) auto
  finally show ?thesis .
qed

lemma VolumeNQN_blank: "TrimSpace (VolumeNQN e v) \<noteq> []"
  by (simp add: TrimSpace_Nil_iff VolumeNQN_def isSpace_def)

lemma ReplicaNQN_blank: "TrimSpace (ReplicaNQN e v i) \<noteq> []"
  by (simp add: TrimSpace_Nil_iff ReplicaNQN_def isSpace_def)

lemma validateEndpoint_JoinEndpoint:
  assumes "plain_host h" "plain_port p" "TrimSpace h \<noteq> []" "TrimSpace p \<noteq> []"
  shows "validateEndpoint (JoinEndpoint h p) = None"
proof -
  have "TrimSpace (JoinEndpoint h p) \<noteq> []"
    by (simp add: TrimSpace_Nil_iff JoinEndpoint_def JoinHostPort_def isSpace_def)
  then show ?thesis using assms by (simp add: validateEndpoint_def SplitEndpoint_JoinEndpoint)
qed

lemma TrimSpace_idem: "TrimSpace (TrimSpace s) = TrimSpace s"
proof -
  define t where "t = dropWhile isSpace s"
  have "dropWhile isSpace (rev (dropWhile isSpace (rev t))) = rev (dropWhile isSpace (rev t))"
  proof (cases "rev (dropWhile isSpace (rev t))")
    case (Cons c cs)
    have "prefix (c # cs) t"
      using suffix_dropWhile [of isSpace "rev t"] Cons by (metis rev_rev_ident suffix_to_prefix)
    then have "t \<noteq> [] \<and> hd t = c" by (cases t) auto
    then have "\<not> isSpace c" using hd_dropWhile [of isSpace s] by (auto simp: t_def)
    then show ?thesis by (simp add: Cons)
  next
    case Nil
    then show ?thesis by (simp only: dropWhile.simps)
  qed
  then show ?thesis by (simp add: TrimSpace_def t_def)
qed

section \<open>Properties\<close>

context os_files
begin

lemma wp_reflinkSnapshot:
  assumes "snapshotTarget localPath snapshotID = dst"
  shows "wp (reflinkSnapshot os vol localPath snapshotID) (\<lambda>x w'.
      (\<forall>q. q \<noteq> dst \<or> files w dst \<noteq> None \<longrightarrow> files w' q = files w q)
      \<and> (\<forall>path n. x = Inr (path, n) \<longrightarrow> path = SnapshotFilePath vol snapshotID
           \<and> (\<exists>s. files w' dst = Some s \<and> n = int (length s) \<and> (files w dst = None \<longrightarrow> files w localPath = Some s)))) w"
  unfolding reflinkSnapshot_def assms Let_def wp_bind
  by (auto intro!: wp_Stat wp_FileOrCopy split: sum.split)

end

text \<open>
  A copy that fails on the way leaves a part of the file, and the next request takes it for the
  snapshot: \<open>reflinkSnapshot\<close> looks at the size of an existing target only to report it. Here
  copying breaks off after the first byte, as when the disk is full; the request is answered with an
  error, and its repetition with success.
\<close>

definition full_disk :: "memfs os" where
  "full_disk = (memfs_os False)\<lparr>os_Copy := \<lambda>src dst. State (\<lambda>w.
     with_file src w (\<lambda>s. (Some (OsError ''no space left on device''), put_file dst (take 1 s) w)) NotExist)\<rparr>"

interpretation full_disk: os_files full_disk map_of
  by unfold_locales
    (auto simp: full_disk_def memfs_os_def with_file_def State_Monad.return_def split: option.splits if_splits
      intro: map_of_same)

theorem partial_snapshot_reported:
  "let snap = reflinkSnapshot full_disk ''vol'' ''/data/vol/vol.img'' ''s1'';
       (first, w) = run_state snap [(''/data/vol/vol.img'', ''abc'')];
       (second, w') = run_state snap w
   in isl first \<and> second = Inr (''/var/lib/kdfs/vol/snapshot-s1.img'', 1)
      \<and> map_of w' ''/data/vol/snapshot-s1.img'' = Some ''a''"
  by code_simp

text \<open>
  C32: the data file of a replica or engine is never overwritten at the start of its sidecar. A
  file that is there stays as it is, one that is not is made with the size asked for, and a
  failure changes no other file.
\<close>

theorem ensureDataFile_preserves:
  assumes os: "os_files os files"
    and run: "run_state (ensureDataFile os path bytes) w = (x, w')"
  shows "(\<forall>q. q \<noteq> path \<or> files w path \<noteq> None \<longrightarrow> files w' q = files w q)
     \<and> (x = None \<longrightarrow> (\<exists>s. files w' path = Some s \<and> (files w path = None \<longrightarrow> s = resized (nat bytes) [])))"
proof -
  have "wp (ensureDataFile os path bytes) (\<lambda>x w'.
      (\<forall>q. q \<noteq> path \<or> files w path \<noteq> None \<longrightarrow> files w' q = files w q)
      \<and> (x = None \<longrightarrow> (\<exists>s. files w' path = Some s \<and> (files w path = None \<longrightarrow> s = resized (nat bytes) [])))) w"
    unfolding ensureDataFile_def wp_bind
    by (auto intro!: os_files.wp_Stat [OF os] os_files.wp_OpenCreate [OF os] os_files.wp_Truncate [OF os]
        split: option.split)
  from wp_run [OF this run] show ?thesis .
qed

theorem ensureDataFile_preserves_witness:
  "map_of (snd (run_state (ensureDataFile (memfs_os True) ''/data/v/vol.img'' 8) [(''/data/v/vol.img'', ''abc'')]))
     ''/data/v/vol.img'' = Some ''abc''"
  using ensureDataFile_preserves [where files = map_of and os = "memfs_os True" and path = "''/data/v/vol.img''" and
      bytes = 8 and w = "[(''/data/v/vol.img'', ''abc'')]", OF memfs.os_files_axioms prod.collapse [symmetric]]
  by simp

end
