(* ===== verification/Pod_Start.thy ===== *)
theory Pod_Start
  imports Sidecar_Main Manager
begin

text \<open>
  From the objects of the cluster to a running sidecar. The controllers write an engine or
  replica into the environment of its pod (\<^verbatim>\<open>src/internal/controller/podtemplates.go\<close>) and the
  controller manager writes the network policy into a config map
  (\<^verbatim>\<open>src/cmd/controller-manager/main.go\<close>); the sidecar (\<^verbatim>\<open>src/cmd/sidecar/main.go\<close>) reads both.
  Here the two sides are put together: what the one wrote is what the other uses, what a started
  sidecar reports is what the controllers accept, and a snapshot it reports is where the node has it.
\<close>

section \<open>The environment a container is given\<close>

text \<open>
  The environment of a container as the kubelet makes it of a pod's variables: a variable with
  a value has that value, and one that is not named is unset. Those that are taken from a field
  or a config map may have any value.
\<close>

definition gives_env :: "env_vars \<Rightarrow> EnvVar list \<Rightarrow> bool" where
  "gives_env env vars \<longleftrightarrow>
     (\<forall>v \<in> set vars. case v of EnvValue n x \<Rightarrow> env n = x | _ \<Rightarrow> True)
     \<and> (\<forall>n. n \<notin> env_Name ` set vars \<longrightarrow> env n = [])"

lemma gives_value: "gives_env env vars \<Longrightarrow> EnvValue n x \<in> set vars \<Longrightarrow> env n = x"
  unfolding gives_env_def by fastforce

lemma gives_unset: "gives_env env vars \<Longrightarrow> n \<notin> env_Name ` set vars \<Longrightarrow> env n = []"
  by (simp add: gives_env_def)

text \<open>
  A variable that is taken from a config map has the value of its key there, and is unset when there is no
  such map or key; \<open>maps\<close> are the config maps of the pod's namespace, with their data.
\<close>

definition kubelet_env :: "(string \<rightharpoonup> smap) \<Rightarrow> env_vars \<Rightarrow> EnvVar list \<Rightarrow> bool" where
  "kubelet_env maps env vars \<longleftrightarrow>
     gives_env env vars
     \<and> (\<forall>v \<in> set vars. case v of
          EnvConfigMapKey n cm key _ \<Rightarrow> env n = (case maps cm of None \<Rightarrow> [] | Some data \<Rightarrow> lookup_str data key)
        | _ \<Rightarrow> True)"

lemma kubelet_value:
  "kubelet_env maps env vars \<Longrightarrow> EnvConfigMapKey n cm key opt \<in> set vars \<Longrightarrow>
   env n = (case maps cm of None \<Rightarrow> [] | Some data \<Rightarrow> lookup_str data key)"
  unfolding kubelet_env_def by fastforce

lemma sidecar_env_EnginePodFor [simp]: "sidecar_env (EnginePodFor e images engine hosts) = engineEnv e engine hosts"
  by (simp add: sidecar_env_def EnginePodFor_def spdkPod_def Let_def)

section \<open>Reading back lists\<close>

lemma first_at_char: "c \<notin> set a \<Longrightarrow> first_at [c] a"
proof (induction a)
  case Nil
  then show ?case by (simp add: first_at_def)
next
  case (Cons b a)
  then show ?case by (simp add: first_at_Cons)
qed

lemma Split_Join:
  assumes "xs \<noteq> []" and "\<forall>x \<in> set xs. c \<notin> set x"
  shows "Split (Join xs [c]) [c] = xs"
  using assms
proof (induction xs rule: list_nonempty_induct)
  case (single x)
  then have "Cut [c] x = None" by (metis Cut_Some append_Cons in_set_conv_decomp list.set_intros(1) option.exhaust surj_pair)
  then show ?case by (simp add: Join_def Split.simps [of x])
next
  case (cons x xs)
  then have "Cut [c] (x @ [c] @ Join xs [c]) = Some (x, Join xs [c])"
    by (intro Cut_first_at first_at_char) auto
  then show ?case using cons by (subst Split.simps) (simp add: Join_Cons)
qed

lemma Join_nonempty: "xs \<noteq> [] \<Longrightarrow> \<forall>x \<in> set xs. x \<noteq> [] \<Longrightarrow> Join xs sep \<noteq> []"
  by (cases xs) (auto simp: Join_def)

lemma host_comma: "IsHostNQN e h \<Longrightarrow> CHR '','' \<notin> set (authority e) \<Longrightarrow> CHR '','' \<notin> set h \<and> h \<noteq> []"
proof -
  have "\<not> host_char (CHR '','')" by (simp add: host_char_def isLower_def isDigit_def)
  then show "IsHostNQN e h \<Longrightarrow> CHR '','' \<notin> set (authority e) \<Longrightarrow> ?thesis"
    by (auto simp: IsHostNQN_iff HostNQN_def list_all_iff)
qed

lemma marshalled: "Unmarshal (as_slice decodeAttachment) (marshalReplicas ras) = Some ras" "marshalReplicas ras \<noteq> []"
  unfolding marshalReplicas_def by (rule attachments.unmarshal_slice) simp

lemma engine_env_value:
  "gives_env env (sidecar_env (EnginePodFor e images engine hosts)) \<Longrightarrow> EnvValue n x \<in> set (engineEnv e engine hosts) \<Longrightarrow> env n = x"
  by (erule gives_value) simp

text \<open>The three variables of which the sidecar makes lists, and the plain ones.\<close>

lemma allowed_hosts_read:
  assumes env: "gives_env env (sidecar_env (EnginePodFor nqnEnv images engine hosts))"
    and authority: "CHR '','' \<notin> set (authority nqnEnv)"
  shows "(if env ''KDFS_ALLOWED_HOSTS'' = [] then [] else Split (env ''KDFS_ALLOWED_HOSTS'') '','')
    = sanitizeAllowedHosts nqnEnv hosts" (is "_ = ?hs")
proof (cases "?hs = []")
  case True
  then have "env ''KDFS_ALLOWED_HOSTS'' = []"
    by (intro gives_unset [OF env])
      (simp add: engineEnv_def Let_def nqnAuthorityEnv_def mypodIPEnv_def runtimeEnv_def)
  with True show ?thesis by simp
next
  case False
  have good: "\<forall>h \<in> set ?hs. CHR '','' \<notin> set h \<and> h \<noteq> []"
    using host_comma [OF _ authority] by (auto simp: sanitizeAllowedHosts_def)
  have "env ''KDFS_ALLOWED_HOSTS'' = Join ?hs '',''"
    by (rule engine_env_value [OF env]) (use False in \<open>simp add: engineEnv_def Let_def\<close>)
  with good show ?thesis using Split_Join [OF False, of "CHR '',''"] Join_nonempty [OF False, of "'',''"] by simp
qed

lemma engine_env_read:
  assumes env: "gives_env env (sidecar_env (EnginePodFor nqnEnv images engine hosts))"
  shows "env ''KDFS_VOLUME_NAME'' = es_VolumeRef (Spec engine)"
    "env ''KDFS_LOCAL_PATH'' = ''/data/'' @ es_VolumeRef (Spec engine) @ ''/vol.img''"
    "envReplicas env = Some (es_Replicas (Spec engine))"
proof -
  have "env ''KDFS_REPLICAS'' = marshalReplicas (es_Replicas (Spec engine))"
    by (rule engine_env_value [OF env]) (simp add: engineEnv_def Let_def)
  then show "envReplicas env = Some (es_Replicas (Spec engine))"
    using marshalled by (simp add: envReplicas_def)
qed (rule engine_env_value [OF env], simp add: engineEnv_def Let_def)+

lemma replica_env_read:
  assumes env: "gives_env env (sidecar_env (ReplicaPodFor images (replicaFor volume node i)))" and index: "int i \<le> maxInt64"
  shows "env ''KDFS_VOLUME_NAME'' = obj_Name volume" "env ''KDFS_DATA_PATH'' = ''/data/'' @ obj_Name volume @ ''/vol.img''"
    "env ''KDFS_REPLICA_INDEX'' = show_nat i"
  by (rule gives_value [OF env], use replicaIndex_ReplicaName [OF index, of "obj_Name volume"] in
      \<open>simp add: sidecar_env_def ReplicaPodFor_def spdkPod_def replicaFor_def replicaSpecFor_def meta_for_def Let_def\<close>)+

section \<open>Properties\<close>

text \<open>
  C18: a pod starts the engine or replica it was made for. Whatever the rest of its environment,
  the sidecar of an engine's pod configures the volume of the engine, with exactly the replicas
  the engine lists, in order and with every field, and the host names that are allowed; the
  sidecar of the pod of a volume's \<open>i\<close>-th replica configures the \<open>i\<close>-th replica of that volume.
\<close>

theorem pods_start_their_parts:
  assumes engine_env: "gives_env env (sidecar_env (EnginePodFor nqnEnv images engine hosts))"
    and authority: "CHR '','' \<notin> set (authority nqnEnv)"
    and replica_env: "gives_env env' (sidecar_env (ReplicaPodFor images (replicaFor volume node i)))"
    and index: "int i \<le> maxInt64"
  shows "engineConfig env r = Some
      \<lparr>ec_VolumeName = es_VolumeRef (Spec engine), ec_LocalPath = ''/data/'' @ es_VolumeRef (Spec engine) @ ''/vol.img'',
       ec_Replicas = es_Replicas (Spec engine), ec_Listener = listenerFor r,
       ec_Endpoint = JoinEndpoint (rsv_AdvertiseAddress r) (rsv_Port r),
       ec_AllowedHosts = sanitizeAllowedHosts nqnEnv hosts\<rparr>
    \<and> replicaConfig env' r =
      \<lparr>rc_VolumeName = obj_Name volume, rc_ReplicaIndex = int i, rc_DataPath = ''/data/'' @ obj_Name volume @ ''/vol.img'',
       rc_Listener = listenerFor r, rc_Endpoint = JoinEndpoint (rsv_AdvertiseAddress r) (rsv_Port r)\<rparr>"
  using engine_env_read [OF engine_env] allowed_hosts_read [OF engine_env authority] replica_env_read [OF replica_env index]
    Atoi_show_nat [OF index]
  by (simp add: engineConfig_def engineConfigFor_def replicaConfig_def replicaConfigFor_def replicaIndexOf_def)

text \<open>The environment of a container none of whose other variables is set.\<close>

definition plain_env :: "EnvVar list \<Rightarrow> env_vars" where
  "plain_env vars n = (case env_value n vars of None \<Rightarrow> [] | Some x \<Rightarrow> x)"

lemma env_value_in: "distinct (map env_Name vars) \<Longrightarrow> EnvValue n x \<in> set vars \<Longrightarrow> env_value n vars = Some x"
  by (induction n vars rule: env_value.induct) force+

lemma env_value_out: "n \<notin> env_Name ` set vars \<Longrightarrow> env_value n vars = None"
  by (induction n vars rule: env_value.induct) auto

lemma plain_env_gives: "distinct (map env_Name vars) \<Longrightarrow> gives_env (plain_env vars) vars"
  by (auto simp: gives_env_def plain_env_def env_value_in env_value_out split: EnvVar.split)

definition twoReplicas :: Engine where
  "twoReplicas =
     \<lparr>Meta = meta_for ''vol-engine'' ''ns'',
      Spec = \<lparr>es_VolumeRef = ''vol'', es_NodeID = ''n1'',
        es_Replicas =
          [\<lparr>ra_Name = ''vol-replica-0'', ra_NodeID = ''n1'', ra_IsLocal = True, ra_NQN = [], ra_Address = [], ra_Port = []\<rparr>,
           \<lparr>ra_Name = ''vol-replica-1'', ra_NodeID = ''n2'', ra_IsLocal = False, ra_NQN = ''nqn:1'', ra_Address = ''10.0.0.2'',
            ra_Port = ''4421''\<rparr>]\<rparr>,
      Status = zero_EngineStatus\<rparr>"

definition enginePod :: Pod where
  "enginePod = EnginePodFor [] PodImages twoReplicas [HostNQN [] ''n1'', ''bad host'', HostNQN [] ''n2'']"

definition replicaPod :: Pod where
  "replicaPod = ReplicaPodFor PodImages (replicaFor (sampleVolume ''3'' zero_VolumeStatus) ''n2'' 12)"

definition podPolicy :: ResolvedPolicy where
  "podPolicy = \<lparr>rsv_BindAddress = ''10.1.2.3'', rsv_AdvertiseAddress = ''10.1.2.3'', rsv_Port = ''4420'',
     rsv_PreferredFamily = ''Auto'', rsv_AdrFam = ''IPv4''\<rparr>"

theorem pods_start_their_parts_witness:
  "map_option ec_Replicas (engineConfig (plain_env (sidecar_env enginePod)) podPolicy) = Some (es_Replicas (Spec twoReplicas))
   \<and> map_option ec_AllowedHosts (engineConfig (plain_env (sidecar_env enginePod)) podPolicy)
     = Some [HostNQN [] ''n1'', HostNQN [] ''n2'']
   \<and> rc_ReplicaIndex (replicaConfig (plain_env (sidecar_env replicaPod)) podPolicy) = 12"
proof -
  have "distinct (map env_Name (sidecar_env enginePod))" "distinct (map env_Name (sidecar_env replicaPod))" by code_simp+
  note envs = this [THEN plain_env_gives, unfolded enginePod_def replicaPod_def]
  have hosts: "sanitizeAllowedHosts [] [HostNQN [] ''n1'', ''bad host'', HostNQN [] ''n2''] = [HostNQN [] ''n1'', HostNQN [] ''n2'']"
    by code_simp
  have "CHR '','' \<notin> set (authority [])" "int 12 \<le> maxInt64" by code_simp+
  with pods_start_their_parts [OF envs(1) _ envs(2), of podPolicy] hosts show ?thesis
    by (simp add: enginePod_def replicaPod_def)
qed

section \<open>The network policy\<close>

text \<open>
  A policy as a document gives it: what it says of a field, and what holds when it says nothing. Documents
  may have their fields in any order and layout and other keys besides, but no two keys that name the
  same field; a field may be null.
\<close>

definition given :: "string \<Rightarrow> (string \<times> json) list \<Rightarrow> json option" where
  "given name kvs = map_option snd (find (\<lambda>(k, _). EqualFold k name) kvs)"

definition unambiguous :: "(string \<times> json) list \<Rightarrow> bool" where
  "unambiguous kvs \<longleftrightarrow> distinct (map (\<lambda>(k, _). map lower k) kvs)"

fun over :: "string \<Rightarrow> json option \<Rightarrow> string" where
  "over old (Some (JStr s)) = s"
| "over old _ = old"

fun textual :: "json option \<Rightarrow> bool" where
  "textual None = True"
| "textual (Some v) \<longleftrightarrow> v = JNull \<or> (case v of JStr _ \<Rightarrow> True | _ \<Rightarrow> False)"

fun policy_document :: "json option \<Rightarrow> bool" where
  "policy_document None = True"
| "policy_document (Some j) \<longleftrightarrow>
     (case j of
        JNull \<Rightarrow> True
      | JObj kvs \<Rightarrow> unambiguous kvs
          \<and> list_all (\<lambda>name. textual (given name kvs)) [''bindAddress'', ''advertiseAddress'', ''port'', ''preferredFamily'']
      | _ \<Rightarrow> False)"

fun stated_policy :: "Policy \<Rightarrow> json option \<Rightarrow> Policy" where
  "stated_policy p (Some (JObj kvs)) =
     \<lparr>po_BindAddress = over (po_BindAddress p) (given ''bindAddress'' kvs),
      po_AdvertiseAddress = over (po_AdvertiseAddress p) (given ''advertiseAddress'' kvs),
      po_Port = over (po_Port p) (given ''port'' kvs),
      po_PreferredFamily = over (po_PreferredFamily p) (given ''preferredFamily'' kvs)\<rparr>"
| "stated_policy p _ = p"

definition policies_document :: "json \<Rightarrow> bool" where
  "policies_document j \<longleftrightarrow>
     (case j of
        JNull \<Rightarrow> True
      | JObj kvs \<Rightarrow> unambiguous kvs \<and> list_all (\<lambda>role. policy_document (given role kvs)) [''default'', ''engine'', ''replica'']
      | _ \<Rightarrow> False)"

definition stated_policies :: "json \<Rightarrow> RolePolicies" where
  "stated_policies j =
     (let d = defaultNetworkPolicies in
      case j of
        JObj kvs \<Rightarrow>
          \<lparr>rp_Default = stated_policy (rp_Default d) (given ''default'' kvs),
           rp_Engine = stated_policy (rp_Engine d) (given ''engine'' kvs),
           rp_Replica = stated_policy (rp_Replica d) (given ''replica'' kvs)\<rparr>
      | _ \<Rightarrow> d)"

text \<open>The decoders read an unambiguous object field by field.\<close>

lemma given_Cons: "given name ((k, v) # kvs) = (if EqualFold k name then Some v else given name kvs)"
  by (simp add: given_def)

lemma unambiguous_Cons:
  assumes "unambiguous ((k, v) # kvs)"
  shows "unambiguous kvs" "EqualFold k name \<Longrightarrow> \<forall>(k', _) \<in> set kvs. \<not> EqualFold k' name"
  using assms by (auto simp: unambiguous_def EqualFold_def rev_image_eqI)

lemma field_into_other: "\<forall>(k, _) \<in> set kvs. \<not> EqualFold k name \<Longrightarrow> field_into dec name cur kvs = Some cur"
  by (induction kvs) auto

lemma field_into_given:
  "unambiguous kvs \<Longrightarrow> field_into dec name cur kvs =
     (case given name kvs of None \<Rightarrow> Some cur | Some v \<Rightarrow> if v = JNull then Some cur else dec cur v)"
proof (induction kvs)
  case (Cons kv kvs)
  obtain k v where kv: "kv = (k, v)" by (cases kv)
  show ?case
    using Cons unambiguous_Cons [of k v kvs] by (auto simp: kv given_Cons field_into_other split: option.split)
qed (simp add: given_def)

lemma field_into_field: "field dec name cur kvs = field_into (\<lambda>_. dec) name cur kvs"
  by (induction kvs arbitrary: cur) (auto split: option.split)

lemma field_given:
  assumes "unambiguous kvs" and "textual (given name kvs)"
  shows "field as_string name cur kvs = Some (over cur (given name kvs))"
  using assms(2) by (cases "given name kvs")
    (auto simp: field_into_field field_into_given [OF assms(1)] as_string_def split: json.splits)

lemma decodePolicyInto_stated: "policy_document (Some j) \<Longrightarrow> decodePolicyInto p j = Some (stated_policy p (Some j))"
  by (cases j) (simp_all add: decodePolicyInto_def as_struct_def field_given)

lemma field_policy:
  assumes "unambiguous kvs" and "policy_document (given name kvs)"
  shows "field_into decodePolicyInto name cur kvs = Some (stated_policy cur (given name kvs))"
  using assms(2) by (cases "given name kvs") (auto simp: field_into_given [OF assms(1)] decodePolicyInto_stated)

lemma decodePoliciesInto_stated:
  "policies_document j \<Longrightarrow> decodePoliciesInto defaultNetworkPolicies j = Some (stated_policies j)"
  by (cases j) (simp_all add: policies_document_def decodePoliciesInto_def stated_policies_def as_struct_def field_policy Let_def)

text \<open>A text that is a document is not blank.\<close>

lemma blank_no_document:
  assumes "list_all isSpace s"
  shows "parse_json s = None"
proof (cases "skip s")
  case Nil
  then show ?thesis by (simp add: parse_json_def)
next
  case (Cons c cs)
  then have "c \<in> set s" by (metis list.set_intros(1) set_dropWhileD skip_def)
  then have "isSpace c" using assms by (simp add: list_all_iff)
  then have "c \<noteq> CHR 0x22" "c \<noteq> CHR ''[''" "c \<noteq> CHR ''{''" "c \<noteq> CHR ''-''" "\<not> isDigit c"
    "c \<noteq> CHR ''n''" "c \<noteq> CHR ''t''" "c \<noteq> CHR ''f''"
    by (auto simp: isSpace_def isDigit_def)
  with Cons show ?thesis by (simp add: parse_json_def keyword_def HasPrefix_def)
qed

lemma document_not_blank: "parse_json s = Some j \<Longrightarrow> TrimSpace s \<noteq> []"
  using blank_no_document by (auto simp: TrimSpace_Nil_iff)

lemma envPolicies_document:
  "parse_json (env ''KDFS_NETWORK_POLICY'') = Some j \<Longrightarrow> policies_document j \<Longrightarrow> envPolicies env = Some (stated_policies j)"
  using document_not_blank [of "env ''KDFS_NETWORK_POLICY''" j]
  by (auto simp: envPolicies_def Let_def Unmarshal_def decodePoliciesInto_stated TrimSpace_def)

text \<open>The documents that are written by the controller manager are such documents.\<close>

lemma given_omitempty: "given name (omitempty k v @ kvs) = (if v \<noteq> [] \<and> EqualFold k name then Some (JStr v) else given name kvs)"
  by (simp add: omitempty_def given_Cons)

lemma encoded_document: "policy_document (Some (encodePolicy p))" "stated_policy d (Some (encodePolicy p)) = mergePolicy d p"
  by (simp_all add: encodePolicy_def mergePolicy_def given_omitempty given_Cons unambiguous_def omitempty_def fold_eval given_def)

lemma encoded_documents:
  "policies_document (encodePolicies p)"
  "stated_policies (encodePolicies p) =
     \<lparr>rp_Default = mergePolicy (rp_Default defaultNetworkPolicies) (rp_Default p),
      rp_Engine = mergePolicy (rp_Engine defaultNetworkPolicies) (rp_Engine p),
      rp_Replica = mergePolicy (rp_Replica defaultNetworkPolicies) (rp_Replica p)\<rparr>"
  by (simp_all add: encodePolicies_def policies_document_def stated_policies_def given_Cons encoded_document unambiguous_def
      fold_eval Let_def del: policy_document.simps(2))

lemma default_document: "parse_json defaultNetworkPolicyJSON = Some (encodePolicies defaultPolicies)"
    "stated_policies (encodePolicies defaultPolicies) = defaultNetworkPolicies"
  unfolding defaultNetworkPolicyJSON_def by (rule parse_written) code_simp

lemma policy_variable:
  assumes "pod = EnginePodFor nqnEnv images engine hosts \<or> pod = ReplicaPodFor images replica"
  shows "EnvConfigMapKey ''KDFS_NETWORK_POLICY'' kdfsConfigMapName networkPolicyKey True \<in> set (sidecar_env pod)"
  using assms
proof
  assume "pod = EnginePodFor nqnEnv images engine hosts"
  then show ?thesis by (simp add: engineEnv_def runtimeEnv_def kdfsConfigMapName_def networkPolicyKey_def Let_def)
next
  assume "pod = ReplicaPodFor images replica"
  then show ?thesis
    by (simp add: ReplicaPodFor_def sidecar_env_def spdkPod_def runtimeEnv_def kdfsConfigMapName_def networkPolicyKey_def Let_def)
qed

text \<open>
  C19: the network policy reaches the sidecars. When the controller manager has completed the
  config map, the sidecar of an engine's or replica's pod in its namespace uses it. A
  map without a policy gives it the policies it would use on its own. A policy that was configured,
  in any layout, holds over these field by field, for the default, the engines and the replicas: any
  document whose fields are strings or null, whatever their order and whatever else it holds, as long as no two
  of its keys name the same field.
\<close>

theorem policy_reaches_sidecar:
  assumes manager: "completed data = (data', changed)" and map: "maps kdfsConfigMapName = Some data'"
    and pod: "pod = EnginePodFor nqnEnv images engine hosts \<or> pod = ReplicaPodFor images replica"
    and env: "kubelet_env maps env (sidecar_env pod)"
  shows "(TrimSpace (lookup_str data networkPolicyKey) = [] \<longrightarrow> envPolicies env = Some defaultNetworkPolicies)
    \<and> (\<forall>j. parse_json (lookup_str data networkPolicyKey) = Some j \<and> policies_document j \<longrightarrow>
           envPolicies env = Some (stated_policies j))"
proof -
  have read: "env ''KDFS_NETWORK_POLICY'' = lookup_str data' networkPolicyKey"
    using kubelet_value [OF env policy_variable [OF pod]] map by simp
  have blank: "lookup_str data' networkPolicyKey = defaultNetworkPolicyJSON" if "TrimSpace (lookup_str data networkPolicyKey) = []"
    using manager that
    by (auto simp: completed_def default_at_def networkPolicyKey_def nqnAuthorityKey_def split: if_splits)
  have kept: "lookup_str data' networkPolicyKey = lookup_str data networkPolicyKey" if "TrimSpace (lookup_str data networkPolicyKey) \<noteq> []"
    using completed_sets(3) [OF manager that] .
  show ?thesis
    using envPolicies_document [of env] read blank kept document_not_blank default_document encoded_documents(1) [of defaultPolicies]
    by auto
qed

text \<open>The policy the chart installs: its keys are sorted.\<close>

definition chartPolicy :: json where
  "chartPolicy = JObj
     [(''default'', JObj [(''advertiseAddress'', JStr ''podIP''), (''bindAddress'', JStr ''podIP''), (''preferredFamily'', JStr ''Auto'')]),
      (''engine'', JObj [(''port'', JStr ''9000'')]), (''replica'', JObj [(''port'', JStr ''4421'')])]"

definition chartMap :: smap where
  "chartMap = [(nqnAuthorityKey, ''nqn.2026-05.krea.to''), (networkPolicyKey, json_text chartPolicy)]"

definition chart_env :: "smap \<Rightarrow> env_vars" where
  "chart_env data n =
     (if n = ''KDFS_NETWORK_POLICY'' then lookup_str data networkPolicyKey
      else if n = ''NQN_AUTHORITY'' then lookup_str data nqnAuthorityKey
      else plain_env (sidecar_env enginePod) n)"

lemma chart_env_given: "kubelet_env [kdfsConfigMapName \<mapsto> data] (chart_env data) (sidecar_env enginePod)"
proof -
  let ?policy = "''KDFS_NETWORK_POLICY''" and ?authority = "''NQN_AUTHORITY''"
  have vars: "v \<in> set (sidecar_env enginePod) \<Longrightarrow>
      (case v of EnvConfigMapKey n cm key _ \<Rightarrow> cm = kdfsConfigMapName
         \<and> (n = ?policy \<and> key = networkPolicyKey \<or> n = ?authority \<and> key = nqnAuthorityKey)
       | EnvValue n _ \<Rightarrow> n \<noteq> ?policy \<and> n \<noteq> ?authority | _ \<Rightarrow> True)" for v
    by (auto simp: enginePod_def engineEnv_def Let_def runtimeEnv_def nqnAuthorityEnv_def mypodIPEnv_def kdfsConfigMapName_def
        networkPolicyKey_def nqnAuthorityKey_def split: if_splits)
  have names: "?policy \<in> env_Name ` set (sidecar_env enginePod)" "?authority \<in> env_Name ` set (sidecar_env enginePod)"
    by (simp_all add: enginePod_def engineEnv_def Let_def runtimeEnv_def nqnAuthorityEnv_def)
  have "distinct (map env_Name (sidecar_env enginePod))" by code_simp
  from plain_env_gives [OF this] have plain: "gives_env (plain_env (sidecar_env enginePod)) (sidecar_env enginePod)" .
  have config: "case v of EnvConfigMapKey n cm key _ \<Rightarrow>
      chart_env data n = (case [kdfsConfigMapName \<mapsto> data] cm of None \<Rightarrow> [] | Some data \<Rightarrow> lookup_str data key)
      | _ \<Rightarrow> True" if "v \<in> set (sidecar_env enginePod)" for v
    using vars [OF that] by (cases v) (auto simp: chart_env_def)
  have "case v of EnvValue n x \<Rightarrow> chart_env data n = x | _ \<Rightarrow> True" if "v \<in> set (sidecar_env enginePod)" for v
    using vars [OF that] gives_value [OF plain] that by (cases v) (auto simp: chart_env_def)
  moreover have "chart_env data n = []" if "n \<notin> env_Name ` set (sidecar_env enginePod)" for n
    using names gives_unset [OF plain that] that by (auto simp: chart_env_def)
  ultimately have "gives_env (chart_env data) (sidecar_env enginePod)" unfolding gives_env_def by simp
  with config show ?thesis by (simp add: kubelet_env_def)
qed

theorem policy_reaches_sidecar_witness:
  "envPolicies (chart_env (fst (completed []))) = Some defaultNetworkPolicies
   \<and> map_option rp_Engine (envPolicies (chart_env (fst (completed chartMap)))) = Some (zero_Policy\<lparr>po_Port := ''9000''\<rparr>)"
proof -
  have "parse_json (lookup_str chartMap networkPolicyKey) = Some chartPolicy"
    by (simp add: chartMap_def lookup_str_def networkPolicyKey_def nqnAuthorityKey_def parse_written del: json_text.simps)
  moreover have "policies_document chartPolicy" "rp_Engine (stated_policies chartPolicy) = zero_Policy\<lparr>po_Port := ''9000''\<rparr>"
    by code_simp+
  moreover have "TrimSpace (lookup_str [] networkPolicyKey) = []" by code_simp
  moreover note reached = policy_reaches_sidecar
    [OF prod.collapse [symmetric] fun_upd_same disjI1 [OF enginePod_def] chart_env_given]
  ultimately show ?thesis using reached [of "[]"] reached [of chartMap] by auto
qed

section \<open>What a started sidecar reports\<close>

lemma wp_any: "(\<And>a w'. Q a w') \<Longrightarrow> wp m Q w"
  by (rule wp_of_run)

lemma wp_ConfigureEngine: "wp (ConfigureEngine client nqn config) (\<lambda>x _. \<forall>e. x = Inr e \<longrightarrow> e = NewEngine nqn config) w"
proof -
  have exported: "wp (exportEngine client nqn config b) (\<lambda>x _. \<forall>e. x = Inr e \<longrightarrow> e = NewEngine nqn config) w1" for b w1
    unfolding exportEngine_def wp_bind Let_def by (rule wp_any) (auto split: option.split)
  show ?thesis
    unfolding ConfigureEngine_def wp_bind
    by (rule wp_any) (auto split: option.split sum.split intro!: wp_any [where m = "attachReplicas _ _ _ _"]
        wp_any [where m = "sp_CreateMirrorBdev _ _ _ _"] exported)
qed

lemma wp_ConfigureReplica:
  "wp (ConfigureReplica client nqn config) (\<lambda>x _. \<forall>r. x = Inr r \<longrightarrow>
     r = \<lparr>rr_NQN = ReplicaNQN nqn (rc_VolumeName config) (rc_ReplicaIndex config), rr_Endpoint = rc_Endpoint config\<rparr>) w"
  unfolding ConfigureReplica_def wp_bind Let_def by (rule wp_any) (auto split: option.split)

lemma wp_setupReplica:
  "wp (setupReplica client nqn config n) (\<lambda>x _. \<forall>r. x = Some r \<longrightarrow>
     r = \<lparr>rr_NQN = ReplicaNQN nqn (rc_VolumeName config) (rc_ReplicaIndex config), rr_Endpoint = rc_Endpoint config\<rparr>) w"
proof (induction n arbitrary: w)
  case (Suc n)
  show ?case
    unfolding setupReplica.simps wp_bind
    by (rule wp_mono [OF wp_ConfigureReplica]) (auto split: sum.split intro: Suc.IH)
qed simp

text \<open>The status of a sidecar of a mode, given its environment and its resolved policy.\<close>

definition reported :: "string \<Rightarrow> env_vars \<Rightarrow> ResolvedPolicy \<Rightarrow> SidecarStatus" where
  "reported mode env r =
     \<lparr>sc_Role = mode, sc_Endpoint = JoinEndpoint (rsv_AdvertiseAddress r) (rsv_Port r),
      sc_SubsystemNQN =
        (if mode = ''engine'' then VolumeNQN (env ''NQN_AUTHORITY'') (env ''KDFS_VOLUME_NAME'') else []),
      sc_ReplicaNQN =
        (if mode = ''engine'' then []
         else ReplicaNQN (env ''NQN_AUTHORITY'') (env ''KDFS_VOLUME_NAME'') (replicaIndexOf (env ''KDFS_REPLICA_INDEX'')))\<rparr>"

fun service_status :: "'w service \<Rightarrow> SidecarStatus" where
  "service_status (EngineService client e) = engineStatus e"
| "service_status (ReplicaService result) = replicaStatusOf result"

definition reports :: "string \<Rightarrow> env_vars \<Rightarrow> RolePolicies \<Rightarrow> fatal + 'w service \<Rightarrow> bool" where
  "reports mode env policies x \<longleftrightarrow>
     (\<forall>s. x = Inr s \<longrightarrow> (\<exists>r. ResolvePolicy mode policies (envRuntime env) = Inr r \<and> service_status s = reported mode env r))"

lemma engine_reported:
  "engineConfig env r = Some config \<Longrightarrow> engineStatus (NewEngine (env ''NQN_AUTHORITY'') config) = reported ''engine'' env r"
  by (auto simp: engineConfig_def engineConfigFor_def reported_def engineStatus_def NewEngine_def)

lemma reports_map:
  "(\<forall>e. x = Inr e \<longrightarrow>
      (\<exists>r. ResolvePolicy mode policies (envRuntime env) = Inr r \<and> service_status (f e) = reported mode env r)) \<Longrightarrow>
   reports mode env policies (map_sum id f x)"
  by (cases x) (auto simp: reports_def)

lemma wp_setupMode:
  assumes "mode = ''engine'' \<or> mode = ''replica''"
  shows "wp (setupMode fuel os client mode env policies) (\<lambda>x _. reports mode env policies x) w"
proof (cases "mode = ''engine''")
  case True
  have "wp (engineMain os client env policies) (\<lambda>x _. \<forall>e. x = Inr e \<longrightarrow>
      (\<exists>r. ResolvePolicy ''engine'' policies (envRuntime env) = Inr r \<and> engineStatus e = reported ''engine'' env r)) w"
    unfolding engineMain_def Let_def
    by (auto split: sum.split option.split intro!: wp_any [where m = "os_MkdirAll _ _"] wp_any [where m = "ensureDataFile _ _ _"]
        wp_mono [OF wp_ConfigureEngine] engine_reported)
  then show ?thesis
    using True by (auto simp: setupMode_def elim!: wp_mono intro!: reports_map)
next
  case False
  have "wp (replicaMain fuel os client env policies) (\<lambda>x _. \<forall>y. x = Inr y \<longrightarrow>
      (\<exists>r. ResolvePolicy ''replica'' policies (envRuntime env) = Inr r \<and> replicaStatusOf y = reported ''replica'' env r)) w"
    unfolding replicaMain_def Let_def
    by (auto split: sum.split option.split intro!: wp_any [where m = "os_MkdirAll _ _"] wp_any [where m = "ensureDataFile _ _ _"]
        wp_mono [OF wp_setupReplica] simp: replicaStatusOf_def reported_def replicaConfig_def replicaConfigFor_def)
  then show ?thesis
    using False assms by (auto simp: setupMode_def elim!: wp_mono intro!: reports_map)
qed

lemma wp_sidecarMain:
  "wp (sidecarMain fuel NewUnixClient os mode env) (\<lambda>x _. \<forall>s. x = Inr s \<longrightarrow>
     (mode = ''engine'' \<or> mode = ''replica'') \<and> env ''KDFS_VOLUME_NAME'' \<noteq> []
     \<and> (\<exists>policies. envPolicies env = Some policies \<and> reports mode env policies x)) w"
  unfolding sidecarMain_def
  by (auto split: option.split intro!: wp_any [where m = "waitSocket _ _"] wp_any [where m = "waitHealth _ _"]
      wp_mono [OF wp_setupMode])

lemma status_served:
  "fst (fst (run_state (sidecarHTTP os env (Some s) ''/status'' req) w)) = WriteStatusHTTP (service_status s)"
  by (cases s) (simp_all add: sidecarHTTP_def serveEngine_def State_Monad.bind_def State_Monad.return_def)

text \<open>
  C33: what a started sidecar reports. A sidecar that gets ready has a mode, a volume and policies
  it understands, and from then on answers \<^verbatim>\<open>/status\<close> with the role of its mode, the endpoint that
  its policy advertises and the NQN of its volume, or of its index of the volume, under the
  authority it was given: nothing of it comes from SPDK.
\<close>

theorem started_sidecar_reports:
  assumes run: "run_state (sidecarMain fuel NewUnixClient os mode env) w = (Inr s, w')"
  shows "(mode = ''engine'' \<or> mode = ''replica'') \<and> env ''KDFS_VOLUME_NAME'' \<noteq> []
    \<and> (\<exists>policies r. envPolicies env = Some policies \<and> ResolvePolicy mode policies (envRuntime env) = Inr r
         \<and> fst (fst (run_state (sidecarHTTP os env (Some s) ''/status'' req) w1)) = WriteStatusHTTP (reported mode env r))"
  using wp_run [OF wp_sidecarMain run] by (auto simp: reports_def status_served)

text \<open>A pod on whose disk every file is there, with an SPDK that answers at once.\<close>

definition settled_os :: "'w os" where
  "settled_os =
     \<lparr>os_Stat = (\<lambda>p. ret (Inr 0)), os_MkdirAll = (\<lambda>p. ret None), os_OpenCreate = (\<lambda>p. ret None),
      os_CreateExcl = (\<lambda>p. ret None), os_OpenRead = (\<lambda>p. ret None), os_Truncate = (\<lambda>p n. ret None),
      os_Remove = (\<lambda>p. ret None), os_RemoveAll = (\<lambda>p. ret None), os_FileClone = (\<lambda>p q. ret None),
      os_Copy = (\<lambda>p q. ret None), os_ReadFile = (\<lambda>p. ret (Inr [])), os_WriteFile = (\<lambda>p s. ret None),
      os_ReadDir = (\<lambda>p. ret (Inr []))\<rparr>"

definition podEnv :: env_vars where
  "podEnv n = (if n = ''KDFS_POD_IP'' then ''10.1.2.3'' else plain_env (sidecar_env enginePod) n)"

definition podStarted :: "(fatal + calls service) \<times> calls" where
  "podStarted = run_state (sidecarMain 1 (ret (Inr (FakeClient None))) settled_os ''engine'' podEnv) []"

theorem started_sidecar_reports_witness:
  "\<exists>r. ResolvePolicy ''engine'' defaultNetworkPolicies (envRuntime podEnv) = Inr r
     \<and> fst (fst (run_state (sidecarHTTP settled_os podEnv (Some (projr (fst podStarted))) ''/status'' \<lparr>hq_Method = ''GET'', hq_URL = ''/status'', hq_Payload = None\<rparr>) []))
       = WriteStatusHTTP (reported ''engine'' podEnv r)"
proof -
  have "\<not> isl (fst podStarted)" by code_simp
  then have run: "run_state (sidecarMain 1 (ret (Inr (FakeClient None))) settled_os ''engine'' podEnv) []
      = (Inr (projr (fst podStarted)), snd podStarted)"
    by (simp add: podStarted_def prod_eq_iff)
  have "envPolicies podEnv = Some defaultNetworkPolicies" by code_simp
  with started_sidecar_reports [OF run, of "\<lparr>hq_Method = ''GET'', hq_URL = ''/status'', hq_Payload = None\<rparr>" "[]"] show ?thesis by auto
qed

text \<open>
  C34: what a started sidecar reports the controllers accept, provided that its policy resolves to
  an address that is not blank and has no brackets and to a port without brackets and colons. Its answer to
  \<^verbatim>\<open>/status\<close> then passes the check of the controller of its mode, and the endpoint in it splits into
  the advertised address and the port of the policy.
\<close>

theorem sidecar_status_accepted:
  assumes run: "run_state (sidecarMain fuel NewUnixClient os mode env) w = (Inr s, w')"
    and policy: "envPolicies env = Some policies" "ResolvePolicy mode policies (envRuntime env) = Inr r"
    and plain: "plain_host (rsv_AdvertiseAddress r)" "TrimSpace (rsv_AdvertiseAddress r) \<noteq> []" "plain_port (rsv_Port r)"
  shows "\<exists>st. Option.bind (hr_Body (fst (fst (run_state (sidecarHTTP os env (Some s) ''/status'' req) w1)))) decodeStatus = Some st
     \<and> (if mode = ''engine'' then validateEngineSidecarStatus st else validateReplicaSidecarStatus st) = None
     \<and> SplitEndpoint (sc_Endpoint st) = Inr (rsv_AdvertiseAddress r, rsv_Port r)"
proof -
  have mode: "mode = ''engine'' \<or> mode = ''replica''" and status: "service_status s = reported mode env r"
    using wp_run [OF wp_sidecarMain run] policy by (auto simp: reports_def)
  have "rsv_Port r \<noteq> [] \<and> rsv_Port r = TrimSpace (po_Port (policyFor mode policies))"
    using policy(2) by (auto simp: ResolvePolicy_def Let_def split: sum.splits if_splits)
  then have port: "TrimSpace (rsv_Port r) \<noteq> []" by (metis TrimSpace_idem)
  show ?thesis
    unfolding status_served status using mode plain port
    by (auto simp: WriteStatusHTTP_def statuses.decode_encode validateEngineSidecarStatus_def
        validateReplicaSidecarStatus_def reported_def VolumeNQN_blank ReplicaNQN_blank validateEndpoint_JoinEndpoint
        SplitEndpoint_JoinEndpoint)
qed

theorem sidecar_status_accepted_witness:
  "\<exists>st. Option.bind (hr_Body (fst (fst (run_state (sidecarHTTP settled_os podEnv (Some (projr (fst podStarted))) ''/status''
       \<lparr>hq_Method = ''GET'', hq_URL = ''/status'', hq_Payload = None\<rparr>) [])))) decodeStatus = Some st
     \<and> validateEngineSidecarStatus st = None \<and> SplitEndpoint (sc_Endpoint st) = Inr (''10.1.2.3'', ''4420'')"
proof -
  let ?r = "\<lparr>rsv_BindAddress = ''10.1.2.3'', rsv_AdvertiseAddress = ''10.1.2.3'', rsv_Port = ''4420'',
       rsv_PreferredFamily = ''Auto'', rsv_AdrFam = ''IPv4''\<rparr>"
  have "\<not> isl (fst podStarted)" by code_simp
  then have run: "run_state (sidecarMain 1 (ret (Inr (FakeClient None))) settled_os ''engine'' podEnv) []
      = (Inr (projr (fst podStarted)), snd podStarted)"
    by (simp add: podStarted_def prod_eq_iff)
  have policy: "envPolicies podEnv = Some defaultNetworkPolicies"
    "ResolvePolicy ''engine'' defaultNetworkPolicies (envRuntime podEnv) = Inr ?r" by code_simp+
  have plain: "plain_host (rsv_AdvertiseAddress ?r)" "plain_port (rsv_Port ?r)"
    by (simp_all add: plain_host_def plain_port_def)
  have named: "TrimSpace (rsv_AdvertiseAddress ?r) \<noteq> []" by code_simp
  show ?thesis
    using sidecar_status_accepted [OF run policy plain(1) named plain(2),
        of "\<lparr>hq_Method = ''GET'', hq_URL = ''/status'', hq_Payload = None\<rparr>" "[]"] by simp
qed

section \<open>Snapshots of a pod\<close>

text \<open>Where a file of the sidecar's container is on the node: below the host path that is mounted there.\<close>

definition host_path :: "Pod \<Rightarrow> string \<Rightarrow> string option" where
  "host_path pod path = do {
     co \<leftarrow> find (\<lambda>co. co_Name co = ''sidecar'') (ps_Containers (Spec pod));
     mount \<leftarrow> find (\<lambda>mount. HasPrefix path (vm_MountPath mount @ ''/'')) (co_VolumeMounts co);
     source \<leftarrow> map_of (ps_Volumes (Spec pod)) (vm_Name mount);
     case source of HostPath host \<Rightarrow> Some (host @ drop (length (vm_MountPath mount)) path) | EmptyDir \<Rightarrow> None
   }"

lemma host_path_data: "host_path (EnginePodFor nqnEnv images engine hosts) (''/data/'' @ f) = Some (''/var/lib/kdfs/'' @ f)"
  by (simp add: host_path_def EnginePodFor_def spdkPod_def dataMount_def HasPrefix_def Let_def)

text \<open>A name that is one part of a path.\<close>

definition path_part :: "string \<Rightarrow> bool" where
  "path_part v \<longleftrightarrow> v \<notin> {[], ''.'', ''..''} \<and> CHR ''/'' \<notin> set v"

lemma Clean_data:
  assumes "path_part v"
  shows "Clean (''/data/'' @ v @ ''/'') = ''/data/'' @ v"
    "CHR ''/'' \<notin> set f \<Longrightarrow> f \<notin> {[], ''.'', ''..''} \<Longrightarrow> Clean (''/data/'' @ v @ ''/'' @ f) = ''/data/'' @ v @ ''/'' @ f"
proof -
  have split: "Split (''/data/'' @ v @ ''/'' @ f) ''/'' = [[], ''data'', v, f]" if "CHR ''/'' \<notin> set f" for f
    using Split_Join [of "[[], ''data'', v, f]" "CHR ''/''"] assms that by (simp add: Join_def path_part_def)
  show "Clean (''/data/'' @ v @ ''/'') = ''/data/'' @ v"
    using split [of "[]"] assms by (simp add: Clean_def HasPrefix_def Join_def path_part_def)
  show "CHR ''/'' \<notin> set f \<Longrightarrow> f \<notin> {[], ''.'', ''..''} \<Longrightarrow> Clean (''/data/'' @ v @ ''/'' @ f) = ''/data/'' @ v @ ''/'' @ f"
    using split [of f] assms by (simp add: Clean_def HasPrefix_def Join_def path_part_def)
qed

lemma snapshotTarget_data:
  assumes "path_part v" and "CHR ''/'' \<notin> set snapshotID"
  shows "snapshotTarget (''/data/'' @ v @ ''/vol.img'') snapshotID = ''/data/'' @ v @ ''/snapshot-'' @ snapshotID @ ''.img''"
proof -
  have "dir_part (''/data/'' @ v @ ''/vol.img'') = ''/data/'' @ v @ ''/''" by (simp add: dir_part_def)
  then have "Dir (''/data/'' @ v @ ''/vol.img'') = ''/data/'' @ v" using Clean_data(1) [OF assms(1)] by (simp add: Dir_def)
  then show ?thesis
    using Clean_data(2) [OF assms(1), of "''snapshot-'' @ snapshotID @ ''.img''"] assms(2) by (simp add: snapshotTarget_def Join2_def)
qed

lemma wp_SnapshotHTTP:
  assumes "os_files os files" and "Option.bind (hq_Payload req) decodeSnapshotReq = Some snapshotID"
  shows "wp (SnapshotHTTP (reflinkSnapshot os vol localPath) req) (\<lambda>resp w'.
      (\<forall>q. q \<noteq> snapshotTarget localPath snapshotID \<or> files w (snapshotTarget localPath snapshotID) \<noteq> None \<longrightarrow> files w' q = files w q)
      \<and> (hr_StatusCode resp = 200 \<longrightarrow> (\<exists>s. files w' (snapshotTarget localPath snapshotID) = Some s
           \<and> hr_Body resp = Some (encodeSnapshotResp
               \<lparr>sr_SnapshotPath = SnapshotFilePath vol snapshotID, sr_SizeBytes = int (length s)\<rparr>)
           \<and> (files w (snapshotTarget localPath snapshotID) = None \<longrightarrow> files w localPath = Some s)))) w"
  unfolding SnapshotHTTP_def assms(2) option.case wp_bind
  by (auto simp: replyText_def wp_bind intro!: wp_mono [OF os_files.wp_reflinkSnapshot [OF assms(1) refl]] split: sum.split)

text \<open>
  C31: a new snapshot is a copy of the volume's file, and a snapshot that exists is never touched.
  When the sidecar of an engine's pod is asked for a snapshot of its volume, for names without a slash,
  no file but the snapshot's own changes, failures included, and none at all when that is there
  already. When it answers with success, the snapshot's file is there with the size it reports,
  and the path it reports is where the node has that file; unless it was there before the request, it
  has the content of the volume's file. One that was there is reported as it is, without looking into it: it may be the
  rest of a copy that failed (\<open>partial_snapshot_reported\<close>).
\<close>

theorem snapshot_is_copy:
  assumes os: "os_files os files" and env: "gives_env env (sidecar_env (EnginePodFor nqnEnv images engine hosts))"
    and names: "path_part (es_VolumeRef (Spec engine))" "CHR ''/'' \<notin> set snapshotID"
    and req: "Option.bind (hq_Payload req) decodeSnapshotReq = Some snapshotID"
    and run: "run_state (sidecarHTTP os env (Some (EngineService client e)) ''/snapshot'' req) w = ((resp, s'), w')"
  shows "let dir = ''/data/'' @ es_VolumeRef (Spec engine); target = dir @ ''/snapshot-'' @ snapshotID @ ''.img'' in
     (\<forall>q. q \<noteq> target \<or> files w target \<noteq> None \<longrightarrow> files w' q = files w q)
     \<and> (hr_StatusCode resp = 200 \<longrightarrow>
          (\<exists>s path. files w' target = Some s \<and> host_path (EnginePodFor nqnEnv images engine hosts) target = Some path
             \<and> hr_Body resp = Some (encodeSnapshotResp \<lparr>sr_SnapshotPath = path, sr_SizeBytes = int (length s)\<rparr>)
             \<and> (files w target = None \<longrightarrow> files w (dir @ ''/vol.img'') = Some s)))"
proof -
  obtain v where v: "es_VolumeRef (Spec engine) = v" by simp
  note vars = engine_env_read(1,2) [OF env, unfolded v]
  have "run_state (SnapshotHTTP (reflinkSnapshot os v (''/data/'' @ v @ ''/vol.img'')) req) w = (resp, w')"
    using run by (auto simp: sidecarHTTP_def serveEngine_def vars State_Monad.bind_def State_Monad.return_def split: prod.splits)
  note answered = wp_run [OF wp_SnapshotHTTP [OF os req] this, unfolded snapshotTarget_data [OF names [unfolded v]]]
  have host: "host_path (EnginePodFor nqnEnv images engine hosts) (''/data/'' @ v @ ''/snapshot-'' @ snapshotID @ ''.img'')
      = Some (SnapshotFilePath v snapshotID)"
    unfolding host_path_data by (simp add: SnapshotFilePath_def)
  show ?thesis
    unfolding v Let_def append_assoc
  proof (rule conjI [OF answered [THEN conjunct1]], rule impI)
    assume "hr_StatusCode resp = 200"
    from answered [THEN conjunct2, THEN mp, OF this] obtain s where "files w' (''/data/'' @ v @ ''/snapshot-'' @ snapshotID @ ''.img'') = Some s"
      "hr_Body resp = Some (encodeSnapshotResp \<lparr>sr_SnapshotPath = SnapshotFilePath v snapshotID, sr_SizeBytes = int (length s)\<rparr>)"
      "files w (''/data/'' @ v @ ''/snapshot-'' @ snapshotID @ ''.img'') = None \<longrightarrow> files w (''/data/'' @ v @ ''/vol.img'') = Some s"
      by (elim conjE exE) assumption+
    with host show "\<exists>s path. files w' (''/data/'' @ v @ ''/snapshot-'' @ snapshotID @ ''.img'') = Some s
        \<and> host_path (EnginePodFor nqnEnv images engine hosts) (''/data/'' @ v @ ''/snapshot-'' @ snapshotID @ ''.img'') = Some path
        \<and> hr_Body resp = Some (encodeSnapshotResp \<lparr>sr_SnapshotPath = path, sr_SizeBytes = int (length s)\<rparr>)
        \<and> (files w (''/data/'' @ v @ ''/snapshot-'' @ snapshotID @ ''.img'') = None \<longrightarrow>
             files w (''/data/'' @ v @ ''/vol.img'') = Some s)"
      by (intro exI conjI)
  qed
qed

definition askSnapshot :: http_request where
  "askSnapshot = \<lparr>hq_Method = ''POST'', hq_URL = ''/snapshot'', hq_Payload = Some (encodeSnapshotReq ''s1'')\<rparr>"

definition snapshotTaken :: "(http_response \<times> memfs service option) \<times> memfs" where
  "snapshotTaken =
     run_state (sidecarHTTP (memfs_os False) (plain_env (sidecar_env enginePod))
         (Some (EngineService (realClient (\<lambda>meth params. ret (Inr (JBool True))) []) (NewEngine [] sampleConfig))) ''/snapshot'' askSnapshot)
       [(''/data/vol/vol.img'', ''abc'')]"

theorem snapshot_is_copy_witness:
  "hr_Body (fst (fst snapshotTaken)) = Some (encodeSnapshotResp \<lparr>sr_SnapshotPath = ''/var/lib/kdfs/vol/snapshot-s1.img'', sr_SizeBytes = 3\<rparr>)
   \<and> map_of (snd snapshotTaken) ''/data/vol/snapshot-s1.img'' = Some ''abc''"
proof -
  have "distinct (map env_Name (sidecar_env enginePod))" by code_simp
  note env = this [THEN plain_env_gives, unfolded enginePod_def]
  have vol: "es_VolumeRef (Spec twoReplicas) = ''vol''" by (simp add: twoReplicas_def)
  have names: "path_part (es_VolumeRef (Spec twoReplicas))" "CHR ''/'' \<notin> set ''s1''"
    and req: "Option.bind (hq_Payload askSnapshot) decodeSnapshotReq = Some ''s1''"
    by (simp_all add: path_part_def askSnapshot_def snapshot_requests.decode_encode vol)
  have run: "run_state (sidecarHTTP (memfs_os False) (plain_env (sidecar_env enginePod))
         (Some (EngineService (realClient (\<lambda>meth params. ret (Inr (JBool True))) []) (NewEngine [] sampleConfig))) ''/snapshot'' askSnapshot)
       [(''/data/vol/vol.img'', ''abc'')]
    = ((fst (fst snapshotTaken), snd (fst snapshotTaken)), snd snapshotTaken)"
    by (simp add: snapshotTaken_def)
  have "hr_StatusCode (fst (fst snapshotTaken)) = 200" by code_simp
  moreover have "host_path enginePod ''/data/vol/snapshot-s1.img'' = Some ''/var/lib/kdfs/vol/snapshot-s1.img''" by code_simp
  ultimately show ?thesis
    using snapshot_is_copy [OF memfs.os_files_axioms env names req run [unfolded enginePod_def]]
    by (auto simp: vol Let_def enginePod_def [symmetric])
qed

end
