(* ===== verification/CSI_Identity.thy ===== *)
theory CSI_Identity
  imports CSI_Controller
begin

text \<open>
  What the CSI driver says of itself, \<^verbatim>\<open>src/internal/csi/driver.go\<close>: its name, the services it
  offers, and the topology of its node, which comes back in the requests for volumes. An answer
  that is always given with a nil error is the answer itself; the wrapper types of protobuf
  around an enumeration are dropped.
\<close>

section \<open>The identity service\<close>

definition DriverName :: string where
  "DriverName = ''storage.krea.to''"

definition DriverVersion :: string where
  "DriverVersion = ''0.1.0''"

record PluginInfo =
  pi_Name :: string
  pi_VendorVersion :: string

datatype PluginService = CONTROLLER_SERVICE | VOLUME_ACCESSIBILITY_CONSTRAINTS

datatype ControllerRPC = CREATE_DELETE_VOLUME | PUBLISH_UNPUBLISH_VOLUME | CREATE_DELETE_SNAPSHOT | LIST_SNAPSHOTS

datatype NodeRPC = STAGE_UNSTAGE_VOLUME

record NodeInfo =
  ni_NodeId :: string
  ni_MaxVolumesPerNode :: int
  ni_AccessibleTopology :: smap

definition GetPluginInfo :: PluginInfo where
  "GetPluginInfo = \<lparr>pi_Name = DriverName, pi_VendorVersion = DriverVersion\<rparr>"

definition GetPluginCapabilities :: "PluginService list" where
  "GetPluginCapabilities = [CONTROLLER_SERVICE, VOLUME_ACCESSIBILITY_CONSTRAINTS]"

definition Probe :: bool where
  "Probe = True"

definition ControllerGetCapabilities :: "ControllerRPC list" where
  "ControllerGetCapabilities = [CREATE_DELETE_VOLUME, PUBLISH_UNPUBLISH_VOLUME, CREATE_DELETE_SNAPSHOT, LIST_SNAPSHOTS]"

definition NodeGetCapabilities :: "NodeRPC list" where
  "NodeGetCapabilities = [STAGE_UNSTAGE_VOLUME]"

definition NodeGetInfo :: "Driver \<Rightarrow> NodeInfo" where
  "NodeGetInfo d =
     \<lparr>ni_NodeId = dr_NodeID d, ni_MaxVolumesPerNode = 64,
      ni_AccessibleTopology = [(''topology.storage.krea.to/hostname'', dr_NodeID d)]\<rparr>"

section \<open>From a node's topology to the node of a volume\<close>

lemma lookup_topology [simp]: "lookup_str (ni_AccessibleTopology (NodeGetInfo node)) hostnameKey = dr_NodeID node"
  by (simp add: NodeGetInfo_def hostnameKey_def lookup_str_def)

lemma find_append: "find P (xs @ ys) = (case find P xs of None \<Rightarrow> find P ys | Some x \<Rightarrow> Some x)"
  by (induction xs) auto

lemma chosenNode_requisite:
  assumes "tr_Requisite t = before @ ni_AccessibleTopology (NodeGetInfo node) # rest" and "dr_NodeID node \<noteq> []"
    and "\<forall>s \<in> set before. lookup_str s hostnameKey = []"
  shows "chosenNode d (Some t) = dr_NodeID node"
proof -
  have "find (\<lambda>t. lookup_str t hostnameKey \<noteq> []) before = None" using assms(3) by (simp add: find_None_iff)
  with assms(1,2) show ?thesis by (simp add: chosenNode_def firstHostname_def Let_def find_append)
qed

text \<open>
  The preferred topologies are not looked at by a driver that knows a node, nor when a required
  one is given: the first required one wins over the first preferred one, which the
  provisioner puts first for the node the scheduler has selected.
\<close>

lemma preferred_ignored:
  assumes "dr_NodeID d \<noteq> []"
  shows "chosenNode d (Some \<lparr>tr_Requisite = req, tr_Preferred = p\<rparr>)
    = chosenNode d (Some \<lparr>tr_Requisite = req, tr_Preferred = q\<rparr>)"
proof -
  have "n \<noteq> []" if "firstHostname req = Some n" for n
    using that by (auto simp: firstHostname_def dest: find_SomeD)
  with assms show ?thesis by (auto simp: chosenNode_def Let_def split: option.split)
qed

context kube_client
begin

lemma wp_CreateVolume_topology:
  "wp (CreateVolume c d req)
     (\<lambda>r w'. \<forall>v. r = Inr v \<longrightarrow> cvol_AccessibleTopology v =
        (if isMultiNodeAccess (cv_Capabilities req) then [] else [[(hostnameKey, chosenNode d (cv_Topology req))]])) w"
  unfolding CreateVolume_def Let_def
  by (auto intro!: wp_requestedVolume vol.wp_createIfMissing)

end

section \<open>Properties\<close>

text \<open>
  C27: a new volume is placed on the node whose topology is required. Of a request for a volume
  whose name is free and that restores no snapshot, let the first required topology that names a
  node of this driver be the one that the driver of that node reports. When the request succeeds,
  the volume is stored with that node as its node, whatever the node of the driver asked and the
  preferred topologies are; and the answer gives back exactly the topology of that node, or none
  when the volume is to be used from several nodes. A volume that restores a snapshot is not
  placed by the topology (\<open>restored_topology_differs\<close>).
\<close>

theorem placed_where_reported:
  assumes client: "kube_client c view"
    and topology: "cv_Topology req = Some t" "tr_Requisite t = before @ ni_AccessibleTopology (NodeGetInfo node) # rest"
      "dr_NodeID node \<noteq> []" "\<forall>s \<in> set before. lookup_str s hostnameKey = []"
    and plain: "cv_ContentSource req = None"
    and new: "cl_volumes (view w) (NN (dr_Namespace d) (cv_Name req)) = None"
    and run: "run_state (CreateVolume c d req) w = (Inr v, w')"
  shows "(\<exists>x. cl_volumes (view w') (NN (dr_Namespace d) (cv_Name req)) = Some x
           \<and> vs_NodeID (Spec x) = ni_NodeId (NodeGetInfo node))
    \<and> cvol_AccessibleTopology v =
        (if isMultiNodeAccess (cv_Capabilities req) then [] else [ni_AccessibleTopology (NodeGetInfo node)])"
proof -
  have node: "chosenNode d (cv_Topology req) = dr_NodeID node"
    using chosenNode_requisite topology by simp
  have "volume_created d req (view w) (view w')"
    using wp_run [OF kube_client.wp_CreateVolume [OF client] run] by simp
  then have "\<exists>x. cl_volumes (view w') (NN (dr_Namespace d) (cv_Name req)) = Some x \<and> vs_NodeID (Spec x) = dr_NodeID node"
    using new plain node by (auto simp: volume_created_def wanted_def Let_def)
  moreover have "cvol_AccessibleTopology v =
      (if isMultiNodeAccess (cv_Capabilities req) then [] else [[(hostnameKey, dr_NodeID node)]])"
    using wp_run [OF kube_client.wp_CreateVolume_topology [OF client] run] node by simp
  ultimately show ?thesis by (simp add: NodeGetInfo_def hostnameKey_def)
qed

definition placedRequest :: CreateVolumeRequest where
  "placedRequest =
     \<lparr>cv_Name = ''new'', cv_RequiredBytes = 1024, cv_Parameters = [], cv_Capabilities = [Some (Some SINGLE_NODE_WRITER)],
      cv_Topology = Some
        \<lparr>tr_Requisite = [[(''zone'', ''z'')], ni_AccessibleTopology (NodeGetInfo (sampleDriver\<lparr>dr_NodeID := ''n2''\<rparr>))],
         tr_Preferred = []\<rparr>,
      cv_ContentSource = None\<rparr>"

definition placedResult :: "(error + CSIVolume) \<times> mem" where
  "placedResult = run_state (CreateVolume (mem_env noHttp) sampleDriver placedRequest) (snapSample readySnapshot)"

theorem placed_where_reported_witness:
  "(\<exists>x. cl_volumes (mem_view (snd placedResult)) (NN ''ns'' ''new'') = Some x \<and> vs_NodeID (Spec x) = ''n2'')
   \<and> map_sum id cvol_AccessibleTopology (fst placedResult) = Inr [[(hostnameKey, ''n2'')]]"
proof -
  let ?node = "sampleDriver\<lparr>dr_NodeID := ''n2''\<rparr>"
  have ok: "\<not> isl (fst placedResult)" by code_simp
  then have run: "run_state (CreateVolume (mem_env noHttp) sampleDriver placedRequest) (snapSample readySnapshot)
      = (Inr (projr (fst placedResult)), snd placedResult)"
    by (simp add: placedResult_def prod_eq_iff)
  have new: "cl_volumes (mem_view (snapSample readySnapshot)) (NN (dr_Namespace sampleDriver) (cv_Name placedRequest)) = None"
    by code_simp
  have topology: "cv_Topology placedRequest = Some (the (cv_Topology placedRequest))"
    "tr_Requisite (the (cv_Topology placedRequest)) = [[(''zone'', ''z'')]] @ ni_AccessibleTopology (NodeGetInfo ?node) # []"
    "dr_NodeID ?node \<noteq> []" "\<forall>s \<in> set [[(''zone'', ''z'')]]. lookup_str s hostnameKey = []" "cv_ContentSource placedRequest = None"
    by (simp_all add: placedRequest_def lookup_str_def hostnameKey_def)
  have "\<not> isMultiNodeAccess (cv_Capabilities placedRequest)" by code_simp
  with ok placed_where_reported [where view = mem_view, OF kube_client_mem topology new run]
  show ?thesis by (cases "fst placedResult") (auto simp: placedRequest_def sampleDriver_def NodeGetInfo_def hostnameKey_def)
qed

end
