(* ===== verification/Dashboard_List.thy ===== *)
theory Dashboard_List
  imports Dashboard
begin

text \<open>
  The front page of the dashboard, \<open>HandleList\<close> of \<^verbatim>\<open>src/internal/dashboard/handler.go\<close>: the
  volumes of the namespace with the replica counts to show, and the statistics beside them. The
  sizes are summed in floating-point numbers, whose operations are a parameter: nothing here
  depends on how they round. The routes are \<^verbatim>\<open>src/internal/dashboard/server.go\<close>, the
  colour of a phase and the text of an age \<^verbatim>\<open>src/internal/dashboard/template.go\<close>.
\<close>

section \<open>Counting\<close>

record volumeRow =
  vr_Volume :: Volume
  vr_DisplayReplicaCount :: int

record nodeStat =
  ns_Name :: string
  ns_ReplicaCount :: nat
  ns_SizeGi :: string

record statsData =
  sd_TotalVolumes :: nat
  sd_ReadyVolumes :: nat
  sd_TotalSizeGi :: string
  sd_TotalPVCCount :: nat
  sd_TotalPVCUsageGi :: string
  sd_NodeCount :: nat
  sd_Nodes :: "nodeStat list"

text \<open>
  The operations on \<^verbatim>\<open>float64\<close> used: the value that \<^verbatim>\<open>ParseFloat\<close> returns, with or without an
  error; a whole number; sum, product and quotient; \<^verbatim>\<open>math.Round\<close>; the format \<^verbatim>\<open>%.1f\<close>.
\<close>

record 'f floats =
  fl_Parse :: "string \<Rightarrow> 'f"
  fl_Int :: "int \<Rightarrow> 'f"
  fl_Add :: "'f \<Rightarrow> 'f \<Rightarrow> 'f"
  fl_Mul :: "'f \<Rightarrow> 'f \<Rightarrow> 'f"
  fl_Div :: "'f \<Rightarrow> 'f \<Rightarrow> 'f"
  fl_Round :: "'f \<Rightarrow> 'f"
  fl_Format :: "'f \<Rightarrow> string"

text \<open>Of a claim: the name of its storage class, which may be nil, and the bytes of storage it requests, if any.\<close>

record claim =
  pv_StorageClassName :: "string option"
  pv_Storage :: "int option"

type_synonym 'w claims = "('w, error + claim list) state"

text \<open>How many replicas the engine of a volume has, by the name of the volume; the last engine counts.\<close>

fun engineCounts :: "(string \<times> nat) list \<Rightarrow> Engine list \<Rightarrow> (string \<times> nat) list" where
  "engineCounts m [] = m"
| "engineCounts m (e # es) =
     engineCounts
       (if es_VolumeRef (Spec e) \<noteq> [] then (es_VolumeRef (Spec e), length (es_Replicas (Spec e))) # m else m) es"

definition displayCount :: "(string \<times> nat) list \<Rightarrow> string \<Rightarrow> int \<Rightarrow> int" where
  "displayCount counts name count = (case map_of counts name of Some n \<Rightarrow> if n > 0 then int n else count | None \<Rightarrow> count)"

fun volumeRows :: "'w env \<Rightarrow> Handler \<Rightarrow> (string \<times> nat) list \<Rightarrow> Volume list \<Rightarrow> ('w, volumeRow list) state" where
  "volumeRows c h counts [] = ret []"
| "volumeRows c h counts (v # vs) = do {
     count \<leftarrow> effectiveReplicaCount c h v;
     rows \<leftarrow> volumeRows c h counts vs;
     ret (\<lparr>vr_Volume = v, vr_DisplayReplicaCount = displayCount counts (obj_Name v) count\<rparr> # rows)
   }"

text \<open>The sizes of volumes in Gi, and the text of a size.\<close>

definition parseSizeToGi :: "'f floats \<Rightarrow> string \<Rightarrow> 'f" where
  "parseSizeToGi f s0 =
     (let s = TrimSpace s0; n = length s; gi = 1024 * 1024 * 1024 in
      if s = [] then fl_Int f 0
      else if HasSuffix s ''Gi'' then fl_Parse f (take (n - 2) s)
      else if HasSuffix s ''Mi'' then fl_Div f (fl_Parse f (take (n - 2) s)) (fl_Int f 1024)
      else if HasSuffix s ''Ki'' then fl_Div f (fl_Parse f (take (n - 2) s)) (fl_Int f (1024 * 1024))
      else
        fl_Div f (fl_Round f (fl_Mul f (fl_Div f (fl_Parse f s) (fl_Int f gi)) (fl_Int f 10))) (fl_Int f 10))"

definition sumFloats :: "'f floats \<Rightarrow> 'f list \<Rightarrow> 'f" where
  "sumFloats f xs = fold (\<lambda>x acc. fl_Add f acc x) xs (fl_Int f 0)"

definition inGi :: "'f floats \<Rightarrow> 'f \<Rightarrow> string" where
  "inGi f x = fl_Format f x @ '' Gi''"

definition volumeSize :: "'f floats \<Rightarrow> Volume list \<Rightarrow> string \<Rightarrow> 'f" where
  "volumeSize f vs name =
     (case map_of (map (\<lambda>v. (obj_Name v, parseSizeToGi f (vs_Size (Spec v)))) (rev vs)) name of
        Some s \<Rightarrow> s | None \<Rightarrow> fl_Int f 0)"

text \<open>
  The replicas on each node, with the sizes of their volumes. A Go map is iterated in no order;
  here the nodes are in the order in which they are first met.
\<close>

type_synonym 'f per_node = "(string \<times> nat \<times> 'f) list"

fun bump :: "'f floats \<Rightarrow> 'f \<Rightarrow> string \<Rightarrow> 'f per_node \<Rightarrow> 'f per_node" where
  "bump f gi n [] = [(n, 1, fl_Add f (fl_Int f 0) gi)]"
| "bump f gi n ((m, k, acc) # xs) =
     (if m = n then (m, Suc k, fl_Add f acc gi) # xs else (m, k, acc) # bump f gi n xs)"

fun nodeReplicas :: "'f floats \<Rightarrow> (string \<Rightarrow> 'f) \<Rightarrow> 'f per_node \<Rightarrow> Engine list \<Rightarrow> 'f per_node" where
  "nodeReplicas f sizes m [] = m"
| "nodeReplicas f sizes m (e # es) =
     nodeReplicas f sizes
       (fold (\<lambda>rep. bump f (sizes (es_VolumeRef (Spec e))) (ra_NodeID rep)) (es_Replicas (Spec e)) m) es"

definition computeStats :: "'f floats \<Rightarrow> Volume list \<Rightarrow> Engine list \<Rightarrow> claim list \<Rightarrow> Node list \<Rightarrow> statsData" where
  "computeStats f vs es claims ns =
     (let ours = filter (\<lambda>p. pv_StorageClassName p = Some ''kdfs'') claims;
          usage = map (\<lambda>b. fl_Div f (fl_Int f b) (fl_Int f (1024 * 1024 * 1024))) (List.map_filter pv_Storage ours) in
      \<lparr>sd_TotalVolumes = length vs,
       sd_ReadyVolumes = length (filter (\<lambda>v. vst_Phase (Status v) = ''Ready'') vs),
       sd_TotalSizeGi = inGi f (sumFloats f (map (\<lambda>v. parseSizeToGi f (vs_Size (Spec v))) vs)),
       sd_TotalPVCCount = length ours,
       sd_TotalPVCUsageGi = inGi f (sumFloats f usage),
       sd_NodeCount = length ns,
       sd_Nodes = map (\<lambda>(n, k, gi). \<lparr>ns_Name = n, ns_ReplicaCount = k, ns_SizeGi = inGi f gi\<rparr>)
         (nodeReplicas f (volumeSize f vs) [] es)\<rparr>)"

text \<open>The page: the whole of it, or its body only for a request of the page's own script.\<close>

datatype list_reply = ListFailed string error | ListPage "volumeRow list" statsData | ListBody "volumeRow list" statsData

definition HandleList :: "'w env \<Rightarrow> 'f floats \<Rightarrow> 'w claims \<Rightarrow> Handler \<Rightarrow> string \<Rightarrow> ('w, list_reply) state" where
  "HandleList c f listClaims h hxRequest = do {
     v \<leftarrow> r_List (volumes c) (Some (hd_Namespace h)) [];
     case v of
       Inl err \<Rightarrow> ret (ListFailed ''failed to list volumes: '' err)
     | Inr vs \<Rightarrow> do {
         e \<leftarrow> r_List (engines c) (Some (hd_Namespace h)) [];
         case e of
           Inl err \<Rightarrow> ret (ListFailed ''failed to list engines: '' err)
         | Inr es \<Rightarrow> do {
             n \<leftarrow> r_List (nodes c) None [];
             case n of
               Inl err \<Rightarrow> ret (ListFailed ''failed to list nodes: '' err)
             | Inr ns \<Rightarrow> do {
                 p \<leftarrow> listClaims;
                 case p of
                   Inl err \<Rightarrow> ret (ListFailed ''failed to list PVCs: '' err)
                 | Inr claims \<Rightarrow> do {
                     rows \<leftarrow> volumeRows c h (engineCounts [] es) vs;
                     let stats = computeStats f vs es claims ns;
                     ret (if hxRequest = ''true'' then ListBody rows stats else ListPage rows stats)
                   }
               }
           }
       }
   }"

section \<open>Phases and ages\<close>

definition phaseColor :: "string \<Rightarrow> string" where
  "phaseColor s =
     (if s \<in> {''Ready'', ''Running''} then ''green''
      else if s \<in> {''Creating'', ''Pending''} then ''yellow''
      else if s \<in> {''Failed'', ''Error''} then ''red''
      else ''grey'')"

text \<open>A duration in nanoseconds in whole units, rounded towards zero.\<close>

definition whole :: "int \<Rightarrow> int \<Rightarrow> int" where
  "whole d u = (if d < 0 then - (- d div u) else d div u)"

definition ago :: "int \<Rightarrow> int \<Rightarrow> string" where
  "ago now t =
     (let d = time_Sub now t in
      if d < 60 * Second then Itoa (whole d Second) @ ''s''
      else if d < 3600 * Second then Itoa (whole d (60 * Second)) @ ''m''
      else if d < 24 * 3600 * Second then Itoa (whole d (3600 * Second)) @ ''h''
      else Itoa (whole d (24 * 3600 * Second)) @ ''d'')"

section \<open>Routes\<close>

text \<open>
  The multiplexer, given the method and the segments of a clean path. Of the patterns that
  match, the more specific one is taken; a GET pattern also serves HEAD; a path that matches
  under another method only is answered with 405.
\<close>

datatype answer = Listed list_reply | Replied reply | Healthy | MethodNotAllowed | NoRoute

definition replied :: "('w, reply) state \<Rightarrow> ('w, answer) state" where
  "replied m = do { r \<leftarrow> m; ret (Replied r) }"

definition on :: "bool \<Rightarrow> ('w, answer) state \<Rightarrow> ('w, answer) state" where
  "on fits m = (if fits then m else ret MethodNotAllowed)"

definition volumeRoutes ::
  "'w env \<Rightarrow> 'w patcher \<Rightarrow> Handler \<Rightarrow> string \<Rightarrow> form \<Rightarrow> string \<Rightarrow> string list \<Rightarrow> ('w, answer) state" where
  "volumeRoutes c patch h method form name segs =
     (let get = (method = ''GET'' \<or> method = ''HEAD''); post = (method = ''POST'') in
      case segs of
        [] \<Rightarrow>
          if get then replied (if name = ''new'' then ret HandleCreateForm else HandleDetail c h name)
          else on (post \<and> name = ''create'') (replied (HandleCreate c h form))
      | [a] \<Rightarrow>
          if a = ''overview'' then on get (replied (HandleOverview c h name))
          else if a = ''replicas'' then on get (replied (HandleReplicas c h name))
          else if a = ''scale-form'' then on get (replied (HandleScaleForm c h name))
          else if a = ''scale'' then on post (replied (HandleScale patch h name form))
          else if a = ''delete-form'' then on get (replied (ret (HandleDeleteForm name)))
          else if a = ''delete'' then on post (replied (HandleDelete c h name))
          else if a = ''snapshots'' then on get (replied (HandleSnapshots c h name))
          else ret NoRoute
      | [a, b] \<Rightarrow>
          if a = ''snapshots'' \<and> b = ''create'' then on post (replied (HandleSnapshotCreate c h name form))
          else ret NoRoute
      | [a, b, d] \<Rightarrow>
          if a = ''snapshots'' \<and> d = ''create-from''
          then on post (replied (HandleSnapshotCreateFromSnapshot c h name b form))
          else if a = ''snapshots'' \<and> d = ''restore'' then on post (replied (HandleSnapshotRestore c h name b))
          else if a = ''snapshots'' \<and> d = ''delete'' then on post (replied (HandleSnapshotDelete c h b))
          else if a = ''replicas'' \<and> d = ''delete'' then on post (replied (HandleDeleteReplica c patch h name b))
          else ret NoRoute
      | _ \<Rightarrow> ret NoRoute)"

definition NewMux ::
  "'w env \<Rightarrow> 'f floats \<Rightarrow> 'w patcher \<Rightarrow> 'w claims \<Rightarrow> Handler \<Rightarrow> string \<Rightarrow> string \<Rightarrow> form \<Rightarrow> string list \<Rightarrow> ('w, answer) state" where
  "NewMux c f patch listClaims h hxRequest method form segs =
     (let get = (method = ''GET'' \<or> method = ''HEAD'') in
      case segs of
        [] \<Rightarrow> on get (do { r \<leftarrow> HandleList c f listClaims h hxRequest; ret (Listed r) })
      | [a] \<Rightarrow> if a = ''healthz'' then on get (ret Healthy) else ret NoRoute
      | a # name # rest \<Rightarrow> if a = ''volumes'' then volumeRoutes c patch h method form name rest else ret NoRoute)"

section \<open>Lemmas\<close>

text \<open>The replicas of the engines that are on a node, each with its engine.\<close>

definition held :: "Engine list \<Rightarrow> string \<Rightarrow> (Engine \<times> ReplicaAttachment) list" where
  "held es n = filter (\<lambda>(_, ra). ra_NodeID ra = n) (concat (map (\<lambda>e. map (Pair e) (es_Replicas (Spec e))) es))"

lemma map_of_bump:
  "map_of (bump f gi n xs) m =
     (if m = n then Some (case map_of xs n of None \<Rightarrow> (1, fl_Add f (fl_Int f 0) gi) | Some (k, acc) \<Rightarrow> (Suc k, fl_Add f acc gi))
      else map_of xs m)"
  by (induction f gi n xs rule: bump.induct) auto

text \<open>The entry of a node after more replicas, of the sizes \<open>xs\<close>, have been counted on it.\<close>

definition raised :: "'f floats \<Rightarrow> (nat \<times> 'f) option \<Rightarrow> 'f list \<Rightarrow> (nat \<times> 'f) option" where
  "raised f old xs =
     (case old of
        Some (k, acc) \<Rightarrow> Some (k + length xs, fold (\<lambda>x acc. fl_Add f acc x) xs acc)
      | None \<Rightarrow> if xs = [] then None else Some (length xs, sumFloats f xs))"

lemma raised_raised: "raised f (raised f old xs) ys = raised f old (xs @ ys)"
  by (auto simp: raised_def sumFloats_def split: option.split)

lemma map_of_bumps:
  "map_of (fold (\<lambda>rep. bump f gi (ra_NodeID rep)) reps m) n
     = raised f (map_of m n) (map (\<lambda>_. gi) (filter (\<lambda>rep. ra_NodeID rep = n) reps))"
  by (induction reps arbitrary: m) (auto simp: map_of_bump raised_def sumFloats_def split: option.split)

lemma map_of_nodeReplicas:
  "map_of (nodeReplicas f sizes m es) n
     = raised f (map_of m n) (map (\<lambda>(e, _). sizes (es_VolumeRef (Spec e))) (held es n))"
proof (induction es arbitrary: m)
  case Nil
  then show ?case by (simp add: held_def raised_def split: option.split)
next
  case (Cons e es)
  have "map (\<lambda>(e, _). sizes (es_VolumeRef (Spec e))) (held (e # es) n)
      = map (\<lambda>_. sizes (es_VolumeRef (Spec e))) (filter (\<lambda>rep. ra_NodeID rep = n) (es_Replicas (Spec e)))
        @ map (\<lambda>(e, _). sizes (es_VolumeRef (Spec e))) (held es n)"
    by (simp add: held_def filter_map comp_def)
  then show ?case by (simp add: Cons.IH map_of_bumps raised_raised)
qed

lemma names_bump: "distinct (map fst xs) \<Longrightarrow>
    distinct (map fst (bump f gi n xs)) \<and> fst ` set (bump f gi n xs) = insert n (fst ` set xs)"
  by (induction f gi n xs rule: bump.induct) auto

lemma names_bumps: "distinct (map fst m) \<Longrightarrow> distinct (map fst (fold (\<lambda>rep. bump f gi (g rep)) reps m))"
  by (induction reps arbitrary: m) (simp_all add: names_bump)

lemma names_nodeReplicas: "distinct (map fst m) \<Longrightarrow> distinct (map fst (nodeReplicas f sizes m es))"
  by (induction es arbitrary: m) (simp_all add: names_bumps)

text \<open>
  The nodes shown: exactly those that hold a replica, with the number of the replicas on them and
  the sum of the sizes of their volumes.
\<close>

definition nodes_shown :: "'f floats \<Rightarrow> Volume list \<Rightarrow> Engine list \<Rightarrow> nodeStat list \<Rightarrow> bool" where
  "nodes_shown f vs es stats \<longleftrightarrow>
     distinct (map ns_Name stats)
     \<and> (\<forall>st. st \<in> set stats \<longleftrightarrow>
          held es (ns_Name st) \<noteq> [] \<and> ns_ReplicaCount st = length (held es (ns_Name st))
          \<and> ns_SizeGi st = inGi f (sumFloats f (map (\<lambda>(e, _). volumeSize f vs (es_VolumeRef (Spec e))) (held es (ns_Name st)))))"

lemma stats_nodes: "nodes_shown f vs es (sd_Nodes (computeStats f vs es claims ns))"
proof -
  define m where "m = nodeReplicas f (volumeSize f vs) [] es"
  have nodes: "sd_Nodes (computeStats f vs es claims ns)
      = map (\<lambda>(n, k, gi). \<lparr>ns_Name = n, ns_ReplicaCount = k, ns_SizeGi = inGi f gi\<rparr>) m"
    by (simp add: computeStats_def Let_def m_def)
  have names: "distinct (map fst m)" unfolding m_def by (rule names_nodeReplicas) simp
  have "map ns_Name (sd_Nodes (computeStats f vs es claims ns)) = map fst m" by (auto simp: nodes)
  moreover have "st \<in> set (sd_Nodes (computeStats f vs es claims ns)) \<longleftrightarrow>
      (\<exists>gi. (ns_Name st, ns_ReplicaCount st, gi) \<in> set m \<and> ns_SizeGi st = inGi f gi)" for st
    unfolding nodes by (cases st) force
  moreover have "(n, k, gi) \<in> set m \<longleftrightarrow> held es n \<noteq> [] \<and> k = length (held es n)
      \<and> gi = sumFloats f (map (\<lambda>(e, _). volumeSize f vs (es_VolumeRef (Spec e))) (held es n))" for n k gi
    using map_of_eq_Some_iff [OF names, of n "(k, gi)"] map_of_nodeReplicas [of f "volumeSize f vs" "[]" es n]
    by (auto simp: m_def raised_def split: if_splits)
  ultimately show ?thesis
    using names unfolding nodes_shown_def by simp
qed

text \<open>The count of the only engine that names a volume is found.\<close>

lemma engineCounts_other:
  "\<forall>e \<in> set es. es_VolumeRef (Spec e) \<noteq> n \<Longrightarrow> map_of (engineCounts m es) n = map_of m n"
  by (induction es arbitrary: m) auto

lemma engineCounts_only:
  assumes "e \<in> set es" "es_VolumeRef (Spec e) = n" "n \<noteq> []"
    and "\<forall>e' \<in> set es. es_VolumeRef (Spec e') = n \<longrightarrow> e' = e"
  shows "map_of (engineCounts m es) n = Some (length (es_Replicas (Spec e)))"
  using assms(1,4)
proof (induction es arbitrary: m)
  case (Cons x es)
  have only: "\<forall>e' \<in> set es. es_VolumeRef (Spec e') = n \<longrightarrow> e' = e" using Cons.prems(2) by simp
  show ?case
  proof (cases "e \<in> set es")
    case True
    then show ?thesis by (simp add: Cons.IH [OF True only])
  next
    case False
    with Cons.prems(1) only have "x = e" "\<forall>e' \<in> set es. es_VolumeRef (Spec e') \<noteq> n" by auto
    then show ?thesis by (simp add: engineCounts_other assms(2,3))
  qed
qed simp

text \<open>What the page says of the cluster.\<close>

definition of_namespace :: "Handler \<Rightarrow> ('sp, 'st) kobj list \<Rightarrow> (NamespacedName \<rightharpoonup> ('sp, 'st) kobj) \<Rightarrow> bool" where
  "of_namespace h os m \<longleftrightarrow>
     distinct (map key_of os) \<and> set os = {o'. m (key_of o') = Some o' \<and> matches (Some (hd_Namespace h)) [] o'}"

definition rows_shown :: "Engine list \<Rightarrow> volumeRow list \<Rightarrow> bool" where
  "rows_shown es rows \<longleftrightarrow>
     (\<forall>row \<in> set rows. \<forall>e \<in> set es.
        es_VolumeRef (Spec e) = obj_Name (vr_Volume row) \<and> obj_Name (vr_Volume row) \<noteq> [] \<and> es_Replicas (Spec e) \<noteq> []
        \<and> (\<forall>e' \<in> set es. es_VolumeRef (Spec e') = es_VolumeRef (Spec e) \<longrightarrow> e' = e) \<longrightarrow>
        vr_DisplayReplicaCount row = int (length (es_Replicas (Spec e))))"

definition page_correct :: "'f floats \<Rightarrow> Handler \<Rightarrow> cluster \<Rightarrow> volumeRow list \<Rightarrow> statsData \<Rightarrow> bool" where
  "page_correct f h cl rows stats \<longleftrightarrow>
     of_namespace h (map vr_Volume rows) (cl_volumes cl)
     \<and> sd_TotalVolumes stats = length rows
     \<and> sd_ReadyVolumes stats = length (filter (\<lambda>row. vst_Phase (Status (vr_Volume row)) = ''Ready'') rows)
     \<and> sd_TotalSizeGi stats = inGi f (sumFloats f (map (\<lambda>row. parseSizeToGi f (vs_Size (Spec (vr_Volume row)))) rows))
     \<and> (\<exists>ns. distinct (map key_of ns) \<and> set ns = {o'. cl_nodes cl (key_of o') = Some o'} \<and> sd_NodeCount stats = length ns)
     \<and> (\<exists>es. of_namespace h es (cl_engines cl) \<and> rows_shown es rows
            \<and> nodes_shown f (map vr_Volume rows) es (sd_Nodes stats))"

context kube_client
begin

lemma wp_effectiveReplicaCount:
  assumes "\<And>n w'. view w' = view w \<Longrightarrow> Q n w'"
  shows "wp (effectiveReplicaCount c h v) Q w"
  unfolding effectiveReplicaCount_def getVolumeEngine_def wp_bind
  using assms by (auto intro!: eng.wp_Get split: option.split)

lemma wp_volumeRows:
  "wp (volumeRows c h counts vs) (\<lambda>rows w'. view w' = view w \<and> map vr_Volume rows = vs
     \<and> (\<forall>row \<in> set rows. \<forall>n. map_of counts (obj_Name (vr_Volume row)) = Some n \<longrightarrow> 0 < n \<longrightarrow>
          vr_DisplayReplicaCount row = int n)) w"
proof (induction vs arbitrary: w)
  case (Cons v vs)
  show ?case
    unfolding volumeRows.simps wp_bind
  proof (rule wp_effectiveReplicaCount, goal_cases)
    case (1 n w')
    then show ?case by (intro wp_mono [OF Cons.IH]) (auto simp: displayCount_def)
  qed
qed simp

lemma wp_HandleList:
  assumes claims: "\<And>w x w'. run_state listClaims w = (x, w') \<Longrightarrow> view w' = view w"
  shows "wp (HandleList c f listClaims h hx) (\<lambda>r w'. view w' = view w \<and>
    (\<forall>rows stats. r \<in> {ListPage rows stats, ListBody rows stats} \<longrightarrow> page_correct f h (view w) rows stats)) w"
proof -
  have page: "page_correct f h (view w) rows (computeStats f vs es claims ns)"
    if "of_namespace h vs (cl_volumes (view w))" "of_namespace h es (cl_engines (view w))" "map vr_Volume rows = vs"
      and nodes: "distinct (map key_of ns)" "set ns = {o'. cl_nodes (view w) (key_of o') = Some o'}"
      and counts: "\<forall>row \<in> set rows. \<forall>n. map_of (engineCounts [] es) (obj_Name (vr_Volume row)) = Some n \<longrightarrow> 0 < n \<longrightarrow>
          vr_DisplayReplicaCount row = int n" for vs es rows claims ns
  proof -
    have rows: "rows_shown es rows"
      unfolding rows_shown_def using counts engineCounts_only by (metis length_greater_0_conv)
    have sums: "length (filter (\<lambda>v. vst_Phase (Status v) = ''Ready'') vs)
        = length (filter (\<lambda>row. vst_Phase (Status (vr_Volume row)) = ''Ready'') rows)"
      "map (\<lambda>v. parseSizeToGi f (vs_Size (Spec v))) vs = map (\<lambda>row. parseSizeToGi f (vs_Size (Spec (vr_Volume row)))) rows"
      "length vs = length rows"
      using that(3) by (auto simp: filter_map comp_def)
    have "sd_TotalVolumes (computeStats f vs es claims ns) = length vs"
      "sd_ReadyVolumes (computeStats f vs es claims ns) = length (filter (\<lambda>v. vst_Phase (Status v) = ''Ready'') vs)"
      "sd_TotalSizeGi (computeStats f vs es claims ns) = inGi f (sumFloats f (map (\<lambda>v. parseSizeToGi f (vs_Size (Spec v))) vs))"
      "sd_NodeCount (computeStats f vs es claims ns) = length ns"
      by (simp_all add: computeStats_def Let_def)
    then show ?thesis
      unfolding page_correct_def that(3) sums [symmetric]
      using that(1,2) nodes rows stats_nodes [of f vs es claims ns] by blast
  qed
  have listed: "wp listClaims Q w1" if "\<And>x w'. view w' = view w1 \<Longrightarrow> Q x w'" for Q w1
    by (rule wp_of_run) (use claims that in blast)
  show ?thesis
    unfolding HandleList_def Let_def
    by (auto intro!: vol.wp_List eng.wp_List node.wp_List listed wp_mono [OF wp_volumeRows] page
        simp: of_namespace_def matches_def [of None] split: sum.split if_splits)
qed

end

section \<open>Properties\<close>

text \<open>
  C30: the front page shows the namespace as it is. It lists each of its volumes once, and counts
  them, those that are ready, their sizes and the nodes of the cluster. The nodes it shows are
  exactly those on which an engine of the namespace has a replica, each once, with the number of
  replicas on that node and the sum of the sizes of their volumes. The count beside a volume that
  exactly one engine names is that of the engine's replicas, if it has any (in the other cases the
  theorem leaves it open); and showing the page changes nothing.
\<close>

theorem front_page_correct:
  assumes client: "kube_client c view"
    and claims: "\<And>w x w'. run_state listClaims w = (x, w') \<Longrightarrow> view w' = view w"
    and run: "run_state (HandleList c f listClaims h hx) w = (r, w')"
    and page: "r = ListPage rows stats \<or> r = ListBody rows stats"
  shows "view w' = view w \<and> page_correct f h (view w) rows stats"
  using wp_run [OF kube_client.wp_HandleList [OF client claims] run] page by auto

text \<open>
  A volume named \<^verbatim>\<open>new\<close> may be created but not looked at: its name is valid, and the request for
  its page is answered with the form for creating volumes, as for no other name.
\<close>

theorem volume_named_new:
  "namePattern ''new'' \<and> derivedVolumeNamesFit ''new''
   \<and> NewMux c f patch listClaims h hx ''GET'' form [''volumes'', name]
     = replied (if name = ''new'' then ret HandleCreateForm else HandleDetail c h name)"
proof -
  have "namePattern ''new'' \<and> derivedVolumeNamesFit ''new''" by code_simp
  then show ?thesis by (simp add: NewMux_def volumeRoutes_def)
qed

definition listSample :: mem where
  "listSample = sampleMem
     [sampleVolume ''3'' (zero_VolumeStatus\<lparr>vst_Phase := ''Ready''\<rparr>)]
     [sampleEngine [attachment ''vol-replica-0'' ''n1'', attachment ''vol-replica-1'' ''n2'', attachment ''vol-replica-2'' ''n2''] EnginePhaseRunning] [] []"

text \<open>Numbers in tenths stand for the floating-point numbers.\<close>

definition tenths :: "int floats" where
  "tenths =
     \<lparr>fl_Parse = (\<lambda>s. case Atoi s of Inr n \<Rightarrow> 10 * n | Inl _ \<Rightarrow> 0), fl_Int = (\<lambda>n. 10 * n), fl_Add = (+),
      fl_Mul = (\<lambda>a b. a * b div 10), fl_Div = (\<lambda>a b. 10 * a div b), fl_Round = (\<lambda>a. (a + 5) div 10 * 10),
      fl_Format = (\<lambda>a. Itoa (a div 10) @ ''.'' @ Itoa (a mod 10))\<rparr>"

definition sampleClaims :: "mem claims" where
  "sampleClaims = ret (Inr
     [\<lparr>pv_StorageClassName = Some ''kdfs'', pv_Storage = Some 1610612736\<rparr>,
      \<lparr>pv_StorageClassName = None, pv_Storage = Some 1\<rparr>])"

definition listResult :: "list_reply \<times> mem" where
  "listResult = run_state (HandleList (mem_env noHttp) tenths sampleClaims sampleHandler []) listSample"

abbreviation shownNodes :: "statsData \<Rightarrow> (string \<times> nat) list" where
  "shownNodes stats \<equiv> map (\<lambda>n. (ns_Name n, ns_ReplicaCount n)) (sd_Nodes stats)"

theorem front_page_correct_witness:
  "\<exists>rows stats. fst listResult = ListPage rows stats \<and> page_correct tenths sampleHandler (mem_view listSample) rows stats
     \<and> map vr_DisplayReplicaCount rows = [3] \<and> shownNodes stats = [(''n1'', 1), (''n2'', 2)]
     \<and> sd_TotalPVCUsageGi stats = ''1.5 Gi''"
proof -
  have shown: "(case fst listResult of ListPage rows stats \<Rightarrow>
      map vr_DisplayReplicaCount rows = [3] \<and> shownNodes stats = [(''n1'', 1), (''n2'', 2)]
     \<and> sd_TotalPVCUsageGi stats = ''1.5 Gi'' | _ \<Rightarrow> False)"
    by code_simp
  then obtain rows stats where page: "fst listResult = ListPage rows stats" by (cases "fst listResult") auto
  then have run: "run_state (HandleList (mem_env noHttp) tenths sampleClaims sampleHandler []) listSample
      = (ListPage rows stats, snd listResult)"
    by (simp add: listResult_def prod_eq_iff)
  have "page_correct tenths sampleHandler (mem_view listSample) rows stats"
    using front_page_correct [where view = mem_view, OF kube_client_mem _ run] by (simp add: sampleClaims_def State_Monad.return_def)
  with shown page show ?thesis by auto
qed

end
