(* ===== verification/Logging.thy ===== *)
theory Logging
  imports Json
begin

text \<open>
  The logging of the programs, \<^verbatim>\<open>src/internal/logging/logging.go\<close> and \<^verbatim>\<open>logr.go\<close>: the format, and
  the sink that hands the messages of the controllers to the logger. An event of the logger is
  the list of its fields; the logger itself, which writes them, is not part of the source.
\<close>

section \<open>Loggers\<close>

definition normalizeFormat :: "string \<Rightarrow> string" where
  "normalizeFormat format = (if map lower (TrimSpace format) = ''json'' then ''json'' else ''pretty'')"

text \<open>A value that is logged: a string or anything else.\<close>

datatype 'v any = AString string | AOther 'v

record 'v logger =
  lg_Pretty :: bool
  lg_Fields :: "(string \<times> 'v any) list"

definition newLogger :: "string \<Rightarrow> string \<Rightarrow> 'v logger" where
  "newLogger component format =
     \<lparr>lg_Pretty = (normalizeFormat format = ''pretty''),
      lg_Fields = (if component \<noteq> [] then [(''component'', AString component)] else [])\<rparr>"

definition Root :: "string \<Rightarrow> 'v logger" where
  "Root envLogFormat = newLogger [] envLogFormat"

definition Component :: "string \<Rightarrow> string \<Rightarrow> 'v logger" where
  "Component envLogFormat name = newLogger name envLogFormat"

section \<open>The sink\<close>

record 'v sink =
  sk_logger :: "'v logger"
  sk_names :: "string list"
  sk_values :: "'v any list"

definition ControllerRuntime :: "string \<Rightarrow> string \<Rightarrow> 'v sink" where
  "ControllerRuntime envLogFormat component =
     \<lparr>sk_logger = Component envLogFormat component, sk_names = [], sk_values = []\<rparr>"

definition WithValues :: "'v sink \<Rightarrow> 'v any list \<Rightarrow> 'v sink" where
  "WithValues s keysAndValues = s\<lparr>sk_values := sk_values s @ keysAndValues\<rparr>"

definition WithName :: "'v sink \<Rightarrow> string \<Rightarrow> 'v sink" where
  "WithName s name = s\<lparr>sk_names := sk_names s @ [name]\<rparr>"

fun logKey :: "nat \<Rightarrow> 'v any \<Rightarrow> string" where
  "logKey i (AString key) = key"
| "logKey i (AOther v) = ''non_string_key_'' @ show_nat i"

fun logPairs :: "nat \<Rightarrow> 'v any list \<Rightarrow> (string \<times> 'v any) list" where
  "logPairs i (k # v # kvs) = (logKey i k, v) # logPairs (Suc i) kvs"
| "logPairs i _ = []"

definition log_apply :: "'v sink \<Rightarrow> (string \<times> 'v any) list \<Rightarrow> 'v any list \<Rightarrow> (string \<times> 'v any) list" where
  "log_apply s event keysAndValues =
     (let all = sk_values s @ keysAndValues;
          all = (if odd (length all) then all @ [AString ''<missing>''] else all)
      in event @ (if sk_names s \<noteq> [] then [(''logger'', AString (Join (sk_names s) ''/''))] else []) @ logPairs 0 all)"

definition log_Info :: "'v sink \<Rightarrow> string \<Rightarrow> 'v any list \<Rightarrow> (string \<times> 'v any) list" where
  "log_Info s msg keysAndValues =
     log_apply s ((''level'', AString ''info'') # lg_Fields (sk_logger s)) keysAndValues @ [(''message'', AString msg)]"

definition log_Error :: "'v sink \<Rightarrow> 'v any \<Rightarrow> string \<Rightarrow> 'v any list \<Rightarrow> (string \<times> 'v any) list" where
  "log_Error s err msg keysAndValues =
     log_apply s ((''level'', AString ''error'') # lg_Fields (sk_logger s) @ [(''error'', err)]) keysAndValues
       @ [(''message'', AString msg)]"

section \<open>Lemmas\<close>

text \<open>Nothing that is logged is lost: values follow their keys, and a last key without a value is padded.\<close>

lemma logPairs_values: "even (length kvs) \<Longrightarrow> map snd (logPairs i kvs) = map (\<lambda>n. kvs ! (2 * n + 1)) [0..<length kvs div 2]"
proof (induction i kvs rule: logPairs.induct)
  case (1 i k v kvs)
  then show ?case by (simp add: upt_conv_Cons map_Suc_upt [symmetric] del: upt_Suc)
qed simp_all

theorem nothing_lost:
  "length (log_apply s event kvs)
     = length event + (if sk_names s = [] then 0 else 1) + (length (sk_values s @ kvs) + 1) div 2"
proof -
  have pairs: "length (logPairs i xs) = length xs div 2" for i and xs :: "'v any list"
    by (induction i xs rule: logPairs.induct) simp_all
  show ?thesis by (simp add: log_apply_def Let_def pairs)
qed

end
