(* ===== verification/Programs.thy ===== *)
theory Programs
  imports Pod_Start CSI_Identity Dashboard_List Logging "HOL-Library.Word"
begin

text \<open>
  The programs around the services: the NFS server beside an engine
  (\<^verbatim>\<open>src/cmd/nfs-sidecar/main.go\<close>, \<^verbatim>\<open>src/internal/sidecar/nfs.go\<close>), the CSI plugin
  (\<^verbatim>\<open>src/cmd/csi-plugin/main.go\<close>) and the dashboard (\<^verbatim>\<open>src/cmd/dashboard/main.go\<close>). What they
  are given by libraries, the NFS, gRPC and HTTP servers and the client of the cluster, is a
  parameter; listening on an address may fail with a text.
\<close>

type_synonym 'w listen = "string \<Rightarrow> string \<Rightarrow> ('w, string option) state"

section \<open>The NFS server\<close>

text \<open>The answer of \<^verbatim>\<open>statfs\<close>, and what an NFS client is told, in 64-bit words.\<close>

record Statfs_t =
  sf_Blocks :: "64 word"
  sf_Bsize :: "64 word"
  sf_Bfree :: "64 word"
  sf_Bavail :: "64 word"
  sf_Files :: "64 word"
  sf_Ffree :: "64 word"

record FSStat =
  st_TotalSize :: "64 word"
  st_FreeSize :: "64 word"
  st_AvailableSize :: "64 word"
  st_TotalFiles :: "64 word"
  st_FreeFiles :: "64 word"
  st_AvailableFiles :: "64 word"

definition statFSHandler_FSStat ::
  "(string \<Rightarrow> ('w, os_error + Statfs_t) state) \<Rightarrow> string \<Rightarrow> FSStat \<Rightarrow> ('w, FSStat) state" where
  "statFSHandler_FSStat statfs exportPath s = do {
     r \<leftarrow> statfs exportPath;
     ret (case r of
            Inl _ \<Rightarrow> s
          | Inr stat \<Rightarrow>
              s\<lparr>st_TotalSize := sf_Blocks stat * sf_Bsize stat,
                st_FreeSize := sf_Bfree stat * sf_Bsize stat,
                st_AvailableSize := sf_Bavail stat * sf_Bsize stat,
                st_TotalFiles := sf_Files stat,
                st_FreeFiles := sf_Ffree stat,
                st_AvailableFiles := sf_Ffree stat\<rparr>)
   }"

text \<open>
  The libraries: a file system of a directory, the handlers made of it, and the server, which is
  given the handler and the operation that replaces its \<^verbatim>\<open>FSStat\<close>.
\<close>

record ('w, 'fs, 'h) nfs_lib =
  nl_FromOS :: "string \<Rightarrow> 'fs"
  nl_NewNullAuthHandler :: "'fs \<Rightarrow> 'h"
  nl_NewCachingHandler :: "'h \<Rightarrow> nat \<Rightarrow> 'h"
  nl_Serve :: "'h \<Rightarrow> (FSStat \<Rightarrow> ('w, FSStat) state) \<Rightarrow> ('w, string option) state"
  nl_Statfs :: "string \<Rightarrow> ('w, os_error + Statfs_t) state"

datatype nfs_exit = ExportNotSet | NFSExited "string option"

definition ServeNFS :: "('w, 'fs, 'h) nfs_lib \<Rightarrow> 'w listen \<Rightarrow> string \<Rightarrow> string \<Rightarrow> ('w, string option) state" where
  "ServeNFS lib listen exportPath listenAddr = do {
     e \<leftarrow> listen ''tcp'' listenAddr;
     case e of
       Some err \<Rightarrow> ret (Some (''listen: '' @ err))
     | None \<Rightarrow>
         nl_Serve lib (nl_NewCachingHandler lib (nl_NewNullAuthHandler lib (nl_FromOS lib exportPath)) 1024)
           (statFSHandler_FSStat (nl_Statfs lib) exportPath)
   }"

definition nfsMain :: "('w, 'fs, 'h) nfs_lib \<Rightarrow> 'w listen \<Rightarrow> env_vars \<Rightarrow> ('w, nfs_exit) state" where
  "nfsMain lib listen env =
     (let addr = (if env ''KDFS_NFS_BIND'' = [] then '':2049'' else env ''KDFS_NFS_BIND'');
          exportPath = env ''KDFS_NFS_EXPORT'' in
      if exportPath = [] then ret ExportNotSet
      else do { e \<leftarrow> ServeNFS lib listen exportPath addr; ret (NFSExited e) })"

section \<open>The CSI plugin\<close>

datatype csi_exit = EndpointPanic | NoClient error | NotListening string | CSIExited "string option"

definition csiMain ::
  "'w os \<Rightarrow> ('w, error + 'cfg) state \<Rightarrow> 'cfg \<Rightarrow> ('cfg \<Rightarrow> ('w, error + 'w env) state) \<Rightarrow> 'w listen
   \<Rightarrow> ('w env \<Rightarrow> Driver \<Rightarrow> ('w, string option) state) \<Rightarrow> string \<Rightarrow> string \<Rightarrow> ('w, csi_exit) state" where
  "csiMain os InClusterConfig emptyConfig newClient listen serve endpoint nodeID =
     (case parseEndpoint endpoint of
        None \<Rightarrow> ret EndpointPanic
      | Some (proto, addr) \<Rightarrow> do {
          g \<leftarrow> InClusterConfig;
          k \<leftarrow> newClient (case g of Inl _ \<Rightarrow> emptyConfig | Inr config \<Rightarrow> config);
          case k of
            Inl err \<Rightarrow> ret (NoClient err)
          | Inr k8sClient \<Rightarrow> do {
              _ \<leftarrow> (if proto = ''unix'' then os_Remove os addr else ret None);
              l \<leftarrow> listen proto addr;
              case l of
                Some err \<Rightarrow> ret (NotListening err)
              | None \<Rightarrow> do {
                  e \<leftarrow> serve k8sClient \<lparr>dr_Namespace = ''kdfs'', dr_NodeID = nodeID\<rparr>;
                  ret (CSIExited e)
                }
            }
        })"

section \<open>The dashboard\<close>

datatype dash_exit = NoConfig error | NoDashClient error | DashExited string

text \<open>The server is given the address and the handler of requests.\<close>

definition dashMain ::
  "('w, error + 'cfg) state \<Rightarrow> ('cfg \<Rightarrow> ('w, error + 'w env) state)
   \<Rightarrow> (string \<Rightarrow> (string \<Rightarrow> string \<Rightarrow> form \<Rightarrow> string list \<Rightarrow> ('w, answer) state) \<Rightarrow> ('w, string) state)
   \<Rightarrow> ('w env \<Rightarrow> 'w patcher) \<Rightarrow> ('w env \<Rightarrow> 'w claims) \<Rightarrow> 'f floats \<Rightarrow> env_vars \<Rightarrow> ('w, dash_exit) state" where
  "dashMain InClusterConfig newClient listenAndServe patchOf claimsOf f env =
     (let namespace = (if env ''KDFS_NAMESPACE'' = [] then ''kdfs'' else env ''KDFS_NAMESPACE'') in do {
       g \<leftarrow> InClusterConfig;
       case g of
         Inl err \<Rightarrow> ret (NoConfig err)
       | Inr cfg \<Rightarrow> do {
           k \<leftarrow> newClient cfg;
           case k of
             Inl err \<Rightarrow> ret (NoDashClient err)
           | Inr cl \<Rightarrow> do {
               e \<leftarrow> listenAndServe '':8080'' (NewMux cl f (patchOf cl) (claimsOf cl) \<lparr>hd_Namespace = namespace\<rparr>);
               ret (DashExited e)
             }
         }
     })"

section \<open>Lemmas\<close>

text \<open>
  The sizes an NFS client is told are the bytes, when they fit 64 bits, and then what is
  available is not more than what is free, nor that than the total.
\<close>

lemma word_times_le:
  fixes a b c :: "64 word"
  assumes "unat b * unat c < 2 ^ 64" "a \<le> b"
  shows "unat (a * c) = unat a * unat c \<and> a * c \<le> b * c"
proof -
  have le: "unat a * unat c \<le> unat b * unat c" using assms(2) by (simp add: word_le_nat_alt)
  then have "unat a * unat c < 2 ^ 64" using assms(1) by (rule le_less_trans)
  then have "unat (a * c) = unat a * unat c" "unat (b * c) = unat b * unat c"
    using assms(1) by (simp_all add: unat_word_ariths)
  with le show ?thesis by (simp only: word_le_nat_alt)
qed

theorem fsstat_sizes:
  assumes "run_state (statfs path) w = (Inr stat, w1)"
    and "run_state (statFSHandler_FSStat statfs path s) w = (s', w')"
    and "unat (sf_Blocks stat) * unat (sf_Bsize stat) < 2 ^ 64"
    and "sf_Bavail stat \<le> sf_Bfree stat" "sf_Bfree stat \<le> sf_Blocks stat"
  shows "unat (st_TotalSize s') = unat (sf_Blocks stat) * unat (sf_Bsize stat)
    \<and> unat (st_AvailableSize s') = unat (sf_Bavail stat) * unat (sf_Bsize stat)
    \<and> st_AvailableSize s' \<le> st_FreeSize s' \<and> st_FreeSize s' \<le> st_TotalSize s'"
proof -
  have s': "st_TotalSize s' = sf_Blocks stat * sf_Bsize stat" "st_FreeSize s' = sf_Bfree stat * sf_Bsize stat"
    "st_AvailableSize s' = sf_Bavail stat * sf_Bsize stat"
    using assms(1,2) by (auto simp: statFSHandler_FSStat_def State_Monad.bind_def State_Monad.return_def)
  have free: "unat (sf_Bfree stat) * unat (sf_Bsize stat) < 2 ^ 64"
    using assms(3,5) by (meson le_less_trans mult_le_mono1 word_le_nat_alt)
  show ?thesis
    unfolding s' using word_times_le [OF assms(3) assms(5)] word_times_le [OF free assms(4)]
      word_times_le [OF assms(3) order_refl] by auto
qed

text \<open>
  The NFS server of an engine's pod exports, on the port the nodes mount, the directory that
  holds the image of the engine's local replica: not the volume, and the image can be written
  through the export.
\<close>

theorem nfs_exports_image_directory:
  assumes pod: "co \<in> set (ps_Containers (Spec (EnginePodFor nqnEnv images engine hosts)))" "co_Name co = ''nfs''"
    and nfs: "gives_env env (co_Env co)"
    and sidecar: "gives_env env' (sidecar_env (EnginePodFor nqnEnv images engine hosts))"
    and config: "engineConfig env' r = Some config"
  shows "\<exists>dir. nfsMain lib listen env = do { e \<leftarrow> ServeNFS lib listen dir '':2049''; ret (NFSExited e) }
    \<and> ec_LocalPath config = dir @ ''/vol.img''"
proof -
  have co: "co_Env co = [EnvValue ''KDFS_NFS_EXPORT'' (''/data/'' @ es_VolumeRef (Spec engine)), EnvValue ''KDFS_NFS_BIND'' '':2049'']"
    using pod by (auto simp: EnginePodFor_def spdkPod_def Let_def)
  have "env ''KDFS_NFS_EXPORT'' = ''/data/'' @ es_VolumeRef (Spec engine)" "env ''KDFS_NFS_BIND'' = '':2049''"
    by (rule gives_value [OF nfs], simp add: co)+
  moreover have "ec_LocalPath config = ''/data/'' @ es_VolumeRef (Spec engine) @ ''/vol.img''"
    using config engine_env_read(2) [OF sidecar] by (auto simp: engineConfig_def engineConfigFor_def)
  ultimately show ?thesis by (auto simp: nfsMain_def)
qed

text \<open>Where there is no network without a name, the CSI plugin serves sockets of Unix only.\<close>

theorem csi_serves_unix_only:
  assumes listen: "\<And>addr w. \<exists>e w'. run_state (listen [] addr) w = (Some e, w')"
    and run: "run_state (csiMain os cfg emptyConfig newClient listen serve endpoint nodeID) w = (CSIExited e, w')"
  shows "take 7 endpoint = ''unix://''"
proof (rule ccontr)
  assume other: "take 7 endpoint \<noteq> ''unix://''"
  have "parseEndpoint endpoint = None \<or> parseEndpoint endpoint = Some ([], [])"
    using other by (auto simp: parseEndpoint_def dest: arg_cong [of _ _ length])
  moreover have "wp (listen [] []) (\<lambda>l _. l \<noteq> None) w1" for w1
    using listen [of "[]" w1] by (auto simp: wp_def)
  note unnamed = this
  ultimately have "wp (csiMain os cfg emptyConfig newClient listen serve endpoint nodeID) (\<lambda>x _. \<forall>e. x \<noteq> CSIExited e) w"
    unfolding csiMain_def
    by (auto split: sum.split intro!: wp_any [where m = cfg] wp_any [where m = "newClient _"]
        wp_mono [OF unnamed])
  then show False using run by (auto dest: wp_run)
qed

end
