(* ===== verification/Startup.thy ===== *)
theory Startup
  imports Work_Queue Programs
begin

text \<open>
  How the controller manager (\<^verbatim>\<open>src/cmd/controller-manager/main.go\<close>) and the node agent
  (\<^verbatim>\<open>src/cmd/node-agent/main.go\<close>) start, and the stand-ins for tests and for other operating
  systems. What the manager's library does is a parameter; a program that ends with a fatal
  error ends with that error.
\<close>

section \<open>The controller manager\<close>

type_synonym 'w reconcile = "NamespacedName \<Rightarrow> ('w, ctrl_Result \<times> error option) state"

record 'w manager_lib =
  ml_GetConfig :: "('w, error option) state"
  ml_NewManager :: "('w, error + 'w env) state"
  ml_NewClient :: "('w, error + ('w, smap option, unit) resource) state"
  ml_Complete :: "registration \<Rightarrow> 'w reconcile \<Rightarrow> ('w, error option) state"
  ml_AddCheck :: "string \<Rightarrow> ('w, error option) state"
  ml_Start :: "('w, error option) state"

text \<open>Steps of which each must succeed.\<close>

fun musts :: "('w, 'e option) state list \<Rightarrow> ('w, 'e option) state" where
  "musts [] = ret None"
| "musts (m # ms) = do {
     e \<leftarrow> m;
     case e of Some err \<Rightarrow> ret (Some err) | None \<Rightarrow> musts ms
   }"

definition reconcilers ::
  "'w env \<Rightarrow> string \<Rightarrow> string \<Rightarrow> Images \<Rightarrow> (string \<Rightarrow> string) \<Rightarrow> (registration \<times> 'w reconcile) list" where
  "reconcilers c namespace nqnEnv images digest =
     [(VolumeReconciler_Setup, VolumeReconciler_Reconcile c),
      (ReplicaReconciler_Setup, ReplicaReconciler_Reconcile c None (Some (replicaAgentFactory c namespace)) None images),
      (EngineReconciler_Setup, EngineReconciler_Reconcile c None nqnEnv images digest),
      (SnapshotReconciler_Setup, SnapshotReconciler_Reconcile c (replicaAgentFactory c namespace) None)]"

definition currentNamespace :: "'w os \<Rightarrow> env_vars \<Rightarrow> ('w, string) state" where
  "currentNamespace os env =
     (if TrimSpace (env ''POD_NAMESPACE'') \<noteq> [] then ret (TrimSpace (env ''POD_NAMESPACE''))
      else do {
        data \<leftarrow> os_ReadFile os ''/var/run/secrets/kubernetes.io/serviceaccount/namespace'';
        ret (runtimeNamespace (env ''POD_NAMESPACE'') data)
      })"

definition managerMain ::
  "'w manager_lib \<Rightarrow> 'w os \<Rightarrow> env_vars \<Rightarrow> (string \<Rightarrow> string) \<Rightarrow> ('w, error option) state" where
  "managerMain lib os env digest = do {
     let images = configureControllerPodImages (env ''KDFS_SPDK_IMAGE'') (env ''KDFS_SIDECAR_IMAGE'')
                    (env ''KDFS_NFS_SIDECAR_IMAGE'') PodImages;
     cfg \<leftarrow> ml_GetConfig lib;
     case cfg of
       Some err \<Rightarrow> ret (Some err)
     | None \<Rightarrow> do {
         mgr \<leftarrow> ml_NewManager lib;
         case mgr of
           Inl err \<Rightarrow> ret (Some err)
         | Inr c \<Rightarrow> do {
             namespace \<leftarrow> currentNamespace os env;
             boot \<leftarrow> ml_NewClient lib;
             case boot of
               Inl err \<Rightarrow> ret (Some err)
             | Inr cms \<Rightarrow>
                 musts (ensureNQNConfig cms namespace
                   # map (\<lambda>(g, f). ml_Complete lib g f) (reconcilers c namespace (env ''NQN_AUTHORITY'') images digest)
                   @ [ml_AddCheck lib ''healthz'', ml_AddCheck lib ''readyz'', ml_Start lib])
           }
       }
   }"

section \<open>The node agent\<close>

definition agentMain ::
  "(string + ('w, 'e) replicaServer)
   \<Rightarrow> (string \<Rightarrow> (string \<Rightarrow> http_request \<Rightarrow> ('w, http_response) state) \<Rightarrow> ('w, string option) state)
   \<Rightarrow> env_vars \<Rightarrow> ('w, string option) state" where
  "agentMain newServer listenAndServe env =
     (let addr = (if env ''KDFS_NODE_AGENT_ADDR'' = [] then '':9808'' else env ''KDFS_NODE_AGENT_ADDR'') in
      case newServer of
        Inl err \<Rightarrow> ret (Some err)
      | Inr server \<Rightarrow> do {
          e \<leftarrow> listenAndServe addr (agentHandler server);
          ret (if e = Some ''http: Server closed'' then None else e)
        })"

section \<open>Stand-ins\<close>

text \<open>On systems other than Linux.\<close>

definition stub_newReplicaServer :: "string + ('w, 'e) replicaServer" where
  "stub_newReplicaServer = Inl ''node-agent is only supported on Linux''"

definition stubSnapshotter :: "string \<Rightarrow> 'w snapshotter" where
  "stubSnapshotter volumeName snapshotID =
     ret (Inl (SnapshotFailed ''reflink snapshots not supported on this platform''))"

text \<open>The agent that tests use: it records the requests and fails when it is told to.\<close>

record FakeAgent =
  fk_Created :: "CreateReplicaRequest list"
  fk_Deleted :: "DeleteSnapshotRequest list"
  fk_Err :: "error option"

definition fake_CreateReplica :: "CreateReplicaRequest \<Rightarrow> (FakeAgent, error + CreateReplicaResponse) state" where
  "fake_CreateReplica req = State_Monad.State (\<lambda>f.
     let f = f\<lparr>fk_Created := fk_Created f @ [req]\<rparr> in
     (case fk_Err f of
        Some err \<Rightarrow> Inl err
      | None \<Rightarrow> Inr \<lparr>crs_DevicePath = ''/dev/loop0'', crs_State = ReplicaStateReady\<rparr>, f))"

definition fake_DeleteReplica :: "DeleteReplicaRequest \<Rightarrow> (FakeAgent, error option) state" where
  "fake_DeleteReplica req = State_Monad.State (\<lambda>f. (fk_Err f, f))"

definition fake_GetReplica :: "GetReplicaRequest \<Rightarrow> (FakeAgent, error + GetReplicaResponse) state" where
  "fake_GetReplica req = State_Monad.State (\<lambda>f.
     (case fk_Err f of Some err \<Rightarrow> Inl err | None \<Rightarrow> Inr \<lparr>grs_State = ReplicaStateReady, grs_Size = ''10Gi''\<rparr>, f))"

definition fake_DeleteSnapshot :: "DeleteSnapshotRequest \<Rightarrow> (FakeAgent, error option) state" where
  "fake_DeleteSnapshot req = State_Monad.State (\<lambda>f. (fk_Err f, f\<lparr>fk_Deleted := fk_Deleted f @ [req]\<rparr>))"

definition fakeAgent :: "FakeAgent agent_client" where
  "fakeAgent =
     \<lparr>ac_CreateReplica = fake_CreateReplica, ac_DeleteReplica = fake_DeleteReplica,
      ac_GetReplica = fake_GetReplica, ac_DeleteSnapshot = fake_DeleteSnapshot\<rparr>"

text \<open>It is an agent as the controllers expect one.\<close>

interpretation fake_agent: agent_frame fakeAgent "\<lambda>_. cl" for cl
  by unfold_locales simp_all

section \<open>Lemmas\<close>

text \<open>The reconcilers the manager runs are those of the system, set up with their registrations.\<close>

lemma reconcilers_registrations: "map fst (reconcilers c namespace nqnEnv images digest) = registrations"
  by (simp add: reconcilers_def registrations_def)

lemma manager_runs_system:
  assumes "rs = reconcilers (dp_Client d) (dp_Namespace d) (dp_Authority d) (dp_Images d) (dp_Digest d)"
  shows "perform d (ReconcileVolume k) = world_after (snd (rs ! 0) k)"
    "perform d (ReconcileReplica k) = world_after (snd (rs ! 1) k)"
    "perform d (ReconcileEngine k) = world_after (snd (rs ! 2) k)"
    "perform d (ReconcileSnapshot k) = world_after (snd (rs ! 3) k)"
  by (simp_all add: assms reconcilers_def)

end
