(* ===== verification/Spec2Isabelle.thy ===== *)
theory Spec2Isabelle
  imports Interleaving Loop_Device Startup
begin

text \<open>
  KDFS: a storage system for Kubernetes whose volumes are XFS file systems on NVMe-oF devices.
  An \<^emph>\<open>engine\<close> on one node mirrors the \<^emph>\<open>replicas\<close> of a volume, which are files on several nodes,
  with SPDK. This is a model of its Go code at one commit, with the theorems that make it correct
  and those that show where it is not. Every operation is a HOL definition under the name it has
  in Go where that is free; the data are records and datatypes with the fields of the source
  (prefixed by the type), and the text over each definition says what it leaves out.

  \<^bold>\<open>How the parts interact.\<close> Users and the CSI controller service create volumes and snapshots in
  the Kubernetes API server. Four reconcilers of the controller manager read and write that server
  and nothing else that lasts: the volume reconciler creates an engine and its replicas, scales
  and heals them and records the volume as ready; the replica reconciler has the node's agent
  create the backing file and creates the pod that exports it; the engine reconciler creates the
  pod of the mirror once all replicas run and tells its sidecar when the attachments change; the
  snapshot reconciler has the sidecar of the engine copy the image. Sidecars configure SPDK by
  RPC. The CSI node service connects to the engine and mounts its device. The dashboard edits
  the same objects. The programs share state through the API server, files and HTTP only.

  \<^bold>\<open>Ground.\<close>
  \<^item> \<^theory_text>\<open>KDFS_Prelude\<close>: collections of facts (\<open>wp_rules\<close>, \<open>keeps_intros\<close>, \<open>names_simps\<close>, \<open>go_simps\<close>), the reading of a
    call that may fail as \<open>error + value\<close>, and \<open>wp\<close>, the weakest precondition of a computation in
    the state monad, from which every proof about stateful code starts.
  \<^item> \<^theory_text>\<open>Go_Strings\<close>, \<^theory_text>\<open>Go_Net\<close>, \<^theory_text>\<open>Go_OS\<close>, \<^theory_text>\<open>Json\<close>, \<^theory_text>\<open>Json_Parser\<close>: what is used of Go's library.
    \<open>Json\<close> has the locale \<open>json_codec\<close> (what one side encodes the other decodes, interpreted on
    every message), \<open>Go_OS\<close> the locale \<open>os_files\<close> and \<^verbatim>\<open>src/internal/reflink\<close>.
  \<^item> \<^theory_text>\<open>Names\<close> (\<^verbatim>\<open>src/internal/names\<close>, locale \<open>indexed_names\<close>: names of distinct indices differ),
    \<^theory_text>\<open>Conditions\<close> (\<^verbatim>\<open>src/internal/status\<close>, locale \<open>keyed_list\<close>: lookup after update),
    \<^theory_text>\<open>Api_Types\<close> (\<^verbatim>\<open>src/api/v1alpha1\<close>), \<^theory_text>\<open>Network_Policy\<close> (\<^verbatim>\<open>src/internal/network\<close>),
    \<^theory_text>\<open>Logging\<close> (\<^verbatim>\<open>src/internal/logging\<close>).
  \<^item> \<^theory_text>\<open>Kube_Client\<close>: the API server is a parameter, a record of calls over a world of any type.
    The locale \<open>kube_resource\<close> states what one call does to the objects of one kind, through a
    view of the world as a \<open>cluster\<close> of finite maps: a call may always fail; a failed write
    changes nothing; a write of the status changes nothing else; an object with finalizers is
    only marked as deleted. \<open>kube_client\<close> joins the kinds. Both are interpreted on a server in
    memory, on which the witnesses are evaluated (\<^theory_text>\<open>Sample_Cluster\<close>).

  \<^bold>\<open>Controllers\<close> (\<^verbatim>\<open>src/internal/controller\<close>). The lemmas about them are proved in
  \<open>context kube_client\<close>, for any client.
  \<^item> \<^theory_text>\<open>Volume_Nodes\<close>, \<^theory_text>\<open>Volume_Scale\<close>, \<^theory_text>\<open>Volume_Heal\<close>, \<^theory_text>\<open>Volume_Reconcile\<close>: choice of nodes, the two
    directions of scaling, the healing pass (refined to the step relation \<open>heal_step\<close>), and the
    whole reconciliation; a volume becomes ready only when its engine and replicas run, and does
    when they do.
  \<^item> \<^theory_text>\<open>Engine_Reconcile\<close>, \<^theory_text>\<open>Replica_Reconcile\<close>, \<^theory_text>\<open>Snapshot_Reconcile\<close>: safety of the phases, refinement
    of abstract step relations, progress, and a measure that every change of a snapshot lowers.
  \<^item> \<^theory_text>\<open>Pod_Templates\<close>, \<^theory_text>\<open>Sidecar_Status\<close>: the pods, and the checks of what a sidecar answers.

  \<^bold>\<open>Data path.\<close>
  \<^item> \<^theory_text>\<open>Spdk_Client\<close> (\<^verbatim>\<open>src/internal/spdk\<close>), \<^theory_text>\<open>Sidecar_Engine\<close>, \<^theory_text>\<open>Sidecar_Protocol\<close>
    (\<^verbatim>\<open>src/internal/sidecar\<close>), \<^theory_text>\<open>Sidecar_Main\<close> (\<^verbatim>\<open>src/cmd/sidecar\<close>): RPCs with the errors that are
    tolerated, the exact sequence of calls of a configuration, the HTTP handlers, snapshots as
    copies of files.
  \<^item> \<^theory_text>\<open>Agent_Client\<close>, \<^theory_text>\<open>Agent_Server\<close>, \<^theory_text>\<open>Loop_Device\<close> (\<^verbatim>\<open>src/internal/agent\<close>, \<^verbatim>\<open>src/cmd/node-agent\<close>),
    \<^theory_text>\<open>Xfs\<close> (\<^verbatim>\<open>src/internal/xfs\<close>): the agent of a node. The controllers rely on the locale
    \<open>agent_frame\<close>, which the HTTP client \<open>http_agent\<close> satisfies by a sublocale; the server is proved
    in \<open>agent_host\<close>, and the system calls for loop devices are the locale \<open>loop_kernel\<close>.
  \<^item> \<^theory_text>\<open>CSI_Controller\<close>, \<^theory_text>\<open>CSI_Identity\<close>, \<^theory_text>\<open>CSI_Node\<close> (\<^verbatim>\<open>src/internal/csi\<close>): the three CSI services.
    \<open>quiet_machine\<close> is a node on which only \<open>exec\<close> runs programs, \<open>node_mounts\<close> one whose mount
    table is seen.
  \<^item> \<^theory_text>\<open>Dashboard\<close>, \<^theory_text>\<open>Dashboard_List\<close> (\<^verbatim>\<open>src/internal/dashboard\<close>): every handler and the routes. The
    locale \<open>dash_client\<close> extends \<open>kube_client\<close> by the merge patch.
  \<^item> \<^theory_text>\<open>Manager\<close> (the config map of \<^verbatim>\<open>src/cmd/controller-manager\<close>, locale \<open>config_maps\<close>),
    \<^theory_text>\<open>Programs\<close> (\<^verbatim>\<open>src/cmd/nfs-sidecar\<close>, \<^verbatim>\<open>src/cmd/csi-plugin\<close>, \<^verbatim>\<open>src/cmd/dashboard\<close>), \<^theory_text>\<open>Startup\<close> (how
    \<^verbatim>\<open>src/cmd/controller-manager\<close> and \<^verbatim>\<open>src/cmd/node-agent\<close> start, and the stand-ins for tests and for
    other operating systems): the programs.

  \<^bold>\<open>Composition.\<close> \<^theory_text>\<open>Pod_Start\<close> puts the writers and the readers of a pod's environment and of the
  config map together.
  \<^item> \<^theory_text>\<open>Shared_Client\<close>: what a program needs of a server on which it is not alone, as the locales
    \<open>shared_kind\<close> and \<open>shared_client\<close>, and that every reconciler, CSI call and dashboard request
    keeps the statuses of engines, replicas and snapshots sound on these terms. A program that is
    alone with the server is the special case, a sublocale of \<open>dash_client\<close>.
  \<^item> \<^theory_text>\<open>System\<close>: the programs and an outside world that leaves those statuses alone, one operation
    after the other in any order (\<open>sys_step\<close>, \<open>reachable\<close>), with an invariant of all reachable
    states; by it, whatever a running engine recorded can be published (\<open>sys_ok_publishes\<close>).
  \<^item> \<^theory_text>\<open>Interleaving\<close>: an operation whose calls alternate with what the others do (\<open>raced\<close>), and every
    state the server goes through meanwhile. The assumption about the others and the guarantee of
    the operation are the same, so operations that interleave satisfy each other's; the client
    that is raced is an instance of \<open>shared_client\<close> (locale \<open>raced_client\<close>).
  \<^item> \<^theory_text>\<open>Work_Queue\<close>: how the reconcilers register with the manager, and which of them a change of an
    object wakes; the library's part is the locale \<open>manager\<close>, interpreted on what is documented.

  \<^bold>\<open>Bounds.\<close> Loops that the code bounds have its bound: three attempts to connect, thirty to wait for
  a device, five to attach a loop device, thirty for the socket of SPDK. The two that it does not
  bound, \<open>setupReplica\<close> and \<open>waitHealth\<close>, retry for ever against a process that may never answer; they
  take the number of attempts as an argument, end with \<open>SetupPending\<close> and \<open>SPDKPending\<close> after
  it, and the theorems about them hold for every number. The search for a free index ends by a
  measure. The JSON parser is given the length of its text, proved enough for every text that is
  written (\<open>parse_written\<close>). Integers are unbounded where the code only counts objects; a number read
  from text is kept in the range of 64 bits as \<^verbatim>\<open>strconv\<close> does, and the file system statistics of
  \<open>Programs\<close> are 64-bit words.

  \<^bold>\<open>What is wrong in the code.\<close> Theorems show these on concrete states or for all inputs: scaling
  down deletes a replica that stays attached (\<open>scaleDown_deletes_attached\<close>); healing deletes healthy
  replicas when pods cannot be listed, and running local ones while the engine does not run
  (\<open>heal_deletes_on_list_error\<close>, \<open>heal_deletes_local\<close>); the agent formats a file again on every call and after a restore
  (\<open>restore_is_formatted\<close>) and binds another loop device each time; a
  reconfiguration drops the member there is (\<open>reconfigure_drops_member\<close>) and keeps a detached one;
  publishing stages again and can destroy a live connection (\<open>publish_after_stage\<close>); a snapshot fails
  for good on a passing error (\<open>snapshot_fails_on_read_error\<close>); events are routed to the wrong engine
  (\<open>mapEventToEngine_misroutes\<close>); a replica turned remote is never exported
  (\<open>replica_never_exported\<close>); a restore from the dashboard hides failures
  (\<open>restore_ignores_failures\<close>); a restored volume reports a topology it is not placed in
  (\<open>restored_topology_differs\<close>) and preferred topologies are ignored (\<open>preferred_ignored\<close>); tcp
  endpoints are never accepted (\<open>tcp_endpoint_unsupported\<close>, \<open>csi_serves_unix_only\<close>); a volume
  named \<^verbatim>\<open>new\<close> has no page (\<open>volume_named_new\<close>); the NFS server exports the directory of the raw
  image (\<open>nfs_exports_image_directory\<close>); the hosts allowed to connect are collected and
  never used; the owner references that the reconcilers write do not say \<^verbatim>\<open>controller: true\<close>, so that
  a change of an engine or replica of a volume does not wake the volume
  (\<open>ready_volume_rests\<close>).

  \<^bold>\<open>Not modelled.\<close> The vendored NFS library and all packages outside the repository (Kubernetes
  clients, gRPC, zerolog, SPDK): parameters where the code relies on them. The text of logs and of
  the HTML templates. Flags and leader election. Cancelled contexts and timeouts, except as calls
  that fail. File modes and owners. The floating-point operations behind the sizes on the
  dashboard, a parameter.
\<close>

end
